(* ===== verification/Prelude.thy ===== *)
theory Prelude
  imports Main "HOL-Library.AList" "HOL-Library.List_Lexorder" "HOL-Library.Char_ord"
    "HOL-Library.Product_Lexorder"
begin

text \<open>
  The vocabulary every component of the development shares: Go strings (byte strings, so
  HOL's \<^typ>\<open>string\<close>), Go maps (association lists, the order of the list being
  the order in which a \<^verbatim>\<open>range\<close> loop visits the map), Go errors with their
  wrapping, condition messages, and the result type of a call that may fail and changes the
  state of the world it talks to.

  The functions of Go's standard library that the sources call (\<^verbatim>\<open>strings.Cut\<close>,
  \<^verbatim>\<open>strings.ToLower\<close>, \<^verbatim>\<open>bytes.TrimSpace\<close>,
  \<^verbatim>\<open>bytes.ReplaceAll\<close>, \<^verbatim>\<open>fmt.Sprint\<close> on integers,
  \<^verbatim>\<open>errors.Is\<close>) are defined here.
\<close>

named_theorems call_defs \<open>definitions of the calls that read or change the cloud\<close>
named_theorems frame_rules \<open>facts that a call leaves part of the state alone\<close>

section \<open>Results and errors\<close>

text \<open>
  An error value of the program. The sentinels are the ones \<^verbatim>\<open>internal/cloud\<close>
  and \<^verbatim>\<open>internal/bootstrap\<close> declare, \<open>APIError\<close> is the Verda SDK's error with
  its HTTP status, \<open>StatusError\<close> a Kubernetes API error with its reason, \<open>Errorf\<close> and
  \<open>Wrapf\<close> are \<^verbatim>\<open>fmt.Errorf\<close> without and with a \<^verbatim>\<open>%w\<close>
  (the format, the remaining arguments and the wrapped error), \<open>Joinf\<close> is a format with two
  \<^verbatim>\<open>%w\<close> verbs, \<open>Opaque\<close> any other error of a library.
\<close>

datatype go_error =
    ErrNotFound
  | ErrNotManaged
  | ErrHostnameInUse
  | ErrScriptTooLarge
  | APIError int
  | StatusError string
  | Errorf string "string list"
  | Wrapf string "string list" go_error
  | Joinf go_error go_error
  | Opaque string

text \<open>A message of a condition: its format and arguments are kept apart, unrendered.\<close>

datatype message =
    Text string
  | Sprintf string "string list"
  | ErrorText go_error

type_synonym ('w, 'a) call = "'w \<Rightarrow> (go_error + 'a) \<times> 'w"

text \<open>\<^verbatim>\<open>errors.Is\<close> and \<^verbatim>\<open>errors.As\<close> walk the tree of wrapped errors.\<close>

fun errors_Is :: "go_error \<Rightarrow> go_error \<Rightarrow> bool" where
  "errors_Is (Wrapf f as e) t = (Wrapf f as e = t \<or> errors_Is e t)"
| "errors_Is (Joinf a b) t = (Joinf a b = t \<or> errors_Is a t \<or> errors_Is b t)"
| "errors_Is e t = (e = t)"

fun errors_As_APIError :: "go_error \<Rightarrow> int option" where
  "errors_As_APIError (APIError n) = Some n"
| "errors_As_APIError (Wrapf f as e) = errors_As_APIError e"
| "errors_As_APIError (Joinf a b) =
     (case errors_As_APIError a of Some n \<Rightarrow> Some n | None \<Rightarrow> errors_As_APIError b)"
| "errors_As_APIError _ = None"

text \<open>The reason of a Kubernetes error, read through wrapping, as
  \<^verbatim>\<open>apierrors.ReasonForError\<close> documents it.\<close>

fun status_reason :: "go_error \<Rightarrow> string option" where
  "status_reason (StatusError r) = Some r"
| "status_reason (Wrapf f as e) = status_reason e"
| "status_reason (Joinf a b) =
     (case status_reason a of Some n \<Rightarrow> Some n | None \<Rightarrow> status_reason b)"
| "status_reason _ = None"

definition apierrors_IsNotFound :: "go_error \<Rightarrow> bool" where
  "apierrors_IsNotFound e = (status_reason e = Some ''NotFound'')"

definition apierrors_IsAlreadyExists :: "go_error \<Rightarrow> bool" where
  "apierrors_IsAlreadyExists e = (status_reason e = Some ''AlreadyExists'')"

lemma errors_Is_refl [simp]: "errors_Is e e"
  by (cases e) simp_all

text \<open>\<^verbatim>\<open>ptr.Deref\<close> on an optional field.\<close>

definition ptr_Deref :: "'a option \<Rightarrow> 'a \<Rightarrow> 'a" where
  "ptr_Deref p d = (case p of None \<Rightarrow> d | Some v \<Rightarrow> v)"

lemma ptr_Deref_simps [simp]: "ptr_Deref None d = d" "ptr_Deref (Some v) d = v"
  by (simp_all add: ptr_Deref_def)

section \<open>Maps\<close>

type_synonym gomap = "(string \<times> string) list"

text \<open>Reading a Go map of strings: an absent key reads as the empty string.\<close>

definition go_get :: "gomap \<Rightarrow> string \<Rightarrow> string" where
  "go_get m k = (case map_of m k of None \<Rightarrow> '''' | Some v \<Rightarrow> v)"

lemma go_get_Nil [simp]: "go_get [] k = ''''"
  by (simp add: go_get_def)

lemma go_get_Cons [simp]: "go_get ((a, v) # m) k = (if k = a then v else go_get m k)"
  by (simp add: go_get_def)

lemma go_get_update [simp]: "go_get (AList.update a v m) k = (if k = a then v else go_get m k)"
  by (simp add: go_get_def update_conv')

lemma map_of_update_apply:
  "map_of (AList.update a v m) k = (if k = a then Some v else map_of m k)"
  by (simp add: update_conv')

lemma map_of_delete_apply:
  "map_of (AList.delete a m) k = (if k = a then None else map_of m k)"
  by (simp add: delete_conv')

text \<open>
  Rewriting every value of an association list in place, and dropping the entries a predicate
  selects: a Go map whose values are pointers mutated inside a \<^verbatim>\<open>range\<close> loop.
\<close>

lemma map_of_map_entry [simp]:
  "map_of (AList.map_entry a f m) k =
     (if k = a then map_option f (map_of m a) else map_of m k)"
  by (induction m) auto

lemma map_of_ran_snd: "v \<in> ran (map_of m) \<Longrightarrow> v \<in> snd ` set m"
  by (auto simp: ran_def intro: rev_image_eqI dest: map_of_SomeD)

lemma snd_set_ran: "distinct (map fst m) \<Longrightarrow> snd ` set m = ran (map_of m)"
  by (simp add: ran_distinct)

section \<open>Strings\<close>

text \<open>
  \<^verbatim>\<open>strings.ToLower\<close> on ASCII letters. The strings it is applied to are Kubernetes
  names, encodings and identifiers, which are ASCII.
\<close>

definition ascii_lower :: "char \<Rightarrow> char" where
  "ascii_lower c =
     (if 65 \<le> (of_char c :: nat) \<and> (of_char c :: nat) \<le> 90
      then char_of ((of_char c :: nat) + 32) else c)"

definition ToLower :: "string \<Rightarrow> string" where
  "ToLower s = map ascii_lower s"

lemma length_ToLower [simp]: "length (ToLower s) = length s"
  by (simp add: ToLower_def)

lemma ToLower_append [simp]: "ToLower (a @ b) = ToLower a @ ToLower b"
  by (simp add: ToLower_def)

lemma ToLower_Nil [simp]: "ToLower [] = []"
  by (simp add: ToLower_def)

definition HasPrefix :: "string \<Rightarrow> string \<Rightarrow> bool" where
  "HasPrefix s p = (take (length p) s = p)"

definition HasSuffix :: "string \<Rightarrow> string \<Rightarrow> bool" where
  "HasSuffix s p = (length p \<le> length s \<and> drop (length s - length p) s = p)"

definition TrimPrefix :: "string \<Rightarrow> string \<Rightarrow> string" where
  "TrimPrefix s p = (if HasPrefix s p then drop (length p) s else s)"

lemma HasPrefix_append [simp]: "HasPrefix (p @ s) p"
  by (simp add: HasPrefix_def)

lemma HasPrefix_conv: "HasPrefix s p \<longleftrightarrow> (\<exists>r. s = p @ r)"
  by (metis HasPrefix_append HasPrefix_def append_take_drop_id)

lemma TrimPrefix_append [simp]: "TrimPrefix (p @ s) p = s"
  by (simp add: TrimPrefix_def)

text \<open>\<^verbatim>\<open>strings.Cut\<close> around the first occurrence of a one-byte separator.\<close>

fun Cut :: "char \<Rightarrow> string \<Rightarrow> (string \<times> string) option" where
  "Cut c [] = None"
| "Cut c (x # xs) =
     (if x = c then Some ([], xs)
      else case Cut c xs of None \<Rightarrow> None | Some (a, b) \<Rightarrow> Some (x # a, b))"

lemma Cut_append: "c \<notin> set a \<Longrightarrow> Cut c (a @ c # b) = Some (a, b)"
  by (induction a) auto

lemma Cut_None_iff: "Cut c s = None \<longleftrightarrow> c \<notin> set s"
  by (induction s) (auto split: option.splits)

lemma Cut_SomeD: "Cut c s = Some (a, b) \<Longrightarrow> s = a @ c # b \<and> c \<notin> set a"
  by (induction s arbitrary: a b) (auto split: if_splits option.splits)

text \<open>
  \<^verbatim>\<open>strings.TrimSpace\<close> removes the white space of Unicode at both ends; in UTF-8
  those are the following byte sequences.
\<close>

definition white_space :: "string list" where
  "white_space =
     [[CHR 0x20], [CHR 0x09], [CHR 0x0A], [CHR 0x0B], [CHR 0x0C], [CHR 0x0D],
      [CHR 0xC2, CHR 0x85], [CHR 0xC2, CHR 0xA0], [CHR 0xE1, CHR 0x9A, CHR 0x80],
      [CHR 0xE2, CHR 0x80, CHR 0x80], [CHR 0xE2, CHR 0x80, CHR 0x81],
      [CHR 0xE2, CHR 0x80, CHR 0x82], [CHR 0xE2, CHR 0x80, CHR 0x83],
      [CHR 0xE2, CHR 0x80, CHR 0x84], [CHR 0xE2, CHR 0x80, CHR 0x85],
      [CHR 0xE2, CHR 0x80, CHR 0x86], [CHR 0xE2, CHR 0x80, CHR 0x87],
      [CHR 0xE2, CHR 0x80, CHR 0x88], [CHR 0xE2, CHR 0x80, CHR 0x89],
      [CHR 0xE2, CHR 0x80, CHR 0x8A], [CHR 0xE2, CHR 0x80, CHR 0xA8],
      [CHR 0xE2, CHR 0x80, CHR 0xA9], [CHR 0xE2, CHR 0x80, CHR 0xAF],
      [CHR 0xE2, CHR 0x81, CHR 0x9F], [CHR 0xE3, CHR 0x80, CHR 0x80]]"

definition strip_any :: "string list \<Rightarrow> string \<Rightarrow> string option" where
  "strip_any ps s = map_option (\<lambda>p. drop (length p) s) (List.find (HasPrefix s) ps)"

lemma strip_any_shorter:
  "strip_any ps s = Some r \<Longrightarrow> [] \<notin> set ps \<Longrightarrow> length r < length s"
  by (force simp: strip_any_def find_Some_iff HasPrefix_conv in_set_conv_nth)

function trim_left :: "string list \<Rightarrow> string \<Rightarrow> string" where
  "trim_left ps s =
     (if [] \<in> set ps then s
      else case strip_any ps s of None \<Rightarrow> s | Some r \<Rightarrow> trim_left ps r)"
  by pat_completeness auto
termination
  by (relation "measure (\<lambda>(ps, s). length s)") (auto dest: strip_any_shorter)

declare trim_left.simps [simp del]

definition TrimSpace :: "string \<Rightarrow> string" where
  "TrimSpace s = rev (trim_left (map rev white_space) (rev (trim_left white_space s)))"

section \<open>Numbers\<close>

definition digit_char :: "nat \<Rightarrow> char" where
  "digit_char n = char_of (48 + n)"

definition digit_val :: "char \<Rightarrow> nat option" where
  "digit_val c =
     (if 48 \<le> (of_char c :: nat) \<and> (of_char c :: nat) \<le> 57
      then Some ((of_char c :: nat) - 48) else None)"

lemma of_char_digit_char [simp]: "n < 10 \<Longrightarrow> (of_char (digit_char n) :: nat) = 48 + n"
  by (simp add: digit_char_def of_char_of)

lemma digit_val_digit_char [simp]: "n < 10 \<Longrightarrow> digit_val (digit_char n) = Some n"
  by (simp add: digit_val_def)

fun itoa :: "nat \<Rightarrow> string" where
  "itoa n = (if n < 10 then [digit_char n] else itoa (n div 10) @ [digit_char (n mod 10)])"

declare itoa.simps [simp del]

definition itoa_int :: "int \<Rightarrow> string" where
  "itoa_int i = (if i < 0 then CHR ''-'' # itoa (nat (- i)) else itoa (nat i))"

definition atoi :: "string \<Rightarrow> nat" where
  "atoi s = foldl (\<lambda>a c. 10 * a + the (digit_val c)) 0 s"

lemma atoi_snoc: "atoi (s @ [c]) = 10 * atoi s + the (digit_val c)"
  by (simp add: atoi_def)

lemma atoi_itoa [simp]: "atoi (itoa n) = n"
proof (induction n rule: itoa.induct)
  case (1 n)
  show ?case
  proof (cases "n < 10")
    case True
    then show ?thesis by (simp add: itoa.simps [of n] atoi_def)
  next
    case False
    with 1 have "atoi (itoa (n div 10)) = n div 10" by blast
    with False show ?thesis by (simp add: itoa.simps [of n] atoi_snoc)
  qed
qed

lemma itoa_inject [simp]: "itoa m = itoa n \<longleftrightarrow> m = n"
  by (metis atoi_itoa)

lemma itoa_digits: "c \<in> set (itoa n) \<Longrightarrow> 48 \<le> (of_char c :: nat) \<and> (of_char c :: nat) \<le> 57"
proof (induction n rule: itoa.induct)
  case (1 n)
  show ?case
  proof (cases "n < 10")
    case True
    with 1 show ?thesis by (simp add: itoa.simps [of n])
  next
    case False
    with 1 show ?thesis by (auto simp: itoa.simps [of n])
  qed
qed

lemma itoa_nonempty [simp]: "itoa n \<noteq> []"
  by (simp add: itoa.simps [of n])

end
