(* ===== verification/ApiTypes.thy ===== *)
theory ApiTypes
  imports Prelude "HOL-Library.Word"
begin

text \<open>
  The types of \<^verbatim>\<open>api/v1beta1\<close> with their methods, and the shape of the Kubernetes and
  Cluster API objects the controllers read. Functions of \<^verbatim>\<open>sigs.k8s.io/cluster-api/util\<close>
  and \<^verbatim>\<open>controller-runtime\<close> on conditions and finalizers are fields of the record
  \<open>klib\<close>, a parameter of the controllers; \<open>klib_ok\<close> states their documented behaviour.
\<close>

section \<open>Slices, metadata and conditions\<close>

text \<open>A Go slice whose difference between nil and empty can be observed.\<close>

type_synonym 'a goslice = "'a list option"

abbreviation elems :: "'a goslice \<Rightarrow> 'a list" where
  "elems s \<equiv> ptr_Deref s []"

record ObjectMeta =
  om_Name :: string
  om_Namespace :: string
  om_Annotations :: gomap
  om_Labels :: gomap
  om_Finalizers :: "string list"
  om_DeletionTimestamp :: "nat option"

record Condition =
  cond_Type :: string
  cond_Status :: string
  cond_Reason :: string
  cond_Message :: message

abbreviation ConditionTrue :: string where "ConditionTrue \<equiv> ''True''"
abbreviation ConditionFalse :: string where "ConditionFalse \<equiv> ''False''"

record klib =
  conditions_Set :: "Condition list \<Rightarrow> Condition \<Rightarrow> Condition list"
  conditions_Delete :: "Condition list \<Rightarrow> string \<Rightarrow> Condition list"
  conditions_IsTrue :: "Condition list \<Rightarrow> string \<Rightarrow> bool"
  conditions_GetReason :: "Condition list \<Rightarrow> string \<Rightarrow> string"
  conditions_GetMessage :: "Condition list \<Rightarrow> string \<Rightarrow> message"
  controllerutil_RemoveFinalizer :: "string list \<Rightarrow> string \<Rightarrow> string list"
  ReadyReason :: string
  NotReadyReason :: string
  DeletingReason :: string

definition klib_ok :: "klib \<Rightarrow> bool" where
  "klib_ok K = (\<forall>cs c t t'.
     conditions_IsTrue K (conditions_Set K cs c) t =
       (if t = cond_Type c then cond_Status c = ConditionTrue else conditions_IsTrue K cs t) \<and>
     conditions_GetReason K (conditions_Set K cs c) t =
       (if t = cond_Type c then cond_Reason c else conditions_GetReason K cs t) \<and>
     conditions_GetMessage K (conditions_Set K cs c) t =
       (if t = cond_Type c then cond_Message c else conditions_GetMessage K cs t) \<and>
     conditions_IsTrue K (conditions_Delete K cs t') t = (t \<noteq> t' \<and> conditions_IsTrue K cs t) \<and>
     (\<forall>fs fin. set (controllerutil_RemoveFinalizer K fs fin) = set fs - {fin}))"

lemma klib_simps:
  assumes "klib_ok K"
  shows "conditions_IsTrue K (conditions_Set K cs c) t =
      (if t = cond_Type c then cond_Status c = ConditionTrue else conditions_IsTrue K cs t)"
    and "conditions_GetReason K (conditions_Set K cs c) t =
      (if t = cond_Type c then cond_Reason c else conditions_GetReason K cs t)"
    and "conditions_GetMessage K (conditions_Set K cs c) t =
      (if t = cond_Type c then cond_Message c else conditions_GetMessage K cs t)"
    and "conditions_IsTrue K (conditions_Delete K cs t') t = (t \<noteq> t' \<and> conditions_IsTrue K cs t)"
    and "set (controllerutil_RemoveFinalizer K fs fin) = set fs - {fin}"
  using assms by (simp_all add: klib_ok_def)

text \<open>A small library with the documented behaviour, for evaluating the model.\<close>

definition plain_klib :: klib where
  "plain_klib =
     \<lparr>conditions_Set = (\<lambda>cs c. c # filter (\<lambda>d. cond_Type d \<noteq> cond_Type c) cs),
      conditions_Delete = (\<lambda>cs t. filter (\<lambda>d. cond_Type d \<noteq> t) cs),
      conditions_IsTrue = (\<lambda>cs t. \<exists>c\<in>set (take 1 (filter (\<lambda>c. cond_Type c = t) cs)). cond_Status c = ConditionTrue),
      conditions_GetReason = (\<lambda>cs t. case filter (\<lambda>c. cond_Type c = t) cs of [] \<Rightarrow> '''' | c # _ \<Rightarrow> cond_Reason c),
      conditions_GetMessage = (\<lambda>cs t. case filter (\<lambda>c. cond_Type c = t) cs of [] \<Rightarrow> Text '''' | c # _ \<Rightarrow> cond_Message c),
      controllerutil_RemoveFinalizer = (\<lambda>fs fin. filter (\<lambda>g. g \<noteq> fin) fs),
      ReadyReason = ''Ready'', NotReadyReason = ''NotReady'', DeletingReason = ''Deleting''\<rparr>"

lemma filter_other:
  "filter (\<lambda>x. f x \<noteq> a \<and> f x = t) xs = (if t = a then [] else filter (\<lambda>x. f x = t) xs)"
  by (induction xs) auto

lemma plain_klib_ok [simp]: "klib_ok plain_klib"
  by (auto simp: klib_ok_def plain_klib_def filter_other)

section \<open>VerdaMachine\<close>

abbreviation MachineFinalizer :: string where
  "MachineFinalizer \<equiv> ''verdamachine.infrastructure.cluster.x-k8s.io''"

abbreviation ProviderIDPrefix :: string where "ProviderIDPrefix \<equiv> ''verda://''"

definition ProviderID :: "string \<Rightarrow> string" where
  "ProviderID hostname = ProviderIDPrefix @ hostname"

abbreviation InstanceReadyCondition :: string where "InstanceReadyCondition \<equiv> ''InstanceReady''"
abbreviation OSVolumeReadyCondition :: string where "OSVolumeReadyCondition \<equiv> ''OSVolumeReady''"
abbreviation ReadyCondition :: string where "ReadyCondition \<equiv> ''Ready''"

record AdditionalVolume =
  av_Name :: string
  av_SizeGB :: int
  av_Type :: string

record VerdaMachineSpec =
  ms_ProviderID :: string
  ms_InstanceType :: string
  ms_Image :: string
  ms_OSVolumeID :: string
  ms_SSHKeyIDs :: "string goslice"
  ms_OSVolumeSizeGB :: int
  ms_Contract :: string
  ms_Spot :: "bool option"
  ms_SpotDiscontinuePolicy :: string
  ms_AdditionalVolumes :: "AdditionalVolume goslice"

text \<open>\<^verbatim>\<open>clusterv1.MachineAddress\<close>: a type and an address.\<close>

type_synonym MachineAddress = "string \<times> string"

abbreviation MachineHostName :: string where "MachineHostName \<equiv> ''Hostname''"
abbreviation MachineExternalIP :: string where "MachineExternalIP \<equiv> ''ExternalIP''"
abbreviation MachineInternalIP :: string where "MachineInternalIP \<equiv> ''InternalIP''"

record VerdaMachineStatus =
  mst_Provisioned :: "bool option"
  mst_Conditions :: "Condition list"
  mst_Addresses :: "MachineAddress list"
  mst_FailureDomain :: string
  mst_InstanceID :: string
  mst_InstanceState :: string
  mst_OSVolumeID :: string
  mst_StartupScriptID :: string

record VerdaMachine =
  vm_Kind :: string
  vm_Meta :: ObjectMeta
  vm_Spec :: VerdaMachineSpec
  vm_Status :: VerdaMachineStatus

section \<open>VerdaCluster\<close>

abbreviation ClusterFinalizer :: string where
  "ClusterFinalizer \<equiv> ''verdacluster.infrastructure.cluster.x-k8s.io''"

abbreviation ControlPlaneEndpointReadyCondition :: string where
  "ControlPlaneEndpointReadyCondition \<equiv> ''ControlPlaneEndpointReady''"
abbreviation LoadBalancerReadyCondition :: string where
  "LoadBalancerReadyCondition \<equiv> ''LoadBalancerReady''"
abbreviation ServiceLoadBalancerReadyCondition :: string where
  "ServiceLoadBalancerReadyCondition \<equiv> ''ServiceLoadBalancerReady''"
abbreviation ServiceLoadBalancerSecretName :: string where
  "ServiceLoadBalancerSecretName \<equiv> ''verda-service-lb''"
abbreviation DefaultLoadBalancerInstanceType :: string where
  "DefaultLoadBalancerInstanceType \<equiv> ''CPU.4V.16G''"
abbreviation DefaultLoadBalancerImage :: string where
  "DefaultLoadBalancerImage \<equiv> ''24.04.base''"

record APIEndpoint =
  ep_Host :: string
  ep_Port :: int

record ControlPlaneLoadBalancer =
  lb_Enabled :: "bool option"
  lb_InstanceType :: string
  lb_Image :: string
  lb_SSHKeyIDs :: "string goslice"

text \<open>\<^verbatim>\<open>IdentityReference\<close> has one field, the name of the secret.\<close>

record VerdaClusterSpec =
  cs_Location :: string
  cs_ControlPlaneEndpoint :: APIEndpoint
  cs_IdentityRef :: "string option"
  cs_ControlPlaneLoadBalancer :: ControlPlaneLoadBalancer
  cs_ServiceLoadBalancer :: ControlPlaneLoadBalancer

record LoadBalancerStatus =
  ls_InstanceID :: string
  ls_StartupScriptID :: string
  ls_Address :: string
  ls_Backends :: "string list"
  ls_SecretPublished :: "bool option"

text \<open>\<^verbatim>\<open>clusterv1.FailureDomain\<close>: a name and whether it suits control planes.\<close>

record VerdaClusterStatus =
  cst_Provisioned :: "bool option"
  cst_Conditions :: "Condition list"
  cst_LoadBalancer :: LoadBalancerStatus
  cst_ServiceLoadBalancer :: LoadBalancerStatus
  cst_FailureDomains :: "(string \<times> bool option) list"

record VerdaCluster =
  vc_Kind :: string
  vc_Meta :: ObjectMeta
  vc_Spec :: VerdaClusterSpec
  vc_Status :: VerdaClusterStatus

definition IdentitySecretName :: "VerdaCluster \<Rightarrow> string" where
  "IdentitySecretName c = (case cs_IdentityRef (vc_Spec c) of None \<Rightarrow> '''' | Some name \<Rightarrow> name)"

definition LoadBalancerEnabled :: "VerdaCluster \<Rightarrow> bool" where
  "LoadBalancerEnabled c = (lb_Enabled (cs_ControlPlaneLoadBalancer (vc_Spec c)) = Some True)"

definition ServiceLoadBalancerEnabled :: "VerdaCluster \<Rightarrow> bool" where
  "ServiceLoadBalancerEnabled c = (lb_Enabled (cs_ServiceLoadBalancer (vc_Spec c)) = Some True)"

section \<open>Templates\<close>

text \<open>A template's \<^verbatim>\<open>Spec.Template\<close> has metadata of its own, which no code reads.\<close>

record NodeInfo =
  ni_Architecture :: string
  ni_OperatingSystem :: string

abbreviation CapacityReadyCondition :: string where "CapacityReadyCondition \<equiv> ''CapacityReady''"

text \<open>
  A \<^verbatim>\<open>resource.Quantity\<close> made by \<^verbatim>\<open>NewQuantity\<close>: an \<^verbatim>\<open>int64\<close>
  and the format it is printed in.
\<close>

datatype quantity_format = DecimalSI | BinarySI

type_synonym Quantity = "64 word \<times> quantity_format"

record VerdaMachineTemplateStatus =
  mtst_Capacity :: "(string \<times> Quantity) list"
  mtst_NodeInfo :: NodeInfo
  mtst_Conditions :: "Condition list"

record VerdaMachineTemplate =
  mt_Kind :: string
  mt_Meta :: ObjectMeta
  mt_Spec :: VerdaMachineSpec
  mt_Status :: VerdaMachineTemplateStatus

record VerdaClusterTemplate =
  ct_Kind :: string
  ct_Meta :: ObjectMeta
  ct_Spec :: VerdaClusterSpec

section \<open>Cluster API objects\<close>

text \<open>
  What the controllers read of \<^verbatim>\<open>clusterv1.Cluster\<close> and
  \<^verbatim>\<open>clusterv1.Machine\<close>. \<open>cl_InfrastructureRefDefined\<close> is the answer of
  \<^verbatim>\<open>InfrastructureRef.IsDefined\<close>.
\<close>

record Cluster =
  cl_Meta :: ObjectMeta
  cl_InfrastructureProvisioned :: "bool option"
  cl_InfrastructureRefName :: string
  cl_InfrastructureRefKind :: string
  cl_InfrastructureRefDefined :: bool
  cl_ControlPlaneEndpoint :: APIEndpoint

record Machine =
  ma_Meta :: ObjectMeta
  ma_DataSecretName :: "string option"

text \<open>\<^verbatim>\<open>ctrl.Result\<close>: when to reconcile again, in nanoseconds; 0 leaves it to events.\<close>

record Result =
  RequeueAfter :: int

definition no_requeue :: Result where
  "no_requeue = \<lparr>RequeueAfter = 0\<rparr>"

end
