(* ===== verification/CloudTypes.thy ===== *)
theory CloudTypes
  imports Prelude
begin

text \<open>
  The declarations of \<^verbatim>\<open>internal/cloud/client.go\<close>: tags, states, the data the
  controllers exchange with the cloud, and the interface \<^verbatim>\<open>cloud.Client\<close>. A Go
  interface value is a record of operations; the type parameter is the state of the cloud the
  operations read and change. The locale \<open>cloud_contract\<close> at the end is what the controllers
  rely on when they call such a client: it speaks of the instances only, and leaves every call
  free to fail.
\<close>

section \<open>Tags and states\<close>

abbreviation TagCluster :: string where "TagCluster \<equiv> ''capi-cluster''"
abbreviation TagMachine :: string where "TagMachine \<equiv> ''capi-machine''"
abbreviation TagLoadBalancer :: string where "TagLoadBalancer \<equiv> ''capi-loadbalancer''"
abbreviation TagServiceLoadBalancer :: string where
  "TagServiceLoadBalancer \<equiv> ''capi-service-loadbalancer''"
abbreviation TagManagedBy :: string where "TagManagedBy \<equiv> ''capi-managed-by''"
abbreviation TagRole :: string where "TagRole \<equiv> ''capi-role''"
abbreviation ManagedByValue :: string where "ManagedByValue \<equiv> ''cluster-api-provider-verda''"

abbreviation StatusRunning :: string where "StatusRunning \<equiv> ''running''"
abbreviation StatusOffline :: string where "StatusOffline \<equiv> ''offline''"
abbreviation StatusDeleting :: string where "StatusDeleting \<equiv> ''deleting''"
abbreviation StatusDiscontinued :: string where "StatusDiscontinued \<equiv> ''discontinued''"
abbreviation StatusDeleted :: string where "StatusDeleted \<equiv> ''deleted''"
abbreviation StatusError' :: string where "StatusError' \<equiv> ''error''"
abbreviation StatusNoCapacity :: string where "StatusNoCapacity \<equiv> ''no_capacity''"
abbreviation StatusNotFound :: string where "StatusNotFound \<equiv> ''notfound''"

abbreviation VolumeStatusDetached :: string where "VolumeStatusDetached \<equiv> ''detached''"
abbreviation VolumeStatusAttached :: string where "VolumeStatusAttached \<equiv> ''attached''"
abbreviation VolumeStatusDeleting :: string where "VolumeStatusDeleting \<equiv> ''deleting''"
abbreviation VolumeStatusDeleted :: string where "VolumeStatusDeleted \<equiv> ''deleted''"

section \<open>Data\<close>

record Instance =
  i_ID :: string
  i_Hostname :: string
  i_Status :: string
  i_IP :: string
  i_Location :: string
  i_InstanceType :: string
  i_StartupScriptID :: string
  i_OSVolumeID :: string
  i_Tags :: gomap

text \<open>\<^verbatim>\<open>&cloud.Instance{ID: ident, Status: status}\<close>: the other fields are zero.\<close>

definition bare_Instance :: "string \<Rightarrow> string \<Rightarrow> Instance" where
  "bare_Instance ident status =
     \<lparr>i_ID = ident, i_Hostname = '''', i_Status = status, i_IP = '''', i_Location = '''',
      i_InstanceType = '''', i_StartupScriptID = '''', i_OSVolumeID = '''', i_Tags = []\<rparr>"

lemma bare_Instance_simps [simp]:
  "i_ID (bare_Instance k s) = k" "i_Status (bare_Instance k s) = s"
  "i_IP (bare_Instance k s) = ''''" "i_Hostname (bare_Instance k s) = ''''"
  "i_StartupScriptID (bare_Instance k s) = ''''" "i_Location (bare_Instance k s) = ''''"
  by (simp_all add: bare_Instance_def)

record Volume =
  v_ID :: string
  v_Name :: string
  v_Status :: string
  v_Location :: string
  v_IsOSVolume :: bool
  v_InstanceID :: string
  v_Managed :: bool

record DataVolumeSpec =
  dv_Name :: string
  dv_SizeGB :: int
  dv_Type :: string

record InstanceSpec =
  is_Hostname :: string
  is_Description :: message
  is_InstanceType :: string
  is_Image :: string
  is_Location :: string
  is_SSHKeyIDs :: "string list"
  is_OSVolumeSizeGB :: int
  is_Contract :: string
  is_Spot :: bool
  is_SpotDiscontinuePolicy :: string
  is_DataVolumes :: "DataVolumeSpec list"
  is_StartupScript :: string
  is_Tags :: gomap

record InstanceTypeInfo =
  it_InstanceType :: string
  it_CPUs :: int
  it_MemoryGB :: int
  it_GPUs :: int
  it_GPUModel :: string

section \<open>The client interface\<close>

record 'w cloud_client =
  GetInstanceType :: "string \<Rightarrow> ('w, InstanceTypeInfo) call"
  GetInstance :: "string \<Rightarrow> ('w, Instance) call"
  FindInstanceByHostname :: "string \<Rightarrow> ('w, Instance) call"
  FindInstanceByTag :: "string \<Rightarrow> string \<Rightarrow> ('w, Instance) call"
  CreateInstance :: "InstanceSpec \<Rightarrow> ('w, Instance) call"
  DeleteStartupScriptByName :: "string \<Rightarrow> ('w, unit) call"
  DeleteInstance :: "string \<Rightarrow> ('w, unit) call"
  PurgeInstanceVolumes :: "string \<Rightarrow> ('w, int) call"
  DeleteStartupScript :: "string \<Rightarrow> ('w, unit) call"
  GetVolume :: "string \<Rightarrow> ('w, Volume) call"
  FindVolumeByName :: "string \<Rightarrow> ('w, Volume) call"
  CloneVolume :: "string \<Rightarrow> string \<Rightarrow> string \<Rightarrow> ('w, string) call"
  DeleteVolume :: "string \<Rightarrow> ('w, unit) call"
  EnsureVolumeTag :: "string \<Rightarrow> ('w, unit) call"

text \<open>The tag that marks what the provider owns.\<close>

definition managed :: "Instance \<Rightarrow> bool" where
  "managed i = (go_get (i_Tags i) TagManagedBy = ManagedByValue)"

text \<open>
  The loop that \<^verbatim>\<open>FindInstanceByHostname\<close> and \<^verbatim>\<open>FindInstanceByTag\<close> of
  both clients run over the instances: the first match that is not discontinued, else the last
  discontinued match.
\<close>

fun find_loop :: "(Instance \<Rightarrow> bool) \<Rightarrow> Instance option \<Rightarrow> Instance list \<Rightarrow> go_error + Instance" where
  "find_loop p gone [] = (case gone of Some g \<Rightarrow> Inr g | None \<Rightarrow> Inl ErrNotFound)"
| "find_loop p gone (inst # rest) =
     (if \<not> p inst then find_loop p gone rest
      else if i_Status inst = StatusDiscontinued then find_loop p (Some inst) rest
      else Inr inst)"

text \<open>The condition under which both clients refuse a create: somebody else's live instance has the name.\<close>

definition hostname_conflict :: "InstanceSpec \<Rightarrow> Instance \<Rightarrow> bool" where
  "hostname_conflict spec existing =
     (i_Hostname existing = is_Hostname spec \<and> i_Status existing \<noteq> StatusDiscontinued \<and>
      go_get (i_Tags existing) TagManagedBy \<noteq> ManagedByValue)"

lemma find_loop_Inr:
  "find_loop p gone xs = Inr i \<Longrightarrow> (\<And>g. gone = Some g \<Longrightarrow> i_Status g = StatusDiscontinued) \<Longrightarrow>
     (i \<in> set xs \<and> p i \<or> gone = Some i) \<and>
     (i_Status i = StatusDiscontinued \<longrightarrow> (\<forall>j\<in>set xs. p j \<longrightarrow> i_Status j = StatusDiscontinued))"
proof (induction xs arbitrary: gone)
  case Nil
  then show ?case by (cases gone) auto
next
  case (Cons x xs)
  show ?case
  proof (cases "p x \<and> i_Status x = StatusDiscontinued")
    case True
    with Cons.prems(1) have "find_loop p (Some x) xs = Inr i" by simp
    with Cons.IH [of "Some x"] True show ?thesis by auto
  next
    case False
    with Cons.prems Cons.IH [of gone] show ?thesis by (auto split: if_splits)
  qed
qed

lemma find_loop_None_Inr:
  assumes "find_loop p None xs = Inr i"
  shows "i \<in> set xs" "p i"
    "i_Status i = StatusDiscontinued \<Longrightarrow> j \<in> set xs \<Longrightarrow> p j \<Longrightarrow> i_Status j = StatusDiscontinued"
  using find_loop_Inr [OF assms] by auto

lemma find_loop_Inl:
  "find_loop p gone xs = Inl e \<Longrightarrow> e = ErrNotFound \<and> gone = None \<and> (\<forall>j\<in>set xs. \<not> p j)"
proof (induction xs arbitrary: gone)
  case Nil
  then show ?case by (cases gone) auto
next
  case (Cons x xs)
  from Cons.prems have "\<not> p x \<and> find_loop p gone xs = Inl e \<or> find_loop p (Some x) xs = Inl e"
    by (auto split: if_splits)
  with Cons.IH show ?case by auto
qed

lemma find_loop_live_first:
  "j \<in> set xs \<Longrightarrow> p j \<Longrightarrow> i_Status j \<noteq> StatusDiscontinued \<Longrightarrow>
     \<exists>i. find_loop p gone xs = Inr i \<and> i \<in> set xs \<and> p i \<and> i_Status i \<noteq> StatusDiscontinued"
  by (induction xs arbitrary: gone) auto

section \<open>The contract of a client\<close>

text \<open>
  \<open>insts w\<close> are the instances of the cloud \<open>w\<close> by identifier and \<open>invar\<close> the states a cloud
  can be in. The laws say what a successful call tells about the instances, what "not found"
  tells, and which instances a call may change; no law says that a call succeeds. A create that
  fails may still have created its instance: the answer can be lost on the way.
\<close>

definition added :: "(string \<rightharpoonup> Instance) \<Rightarrow> InstanceSpec \<Rightarrow> Instance \<Rightarrow> (string \<rightharpoonup> Instance) \<Rightarrow> bool" where
  "added m s i m' = (\<exists>i0. m (i_ID i) = None \<and> i_ID i \<noteq> '''' \<and> m' = m(i_ID i \<mapsto> i0) \<and>
     i_ID i0 = i_ID i \<and> i_Status i0 = i_Status i \<and>
     (\<forall>k. go_get (i_Tags i0) k = go_get (is_Tags s) k) \<and> i_Hostname i0 = is_Hostname s)"

text \<open>An instance after some operation on it: the same tags, and never back from discontinued.\<close>

definition ages_to :: "Instance \<Rightarrow> Instance \<Rightarrow> bool" where
  "ages_to i i' = ((\<forall>k. go_get (i_Tags i') k = go_get (i_Tags i) k) \<and> i_Hostname i' = i_Hostname i \<and>
     (i_Status i = StatusDiscontinued \<longrightarrow> i_Status i' = StatusDiscontinued))"

lemma ages_to_refl [simp]: "ages_to i i"
  by (simp add: ages_to_def)

locale cloud_contract =
  fixes c :: "'w cloud_client"
    and insts :: "'w \<Rightarrow> string \<rightharpoonup> Instance"
    and invar :: "'w \<Rightarrow> bool"
  assumes insts_ID: "invar w \<Longrightarrow> insts w k = Some i \<Longrightarrow> i_ID i = k \<and> k \<noteq> ''''"
    and GetInstance_reads:
      "invar w \<Longrightarrow> GetInstance c k w = (r, w') \<Longrightarrow> invar w' \<and> insts w' = insts w"
    and GetInstance_Inr: "invar w \<Longrightarrow> GetInstance c k w = (Inr i, w') \<Longrightarrow> insts w k = Some i"
    and GetInstance_NotFound:
      "invar w \<Longrightarrow> GetInstance c k w = (Inl e, w') \<Longrightarrow> errors_Is e ErrNotFound \<Longrightarrow> insts w k = None"
    and FindInstanceByTag_reads:
      "invar w \<Longrightarrow> FindInstanceByTag c k v w = (r, w') \<Longrightarrow> invar w' \<and> insts w' = insts w"
    and FindInstanceByTag_Inr:
      "invar w \<Longrightarrow> FindInstanceByTag c k v w = (Inr i, w') \<Longrightarrow>
         i \<in> ran (insts w) \<and> go_get (i_Tags i) k = v"
    and FindInstanceByTag_gone:
      "invar w \<Longrightarrow> FindInstanceByTag c k v w = (Inr i, w') \<Longrightarrow> i_Status i = StatusDiscontinued \<Longrightarrow>
         j \<in> ran (insts w) \<Longrightarrow> go_get (i_Tags j) k = v \<Longrightarrow> i_Status j = StatusDiscontinued"
    and FindInstanceByTag_NotFound:
      "invar w \<Longrightarrow> FindInstanceByTag c k v w = (Inl e, w') \<Longrightarrow> errors_Is e ErrNotFound \<Longrightarrow>
         j \<in> ran (insts w) \<Longrightarrow> go_get (i_Tags j) k \<noteq> v"
    and FindInstanceByHostname_reads:
      "invar w \<Longrightarrow> FindInstanceByHostname c h w = (r, w') \<Longrightarrow> invar w' \<and> insts w' = insts w"
    and FindInstanceByHostname_Inr:
      "invar w \<Longrightarrow> FindInstanceByHostname c h w = (Inr i, w') \<Longrightarrow>
         i \<in> ran (insts w) \<and> i_Hostname i = h"
    and FindInstanceByHostname_gone:
      "invar w \<Longrightarrow> FindInstanceByHostname c h w = (Inr i, w') \<Longrightarrow> i_Status i = StatusDiscontinued \<Longrightarrow>
         j \<in> ran (insts w) \<Longrightarrow> i_Hostname j = h \<Longrightarrow> i_Status j = StatusDiscontinued"
    and FindInstanceByHostname_NotFound:
      "invar w \<Longrightarrow> FindInstanceByHostname c h w = (Inl e, w') \<Longrightarrow> errors_Is e ErrNotFound \<Longrightarrow>
         j \<in> ran (insts w) \<Longrightarrow> i_Hostname j \<noteq> h"
    and CreateInstance_invar: "invar w \<Longrightarrow> CreateInstance c s w = (r, w') \<Longrightarrow> invar w'"
    and CreateInstance_Inr:
      "invar w \<Longrightarrow> distinct (map fst (is_Tags s)) \<Longrightarrow> CreateInstance c s w = (Inr i, w') \<Longrightarrow>
         added (insts w) s i (insts w')"
    and CreateInstance_Inl:
      "invar w \<Longrightarrow> distinct (map fst (is_Tags s)) \<Longrightarrow> CreateInstance c s w = (Inl e, w') \<Longrightarrow>
         insts w' = insts w \<or> (\<exists>i. added (insts w) s i (insts w'))"
    and DeleteInstance_invar: "invar w \<Longrightarrow> DeleteInstance c k w = (u, w') \<Longrightarrow> invar w'"
    and DeleteInstance_others:
      "invar w \<Longrightarrow> DeleteInstance c k w = (u, w') \<Longrightarrow> k' \<noteq> k \<Longrightarrow> insts w' k' = insts w k'"
    and DeleteInstance_ages:
      "invar w \<Longrightarrow> DeleteInstance c k w = (u, w') \<Longrightarrow> insts w' k = Some i' \<Longrightarrow>
         \<exists>i. insts w k = Some i \<and> ages_to i i'"
    and DeleteInstance_unmanaged:
      "invar w \<Longrightarrow> DeleteInstance c k w = (u, w') \<Longrightarrow> insts w k = Some i \<Longrightarrow> \<not> managed i \<Longrightarrow>
         insts w' k = Some i"
    and GetInstanceType_keeps:
      "invar w \<Longrightarrow> GetInstanceType c k w = (ty, w') \<Longrightarrow> invar w' \<and> insts w' = insts w"
    and PurgeInstanceVolumes_keeps:
      "invar w \<Longrightarrow> PurgeInstanceVolumes c k w = (n, w') \<Longrightarrow> invar w' \<and> insts w' = insts w"
    and DeleteStartupScript_keeps:
      "invar w \<Longrightarrow> DeleteStartupScript c k w = (u, w') \<Longrightarrow> invar w' \<and> insts w' = insts w"
    and DeleteStartupScriptByName_keeps:
      "invar w \<Longrightarrow> DeleteStartupScriptByName c k w = (u, w') \<Longrightarrow> invar w' \<and> insts w' = insts w"
    and GetVolume_keeps:
      "invar w \<Longrightarrow> GetVolume c k w = (v', w') \<Longrightarrow> invar w' \<and> insts w' = insts w"
    and FindVolumeByName_keeps:
      "invar w \<Longrightarrow> FindVolumeByName c k w = (v', w') \<Longrightarrow> invar w' \<and> insts w' = insts w"
    and CloneVolume_keeps:
      "invar w \<Longrightarrow> CloneVolume c k nm l w = (t, w') \<Longrightarrow> invar w' \<and> insts w' = insts w"
    and DeleteVolume_keeps:
      "invar w \<Longrightarrow> DeleteVolume c k w = (u, w') \<Longrightarrow> invar w' \<and> insts w' = insts w"
    and EnsureVolumeTag_keeps:
      "invar w \<Longrightarrow> EnsureVolumeTag c k w = (u, w') \<Longrightarrow> invar w' \<and> insts w' = insts w"

end
