(* ===== verification/GoTime.thy ===== *)
theory GoTime
  imports Prelude
begin

text \<open>
  The part of Go's \<^verbatim>\<open>time\<close> package that the delete throttle of
  \<^verbatim>\<open>internal/controller/verdamachine_controller.go\<close> uses: durations in
  nanoseconds, wall clock times as nanoseconds since the Unix epoch, and
  \<^verbatim>\<open>Format\<close> and \<^verbatim>\<open>Parse\<close> with the layout
  \<^verbatim>\<open>time.RFC3339\<close> (\<^verbatim>\<open>Format\<close> on a UTC time). The round trip lemma
  \<open>parse_format\<close> says that a time written and read back is the time cut to its second.
\<close>

section \<open>The calendar\<close>

definition time_Second :: int where
  "time_Second = 1000000000"

definition time_Minute :: int where
  "time_Minute = 60 * time_Second"

definition time_Hour :: int where
  "time_Hour = 60 * time_Minute"

definition is_leap :: "nat \<Rightarrow> bool" where
  "is_leap y = (y mod 4 = 0 \<and> y mod 100 \<noteq> 0 \<or> y mod 400 = 0)"

definition days_in_year :: "nat \<Rightarrow> nat" where
  "days_in_year y = (if is_leap y then 366 else 365)"

definition month_lengths :: "nat \<Rightarrow> nat list" where
  "month_lengths y = [31, if is_leap y then 29 else 28, 31, 30, 31, 30, 31, 31, 30, 31, 30, 31]"

text \<open>The days of the years before \<open>y\<close>, counted from year 0.\<close>

definition days_before :: "nat \<Rightarrow> nat" where
  "days_before y = 365 * y + (y + 3) div 4 + (y + 399) div 400 - (y + 99) div 100"

text \<open>The year and the day in it, looking from year \<open>y\<close> on.\<close>

function split_year :: "nat \<Rightarrow> nat \<Rightarrow> nat \<times> nat" where
  "split_year y d =
     (if d < days_in_year y then (y, d) else split_year (Suc y) (d - days_in_year y))"
  by pat_completeness auto
termination
  by (relation "measure snd") (auto simp: days_in_year_def split: if_splits)

declare split_year.simps [simp del]

text \<open>The month (from 1) and the day in it (from 0).\<close>

fun split_month :: "nat \<Rightarrow> nat list \<Rightarrow> nat \<Rightarrow> nat \<times> nat" where
  "split_month m [] d = (m, d)"
| "split_month m (l # ls) d = (if d < l then (m, d) else split_month (Suc m) ls (d - l))"

lemma sum_list_month_lengths [simp]: "sum_list (month_lengths y) = days_in_year y"
  by (simp add: month_lengths_def days_in_year_def)

lemma length_month_lengths [simp]: "length (month_lengths y) = 12"
  by (simp add: month_lengths_def)

lemma round_up_Suc:
  "1 < k \<Longrightarrow> (Suc y + (k - 1)) div k = (y + (k - 1)) div k + (if y mod k = 0 then 1 else 0)"
  using div_Suc [of "y + (k - 1)" k] by simp

lemma days_before_Suc: "days_before (Suc y) = days_before y + days_in_year y"
proof -
  have r: "(Suc y + 3) div 4 = (y + 3) div 4 + (if y mod 4 = 0 then 1 else 0)"
      "(Suc y + 99) div 100 = (y + 99) div 100 + (if y mod 100 = 0 then 1 else 0)"
      "(Suc y + 399) div 400 = (y + 399) div 400 + (if y mod 400 = 0 then 1 else 0)"
    using round_up_Suc [of 4 y] round_up_Suc [of 100 y] round_up_Suc [of 400 y] by simp_all
  have b: "(y + 99) div 100 \<le> 365 * y" by linarith
  have e: "y mod 100 = 0 \<Longrightarrow> y mod 4 = 0" "y mod 400 = 0 \<Longrightarrow> y mod 100 = 0"
    using dvd_trans [of 4 100 y] dvd_trans [of 100 400 y]
    by (simp_all add: mod_eq_0_iff_dvd)
  show ?thesis
    unfolding days_before_def days_in_year_def is_leap_def r using b e
    by (cases "y mod 400 = 0"; cases "y mod 100 = 0"; cases "y mod 4 = 0") (simp_all add: ac_simps)
qed

lemma days_before_mono: "y \<le> z \<Longrightarrow> days_before y \<le> days_before z"
  by (induction rule: dec_induct) (auto simp: days_before_Suc)

lemma split_year_sound:
  "split_year y d = (y', d') \<Longrightarrow>
     y \<le> y' \<and> d' < days_in_year y' \<and> days_before y + d = days_before y' + d'"
proof (induction y d rule: split_year.induct)
  case (1 y d)
  show ?case
  proof (cases "d < days_in_year y")
    case True
    with "1.prems" show ?thesis by (simp add: split_year.simps [of y d])
  next
    case False
    with "1.prems" have "split_year (Suc y) (d - days_in_year y) = (y', d')"
      by (simp add: split_year.simps [of y d])
    with "1.IH" [OF False] have "Suc y \<le> y' \<and> d' < days_in_year y' \<and>
        days_before (Suc y) + (d - days_in_year y) = days_before y' + d'" by blast
    with False show ?thesis by (simp add: days_before_Suc)
  qed
qed

lemma split_month_sound:
  "split_month m ls d = (m', d') \<Longrightarrow> d < sum_list ls \<Longrightarrow>
     m \<le> m' \<and> m' - m < length ls \<and> d' < ls ! (m' - m) \<and> d = sum_list (take (m' - m) ls) + d'"
proof (induction m ls d rule: split_month.induct)
  case (1 m d)
  then show ?case by simp
next
  case (2 m l ls d)
  show ?case
  proof (cases "d < l")
    case True
    with "2.prems" show ?thesis by simp
  next
    case False
    with 2 have "Suc m \<le> m' \<and> m' - Suc m < length ls \<and> d' < ls ! (m' - Suc m) \<and>
        d - l = sum_list (take (m' - Suc m) ls) + d'" by auto
    moreover from this have "m' - m = Suc (m' - Suc m)" by arith
    ultimately show ?thesis using False by auto
  qed
qed

lemma month_length_le: "i < 12 \<Longrightarrow> month_lengths y ! i \<le> 31"
proof -
  assume "i < 12"
  then have "month_lengths y ! i \<in> set (month_lengths y)" by simp
  moreover have "\<forall>l\<in>set (month_lengths y). l \<le> 31" by (simp add: month_lengths_def)
  ultimately show ?thesis by blast
qed

section \<open>Format\<close>

fun pad :: "nat \<Rightarrow> nat \<Rightarrow> string" where
  "pad 0 n = []"
| "pad (Suc k) n = pad k (n div 10) @ [digit_char (n mod 10)]"

text \<open>\<open>Format_RFC3339\<close> renders a UTC time given in nanoseconds since the epoch.\<close>

definition Format_RFC3339 :: "nat \<Rightarrow> string" where
  "Format_RFC3339 t =
     (let secs = t div 1000000000;
          (y, yd) = split_year 1970 (secs div 86400);
          (mo, md) = split_month 1 (month_lengths y) yd;
          s = secs mod 86400
      in (if y < 10000 then pad 4 y else itoa y) @ ''-'' @ pad 2 mo @ ''-'' @ pad 2 (Suc md) @
         ''T'' @ pad 2 (s div 3600) @ '':'' @ pad 2 (s div 60 mod 60) @ '':'' @ pad 2 (s mod 60) @
         ''Z'')"

section \<open>Parse\<close>

text \<open>
  The parser reads the fields of the layout in order. As \<^verbatim>\<open>time.Parse\<close> does, it
  accepts an hour of one digit, fractional seconds after the seconds, and a zone that is
  \<^verbatim>\<open>Z\<close> or a numeric offset.
\<close>

fun take_digits :: "nat \<Rightarrow> nat \<Rightarrow> string \<Rightarrow> (nat \<times> string) option" where
  "take_digits 0 acc s = Some (acc, s)"
| "take_digits (Suc k) acc [] = None"
| "take_digits (Suc k) acc (c # s) =
     (case digit_val c of None \<Rightarrow> None | Some d \<Rightarrow> take_digits k (10 * acc + d) s)"

definition getnum :: "string \<Rightarrow> (nat \<times> string) option" where
  "getnum s =
     (case take_digits 2 0 s of Some r \<Rightarrow> Some r | None \<Rightarrow> take_digits 1 0 s)"

fun expect :: "char \<Rightarrow> string \<Rightarrow> string option" where
  "expect c [] = None"
| "expect c (x # s) = (if x = c then Some s else None)"

fun span_digits :: "string \<Rightarrow> string \<times> string" where
  "span_digits [] = ([], [])"
| "span_digits (c # s) =
     (case digit_val c of None \<Rightarrow> ([], c # s)
      | Some d \<Rightarrow> (let (a, b) = span_digits s in (c # a, b)))"

definition fraction :: "string \<Rightarrow> nat \<times> string" where
  "fraction s =
     (case s of
        c # d # r \<Rightarrow>
          if (c = CHR ''.'' \<or> c = CHR '','') \<and> digit_val d \<noteq> None
          then (let (ds, rest) = span_digits (d # r)
                in (atoi (take 9 (ds @ replicate 9 (CHR ''0''))), rest))
          else (0, s)
      | _ \<Rightarrow> (0, s))"

text \<open>The offset of the zone in seconds, and what follows it.\<close>

definition zone :: "string \<Rightarrow> (int \<times> string) option" where
  "zone s =
     (case s of
        [] \<Rightarrow> None
      | c # r \<Rightarrow>
          if c = CHR ''Z'' then Some (0, r)
          else if c = CHR ''+'' \<or> c = CHR ''-'' then
            Option.bind (take_digits 2 0 r) (\<lambda>(h, r).
            Option.bind (expect (CHR '':'') r) (\<lambda>r.
            Option.bind (take_digits 2 0 r) (\<lambda>(m, r).
              if h \<le> 24 \<and> m \<le> 60
              then Some ((if c = CHR ''+'' then 1 else - 1) * int (h * 3600 + m * 60), r)
              else None)))
          else None)"

definition to_nanos :: "nat \<Rightarrow> nat \<Rightarrow> nat \<Rightarrow> nat \<Rightarrow> nat \<Rightarrow> nat \<Rightarrow> nat \<Rightarrow> int \<Rightarrow> int" where
  "to_nanos y mo d h mi s ns off =
     ((int (days_before y + sum_list (take (mo - 1) (month_lengths y)) + (d - 1))
        - int (days_before 1970)) * 86400
      + int (h * 3600 + mi * 60 + s) - off) * 1000000000 + int ns"

definition Parse_RFC3339 :: "string \<Rightarrow> int option" where
  "Parse_RFC3339 str =
     Option.bind (take_digits 4 0 str) (\<lambda>(y, r).
     Option.bind (expect (CHR ''-'') r) (\<lambda>r.
     Option.bind (take_digits 2 0 r) (\<lambda>(mo, r).
     Option.bind (expect (CHR ''-'') r) (\<lambda>r.
     Option.bind (take_digits 2 0 r) (\<lambda>(d, r).
     Option.bind (expect (CHR ''T'') r) (\<lambda>r.
     Option.bind (getnum r) (\<lambda>(h, r).
     Option.bind (expect (CHR '':'') r) (\<lambda>r.
     Option.bind (take_digits 2 0 r) (\<lambda>(mi, r).
     Option.bind (expect (CHR '':'') r) (\<lambda>r.
     Option.bind (take_digits 2 0 r) (\<lambda>(s, r).
     (let (ns, r) = fraction r in
     Option.bind (zone r) (\<lambda>(off, r).
       if r = [] \<and> 1 \<le> mo \<and> mo \<le> 12 \<and> 1 \<le> d \<and> d \<le> month_lengths y ! (mo - 1)
          \<and> h < 24 \<and> mi < 60 \<and> s < 60
       then Some (to_nanos y mo d h mi s ns off) else None)))))))))))))"

section \<open>The round trip\<close>

lemma take_digits_append:
  "n < 10 ^ k \<Longrightarrow> take_digits (k + j) acc (pad k n @ s) = take_digits j (10 ^ k * acc + n) s"
proof (induction k arbitrary: n j s)
  case 0
  then show ?case by simp
next
  case (Suc k)
  from Suc.prems have lt: "n div 10 < 10 ^ k" by (simp add: less_mult_imp_div_less mult.commute)
  have "take_digits (Suc k + j) acc (pad (Suc k) n @ s) =
      take_digits (k + Suc j) acc (pad k (n div 10) @ digit_char (n mod 10) # s)"
    by simp
  also have "\<dots> = take_digits (Suc j) (10 ^ k * acc + n div 10) (digit_char (n mod 10) # s)"
    by (rule Suc.IH [OF lt])
  also have "\<dots> = take_digits j (10 * (10 ^ k * acc + n div 10) + n mod 10) s" by simp
  also have "10 * (10 ^ k * acc + n div 10) + n mod 10 = 10 ^ Suc k * acc + n"
    by (simp add: algebra_simps)
  finally show ?case .
qed

lemma take_digits_pad:
  "n < 10 ^ k \<Longrightarrow> take_digits k 0 (pad k n @ s) = Some (n, s)"
  using take_digits_append [of n k 0 0 s] by simp

lemma take_digits_pad_numeral [simp]:
  "n < 100 \<Longrightarrow> take_digits 2 0 (pad 2 n @ s) = Some (n, s)"
  "n < 10000 \<Longrightarrow> take_digits 4 0 (pad 4 n @ s) = Some (n, s)"
  by (simp_all add: take_digits_pad)

lemma getnum_pad [simp]: "n < 100 \<Longrightarrow> getnum (pad 2 n @ s) = Some (n, s)"
  by (simp add: getnum_def)

lemma fraction_Z [simp]: "fraction ''Z'' = (0, ''Z'')"
  by (simp add: fraction_def)

lemma zone_Z [simp]: "zone ''Z'' = Some (0, [])"
  by (simp add: zone_def)

lemma day_difference:
  "(a::nat) + q = b + (c + m) \<Longrightarrow> int (b + c + (Suc m - 1)) - int a = int q"
  by linarith

lemma hms_split: "(s::nat) div 3600 * 3600 + s div 60 mod 60 * 60 + s mod 60 = s"
proof -
  have "s div 3600 = s div 60 div 60" by (simp flip: div_mult2_eq)
  then have "s div 3600 * 3600 + s div 60 mod 60 * 60 = s div 60 * 60"
    using div_mult_mod_eq [of "s div 60" 60] by linarith
  then show ?thesis by simp
qed

text \<open>The year a time falls in.\<close>

definition year_of :: "nat \<Rightarrow> nat" where
  "year_of t = fst (split_year 1970 (t div 1000000000 div 86400))"

lemma parse_format:
  assumes "year_of t < 10000"
  shows "Parse_RFC3339 (Format_RFC3339 t) = Some (int (t div 1000000000) * 1000000000)"
proof -
  define secs where "secs = t div 1000000000"
  obtain y yd where yy: "split_year 1970 (secs div 86400) = (y, yd)" by fastforce
  obtain mo md where mm: "split_month 1 (month_lengths y) yd = (mo, md)" by fastforce
  have y: "y < 10000" using assms yy by (simp add: year_of_def secs_def)
  from split_year_sound [OF yy] have yd: "yd < days_in_year y"
    and eq: "days_before 1970 + secs div 86400 = days_before y + yd" by auto
  from split_month_sound [OF mm] yd have mo: "1 \<le> mo" "mo - 1 < 12"
      and md: "md < month_lengths y ! (mo - 1)"
      and yd': "yd = sum_list (take (mo - 1) (month_lengths y)) + md" by auto
  from month_length_le [OF mo(2), of y] md have "Suc md < 100" by linarith
  moreover have "mo < 100" "mo \<le> 12" using mo by auto
  moreover have "secs mod 86400 div 3600 < 24" by (simp add: less_mult_imp_div_less)
  moreover have "secs mod 86400 div 60 mod 60 < 60" "secs mod 86400 mod 60 < 60" by simp_all
  ultimately have p: "Parse_RFC3339 (Format_RFC3339 t) = Some (to_nanos y mo (Suc md)
      (secs mod 86400 div 3600) (secs mod 86400 div 60 mod 60) (secs mod 86400 mod 60) 0 0)"
    using y mo md
    by (simp add: Format_RFC3339_def Parse_RFC3339_def secs_def [symmetric] yy mm Let_def
        del: One_nat_def)
  have d: "int (days_before y + sum_list (take (mo - 1) (month_lengths y)) + (Suc md - 1))
      - int (days_before 1970) = int (secs div 86400)"
    by (rule day_difference) (use eq yd' in simp)
  have e: "int (secs div 86400) * 86400 + int (secs mod 86400) = int secs"
    by (metis div_mult_mod_eq of_nat_add of_nat_mult of_nat_numeral)
  have n: "to_nanos y mo (Suc md) (secs mod 86400 div 3600) (secs mod 86400 div 60 mod 60)
      (secs mod 86400 mod 60) 0 0 = int secs * 1000000000"
    unfolding to_nanos_def hms_split d e by (simp only: diff_zero of_nat_0 add_0_right)
  show ?thesis
    using p unfolding n unfolding secs_def .
qed

end
