(* ===== verification/ControllerCommon.thy ===== *)
theory ControllerCommon
  imports ApiTypes CloudTypes GoTime
begin

text \<open>
  Helpers of \<^verbatim>\<open>internal/controller\<close> that the reconcilers share: the throttle for
  delete requests, tag values, the states of an instance that is gone, and the joining of errors
  from the deferred patch. Times are nanoseconds since the Unix epoch; the two readings of the
  clock inside \<^verbatim>\<open>deleteRequestDue\<close> are one argument.
\<close>

section \<open>Intervals\<close>

definition instancePollInterval :: int where "instancePollInterval = 15 * time_Second"
definition deletePollInterval :: int where "deletePollInterval = 10 * time_Second"
definition instanceResyncInterval :: int where "instanceResyncInterval = 5 * time_Minute"
definition noCapacityRetryInterval :: int where "noCapacityRetryInterval = 2 * time_Minute"
definition deleteRetryInterval :: int where "deleteRetryInterval = 20 * time_Second"

abbreviation InstanceProvisioningReason :: string where "InstanceProvisioningReason \<equiv> ''InstanceProvisioning''"
abbreviation InstanceTerminatedReason :: string where "InstanceTerminatedReason \<equiv> ''InstanceTerminated''"
abbreviation InstanceFailedReason :: string where "InstanceFailedReason \<equiv> ''InstanceFailed''"
abbreviation NoCapacityReason :: string where "NoCapacityReason \<equiv> ''NoCapacity''"
abbreviation InstanceDeleteRequestedReason :: string where
  "InstanceDeleteRequestedReason \<equiv> ''InstanceDeleteRequested''"

definition deleteRequestedAnnotation :: string where
  "deleteRequestedAnnotation = ''verda.cluster.x-k8s.io/delete-requested-at''"

section \<open>Helpers\<close>

definition annotation_key :: "string \<Rightarrow> string" where
  "annotation_key suffix =
     (if suffix \<noteq> '''' then deleteRequestedAnnotation @ ''-'' @ suffix else deleteRequestedAnnotation)"

definition deleteRequestDue :: "nat \<Rightarrow> ObjectMeta \<Rightarrow> string \<Rightarrow> string \<Rightarrow> bool \<times> ObjectMeta" where
  "deleteRequestDue now obj suffix state =
     (let key = annotation_key suffix; annotations = om_Annotations obj in
      if (case Cut CHR ''@'' (go_get annotations key) of
            Some (lastState, lastAt) \<Rightarrow>
              lastState = state \<and>
              (case Parse_RFC3339 lastAt of
                 Some t \<Rightarrow> int now - t < deleteRetryInterval
               | None \<Rightarrow> False)
          | None \<Rightarrow> False)
      then (False, obj)
      else (True, obj\<lparr>om_Annotations := AList.update key (state @ ''@'' @ Format_RFC3339 now) annotations\<rparr>))"

fun instanceGone :: "Instance \<Rightarrow> bool" where
  "instanceGone inst =
     (i_Status inst = StatusNotFound \<or> i_Status inst = StatusDiscontinued \<or> i_Status inst = StatusDeleted)"

definition truncateTag :: "string \<Rightarrow> string" where
  "truncateTag v = ToLower (if length v > 127 then take 127 v else v)"

fun kerrorsJoin :: "go_error option \<Rightarrow> go_error option \<Rightarrow> go_error option" where
  "kerrorsJoin None b = b"
| "kerrorsJoin a None = a"
| "kerrorsJoin (Some a) (Some b) = Some (Joinf a b)"

text \<open>
  The deferred patch: its error joins the error of the function. A result that comes with an error
  is ignored by controller-runtime, so it is dropped here.
\<close>

definition with_patch_error :: "go_error option \<Rightarrow> (go_error + Result) \<Rightarrow> go_error + Result" where
  "with_patch_error patchErr r =
     (case kerrorsJoin (case r of Inl e \<Rightarrow> Some e | Inr _ \<Rightarrow> None) patchErr of
        Some e \<Rightarrow> Inl e
      | None \<Rightarrow> r)"

definition requeue_after :: "int \<Rightarrow> Result" where
  "requeue_after d = \<lparr>RequeueAfter = d\<rparr>"

record Identity =
  id_Namespace :: string
  id_SecretName :: string

section \<open>Tag values\<close>

lemma length_truncateTag: "length (truncateTag v) \<le> 127"
  by (simp add: truncateTag_def)

lemma truncateTag_short: "length v \<le> 127 \<Longrightarrow> truncateTag v = ToLower v"
  by (simp add: truncateTag_def)

lemma map_id_on: "(\<And>x. x \<in> set xs \<Longrightarrow> f x = x) \<Longrightarrow> map f xs = xs"
  by (induction xs) auto

text \<open>Kubernetes names have no upper case letters, and a namespace has no slash.\<close>

definition lower_name :: "string \<Rightarrow> bool" where
  "lower_name s = (\<forall>c\<in>set s. ascii_lower c = c)"

lemma ToLower_lower: "lower_name s \<Longrightarrow> ToLower s = s"
  by (simp add: lower_name_def ToLower_def map_id_on)

lemma append_sep_inject:
  fixes c :: char
  assumes "c \<notin> set a" "c \<notin> set a'" "a @ c # b = a' @ c # b'"
  shows "a = a' \<and> b = b'"
proof -
  have "Some (a, b) = Cut c (a @ c # b)" by (rule Cut_append [OF assms(1), symmetric])
  also have "\<dots> = Some (a', b')" unfolding assms(3) by (rule Cut_append [OF assms(2)])
  finally show ?thesis by simp
qed

section \<open>The throttle\<close>

lemma deleteRequestDue_state:
  "deleteRequestDue now obj suffix state = (due, obj') \<Longrightarrow>
     (due \<longrightarrow> om_Annotations obj' = AList.update (annotation_key suffix) (state @ ''@'' @ Format_RFC3339 now)
                (om_Annotations obj)) \<and>
     (\<not> due \<longrightarrow> obj' = obj) \<and> om_Name obj' = om_Name obj \<and> om_Namespace obj' = om_Namespace obj \<and>
     om_Finalizers obj' = om_Finalizers obj \<and> om_DeletionTimestamp obj' = om_DeletionTimestamp obj"
  by (auto simp: deleteRequestDue_def Let_def split: if_splits)

lemma deleteRequestDue_again:
  assumes "deleteRequestDue now obj suffix state = (True, obj')"
    and "CHR ''@'' \<notin> set state" "year_of now < 10000"
  shows "fst (deleteRequestDue later obj' suffix state) \<longleftrightarrow>
     int later - int (now div 1000000000) * 1000000000 \<ge> deleteRetryInterval"
proof -
  from deleteRequestDue_state [OF assms(1)]
  have "go_get (om_Annotations obj') (annotation_key suffix) = state @ ''@'' @ Format_RFC3339 now" by simp
  then have cut: "Cut CHR ''@'' (go_get (om_Annotations obj') (annotation_key suffix)) =
      Some (state, Format_RFC3339 now)"
    using Cut_append [OF assms(2), of "Format_RFC3339 now"] by simp
  define t where "t = int (now div 1000000000) * 1000000000"
  have "Parse_RFC3339 (Format_RFC3339 now) = Some t"
    unfolding t_def by (rule parse_format [OF assms(3)])
  then show ?thesis
    unfolding deleteRequestDue_def Let_def cut t_def [symmetric] by (simp add: not_less)
qed

end
