(* ===== verification/GoText.thy ===== *)
theory GoText
  imports Prelude
begin

text \<open>
  The functions of Go's \<^verbatim>\<open>strings\<close>, \<^verbatim>\<open>bytes\<close>, \<^verbatim>\<open>path\<close>,
  \<^verbatim>\<open>strconv\<close> and \<^verbatim>\<open>encoding/base64\<close> packages that the script
  generators call, with the base64 round trip.
\<close>

section \<open>Characters\<close>

abbreviation nl :: string where "nl \<equiv> [CHR 0x0A]"
abbreviation sq :: string where "sq \<equiv> [CHR 0x27]"
abbreviation dq :: string where "dq \<equiv> [CHR 0x22]"
abbreviation bs :: string where "bs \<equiv> [CHR 0x5C]"

section \<open>Splitting, joining, replacing\<close>

text \<open>\<^verbatim>\<open>ReplaceAll\<close> of a non-empty string, from left to right without overlap.\<close>

fun ReplaceAll :: "string \<Rightarrow> string \<Rightarrow> string \<Rightarrow> string" where
  "ReplaceAll [] old new = []"
| "ReplaceAll (c # s) old new =
     (if old \<noteq> [] \<and> HasPrefix (c # s) old
      then new @ ReplaceAll (drop (length old - 1) s) old new
      else c # ReplaceAll s old new)"

fun SplitN :: "string \<Rightarrow> char \<Rightarrow> nat \<Rightarrow> string list" where
  "SplitN s c 0 = []"
| "SplitN s c (Suc 0) = [s]"
| "SplitN s c (Suc (Suc n)) =
     (case Cut c s of None \<Rightarrow> [s] | Some (a, b) \<Rightarrow> a # SplitN b c (Suc n))"

fun Split :: "char \<Rightarrow> string \<Rightarrow> string list" where
  "Split c [] = [[]]"
| "Split c (x # xs) =
     (if x = c then [] # Split c xs
      else case Split c xs of [] \<Rightarrow> [[x]] | l # ls \<Rightarrow> (x # l) # ls)"

fun Join :: "string list \<Rightarrow> string \<Rightarrow> string" where
  "Join [] sep = []"
| "Join [x] sep = x"
| "Join (x # y # xs) sep = x @ sep @ Join (y # xs) sep"

text \<open>Replacing one character, which is what every call after the placeholders does.\<close>

lemma ReplaceAll_char: "ReplaceAll s [a] new = concat (map (\<lambda>c. if c = a then new else [c]) s)"
  by (induction s) (auto simp: HasPrefix_def)

lemma Split_nonempty [simp]: "Split c s \<noteq> []"
  by (cases s) (auto split: list.splits)

lemma Join_Split: "Join (Split c s) [c] = s"
proof (induction s)
  case (Cons x xs)
  obtain l ls where "Split c xs = l # ls" by (cases "Split c xs") auto
  with Cons show ?case by (cases ls) auto
qed simp

lemma Split_no_sep: "l \<in> set (Split c s) \<Longrightarrow> c \<notin> set l"
  by (induction s arbitrary: l) (auto split: if_splits list.splits)

lemma Split_append: "c \<notin> set a \<Longrightarrow> Split c (a @ c # b) = a # Split c b"
  by (induction a) auto

lemma Split_single: "c \<notin> set a \<Longrightarrow> Split c a = [a]"
  by (induction a) auto

section \<open>Paths\<close>

text \<open>\<^verbatim>\<open>path.Clean\<close>: empty and \<open>.\<close> elements vanish, \<open>..\<close> removes the element before it.\<close>

fun clean_elems :: "bool \<Rightarrow> string list \<Rightarrow> string list \<Rightarrow> string list" where
  "clean_elems rooted out [] = rev out"
| "clean_elems rooted out (e # es) =
     (if e = '''' \<or> e = ''.'' then clean_elems rooted out es
      else if e = ''..'' then
        (case out of
           [] \<Rightarrow> clean_elems rooted (if rooted then [] else [''..'']) es
         | d # out' \<Rightarrow> if d = ''..'' then clean_elems rooted (e # out) es else clean_elems rooted out' es)
      else clean_elems rooted (e # out) es)"

definition path_Clean :: "string \<Rightarrow> string" where
  "path_Clean p =
     (if p = '''' then ''.''
      else
        let rooted = HasPrefix p ''/'';
            out = (if rooted then ''/'' else '''') @ Join (clean_elems rooted [] (Split CHR ''/'' p)) ''/''
        in if out = '''' then ''.'' else out)"

text \<open>\<^verbatim>\<open>path.Dir\<close>: what stands before the last slash, cleaned.\<close>

definition path_Dir :: "string \<Rightarrow> string" where
  "path_Dir p = path_Clean (rev (dropWhile (\<lambda>c. c \<noteq> CHR ''/'') (rev p)))"

section \<open>Quoting\<close>

text \<open>
  \<^verbatim>\<open>strconv.Quote\<close>, the verb \<^verbatim>\<open>%q\<close>: control characters and the quote are
  escaped; bytes above ASCII belong to printable characters and are kept.
\<close>

definition hex_digit :: "nat \<Rightarrow> char" where
  "hex_digit n = (if n < 10 then char_of (48 + n) else char_of (87 + n))"

definition quote_char :: "char \<Rightarrow> string" where
  "quote_char c =
     (let n = (of_char c :: nat) in
      if c = CHR 0x22 \<or> c = CHR 0x5C then bs @ [c]
      else if n = 7 then bs @ ''a'' else if n = 8 then bs @ ''b'' else if n = 9 then bs @ ''t''
      else if n = 10 then bs @ ''n'' else if n = 11 then bs @ ''v'' else if n = 12 then bs @ ''f''
      else if n = 13 then bs @ ''r''
      else if n < 32 \<or> n = 127 then bs @ ''x'' @ [hex_digit (n div 16), hex_digit (n mod 16)]
      else [c])"

definition go_quote :: "string \<Rightarrow> string" where
  "go_quote s = dq @ concat (map quote_char s) @ dq"

section \<open>Base64\<close>

definition b64_alphabet :: string where
  "b64_alphabet = ''ABCDEFGHIJKLMNOPQRSTUVWXYZabcdefghijklmnopqrstuvwxyz0123456789+/''"

definition b64_char :: "nat \<Rightarrow> char" where
  "b64_char n = b64_alphabet ! n"

fun index_from :: "nat \<Rightarrow> 'b \<Rightarrow> 'b list \<Rightarrow> nat option" where
  "index_from n x [] = None"
| "index_from n x (y # ys) = (if x = y then Some n else index_from (Suc n) x ys)"

definition b64_val :: "char \<Rightarrow> nat option" where
  "b64_val c = index_from 0 c b64_alphabet"

text \<open>\<^verbatim>\<open>base64.StdEncoding.EncodeToString\<close>\<close>

fun EncodeToString :: "string \<Rightarrow> string" where
  "EncodeToString [] = []"
| "EncodeToString [a] =
     (let n = of_char a * 65536 in
      [b64_char (n div 262144), b64_char (n div 4096 mod 64), CHR ''='', CHR ''=''])"
| "EncodeToString [a, b] =
     (let n = of_char a * 65536 + of_char b * 256 in
      [b64_char (n div 262144), b64_char (n div 4096 mod 64), b64_char (n div 64 mod 64), CHR ''=''])"
| "EncodeToString (a # b # c # rest) =
     (let n = of_char a * 65536 + of_char b * 256 + of_char c in
      [b64_char (n div 262144), b64_char (n div 4096 mod 64), b64_char (n div 64 mod 64), b64_char (n mod 64)]
      @ EncodeToString rest)"

text \<open>
  \<^verbatim>\<open>base64.StdEncoding.DecodeString\<close>: line breaks are skipped, padding only ends the
  input, left-over bits are ignored. \<open>None\<close> is a \<^verbatim>\<open>CorruptInputError\<close>.
\<close>

fun decode_quads :: "string \<Rightarrow> string option" where
  "decode_quads [] = Some []"
| "decode_quads (p # q # r # s # rest) =
     (if rest = [] \<and> r = CHR ''='' \<and> s = CHR ''='' then
        (case (b64_val p, b64_val q) of
           (Some i, Some j) \<Rightarrow> Some [char_of ((i * 64 + j) div 16)]
         | _ \<Rightarrow> None)
      else if rest = [] \<and> s = CHR ''='' then
        (case (b64_val p, b64_val q, b64_val r) of
           (Some i, Some j, Some k) \<Rightarrow>
             let n = (i * 4096 + j * 64 + k) div 4 in Some [char_of (n div 256), char_of (n mod 256)]
         | _ \<Rightarrow> None)
      else
        (case (b64_val p, b64_val q, b64_val r, b64_val s) of
           (Some i, Some j, Some k, Some l) \<Rightarrow>
             let n = i * 262144 + j * 4096 + k * 64 + l in
             map_option (\<lambda>t. [char_of (n div 65536), char_of (n div 256 mod 256), char_of (n mod 256)] @ t)
               (decode_quads rest)
         | _ \<Rightarrow> None))"
| "decode_quads _ = None"

definition DecodeString :: "string \<Rightarrow> string option" where
  "DecodeString s = decode_quads (filter (\<lambda>c. c \<noteq> CHR 0x0D \<and> c \<noteq> CHR 0x0A) s)"

lemma b64_alphabet_ok:
  "list_all (\<lambda>i. b64_val (b64_char i) = Some i \<and> b64_char i \<in> set b64_alphabet \<and> b64_char i \<noteq> CHR ''='') [0..<64]"
  by code_simp

lemma b64_val_char [simp]: "i < 64 \<Longrightarrow> b64_val (b64_char i) = Some i"
  using b64_alphabet_ok by (simp add: list_all_iff)

lemma b64_char_alphabet [simp]: "i < 64 \<Longrightarrow> b64_char i \<in> set b64_alphabet"
  using b64_alphabet_ok by (simp add: list_all_iff)

lemma b64_char_not_pad [simp]: "i < 64 \<Longrightarrow> b64_char i \<noteq> CHR ''=''"
  using b64_alphabet_ok by (auto simp: list_all_iff)

lemma mod_split: "(n::nat) = n div m * m + n mod m"
  by simp

lemma b64_recombine:
  fixes n :: nat
  assumes "n = q1 * 64 + r0" "q1 = q2 * 64 + r1" "q2 = q3 * 64 + r2"
  shows "q3 * 262144 + r2 * 4096 + r1 * 64 + r0 = n"
  using assms by simp

lemma b64_split3:
  fixes a b c :: nat
  assumes "a < 256" "b < 256" "c < 256"
  defines "n \<equiv> a * 65536 + b * 256 + c"
  shows "n div 262144 < 64" "n div 4096 mod 64 < 64" "n div 64 mod 64 < 64" "n mod 64 < 64"
    and "n div 262144 * 262144 + n div 4096 mod 64 * 4096 + n div 64 mod 64 * 64 + n mod 64 = n"
    and "n div 65536 = a" "n div 256 mod 256 = b" "n mod 256 = c"
proof -
  have "n < 64 * 262144" using assms(1-3) by (simp add: n_def)
  then show "n div 262144 < 64" by (rule less_mult_imp_div_less)
  have "n div 4096 = n div 64 div 64" "n div 262144 = n div 64 div 64 div 64"
    by (simp_all flip: div_mult2_eq)
  with b64_recombine [OF mod_split [of n 64] mod_split [of "n div 64" 64] mod_split [of "n div 64 div 64" 64]]
  show "n div 262144 * 262144 + n div 4096 mod 64 * 4096 + n div 64 mod 64 * 64 + n mod 64 = n"
    by (simp only:)
  have hi: "n = (b * 256 + c) + a * 65536" and mid: "n = c + (a * 256 + b) * 256"
    by (simp_all add: n_def algebra_simps)
  have "b * 256 + c < 65536" using assms(2,3) by simp
  then show "n div 65536 = a" by (simp add: hi)
  have "n div 256 = a * 256 + b" using assms(3) by (simp add: mid)
  then show "n div 256 mod 256 = b" using assms(2) by simp
  show "n mod 256 = c" by (subst mid) (simp only: mod_mult_self1 mod_less assms(3))
qed simp_all

lemma char_of_nat_mod: "char_of n = (char_of (n mod 256 :: nat) :: char)"
  by simp

lemma char_of_shift [simp]: "char_of (n * 256 + of_char b :: nat) = b"
  by (subst char_of_nat_mod) (simp del: char_of_mod_256)

lemma decode_quads_EncodeToString: "decode_quads (EncodeToString s) = Some s"
proof (induction s rule: EncodeToString.induct)
  case (2 a)
  define n where "n = (of_char a :: nat) * 65536"
  define i j where "i = n div 262144" and "j = n div 4096 mod 64"
  have "n div 64 mod 64 = 0" "n mod 64 = 0" by (simp_all add: n_def)
  with b64_split3 [of "of_char a" 0 0] have "i < 64" "j < 64" "i * 262144 + j * 4096 = n"
    by (simp_all add: n_def i_def j_def)
  then have "i * 64 + j = of_char a * 16" by (simp add: n_def)
  with \<open>i < 64\<close> \<open>j < 64\<close> show ?case
    by (simp add: Let_def flip: n_def) (simp flip: i_def j_def)
next
  case (3 a b)
  define n where "n = (of_char a :: nat) * 65536 + of_char b * 256"
  define i j k where "i = n div 262144" and "j = n div 4096 mod 64" and "k = n div 64 mod 64"
  have "n mod 64 = 0" by (simp add: n_def)
  with b64_split3 [of "of_char a" "of_char b" 0] have lt: "i < 64" "j < 64" "k < 64"
    and "i * 262144 + j * 4096 + k * 64 = n"
    by (simp_all add: n_def i_def j_def k_def)
  then have "i * 4096 + j * 64 + k = (of_char a * 256 + of_char b) * 4" by (simp add: n_def)
  then have "(i * 4096 + j * 64 + k) div 4 = of_char a * 256 + of_char b" by simp
  with lt show ?case
    by (simp add: Let_def flip: n_def) (simp flip: i_def j_def k_def add: char_of_shift)
next
  case (4 a b c rest)
  define n where "n = (of_char a :: nat) * 65536 + of_char b * 256 + of_char c"
  note n = b64_split3 [of "of_char a" "of_char b" "of_char c", simplified, folded n_def]
  from 4 n char_of_nat_mod [of n] char_of_nat_mod [of "n div 256"] show ?case
    by (simp add: Let_def flip: n_def)
qed simp

text \<open>Encoded text is made of the alphabet and padding, so it has no line break and no underscore.\<close>

lemma EncodeToString_chars: "set (EncodeToString s) \<subseteq> insert CHR ''='' (set b64_alphabet)"
proof (induction s rule: EncodeToString.induct)
  case (2 a)
  show ?case using b64_split3(1) [of "of_char a" 0 0] by (simp add: Let_def)
next
  case (3 a b)
  show ?case using b64_split3(1) [of "of_char a" "of_char b" 0] by (simp add: Let_def)
next
  case (4 a b c rest)
  then show ?case using b64_split3(1) [of "of_char a" "of_char b" "of_char c"] by (simp add: Let_def)
qed simp

lemma b64_no_specials:
  "list_all (\<lambda>c. c \<noteq> CHR 0x0A \<and> c \<noteq> CHR 0x0D \<and> c \<noteq> CHR ''_'') (CHR ''='' # b64_alphabet)"
  by code_simp

lemma EncodeToString_no_specials:
  assumes "c \<in> set (EncodeToString s)"
  shows "c \<noteq> CHR 0x0A" "c \<noteq> CHR 0x0D" "c \<noteq> CHR ''_''"
proof -
  from assms EncodeToString_chars [of s] have "c \<in> set (CHR ''='' # b64_alphabet)" by auto
  with b64_no_specials show "c \<noteq> CHR 0x0A" "c \<noteq> CHR 0x0D" "c \<noteq> CHR ''_''"
    unfolding list_all_iff by blast+
qed

lemma DecodeString_EncodeToString: "DecodeString (EncodeToString s) = Some s"
proof -
  have "filter (\<lambda>c. c \<noteq> CHR 0x0D \<and> c \<noteq> CHR 0x0A) (EncodeToString s) = EncodeToString s"
    by (rule filter_True) (blast dest: EncodeToString_no_specials)
  then show ?thesis by (simp add: DecodeString_def decode_quads_EncodeToString)
qed

end
