(* ===== verification/Bootstrap.thy ===== *)
theory Bootstrap
  imports GoText
begin

text \<open>
  \<^verbatim>\<open>internal/bootstrap/cloudconfig.go\<close>: the conversion of kubeadm cloud-config
  bootstrap data into a startup script. The YAML parser (\<^verbatim>\<open>sigs.k8s.io/yaml\<close>) and
  the compressor are arguments: \<open>yaml_keys\<close> is the unmarshalling into a map of raw messages, of which
  only the keys are used, \<open>yaml_cfg\<close> the unmarshalling into \<^verbatim>\<open>cloudConfig\<close>, and
  \<open>gz\<close> is \<^verbatim>\<open>compress/gzip\<close> writing into a buffer.
\<close>

section \<open>Constants and types\<close>

definition MaxScriptSize :: nat where "MaxScriptSize = 48 * 1024"
definition compressThreshold :: nat where "compressThreshold = 24 * 1024"
definition cloudConfigHeader :: string where "cloudConfigHeader = ''#cloud-config''"
definition LogPath :: string where "LogPath = ''/var/log/capi-bootstrap.log''"

type_synonym command = "string list"

record user =
  u_Name :: string
  u_Gecos :: string
  u_Groups :: string
  u_HomeDir :: string
  u_Inactive :: bool
  u_Shell :: string
  u_Passwd :: string
  u_PrimaryGroup :: string
  u_LockPassword :: "bool option"
  u_Sudo :: string
  u_SSHAuthorizedKeys :: "string list"

record ntp =
  ntp_Enabled :: "bool option"
  ntp_Servers :: "string list"

record writeFile =
  wf_Path :: string
  wf_Content :: string
  wf_Encoding :: string
  wf_Owner :: string
  wf_Permissions :: string
  wf_Append :: bool

record cloudConfig =
  cc_BootCmd :: "command list"
  cc_WriteFiles :: "writeFile list"
  cc_RunCmd :: "command list"
  cc_Users :: "user list"
  cc_NTP :: "ntp option"

definition knownKeys :: "string list" where
  "knownKeys = [''bootcmd'', ''write_files'', ''runcmd'', ''users'', ''ntp'']"

record bootstrap_Result =
  br_Script :: string
  br_Unsupported :: "string list"

section \<open>Commands\<close>

text \<open>
  A command may be a string or a list of strings. \<open>json_string\<close> and \<open>json_strings\<close> are what
  \<^verbatim>\<open>json.Unmarshal\<close> does with a value for a \<^verbatim>\<open>string\<close> and for a
  \<^verbatim>\<open>[]string\<close>: \<^verbatim>\<open>null\<close> leaves the zero value.
\<close>

datatype json = JNull | JBool bool | JNumber string | JString string | JArray "json list"
  | JObject "(string \<times> json) list"

fun json_string :: "json \<Rightarrow> string option" where
  "json_string (JString s) = Some s"
| "json_string JNull = Some ''''"
| "json_string _ = None"

fun json_elems :: "json list \<Rightarrow> string list option" where
  "json_elems [] = Some []"
| "json_elems (j # js) =
     (case (json_string j, json_elems js) of (Some s, Some ss) \<Rightarrow> Some (s # ss) | _ \<Rightarrow> None)"

fun json_strings :: "json \<Rightarrow> string list option" where
  "json_strings (JArray js) = json_elems js"
| "json_strings JNull = Some []"
| "json_strings _ = None"

definition command_UnmarshalJSON :: "json \<Rightarrow> go_error + command" where
  "command_UnmarshalJSON data =
     (case json_string data of
        Some s \<Rightarrow> Inr [s]
      | None \<Rightarrow>
          (case json_strings data of
             None \<Rightarrow> Inl (Wrapf ''command must be a string or a list of strings: %w'' [] (Opaque ''json''))
           | Some l \<Rightarrow> Inr l))"

definition shellQuote :: "string \<Rightarrow> string" where
  "shellQuote s =
     (if s = '''' then sq @ sq else sq @ ReplaceAll s sq (sq @ bs @ sq @ sq) @ sq)"

definition shell :: "command \<Rightarrow> string" where
  "shell c = (if length c = 1 then c ! 0 else Join (map shellQuote c) '' '')"

section \<open>Files\<close>

fun wrapBase64 :: "string \<Rightarrow> string" where
  "wrapBase64 s = (if length s > 76 then take 76 s @ nl @ wrapBase64 (drop 76 s) else s @ nl)"

declare wrapBase64.simps [simp del]

definition isGzip :: "string \<Rightarrow> bool" where
  "isGzip encoding = HasPrefix (ToLower (TrimSpace encoding)) ''gz''"

definition decodeContent :: "string \<Rightarrow> string \<Rightarrow> go_error + string" where
  "decodeContent content encoding =
     (let e = ToLower (TrimSpace encoding) in
      if e \<in> set ['''', ''text/plain''] then Inr content
      else if e \<in> set [''b64'', ''base64'', ''gz+b64'', ''gzip+base64'', ''gz+base64'', ''gzip+b64''] then
        (case DecodeString (TrimSpace content) of
           None \<Rightarrow> Inl (Wrapf ''decoding base64 content: %w'' [] (Opaque ''base64.CorruptInputError''))
         | Some decoded \<Rightarrow> Inr decoded)
      else if e \<in> set [''gz'', ''gzip''] then Inr content
      else Inl (Errorf ''unsupported content encoding %q'' [encoding]))"

definition writeFileScript :: "nat \<Rightarrow> writeFile \<Rightarrow> go_error + string" where
  "writeFileScript idx f =
     (if wf_Path f = '''' then Inl (Errorf ''write_files[%d]: path is required'' [itoa idx])
      else
        case decodeContent (wf_Content f) (wf_Encoding f) of
          Inl err \<Rightarrow> Inl (Wrapf ''write_files[%d] (%s): %w'' [itoa idx, wf_Path f] err)
        | Inr content \<Rightarrow>
            let decoder = (if isGzip (wf_Encoding f) then ''base64 -d | gunzip'' else ''base64 -d'');
                redirect = (if wf_Append f then ''>>'' else ''>'');
                delim = ''__CAPI_FILE_'' @ itoa idx @ ''__''
            in Inr (
              ''mkdir -p '' @ shellQuote (path_Dir (wf_Path f)) @ nl @
              decoder @ '' '' @ redirect @ '' '' @ shellQuote (wf_Path f) @ '' <<'' @ sq @ delim @ sq @ nl @
              wrapBase64 (EncodeToString content) @
              delim @ nl @
              (if wf_Permissions f \<noteq> ''''
               then ''chmod '' @ shellQuote (wf_Permissions f) @ '' '' @ shellQuote (wf_Path f) @ nl else '''') @
              (if wf_Owner f \<noteq> ''''
               then ''chown '' @ shellQuote (wf_Owner f) @ '' '' @ shellQuote (wf_Path f) @ nl else '''')))"

text \<open>The loop over \<^verbatim>\<open>write_files\<close>, with the index of the first file.\<close>

fun write_files_loop :: "nat \<Rightarrow> writeFile list \<Rightarrow> go_error + string" where
  "write_files_loop i [] = Inr ''''"
| "write_files_loop i (f # fs) =
     (case writeFileScript i f of
        Inl err \<Rightarrow> Inl err
      | Inr s \<Rightarrow> (case write_files_loop (Suc i) fs of Inl err \<Rightarrow> Inl err | Inr t \<Rightarrow> Inr (s @ t)))"

section \<open>Users and time servers\<close>

definition userScript :: "user \<Rightarrow> string" where
  "userScript u =
     (if u_Name u = '''' then ''''
      else
        let name = shellQuote (u_Name u);
            group = shellQuote (u_PrimaryGroup u);
            args = [''--create-home''] @
              (if u_Gecos u \<noteq> '''' then [''--comment'', shellQuote (u_Gecos u)] else []) @
              (if u_HomeDir u \<noteq> '''' then [''--home-dir'', shellQuote (u_HomeDir u)] else []) @
              (if u_Shell u \<noteq> '''' then [''--shell'', shellQuote (u_Shell u)] else []) @
              (if u_PrimaryGroup u \<noteq> '''' then [''--gid'', group] else []) @
              (if u_Groups u \<noteq> '''' then [''--groups'', shellQuote (ReplaceAll (u_Groups u) '' '' '''')] else []) @
              (if u_Inactive u then [''--expiredate'', ''1''] else []);
            home = dq @ ''$(getent passwd '' @ name @ '' | cut -d: -f6)'' @ dq
        in
          (if u_PrimaryGroup u \<noteq> ''''
           then ''getent group '' @ group @ '' >/dev/null || groupadd '' @ group @ nl else '''') @
          ''id -u '' @ name @ '' >/dev/null 2>&1 || useradd '' @ Join args '' '' @ '' '' @ name @ nl @
          (if u_Passwd u \<noteq> ''''
           then ''usermod --password '' @ shellQuote (u_Passwd u) @ '' '' @ name @ nl else '''') @
          (if u_LockPassword u \<noteq> None \<and> the (u_LockPassword u)
           then ''passwd -l '' @ name @ '' >/dev/null'' @ nl else '''') @
          (if u_Sudo u \<noteq> ''''
           then ''install -d -m 0750 /etc/sudoers.d && echo '' @ shellQuote (u_Name u @ '' '' @ u_Sudo u) @
                '' > /etc/sudoers.d/90-capi-'' @ u_Name u @
                '' && chmod 0440 /etc/sudoers.d/90-capi-'' @ u_Name u @ nl
           else '''') @
          (if length (u_SSHAuthorizedKeys u) > 0
           then ''install -d -m 0700 -o '' @ name @ '' -g '' @ name @ '' '' @ home @ ''/.ssh'' @ nl @
                concat (map (\<lambda>key. ''echo '' @ shellQuote key @ '' >> '' @ home @ ''/.ssh/authorized_keys'' @ nl)
                          (u_SSHAuthorizedKeys u)) @
                ''chown '' @ name @ '':'' @ name @ '' '' @ home @ ''/.ssh/authorized_keys && chmod 0600 '' @
                home @ ''/.ssh/authorized_keys'' @ nl
           else ''''))"

definition ntpScript :: "ntp \<Rightarrow> string" where
  "ntpScript n =
     (if length (ntp_Servers n) = 0 then ''''
      else
        ''if command -v chronyd >/dev/null 2>&1; then'' @ nl @
        ''  install -d /etc/chrony/sources.d'' @ nl @
        ''  : > /etc/chrony/sources.d/capi.sources'' @ nl @
        concat (map (\<lambda>srv. ''  echo '' @ shellQuote (''server '' @ srv @ '' iburst'') @
                           '' >> /etc/chrony/sources.d/capi.sources'' @ nl) (ntp_Servers n)) @
        ''  systemctl restart chrony 2>/dev/null || systemctl restart chronyd 2>/dev/null || true'' @ nl @
        ''fi'' @ nl)"

section \<open>The conversion\<close>

definition isCloudConfig :: "string \<Rightarrow> bool" where
  "isCloudConfig data = (\<exists>line \<in> set (SplitN data (CHR 0x0A) 4). TrimSpace line = cloudConfigHeader)"

definition gz_delim :: string where
  "gz_delim = ''__CAPI_GZ__''"

definition fit :: "(string \<Rightarrow> go_error + string) \<Rightarrow> string \<Rightarrow> go_error + string" where
  "fit gz script =
     (if length script \<le> compressThreshold then Inr script
      else
        case gz script of
          Inl err \<Rightarrow> Inl err
        | Inr buf \<Rightarrow>
            let out =
              ''#!/bin/bash'' @ nl @
              ''# Generated by cluster-api-provider-verda. The bootstrap script is gzip-compressed below'' @ nl @
              ''# and unpacked to /run/capi-bootstrap.sh before running.'' @ nl @
              ''set -euo pipefail'' @ nl @
              ''base64 -d <<'' @ sq @ gz_delim @ sq @ '' | gunzip > /run/capi-bootstrap.sh'' @ nl @
              wrapBase64 (EncodeToString buf) @
              gz_delim @ nl @
              ''chmod 0700 /run/capi-bootstrap.sh'' @ nl @
              ''exec /run/capi-bootstrap.sh'' @ nl
            in if length out > MaxScriptSize
               then Inl (Wrapf ''%w: %d bytes after compression; reduce KubeadmConfig files''
                           [itoa (length out)] ErrScriptTooLarge)
               else Inr out)"

definition hostnamePlaceholders :: "string list" where
  "hostnamePlaceholders =
     [''{{ ds.meta_data.hostname }}'', ''{{ ds.meta_data.local_hostname }}'',
      ''{{ds.meta_data.hostname}}'', ''{{ds.meta_data.local_hostname}}'']"

definition replace_placeholders :: "string \<Rightarrow> string \<Rightarrow> string" where
  "replace_placeholders data hostname =
     fold (\<lambda>placeholder data. ReplaceAll data placeholder hostname) hostnamePlaceholders data"

definition script_header :: "string list \<Rightarrow> string" where
  "script_header unsupported =
     ''#!/bin/bash'' @ nl @
     ''# Generated by cluster-api-provider-verda from Cluster API bootstrap data. Do not edit.'' @ nl @
     ''set -euo pipefail'' @ nl @
     ''exec > >(tee -a '' @ LogPath @ '') 2>&1'' @ nl @
     ''echo '' @ dq @ ''[capi-bootstrap] starting $(date -Is)'' @ dq @ nl @
     concat (map (\<lambda>key. ''echo '' @ dq @ ''[capi-bootstrap] warning: cloud-config key '' @ go_quote key @
                        '' is not supported on Verda and was ignored'' @ dq @ nl) unsupported)"

definition commands_section :: "string \<Rightarrow> command list \<Rightarrow> string" where
  "commands_section title cs =
     (if length cs > 0 then nl @ ''# '' @ title @ nl @ concat (map (\<lambda>c. shell c @ nl) cs) else '''')"

definition ToStartupScript :: "(string \<Rightarrow> go_error + string list) \<Rightarrow> (string \<Rightarrow> go_error + cloudConfig) \<Rightarrow>
    (string \<Rightarrow> go_error + string) \<Rightarrow> string \<Rightarrow> string \<Rightarrow> go_error + bootstrap_Result" where
  "ToStartupScript yaml_keys yaml_cfg gz data hostname =
     (let data = replace_placeholders data hostname;
          trimmed = TrimSpace data
      in if HasPrefix trimmed ''#!'' then Inr \<lparr>br_Script = data, br_Unsupported = []\<rparr>
         else if \<not> isCloudConfig trimmed then
           Inl (Errorf ''bootstrap data is neither a shell script nor %s; ignition and other formats are not supported''
                  [cloudConfigHeader])
         else case yaml_keys trimmed of
           Inl err \<Rightarrow> Inl (Wrapf ''parsing cloud-config: %w'' [] err)
         | Inr raw \<Rightarrow>
             (case yaml_cfg trimmed of
                Inl err \<Rightarrow> Inl (Wrapf ''parsing cloud-config: %w'' [] err)
              | Inr cfg \<Rightarrow>
                  let unsupported = sort (filter (\<lambda>key. key \<notin> set knownKeys) raw) in
                  (case (if length (cc_WriteFiles cfg) > 0
                         then write_files_loop 0 (cc_WriteFiles cfg) else Inr '''') of
                     Inl err \<Rightarrow> Inl err
                   | Inr files \<Rightarrow>
                       (case fit gz
                          (script_header unsupported @
                           commands_section ''bootcmd'' (cc_BootCmd cfg) @
                           (if length (cc_WriteFiles cfg) > 0 then nl @ ''# write_files'' @ nl @ files else '''') @
                           (if length (cc_Users cfg) > 0
                            then nl @ ''# users'' @ nl @ concat (map userScript (cc_Users cfg)) else '''') @
                           (case cc_NTP cfg of
                              Some n \<Rightarrow>
                                if ntp_Enabled n = None \<or> the (ntp_Enabled n)
                                then nl @ ''# ntp'' @ nl @ ntpScript n else ''''
                            | None \<Rightarrow> '''') @
                           commands_section ''runcmd'' (cc_RunCmd cfg) @
                           nl @ ''echo '' @ dq @ ''[capi-bootstrap] finished $(date -Is)'' @ dq @ nl) of
                          Inl err \<Rightarrow> Inl err
                        | Inr script \<Rightarrow> Inr \<lparr>br_Script = script, br_Unsupported = unsupported\<rparr>))))"

section \<open>Reading the script back\<close>

text \<open>
  How a POSIX shell splits a line into words, for lines without expansions, redirections or
  control operators: single quotes keep everything, a backslash outside quotes keeps the next
  character. \<open>None\<close> is a line it cannot split (an unterminated quote, or a character with a
  meaning of its own).
\<close>

definition sh_plain :: "char \<Rightarrow> bool" where
  "sh_plain c = (c \<notin> set (''|&;<>()$`*?[]#~=%!{}'' @ dq @ nl @ [CHR 0x09]))"

fun sh_lex :: "bool \<Rightarrow> string option \<Rightarrow> string \<Rightarrow> string list option" where
  "sh_lex True w [] = None"
| "sh_lex False None [] = Some []"
| "sh_lex False (Some v) [] = Some [v]"
| "sh_lex True w (c # s) =
     (if c = CHR 0x27 then sh_lex False w s else sh_lex True (Some (ptr_Deref w '''' @ [c])) s)"
| "sh_lex False w (c # s) =
     (if c = CHR 0x27 then sh_lex True (Some (ptr_Deref w '''')) s
      else if c = CHR 0x5C then
        (case s of [] \<Rightarrow> None | d # s' \<Rightarrow> sh_lex False (Some (ptr_Deref w '''' @ [d])) s')
      else if c = CHR '' '' then
        (case w of None \<Rightarrow> sh_lex False None s | Some v \<Rightarrow> map_option ((#) v) (sh_lex False None s))
      else if sh_plain c then sh_lex False (Some (ptr_Deref w '''' @ [c])) s
      else None)"

definition sh_split :: "string \<Rightarrow> string list option" where
  "sh_split line = sh_lex False None line"

lemma sh_lex_quoted:
  "sh_lex True (Some w) (ReplaceAll a sq (sq @ bs @ sq @ sq) @ sq @ rest) = sh_lex False (Some (w @ a)) rest"
proof (induction a arbitrary: w)
  case (Cons c a)
  from Cons [of "w @ [c]"] show ?case by (cases "c = CHR 0x27") (simp_all add: ReplaceAll_char)
qed simp

lemma sh_lex_shellQuote: "sh_lex False None (shellQuote a @ rest) = sh_lex False (Some a) rest"
  using sh_lex_quoted [of "''''" a rest] by (simp add: shellQuote_def)

lemma sh_split_Join: "sh_split (Join (map shellQuote args) '' '') = Some args"
  unfolding sh_split_def
proof (induction args rule: induct_list012)
  case (2 x)
  show ?case using sh_lex_shellQuote [of x "[]"] by simp
next
  case (3 x y xs)
  then show ?case using sh_lex_shellQuote [of x "CHR '' '' # Join (map shellQuote (y # xs)) '' ''"] by simp
qed simp

section \<open>Here-documents\<close>

lemma filter_absent: "a \<notin> set xs \<Longrightarrow> filter (\<lambda>c. c \<noteq> a) xs = xs"
  by (induction xs) auto

lemma wrapBase64_filter: "CHR 0x0A \<notin> set s \<Longrightarrow> filter (\<lambda>c. c \<noteq> CHR 0x0A) (wrapBase64 s) = s"
proof (induction s rule: wrapBase64.induct)
  case (1 s)
  show ?case
  proof (cases "length s > 76")
    case True
    have "CHR 0x0A \<notin> set (take 76 s)" "CHR 0x0A \<notin> set (drop 76 s)"
      using 1(2) by (auto dest: in_set_takeD in_set_dropD)
    with 1(1) [OF True] True show ?thesis
      by (subst wrapBase64.simps) (simp add: filter_absent)
  next
    case False
    with 1(2) show ?thesis by (subst wrapBase64.simps) (simp add: filter_absent)
  qed
qed

lemma wrapBase64_lines:
  assumes "CHR 0x0A \<notin> set s"
  shows "\<exists>ls. Split (CHR 0x0A) (wrapBase64 s @ rest) = ls @ Split (CHR 0x0A) rest \<and>
     concat ls = s \<and> wrapBase64 s = concat (map (\<lambda>l. l @ nl) ls) \<and> (\<forall>l\<in>set ls. length l \<le> 76)"
  using assms
proof (induction s rule: wrapBase64.induct)
  case (1 s)
  show ?case
  proof (cases "length s > 76")
    case True
    have no: "CHR 0x0A \<notin> set (take 76 s)" "CHR 0x0A \<notin> set (drop 76 s)"
      using 1(2) by (auto dest: in_set_takeD in_set_dropD)
    from 1(1) [OF True no(2)] obtain ls where
      "Split (CHR 0x0A) (wrapBase64 (drop 76 s) @ rest) = ls @ Split (CHR 0x0A) rest"
      "concat ls = drop 76 s" "wrapBase64 (drop 76 s) = concat (map (\<lambda>l. l @ nl) ls)"
      "\<forall>l\<in>set ls. length l \<le> 76" by blast
    then show ?thesis using True no(1)
      by (intro exI [of _ "take 76 s # ls"]) (simp add: wrapBase64.simps [of s] Split_append)
  next
    case False
    with 1(2) show ?thesis
      by (intro exI [of _ "[s]"]) (simp add: wrapBase64.simps [of s] Split_append)
  qed
qed

text \<open>
  The here-document that starts at some point of a script ends at the first line that is the
  delimiter; the rest of the script follows.
\<close>

definition heredoc :: "string \<Rightarrow> string \<Rightarrow> (string \<times> string) option" where
  "heredoc delim text =
     (let ls = Split (CHR 0x0A) text; doc = takeWhile (\<lambda>l. l \<noteq> delim) ls in
      if doc = ls then None
      else Some (concat (map (\<lambda>l. l @ nl) doc), Join (drop (length doc + 1) ls) nl))"

lemma heredoc_wrapBase64:
  assumes "CHR ''_'' \<in> set delim" "CHR 0x0A \<notin> set delim"
  shows "heredoc delim (wrapBase64 (EncodeToString content) @ delim @ nl @ post) =
     Some (wrapBase64 (EncodeToString content), post)"
proof -
  let ?s = "EncodeToString content"
  have "CHR 0x0A \<notin> set ?s" by (blast dest: EncodeToString_no_specials)
  from wrapBase64_lines [OF this, of "delim @ nl @ post"] obtain ls where
    ls: "Split (CHR 0x0A) (wrapBase64 ?s @ delim @ nl @ post) = ls @ delim # Split (CHR 0x0A) post"
      "concat ls = ?s" "wrapBase64 ?s = concat (map (\<lambda>l. l @ nl) ls)"
    using assms(2) by (auto simp: Split_append)
  have "CHR ''_'' \<notin> set ?s" by (blast dest: EncodeToString_no_specials)
  with ls(2) have "CHR ''_'' \<notin> set (concat ls)" by simp
  then have "\<forall>l\<in>set ls. CHR ''_'' \<notin> set l" by auto
  with assms(1) have "takeWhile (\<lambda>l. l \<noteq> delim) (ls @ delim # Split (CHR 0x0A) post) = ls"
    by (subst takeWhile_append2) auto
  with ls show ?thesis by (simp add: heredoc_def Join_Split)
qed

lemma DecodeString_wrapBase64: "DecodeString (wrapBase64 (EncodeToString content)) = Some content"
proof -
  let ?s = "EncodeToString content"
  have no: "CHR 0x0A \<notin> set ?s" "\<forall>c\<in>set ?s. c \<noteq> CHR 0x0D"
    by (blast dest: EncodeToString_no_specials)+
  have "filter (\<lambda>c. c \<noteq> CHR 0x0D \<and> c \<noteq> CHR 0x0A) (wrapBase64 ?s) =
      filter (\<lambda>c. c \<noteq> CHR 0x0D) (filter (\<lambda>c. c \<noteq> CHR 0x0A) (wrapBase64 ?s))"
    by (simp add: conj_commute)
  also have "\<dots> = ?s" using no by (simp add: wrapBase64_filter)
  finally show ?thesis by (simp add: DecodeString_def decode_quads_EncodeToString)
qed

section \<open>Properties\<close>

text \<open>
  C28. A command of several arguments runs with exactly these arguments: a shell splits the line that
  \<^verbatim>\<open>command.shell\<close> writes for it back into the list, whatever characters the arguments contain. A
  command of one element, given as a string or as a list of one, is written as it stands and is for
  the shell to interpret.
\<close>

theorem shell_splits_back:
  "if length c = 1 then shell c = c ! 0 else sh_split (shell c) = Some c"
  by (simp add: shell_def sh_split_Join)

theorem shell_splits_back_witness:
  "sh_split (shell [''echo'', ''it'' @ sq @ ''s $HOME; '', '''']) = Some [''echo'', ''it'' @ sq @ ''s $HOME; '', ''''] \<and>
   shell [''echo $HOME''] = ''echo $HOME''"
  using shell_splits_back [of "[''echo'', ''it'' @ sq @ ''s $HOME; '', '''']"] shell_splits_back [of "[''echo $HOME'']"]
  by simp

text \<open>
  C29. The part of the script that writes a file gives the shell a here-document that decodes to the
  file's content: no line of the encoded content can be taken for the delimiter, nothing of the
  script is lost in the document, and only the commands that set mode and owner follow it.
\<close>

theorem writeFileScript_heredoc:
  assumes "writeFileScript idx f = Inr s"
  defines "delim \<equiv> ''__CAPI_FILE_'' @ itoa idx @ ''__''"
  shows "\<exists>content head body doc post. decodeContent (wf_Content f) (wf_Encoding f) = Inr content \<and>
     s = head @ body \<and> HasSuffix head (shellQuote (wf_Path f) @ '' <<'' @ sq @ delim @ sq @ nl) \<and>
     heredoc delim body = Some (doc, post) \<and> DecodeString doc = Some content \<and>
     post = (if wf_Permissions f \<noteq> ''''
             then ''chmod '' @ shellQuote (wf_Permissions f) @ '' '' @ shellQuote (wf_Path f) @ nl else '''') @
            (if wf_Owner f \<noteq> ''''
             then ''chown '' @ shellQuote (wf_Owner f) @ '' '' @ shellQuote (wf_Path f) @ nl else '''')"
proof -
  from assms(1) obtain content where content: "decodeContent (wf_Content f) (wf_Encoding f) = Inr content"
    by (auto simp: writeFileScript_def split: if_splits sum.splits)
  define post where "post = (if wf_Permissions f \<noteq> ''''
             then ''chmod '' @ shellQuote (wf_Permissions f) @ '' '' @ shellQuote (wf_Path f) @ nl else '''') @
            (if wf_Owner f \<noteq> ''''
             then ''chown '' @ shellQuote (wf_Owner f) @ '' '' @ shellQuote (wf_Path f) @ nl else '''')"
  define tail where "tail = shellQuote (wf_Path f) @ '' <<'' @ sq @ delim @ sq @ nl"
  define pre where "pre = ''mkdir -p '' @ shellQuote (path_Dir (wf_Path f)) @ nl @
      (if isGzip (wf_Encoding f) then ''base64 -d | gunzip'' else ''base64 -d'') @ '' '' @
      (if wf_Append f then ''>>'' else ''>'') @ '' ''"
  have s: "s = (pre @ tail) @ wrapBase64 (EncodeToString content) @ delim @ nl @ post"
    using assms(1) content
    by (auto simp: writeFileScript_def Let_def pre_def tail_def post_def delim_def split: if_splits)
  have "CHR 0x0A \<notin> set (itoa idx)" by (auto dest: itoa_digits)
  then have "heredoc delim (wrapBase64 (EncodeToString content) @ delim @ nl @ post) =
      Some (wrapBase64 (EncodeToString content), post)"
    by (intro heredoc_wrapBase64) (auto simp: delim_def)
  moreover have "HasSuffix (pre @ tail) tail" by (simp add: HasSuffix_def)
  ultimately show ?thesis
    using s content DecodeString_wrapBase64 [of content] unfolding tail_def post_def by blast
qed

text \<open>
  C27. A script that does not fit is never sent: what \<^verbatim>\<open>fit\<close> returns is at most
  \<^verbatim>\<open>MaxScriptSize\<close> bytes long; up to the threshold it is the script itself, and above it
  a script whose here-document decodes to the compressed script.
\<close>

theorem fit_bounded:
  assumes "fit gz script = Inr out"
  shows "length out \<le> MaxScriptSize \<and>
     (if length script \<le> compressThreshold then out = script
      else \<exists>buf head body doc post. gz script = Inr buf \<and> out = head @ body \<and>
             heredoc gz_delim body = Some (doc, post) \<and> DecodeString doc = Some buf)"
proof (cases "length script \<le> compressThreshold")
  case True
  with assms show ?thesis by (simp add: fit_def compressThreshold_def MaxScriptSize_def)
next
  case False
  define head where "head = ''#!/bin/bash'' @ nl @
      ''# Generated by cluster-api-provider-verda. The bootstrap script is gzip-compressed below'' @ nl @
      ''# and unpacked to /run/capi-bootstrap.sh before running.'' @ nl @ ''set -euo pipefail'' @ nl @
      ''base64 -d <<'' @ sq @ gz_delim @ sq @ '' | gunzip > /run/capi-bootstrap.sh'' @ nl"
  define post where "post = ''chmod 0700 /run/capi-bootstrap.sh'' @ nl @ ''exec /run/capi-bootstrap.sh'' @ nl"
  define body where "body = (\<lambda>buf. wrapBase64 (EncodeToString buf) @ gz_delim @ nl @ post)"
  from assms False obtain buf where buf: "gz script = Inr buf" by (auto simp: fit_def split: sum.splits)
  from assms False buf have "(if length (head @ body buf) > MaxScriptSize
      then Inl (Wrapf ''%w: %d bytes after compression; reduce KubeadmConfig files''
                  [itoa (length (head @ body buf))] ErrScriptTooLarge) else Inr (head @ body buf)) = Inr out"
    by (simp only: fit_def Let_def head_def body_def post_def append_assoc if_False sum.case)
  then have out: "out = head @ body buf" "length out \<le> MaxScriptSize" by (auto split: if_splits)
  have "heredoc gz_delim (body buf) = Some (wrapBase64 (EncodeToString buf), post)"
    unfolding body_def by (rule heredoc_wrapBase64) (simp_all add: gz_delim_def)
  with False buf out DecodeString_wrapBase64 [of buf] show ?thesis by auto
qed

lemma fit_length: "fit gz script = Inr out \<Longrightarrow> length out \<le> MaxScriptSize"
  by (auto simp: fit_def Let_def compressThreshold_def MaxScriptSize_def split: if_splits sum.splits)

lemma fit_shebang:
  assumes "fit gz script = Inr out" "HasPrefix script (''#!/bin/bash'' @ nl)"
  shows "HasPrefix out (''#!/bin/bash'' @ nl)"
  using assms by (auto simp: fit_def Let_def HasPrefix_def split: if_splits sum.splits)

text \<open>
  C30. Cloud-config data becomes a bash script of at most \<^verbatim>\<open>MaxScriptSize\<close> bytes, and the
  top-level keys it ignores are exactly the unknown ones, reported in order.
\<close>

theorem ToStartupScript_cloud_config:
  assumes "ToStartupScript yaml_keys yaml_cfg gz data hostname = Inr r"
    and "\<not> HasPrefix (TrimSpace (replace_placeholders data hostname)) ''#!''"
  shows "length (br_Script r) \<le> MaxScriptSize \<and> HasPrefix (br_Script r) (''#!/bin/bash'' @ nl) \<and>
     sorted (br_Unsupported r) \<and>
     (\<exists>raw. yaml_keys (TrimSpace (replace_placeholders data hostname)) = Inr raw \<and>
            set (br_Unsupported r) = set raw - set knownKeys)"
proof -
  from assms obtain raw script body where
    "yaml_keys (TrimSpace (replace_placeholders data hostname)) = Inr raw"
    "r = \<lparr>br_Script = script, br_Unsupported = sort (filter (\<lambda>key. key \<notin> set knownKeys) raw)\<rparr>"
    "fit gz (script_header (sort (filter (\<lambda>key. key \<notin> set knownKeys) raw)) @ body) = Inr script"
    by (auto simp: ToStartupScript_def Let_def split: if_splits sum.splits)
  moreover have "HasPrefix (script_header u @ body) (''#!/bin/bash'' @ nl)" for u
    by (simp add: script_header_def HasPrefix_def)
  ultimately show ?thesis
    using fit_length fit_shebang by auto
qed

section \<open>Examples\<close>

definition demo_file :: writeFile where
  "demo_file = \<lparr>wf_Path = ''/etc/kubernetes/a.conf'', wf_Content = ''hello'', wf_Encoding = ''text/plain'',
     wf_Owner = ''root:root'', wf_Permissions = ''0600'', wf_Append = False\<rparr>"

theorem writeFileScript_heredoc_witness:
  "\<exists>s content head body doc post. writeFileScript 3 demo_file = Inr s \<and>
     decodeContent ''hello'' ''text/plain'' = Inr content \<and> s = head @ body \<and>
     heredoc (''__CAPI_FILE_'' @ itoa 3 @ ''__'') body = Some (doc, post) \<and> DecodeString doc = Some content"
proof -
  have "decodeContent ''hello'' ''text/plain'' = Inr ''hello''" by code_simp
  then obtain s where s: "writeFileScript 3 demo_file = Inr s"
    by (simp add: writeFileScript_def demo_file_def Let_def)
  from writeFileScript_heredoc [OF s] show ?thesis
    unfolding demo_file_def by (simp only: writeFile.simps) (use s in \<open>unfold demo_file_def, blast\<close>)
qed

theorem fit_bounded_witness:
  "\<exists>out. fit (\<lambda>_. Inr ''abc'') (replicate 30000 CHR ''x'') = Inr out \<and> length out \<le> MaxScriptSize \<and>
     (\<exists>head body doc post. out = head @ body \<and> heredoc gz_delim body = Some (doc, post) \<and>
        DecodeString doc = Some ''abc'')"
proof -
  have enc: "wrapBase64 (EncodeToString ''abc'') = map b64_char [24, 22, 9, 35] @ nl"
    by (simp add: Let_def wrapBase64.simps)
  define big where "big = replicate 30000 CHR ''x''"
  have len: "\<not> length big \<le> compressThreshold"
    unfolding big_def length_replicate compressThreshold_def by simp
  then have "\<not> isl (fit (\<lambda>_. Inr ''abc'') big)"
    by (simp add: fit_def MaxScriptSize_def Let_def enc gz_delim_def del: EncodeToString.simps)
  then obtain out where out: "fit (\<lambda>_. Inr ''abc'') big = Inr out"
    by (cases "fit (\<lambda>_. Inr ''abc'') big") auto
  from fit_bounded [OF out] len out show ?thesis unfolding big_def [symmetric] by auto
qed

definition demo_cfg :: cloudConfig where
  "demo_cfg = \<lparr>cc_BootCmd = [[''true'']], cc_WriteFiles = [], cc_RunCmd = [[''kubeadm'', ''init'']],
     cc_Users = [], cc_NTP = None\<rparr>"

theorem ToStartupScript_cloud_config_witness:
  "\<exists>r. ToStartupScript (\<lambda>_. Inr [''bootcmd'', ''swap'', ''runcmd'']) (\<lambda>_. Inr demo_cfg) Inr
          ''#cloud-config'' ''node-1'' = Inr r \<and>
     length (br_Script r) \<le> MaxScriptSize \<and> set (br_Unsupported r) = {''swap''}"
proof -
  let ?run = "ToStartupScript (\<lambda>_. Inr [''bootcmd'', ''swap'', ''runcmd'']) (\<lambda>_. Inr demo_cfg) Inr
    ''#cloud-config'' ''node-1''"
  have t: "TrimSpace (replace_placeholders ''#cloud-config'' ''node-1'') = ''#cloud-config''" by code_simp
  have c: "isCloudConfig ''#cloud-config''" by code_simp
  have "\<not> isl ?run"
    by (simp add: ToStartupScript_def t c Let_def HasPrefix_def knownKeys_def demo_cfg_def fit_def
        compressThreshold_def script_header_def commands_section_def shell_def LogPath_def go_quote_def
        quote_char_def shellQuote_def)
  then obtain r where r: "?run = Inr r" by (cases ?run) auto
  have "\<not> HasPrefix (TrimSpace (replace_placeholders ''#cloud-config'' ''node-1'')) ''#!''"
    by (simp add: t HasPrefix_def)
  from ToStartupScript_cloud_config [OF r this] r show ?thesis by (auto simp: knownKeys_def)
qed

end
