(* ===== verification/MachineController.thy ===== *)
theory MachineController
  imports ControllerCommon Bootstrap CloudTypes
begin

text \<open>
  \<^verbatim>\<open>internal/controller/verdamachine_controller.go\<close>. An operation of
  \<^verbatim>\<open>machineScope\<close> takes the client \<open>c\<close>, the machine object and the state \<open>w\<close> of the
  cloud, and returns its result with the object and the cloud it leaves behind: the object is
  patched by a deferred call, so it matters on the error paths too. What the reconciler asks of the
  API server and of Cluster API's utilities are fields of the record \<open>machine_env\<close>, a parameter.
  Log calls are left out.
\<close>

section \<open>Environment\<close>

record 'w machine_env =
  me_lib :: klib
  me_now :: nat
  me_GetVerdaMachine :: "go_error + VerdaMachine"
  me_EnsureFinalizer :: "VerdaMachine \<Rightarrow> go_error + bool"
  me_GetOwnerMachine :: "ObjectMeta \<Rightarrow> go_error + Machine option"
  me_GetClusterFromMetadata :: "ObjectMeta \<Rightarrow> go_error + Cluster"
  me_EnsurePausedCondition :: "Cluster \<Rightarrow> VerdaMachine \<Rightarrow> (go_error + bool \<times> bool) \<times> VerdaMachine"
  me_GetVerdaCluster :: "string \<Rightarrow> string \<Rightarrow> go_error + VerdaCluster"
  me_NewHelper :: "VerdaMachine \<Rightarrow> go_error + unit"
  me_Patch :: "VerdaMachine \<Rightarrow> go_error option"
  me_ClientFor :: "Identity \<Rightarrow> go_error + 'w cloud_client"
  me_GetSecret :: "string \<Rightarrow> string \<Rightarrow> go_error + gomap"
  me_IsControlPlaneMachine :: "Machine \<Rightarrow> bool"
  me_yaml_keys :: "string \<Rightarrow> go_error + string list"
  me_yaml_cfg :: "string \<Rightarrow> go_error + cloudConfig"
  me_gzip :: "string \<Rightarrow> go_error + string"

section \<open>Reading and writing the machine object\<close>

abbreviation InstanceID :: "VerdaMachine \<Rightarrow> string" where
  "InstanceID vm \<equiv> mst_InstanceID (vm_Status vm)"

abbreviation vm_Name :: "VerdaMachine \<Rightarrow> string" where "vm_Name vm \<equiv> om_Name (vm_Meta vm)"
abbreviation vm_Namespace :: "VerdaMachine \<Rightarrow> string" where "vm_Namespace vm \<equiv> om_Namespace (vm_Meta vm)"

abbreviation upd_status :: "(VerdaMachineStatus \<Rightarrow> VerdaMachineStatus) \<Rightarrow> VerdaMachine \<Rightarrow> VerdaMachine" where
  "upd_status f vm \<equiv> vm\<lparr>vm_Status := f (vm_Status vm)\<rparr>"

definition set_condition :: "klib \<Rightarrow> VerdaMachine \<Rightarrow> Condition \<Rightarrow> VerdaMachine" where
  "set_condition K vm c = upd_status (\<lambda>s. s\<lparr>mst_Conditions := conditions_Set K (mst_Conditions s) c\<rparr>) vm"

definition setInstanceReadyFalse :: "klib \<Rightarrow> VerdaMachine \<Rightarrow> string \<Rightarrow> message \<Rightarrow> VerdaMachine" where
  "setInstanceReadyFalse K vm reason message =
     set_condition K vm \<lparr>cond_Type = InstanceReadyCondition, cond_Status = ConditionFalse,
       cond_Reason = reason, cond_Message = message\<rparr>"

definition set_ready_true :: "klib \<Rightarrow> VerdaMachine \<Rightarrow> string \<Rightarrow> VerdaMachine" where
  "set_ready_true K vm condition =
     set_condition K vm \<lparr>cond_Type = condition, cond_Status = ConditionTrue,
       cond_Reason = ReadyReason K, cond_Message = Text ''''\<rparr>"

definition machineTagValue :: "VerdaMachine \<Rightarrow> string" where
  "machineTagValue vm = truncateTag (vm_Namespace vm @ ''/'' @ vm_Name vm)"

definition instanceAddresses :: "Instance \<Rightarrow> MachineAddress list" where
  "instanceAddresses inst =
     (MachineHostName, i_Hostname inst) #
     (if i_IP inst \<noteq> '''' then [(MachineExternalIP, i_IP inst), (MachineInternalIP, i_IP inst)] else [])"

definition dataVolumes :: "VerdaMachine \<Rightarrow> DataVolumeSpec list" where
  "dataVolumes vm =
     map (\<lambda>v. \<lparr>dv_Name = av_Name v, dv_SizeGB = av_SizeGB v, dv_Type = av_Type v\<rparr>)
       (elems (ms_AdditionalVolumes (vm_Spec vm)))"

definition osVolumeName :: "VerdaMachine \<Rightarrow> string" where
  "osVolumeName vm = vm_Namespace vm @ ''-'' @ vm_Name vm @ ''-os''"

definition osVolumeSize :: "VerdaMachine \<Rightarrow> int" where
  "osVolumeSize vm = (if ms_OSVolumeID (vm_Spec vm) \<noteq> '''' then 0 else ms_OSVolumeSizeGB (vm_Spec vm))"

section \<open>Finding and creating the instance\<close>

definition findInstance :: "'w cloud_client \<Rightarrow> VerdaMachine \<Rightarrow> ('w, Instance option) call" where
  "findInstance c vm w =
     (if InstanceID vm \<noteq> '''' then
        (case GetInstance c (InstanceID vm) w of
           (Inr inst, w) \<Rightarrow> (Inr (Some inst), w)
         | (Inl err, w) \<Rightarrow>
             if \<not> errors_Is err ErrNotFound then (Inl err, w)
             else (Inr (Some (bare_Instance (InstanceID vm) StatusNotFound)), w))
      else
        (case FindInstanceByTag c TagMachine (machineTagValue vm) w of
           (Inl err, w) \<Rightarrow> if errors_Is err ErrNotFound then (Inr None, w) else (Inl err, w)
         | (Inr inst, w) \<Rightarrow> if instanceGone inst then (Inr None, w) else (Inr (Some inst), w)))"

definition getBootstrapData :: "'w machine_env \<Rightarrow> Machine \<Rightarrow> go_error + string" where
  "getBootstrapData env machine =
     (let ns = om_Namespace (ma_Meta machine); name = the (ma_DataSecretName machine) in
      case me_GetSecret env ns name of
        Inl err \<Rightarrow> Inl (Wrapf ''getting bootstrap data secret %s: %w'' [ns @ ''/'' @ name] err)
      | Inr data \<Rightarrow>
          (case map_of data ''value'' of
             None \<Rightarrow> Inl (Errorf (''bootstrap data secret %s has no '' @ dq @ ''value'' @ dq @ '' key'') [ns @ ''/'' @ name])
           | Some value \<Rightarrow> Inr value))"

definition machine_role :: "'w machine_env \<Rightarrow> Machine \<Rightarrow> string" where
  "machine_role env machine = (if me_IsControlPlaneMachine env machine then ''control-plane'' else ''worker'')"

definition instance_spec :: "'w machine_env \<Rightarrow> Cluster \<Rightarrow> VerdaCluster \<Rightarrow> Machine \<Rightarrow> VerdaMachine \<Rightarrow> string \<Rightarrow>
    string \<Rightarrow> InstanceSpec" where
  "instance_spec env cluster vc machine vm bootFrom script =
     (let role = machine_role env machine; cm = cl_Meta cluster; spec = vm_Spec vm in
      \<lparr>is_Hostname = vm_Name vm,
       is_Description = Sprintf ''Cluster API %s node for cluster %s/%s'' [role, om_Namespace cm, om_Name cm],
       is_InstanceType = ms_InstanceType spec,
       is_Image = bootFrom,
       is_Location = cs_Location (vc_Spec vc),
       is_SSHKeyIDs = elems (ms_SSHKeyIDs spec),
       is_OSVolumeSizeGB = osVolumeSize vm,
       is_Contract = ms_Contract spec,
       is_Spot = ptr_Deref (ms_Spot spec) False,
       is_SpotDiscontinuePolicy = ms_SpotDiscontinuePolicy spec,
       is_DataVolumes = dataVolumes vm,
       is_StartupScript = script,
       is_Tags =
         [(TagManagedBy, ManagedByValue),
          (TagCluster, om_Namespace cm @ ''/'' @ om_Name cm),
          (TagMachine, machineTagValue vm),
          (TagRole, role)]\<rparr>)"

definition createInstance :: "'w machine_env \<Rightarrow> 'w cloud_client \<Rightarrow> Cluster \<Rightarrow> VerdaCluster \<Rightarrow> Machine \<Rightarrow>
    VerdaMachine \<Rightarrow> string \<Rightarrow> ('w, Instance) call" where
  "createInstance env c cluster vc machine vm bootFrom w =
     (case getBootstrapData env machine of
        Inl err \<Rightarrow> (Inl err, w)
      | Inr bootstrapData \<Rightarrow>
          (case ToStartupScript (me_yaml_keys env) (me_yaml_cfg env) (me_gzip env) bootstrapData (vm_Name vm) of
             Inl err \<Rightarrow> (Inl (Wrapf ''converting bootstrap data to startup script: %w'' [] err), w)
           | Inr script \<Rightarrow>
               CreateInstance c (instance_spec env cluster vc machine vm bootFrom (br_Script script)) w))"

section \<open>The OS volume\<close>

text \<open>\<^verbatim>\<open>^[0-9a-f]{8}-[0-9a-f]{4}-[0-9a-f]{4}-[0-9a-f]{4}-[0-9a-f]{12}$\<close>\<close>

definition uuidRe :: "string \<Rightarrow> bool" where
  "uuidRe s =
     (let hex = (\<lambda>c::char. CHR ''0'' \<le> c \<and> c \<le> CHR ''9'' \<or> CHR ''a'' \<le> c \<and> c \<le> CHR ''f'');
          dash = (\<lambda>c::char. c = CHR ''-'')
      in list_all2 (\<lambda>p c. p c)
           (replicate 8 hex @ [dash] @ replicate 4 hex @ [dash] @ replicate 4 hex @ [dash] @
            replicate 4 hex @ [dash] @ replicate 12 hex) s)"

definition resolve_by_name :: "'w cloud_client \<Rightarrow> string \<Rightarrow> ('w, string) call" where
  "resolve_by_name c idOrName w =
     (case FindVolumeByName c idOrName w of
        (Inl err, w) \<Rightarrow>
          if errors_Is err ErrNotFound then (Inl (Errorf ''OS volume %q not found by ID or name'' [idOrName]), w)
          else (Inl err, w)
      | (Inr volume, w) \<Rightarrow>
          if \<not> v_IsOSVolume volume
          then (Inl (Errorf ''volume %q (%s) is not an OS volume'' [idOrName, v_ID volume]), w)
          else (Inr (v_ID volume), w))"

definition resolveOSVolume :: "'w cloud_client \<Rightarrow> string \<Rightarrow> ('w, string) call" where
  "resolveOSVolume c idOrName w =
     (if uuidRe (ToLower idOrName) then
        (case GetVolume c idOrName w of
           (Inr _, w) \<Rightarrow> (Inr idOrName, w)
         | (Inl err, w) \<Rightarrow>
             if \<not> errors_Is err ErrNotFound then (Inl err, w) else resolve_by_name c idOrName w)
      else resolve_by_name c idOrName w)"

definition os_volume_condition :: "klib \<Rightarrow> VerdaMachine \<Rightarrow> string \<Rightarrow> message \<Rightarrow> VerdaMachine" where
  "os_volume_condition K vm reason message =
     set_condition K vm \<lparr>cond_Type = OSVolumeReadyCondition, cond_Status = ConditionFalse,
       cond_Reason = reason, cond_Message = message\<rparr>"

text \<open>The volume is there: it is recorded, tagged, and its condition set.\<close>

definition record_volume :: "klib \<Rightarrow> 'w cloud_client \<Rightarrow> VerdaMachine \<Rightarrow> Volume \<Rightarrow> 'w \<Rightarrow>
    (go_error + Volume) \<times> VerdaMachine \<times> 'w" where
  "record_volume K c vm volume w =
     (let vm = upd_status (\<lambda>s. s\<lparr>mst_OSVolumeID := v_ID volume\<rparr>) vm;
          (volume, w) =
            (if \<not> v_Managed volume then
               (case EnsureVolumeTag c (v_ID volume) w of
                  (Inl err, w) \<Rightarrow> (volume, w)
                | (Inr _, w) \<Rightarrow> (volume\<lparr>v_Managed := True\<rparr>, w))
             else (volume, w));
          vm = (if v_Status volume = VolumeStatusDetached \<or> v_Status volume = VolumeStatusAttached then
                  if \<not> v_Managed volume
                  then os_volume_condition K vm ''Tagging''
                         (Sprintf ''OS volume %s is available but not yet tagged'' [v_ID volume])
                  else set_ready_true K vm OSVolumeReadyCondition
                else os_volume_condition K vm ''Cloning''
                       (Sprintf ''OS volume %s is in state %q'' [v_ID volume, v_Status volume]))
      in (Inr volume, vm, w))"

definition clone_volume :: "klib \<Rightarrow> 'w cloud_client \<Rightarrow> VerdaCluster \<Rightarrow> VerdaMachine \<Rightarrow> 'w \<Rightarrow>
    (go_error + Volume) \<times> VerdaMachine \<times> 'w" where
  "clone_volume K c vc vm w =
     (case resolveOSVolume c (ms_OSVolumeID (vm_Spec vm)) w of
        (Inl err, w) \<Rightarrow> (Inl err, os_volume_condition K vm ''SourceVolumeNotFound'' (ErrorText err), w)
      | (Inr sourceID, w) \<Rightarrow>
          (case CloneVolume c sourceID (osVolumeName vm) (cs_Location (vc_Spec vc)) w of
             (Inl err, w) \<Rightarrow> (Inl err, os_volume_condition K vm ''CloneFailed'' (ErrorText err), w)
           | (Inr ident, w) \<Rightarrow>
               record_volume K c (upd_status (\<lambda>s. s\<lparr>mst_OSVolumeID := ident\<rparr>) vm)
                 \<lparr>v_ID = ident, v_Name = osVolumeName vm, v_Status = ''cloning'', v_Location = '''',
                  v_IsOSVolume = False, v_InstanceID = '''', v_Managed = False\<rparr> w))"

definition ensureOSVolume :: "klib \<Rightarrow> 'w cloud_client \<Rightarrow> VerdaCluster \<Rightarrow> VerdaMachine \<Rightarrow> 'w \<Rightarrow>
    (go_error + Volume) \<times> VerdaMachine \<times> 'w" where
  "ensureOSVolume K c vc vm w =
     (case (if mst_OSVolumeID (vm_Status vm) \<noteq> '''' then GetVolume c (mst_OSVolumeID (vm_Status vm)) w
            else FindVolumeByName c (osVolumeName vm) w) of
        (Inl err, w) \<Rightarrow>
          if \<not> errors_Is err ErrNotFound then (Inl err, vm, w) else clone_volume K c vc vm w
      | (Inr volume, w) \<Rightarrow> record_volume K c vm volume w)"

definition ensureOSVolumeTag :: "klib \<Rightarrow> 'w cloud_client \<Rightarrow> VerdaMachine \<Rightarrow> 'w \<Rightarrow> VerdaMachine \<times> 'w" where
  "ensureOSVolumeTag K c vm w =
     (if mst_OSVolumeID (vm_Status vm) = '''' \<or>
         conditions_IsTrue K (mst_Conditions (vm_Status vm)) OSVolumeReadyCondition then (vm, w)
      else
        case GetVolume c (mst_OSVolumeID (vm_Status vm)) w of
          (Inl err, w) \<Rightarrow> (vm, w)
        | (Inr volume, w) \<Rightarrow>
            if \<not> v_Managed volume then
              (case EnsureVolumeTag c (v_ID volume) w of
                 (Inl err, w) \<Rightarrow> (vm, w)
               | (Inr _, w) \<Rightarrow> (set_ready_true K vm OSVolumeReadyCondition, w))
            else (set_ready_true K vm OSVolumeReadyCondition, w))"

definition deleteOSVolume :: "'w cloud_client \<Rightarrow> VerdaMachine \<Rightarrow> 'w \<Rightarrow> (go_error + unit) \<times> VerdaMachine \<times> 'w" where
  "deleteOSVolume c vm w =
     (let ident = mst_OSVolumeID (vm_Status vm);
          cleared = upd_status (\<lambda>s. s\<lparr>mst_OSVolumeID := ''''\<rparr>) vm
      in if ident = '''' then (Inr (), vm, w)
         else case GetVolume c ident w of
           (Inl err, w) \<Rightarrow> if errors_Is err ErrNotFound then (Inr (), cleared, w) else (Inl err, vm, w)
         | (Inr volume, w) \<Rightarrow>
             if v_Name volume \<noteq> osVolumeName vm then (Inr (), cleared, w)
             else if v_Status volume \<noteq> VolumeStatusDeleting \<and> v_Status volume \<noteq> VolumeStatusDeleted then
               (case DeleteVolume c ident w of
                  (Inl err, w) \<Rightarrow> (Inl err, vm, w)
                | (Inr _, w) \<Rightarrow> (Inr (), cleared, w))
             else (Inr (), cleared, w))"

section \<open>Reconciling\<close>

definition resync_condition :: "klib \<Rightarrow> VerdaMachine \<Rightarrow> Instance \<Rightarrow> VerdaMachine" where
  "resync_condition K vm inst =
     (if i_Status inst = StatusRunning then set_ready_true K vm InstanceReadyCondition
      else if instanceGone inst then
        setInstanceReadyFalse K vm InstanceTerminatedReason
          (Sprintf ''Verda instance %s is in state %q; delete the Machine to replace it'' [i_ID inst, i_Status inst])
      else if i_Status inst = StatusError' then
        setInstanceReadyFalse K vm InstanceFailedReason
          (Sprintf ''Verda instance %s is in state %q'' [i_ID inst, i_Status inst])
      else
        setInstanceReadyFalse K vm ''InstanceNotRunning''
          (Sprintf ''Verda instance %s is in state %q'' [i_ID inst, i_Status inst]))"

definition resyncInstance :: "klib \<Rightarrow> 'w cloud_client \<Rightarrow> VerdaMachine \<Rightarrow> 'w \<Rightarrow>
    (go_error + Result) \<times> VerdaMachine \<times> 'w" where
  "resyncInstance K c vm w =
     (case findInstance c vm w of
        (Inl err, w) \<Rightarrow> (Inl err, vm, w)
      | (Inr found, w) \<Rightarrow>
          let inst = (case found of None \<Rightarrow> bare_Instance (InstanceID vm) StatusNotFound | Some i \<Rightarrow> i);
              vm = upd_status (\<lambda>s. s\<lparr>mst_InstanceState := i_Status inst\<rparr>) vm;
              vm = (if i_IP inst \<noteq> '''' then upd_status (\<lambda>s. s\<lparr>mst_Addresses := instanceAddresses inst\<rparr>) vm else vm)
          in (Inr (requeue_after instanceResyncInterval), resync_condition K vm inst, w))"

text \<open>What \<^verbatim>\<open>reconcileNormal\<close> records of the instance it has found or created.\<close>

definition record_instance :: "klib \<Rightarrow> 'w cloud_client \<Rightarrow> VerdaMachine \<Rightarrow> Instance \<Rightarrow> 'w \<Rightarrow> VerdaMachine \<times> 'w" where
  "record_instance K c vm inst w =
     (let vm = upd_status (\<lambda>s. s\<lparr>mst_InstanceID := i_ID inst, mst_InstanceState := i_Status inst\<rparr>) vm;
          (vm, w) = ensureOSVolumeTag K c vm w;
          vm = (if i_StartupScriptID inst \<noteq> ''''
                then upd_status (\<lambda>s. s\<lparr>mst_StartupScriptID := i_StartupScriptID inst\<rparr>) vm else vm);
          vm = vm\<lparr>vm_Spec := (vm_Spec vm)\<lparr>ms_ProviderID := ProviderID (i_Hostname inst)\<rparr>\<rparr>
      in (upd_status (\<lambda>s. s\<lparr>mst_FailureDomain := i_Location inst, mst_Addresses := instanceAddresses inst\<rparr>) vm, w))"

text \<open>The switch on the instance's state at the end of \<^verbatim>\<open>reconcileNormal\<close>.\<close>

definition act_on_status :: "klib \<Rightarrow> 'w cloud_client \<Rightarrow> VerdaCluster \<Rightarrow> VerdaMachine \<Rightarrow> Instance \<Rightarrow> 'w \<Rightarrow>
    (go_error + Result) \<times> VerdaMachine \<times> 'w" where
  "act_on_status K c vc vm inst w =
     (if i_Status inst = StatusRunning then
        (Inr no_requeue,
         upd_status (\<lambda>s. s\<lparr>mst_Provisioned := Some True\<rparr>) (set_ready_true K vm InstanceReadyCondition), w)
      else if i_Status inst = StatusNoCapacity then
        (case DeleteInstance c (i_ID inst) w of
           (Inl err, w) \<Rightarrow> (Inl err, vm, w)
         | (Inr _, w) \<Rightarrow>
             let vm = upd_status (\<lambda>s. s\<lparr>mst_InstanceID := ''''\<rparr>) vm;
                 vm = vm\<lparr>vm_Spec := (vm_Spec vm)\<lparr>ms_ProviderID := ''''\<rparr>\<rparr>;
                 vm = upd_status (\<lambda>s. s\<lparr>mst_Addresses := []\<rparr>) vm
             in (Inr (requeue_after noCapacityRetryInterval),
                 setInstanceReadyFalse K vm NoCapacityReason
                   (Sprintf ''Verda has no capacity for instance type %s in %s; retrying''
                      [ms_InstanceType (vm_Spec vm), cs_Location (vc_Spec vc)]), w))
      else if i_Status inst = StatusError' \<or> i_Status inst = StatusDiscontinued \<or> i_Status inst = StatusNotFound then
        (Inr no_requeue,
         setInstanceReadyFalse K vm (if instanceGone inst then InstanceTerminatedReason else InstanceFailedReason)
           (Sprintf ''Verda instance %s is in state %q'' [i_ID inst, i_Status inst]), w)
      else
        (Inr (requeue_after instancePollInterval),
         setInstanceReadyFalse K vm InstanceProvisioningReason
           (Sprintf ''Verda instance %s is in state %q'' [i_ID inst, i_Status inst]), w))"

definition use_instance :: "klib \<Rightarrow> 'w cloud_client \<Rightarrow> VerdaCluster \<Rightarrow> VerdaMachine \<Rightarrow> Instance \<Rightarrow> 'w \<Rightarrow>
    (go_error + Result) \<times> VerdaMachine \<times> 'w" where
  "use_instance K c vc vm inst w =
     (let (vm, w) = record_instance K c vm inst w in act_on_status K c vc vm inst w)"

definition create_and_use :: "'w machine_env \<Rightarrow> 'w cloud_client \<Rightarrow> Cluster \<Rightarrow> VerdaCluster \<Rightarrow> Machine \<Rightarrow>
    VerdaMachine \<Rightarrow> string \<Rightarrow> 'w \<Rightarrow> (go_error + Result) \<times> VerdaMachine \<times> 'w" where
  "create_and_use env c cluster vc machine vm bootFrom w =
     (case createInstance env c cluster vc machine vm bootFrom w of
        (Inl err, w) \<Rightarrow>
          if errors_Is err ErrHostnameInUse
          then (Inr (requeue_after instanceResyncInterval),
                setInstanceReadyFalse (me_lib env) vm ''HostnameInUse'' (ErrorText err), w)
          else (Inl err, setInstanceReadyFalse (me_lib env) vm ''InstanceCreateFailed'' (ErrorText err), w)
      | (Inr inst, w) \<Rightarrow> use_instance (me_lib env) c vc vm inst w)"

definition reconcileNormal :: "'w machine_env \<Rightarrow> 'w cloud_client \<Rightarrow> Cluster \<Rightarrow> VerdaCluster \<Rightarrow> Machine \<Rightarrow>
    VerdaMachine \<Rightarrow> 'w \<Rightarrow> (go_error + Result) \<times> VerdaMachine \<times> 'w" where
  "reconcileNormal env c cluster vc machine vm w =
     (let K = me_lib env in
      if ptr_Deref (mst_Provisioned (vm_Status vm)) False then resyncInstance K c vm w
      else if \<not> ptr_Deref (cl_InfrastructureProvisioned cluster) False then
        (Inr no_requeue,
         setInstanceReadyFalse K vm ''WaitingForClusterInfrastructure''
           (Text ''Cluster infrastructure is not provisioned yet''), w)
      else if ma_DataSecretName machine = None then
        (Inr no_requeue,
         setInstanceReadyFalse K vm ''WaitingForBootstrapData''
           (Text ''Machine bootstrap data secret is not available yet''), w)
      else
        case findInstance c vm w of
          (Inl err, w) \<Rightarrow> (Inl err, vm, w)
        | (Inr (Some inst), w) \<Rightarrow> use_instance K c vc vm inst w
        | (Inr None, w) \<Rightarrow>
            if ms_OSVolumeID (vm_Spec vm) \<noteq> '''' then
              (case ensureOSVolume K c vc vm w of
                 (Inl err, vm, w) \<Rightarrow> (Inl err, vm, w)
               | (Inr volume, vm, w) \<Rightarrow>
                   if v_Status volume \<noteq> VolumeStatusDetached
                   then (Inr (requeue_after instancePollInterval),
                         setInstanceReadyFalse K vm ''WaitingForOSVolume''
                           (Sprintf ''OS volume clone %s is in state %q'' [v_ID volume, v_Status volume]), w)
                   else create_and_use env c cluster vc machine vm (v_ID volume) w)
            else create_and_use env c cluster vc machine vm (ms_Image (vm_Spec vm)) w)"

section \<open>Deleting\<close>

text \<open>The end of \<^verbatim>\<open>reconcileDelete\<close>: script, OS volume, finalizer.\<close>

definition remove_finalizer :: "klib \<Rightarrow> VerdaMachine \<Rightarrow> VerdaMachine" where
  "remove_finalizer K vm = vm\<lparr>vm_Meta := (vm_Meta vm)\<lparr>om_Finalizers :=
     controllerutil_RemoveFinalizer K (om_Finalizers (vm_Meta vm)) MachineFinalizer\<rparr>\<rparr>"

definition delete_script :: "'w cloud_client \<Rightarrow> VerdaMachine \<Rightarrow> 'w \<Rightarrow> (go_error + unit) \<times> VerdaMachine \<times> 'w" where
  "delete_script c vm w =
     (let scriptID = mst_StartupScriptID (vm_Status vm) in
      if scriptID \<noteq> '''' then
        (case DeleteStartupScript c scriptID w of
           (Inl err, w) \<Rightarrow> (Inl err, vm, w)
         | (Inr _, w) \<Rightarrow> (Inr (), upd_status (\<lambda>s. s\<lparr>mst_StartupScriptID := ''''\<rparr>) vm, w))
      else
        (case DeleteStartupScriptByName c (vm_Name vm) w of
           (Inl err, w) \<Rightarrow> (Inl err, vm, w)
         | (Inr _, w) \<Rightarrow> (Inr (), vm, w)))"

definition finish_delete :: "klib \<Rightarrow> 'w cloud_client \<Rightarrow> VerdaMachine \<Rightarrow> 'w \<Rightarrow>
    (go_error + Result) \<times> VerdaMachine \<times> 'w" where
  "finish_delete K c vm w =
     (case delete_script c vm w of
        (Inl err, vm, w) \<Rightarrow> (Inl err, vm, w)
      | (Inr _, vm, w) \<Rightarrow>
          (case deleteOSVolume c vm w of
             (Inl err, vm, w) \<Rightarrow> (Inl err, vm, w)
           | (Inr _, vm, w) \<Rightarrow> (Inr no_requeue, remove_finalizer K vm, w)))"

definition request_delete :: "klib \<Rightarrow> nat \<Rightarrow> 'w cloud_client \<Rightarrow> VerdaMachine \<Rightarrow> Instance \<Rightarrow> 'w \<Rightarrow>
    (go_error + Result) \<times> VerdaMachine \<times> 'w" where
  "request_delete K now c vm inst w =
     (let waiting = (\<lambda>vm. upd_status (\<lambda>s. s\<lparr>mst_InstanceState := i_Status inst\<rparr>) vm) in
      if i_Status inst = StatusDeleting then (Inr (requeue_after deletePollInterval), waiting vm, w)
      else
        let (due, meta) = deleteRequestDue now (vm_Meta vm) '''' (i_Status inst);
            vm = vm\<lparr>vm_Meta := meta\<rparr>
        in if \<not> due then (Inr (requeue_after deletePollInterval), waiting vm, w)
           else case DeleteInstance c (i_ID inst) w of
             (Inl err, w) \<Rightarrow> (Inl err, vm, w)
           | (Inr _, w) \<Rightarrow>
               (Inr (requeue_after deletePollInterval),
                waiting (setInstanceReadyFalse K vm InstanceDeleteRequestedReason
                  (Sprintf ''Delete requested for Verda instance %s (was %s)'' [i_ID inst, i_Status inst])), w))"

definition reconcileDelete :: "klib \<Rightarrow> nat \<Rightarrow> 'w cloud_client \<Rightarrow> VerdaMachine \<Rightarrow> 'w \<Rightarrow>
    (go_error + Result) \<times> VerdaMachine \<times> 'w" where
  "reconcileDelete K now c vm w =
     (let vm = setInstanceReadyFalse K vm (DeletingReason K) (Text ''Deleting Verda instance'') in
      case findInstance c vm w of
        (Inl err, w) \<Rightarrow> (Inl err, vm, w)
      | (Inr None, w) \<Rightarrow> finish_delete K c vm w
      | (Inr (Some inst), w) \<Rightarrow>
          if \<not> instanceGone inst then request_delete K now c vm inst w
          else if i_Status inst \<noteq> StatusNotFound then
            (case PurgeInstanceVolumes c (i_ID inst) w of
               (Inl err, w) \<Rightarrow> (Inl err, vm, w)
             | (Inr pending, w) \<Rightarrow>
                 if pending > 0 then (Inr (requeue_after deletePollInterval), vm, w)
                 else finish_delete K c vm w)
          else finish_delete K c vm w)"

section \<open>The entry point\<close>

definition ready_condition :: "klib \<Rightarrow> VerdaMachine \<Rightarrow> Condition" where
  "ready_condition K vm =
     (let conds = mst_Conditions (vm_Status vm) in
      if om_DeletionTimestamp (vm_Meta vm) \<noteq> None then
        \<lparr>cond_Type = ReadyCondition, cond_Status = ConditionFalse, cond_Reason = DeletingReason K, cond_Message = Text ''''\<rparr>
      else if \<not> conditions_IsTrue K conds InstanceReadyCondition then
        \<lparr>cond_Type = ReadyCondition, cond_Status = ConditionFalse, cond_Reason = NotReadyReason K,
         cond_Message = conditions_GetMessage K conds InstanceReadyCondition\<rparr>
      else
        \<lparr>cond_Type = ReadyCondition, cond_Status = ConditionTrue, cond_Reason = ReadyReason K, cond_Message = Text ''''\<rparr>)"

definition patchVerdaMachine :: "'w machine_env \<Rightarrow> VerdaMachine \<Rightarrow> go_error option \<times> VerdaMachine" where
  "patchVerdaMachine env vm =
     (let vm = set_condition (me_lib env) vm (ready_condition (me_lib env) vm) in (me_Patch env vm, vm))"

text \<open>
  The outcome of a call of \<^verbatim>\<open>Reconcile\<close>: its result, the object handed to the patch helper
  (\<open>None\<close> when none was), and the cloud.
\<close>

type_synonym 'w outcome = "(go_error + Result) \<times> VerdaMachine option \<times> 'w"

definition with_patch :: "'w machine_env \<Rightarrow> (go_error + Result) \<times> VerdaMachine \<times> 'w \<Rightarrow> 'w outcome" where
  "with_patch env r =
     (case r of (res, vm, w) \<Rightarrow>
        let (err, vm) = patchVerdaMachine env vm in (with_patch_error err res, Some vm, w))"

definition reconcileOrphanDelete :: "'w machine_env \<Rightarrow> VerdaMachine \<Rightarrow> 'w \<Rightarrow> 'w outcome" where
  "reconcileOrphanDelete env vm w =
     (case me_NewHelper env vm of
        Inl err \<Rightarrow> (Inl err, None, w)
      | Inr _ \<Rightarrow> with_patch env
          (case me_ClientFor env \<lparr>id_Namespace = vm_Namespace vm, id_SecretName = ''''\<rparr> of
             Inl err \<Rightarrow> (Inl err, vm, w)
           | Inr c \<Rightarrow> reconcileDelete (me_lib env) (me_now env) c vm w))"

text \<open>
  The part of \<^verbatim>\<open>Reconcile\<close> after the patch helper is set up. \<open>vc = None\<close> only comes with a
  machine that is being deleted.
\<close>

definition reconcile_scope :: "'w machine_env \<Rightarrow> Cluster \<Rightarrow> VerdaCluster option \<Rightarrow> Machine \<Rightarrow> VerdaMachine \<Rightarrow> 'w \<Rightarrow>
    (go_error + Result) \<times> VerdaMachine \<times> 'w" where
  "reconcile_scope env cluster vc machine vm w =
     (case me_ClientFor env
        \<lparr>id_Namespace = vm_Namespace vm,
         id_SecretName = (case vc of Some v \<Rightarrow> IdentitySecretName v | None \<Rightarrow> '''')\<rparr> of
        Inl err \<Rightarrow> (Inl err, setInstanceReadyFalse (me_lib env) vm ''CredentialsUnavailable'' (ErrorText err), w)
      | Inr c \<Rightarrow>
          if om_DeletionTimestamp (vm_Meta vm) \<noteq> None then reconcileDelete (me_lib env) (me_now env) c vm w
          else
            (case vc of
               Some v \<Rightarrow> reconcileNormal env c cluster v machine vm w
             | None \<Rightarrow> (Inl (Opaque ''nil pointer dereference''), vm, w)))"

definition Reconcile :: "'w machine_env \<Rightarrow> 'w \<Rightarrow> 'w outcome" where
  "Reconcile env w =
     (case me_GetVerdaMachine env of
        Inl err \<Rightarrow> if apierrors_IsNotFound err then (Inr no_requeue, None, w) else (Inl err, None, w)
      | Inr vm \<Rightarrow>
     (case me_EnsureFinalizer env vm of
        Inl err \<Rightarrow> (Inl err, None, w)
      | Inr finalizerAdded \<Rightarrow>
          if finalizerAdded then (Inr no_requeue, None, w) else
     (case me_GetOwnerMachine env (vm_Meta vm) of
        Inl err \<Rightarrow> (Inl err, None, w)
      | Inr None \<Rightarrow>
          if om_DeletionTimestamp (vm_Meta vm) \<noteq> None then reconcileOrphanDelete env vm w
          else (Inr no_requeue, None, w)
      | Inr (Some machine) \<Rightarrow>
     (case me_GetClusterFromMetadata env (ma_Meta machine) of
        Inl err \<Rightarrow> (Inl err, None, w)
      | Inr cluster \<Rightarrow>
     (case me_EnsurePausedCondition env cluster vm of
        (Inl err, vm) \<Rightarrow> (Inl err, None, w)
      | (Inr (isPaused, requeue), vm) \<Rightarrow>
          if isPaused \<or> requeue then (Inr no_requeue, None, w) else
     (let vc = me_GetVerdaCluster env (vm_Namespace vm) (cl_InfrastructureRefName cluster) in
      case vc of
        Inl err \<Rightarrow>
          if \<not> apierrors_IsNotFound err then (Inl err, None, w)
          else if om_DeletionTimestamp (vm_Meta vm) = None then (Inr no_requeue, None, w)
          else (case me_NewHelper env vm of
                  Inl err \<Rightarrow> (Inl err, None, w)
                | Inr _ \<Rightarrow> with_patch env (reconcile_scope env cluster None machine vm w))
      | Inr v \<Rightarrow>
          (case me_NewHelper env vm of
             Inl err \<Rightarrow> (Inl err, None, w)
           | Inr _ \<Rightarrow> with_patch env (reconcile_scope env cluster (Some v) machine vm w))))))))"

end
