(* ===== verification/LiveInstances.thy ===== *)
theory LiveInstances
  imports ControllerCommon
begin

text \<open>
  What the reconcilers keep true of the instances they own. A machine and the two load balancers
  of a cluster are each found by a recorded id or by a tag \<open>key\<close> with a value \<open>v\<close>; the predicate \<open>safe\<close>
  says that at most one instance with that tag is live, and that it is the recorded one. The
  second part has the frame rules for the calls of a client that satisfies \<open>cloud_contract\<close>.
\<close>

section \<open>Live instances with a tag\<close>

definition tagged :: "string \<Rightarrow> string \<Rightarrow> Instance \<Rightarrow> bool" where
  "tagged key v i = (go_get (i_Tags i) key = v)"

definition live_ids :: "string \<Rightarrow> string \<Rightarrow> (string \<rightharpoonup> Instance) \<Rightarrow> string set" where
  "live_ids key v m = {k. \<exists>i. m k = Some i \<and> tagged key v i \<and> \<not> instanceGone i}"

text \<open>
  The listing shows a tagged instance that is gone as discontinued, not as deleted or
  not found.
\<close>

definition listed_ok :: "string \<Rightarrow> string \<Rightarrow> (string \<rightharpoonup> Instance) \<Rightarrow> bool" where
  "listed_ok key v m = (\<forall>i \<in> ran m. tagged key v i \<longrightarrow> instanceGone i \<longrightarrow> i_Status i = StatusDiscontinued)"

definition at_most_one :: "'b set \<Rightarrow> bool" where
  "at_most_one S = (\<forall>x\<in>S. \<forall>y\<in>S. x = y)"

lemma at_most_one_mono: "at_most_one S \<Longrightarrow> T \<subseteq> S \<Longrightarrow> at_most_one T"
  by (auto simp: at_most_one_def)

lemma live_ids_added:
  assumes "added m s i m'"
  shows "live_ids key v m' \<subseteq> insert (i_ID i) (live_ids key v m)"
    and "go_get (is_Tags s) key \<noteq> v \<Longrightarrow> live_ids key v m' = live_ids key v m"
  using assms by (auto simp: added_def live_ids_def tagged_def split: if_splits)

lemma ages_gone: "ages_to i i' \<Longrightarrow> i_Status i = StatusDiscontinued \<Longrightarrow> instanceGone i'"
  by (simp add: ages_to_def)

lemma ages_tagged: "ages_to i i' \<Longrightarrow> tagged key v i' = tagged key v i"
  by (simp add: ages_to_def tagged_def)

text \<open>Instances that age, vanish or are not this machine's give it no new live instance.\<close>

lemma live_ids_aged:
  assumes "listed_ok key v m"
    and "\<And>k i'. m' k = Some i' \<Longrightarrow> tagged key v i' \<Longrightarrow> \<exists>i. m k = Some i \<and> ages_to i i'"
  shows "live_ids key v m' \<subseteq> live_ids key v m"
proof
  fix k assume "k \<in> live_ids key v m'"
  then obtain i' where i': "m' k = Some i'" "tagged key v i'" "\<not> instanceGone i'" by (auto simp: live_ids_def)
  with assms(2) obtain i where i: "m k = Some i" "ages_to i i'" by blast
  with i' have "tagged key v i" by (simp add: ages_tagged)
  moreover from this i i' assms(1) have "\<not> instanceGone i"
    unfolding listed_ok_def by (meson ages_gone ranI)
  ultimately show "k \<in> live_ids key v m" using i by (auto simp: live_ids_def)
qed

text \<open>
  The invariant: a machine has at most one live instance, and once the object records an
  instance, no other instance of the machine is live.
\<close>

definition safe :: "string \<Rightarrow> string \<Rightarrow> string \<Rightarrow> (string \<rightharpoonup> Instance) \<Rightarrow> bool" where
  "safe key v ident m = (at_most_one (live_ids key v m) \<and> (ident \<noteq> '''' \<longrightarrow> live_ids key v m \<subseteq> {ident}))"

lemma safe_mono: "safe key v ident m \<Longrightarrow> live_ids key v m' \<subseteq> live_ids key v m \<Longrightarrow> safe key v ident m'"
  by (auto simp: safe_def intro: at_most_one_mono)

lemma safe_none: "safe key v ident m \<Longrightarrow> safe key v '''' m"
  by (simp add: safe_def)

lemma safe_adopt: "safe key v ident m \<Longrightarrow> k \<in> live_ids key v m \<Longrightarrow> safe key v k m"
  by (auto simp: safe_def at_most_one_def)

lemma safe_single: "live_ids key v m \<subseteq> {k} \<Longrightarrow> safe key v k m"
  by (auto simp: safe_def at_most_one_def)

lemma listed_ok_added:
  assumes "listed_ok key v m" "added m s i m'" "\<not> instanceGone i"
  shows "listed_ok key v m'"
  using assms by (auto simp: listed_ok_def added_def ran_map_upd)

text \<open>What others do to the cloud: no new instance with this machine's tag, and its instances only age.\<close>

definition cloud_evolves :: "string \<Rightarrow> string \<Rightarrow> (string \<rightharpoonup> Instance) \<Rightarrow> (string \<rightharpoonup> Instance) \<Rightarrow> bool" where
  "cloud_evolves key v m m' =
     (\<forall>k i'. m' k = Some i' \<longrightarrow> tagged key v i' \<longrightarrow> (\<exists>i. m k = Some i \<and> ages_to i i'))"

section \<open>Calls under the contract\<close>

context cloud_contract
begin

definition frame :: "'w \<Rightarrow> 'w \<Rightarrow> bool" where
  "frame w w' = (invar w' \<and> insts w' = insts w)"

lemma frame_refl: "invar w \<Longrightarrow> frame w w"
  by (simp add: frame_def)

lemma frameD: "frame w w' \<Longrightarrow> invar w'" "frame w w' \<Longrightarrow> insts w' = insts w"
  by (simp_all add: frame_def)

lemma frame_trans: "frame w w' \<Longrightarrow> frame w' w'' \<Longrightarrow> frame w w''"
  by (simp add: frame_def)

lemma frames:
  "invar w \<Longrightarrow> GetInstance c k w = (r1, w') \<Longrightarrow> frame w w'"
  "invar w \<Longrightarrow> FindInstanceByTag c k v w = (r1, w') \<Longrightarrow> frame w w'"
  "invar w \<Longrightarrow> PurgeInstanceVolumes c k w = (r2, w') \<Longrightarrow> frame w w'"
  "invar w \<Longrightarrow> DeleteStartupScript c k w = (r3, w') \<Longrightarrow> frame w w'"
  "invar w \<Longrightarrow> DeleteStartupScriptByName c k w = (r3, w') \<Longrightarrow> frame w w'"
  "invar w \<Longrightarrow> GetVolume c k w = (r4, w') \<Longrightarrow> frame w w'"
  "invar w \<Longrightarrow> FindVolumeByName c k w = (r4, w') \<Longrightarrow> frame w w'"
  "invar w \<Longrightarrow> CloneVolume c k n l w = (r5, w') \<Longrightarrow> frame w w'"
  "invar w \<Longrightarrow> DeleteVolume c k w = (r3, w') \<Longrightarrow> frame w w'"
  "invar w \<Longrightarrow> EnsureVolumeTag c k w = (r3, w') \<Longrightarrow> frame w w'"
  unfolding frame_def
  by (rule GetInstance_reads FindInstanceByTag_reads PurgeInstanceVolumes_keeps DeleteStartupScript_keeps
      DeleteStartupScriptByName_keeps GetVolume_keeps FindVolumeByName_keeps CloneVolume_keeps
      DeleteVolume_keeps EnsureVolumeTag_keeps; assumption)+

lemma framed:
  assumes "frame w0 w"
  shows "GetInstance c k w = (r1, w') \<Longrightarrow> frame w0 w'"
    and "FindInstanceByTag c k v w = (r1, w') \<Longrightarrow> frame w0 w'"
    and "PurgeInstanceVolumes c k w = (r2, w') \<Longrightarrow> frame w0 w'"
    and "DeleteStartupScript c k w = (r3, w') \<Longrightarrow> frame w0 w'"
    and "DeleteStartupScriptByName c k w = (r3, w') \<Longrightarrow> frame w0 w'"
    and "GetVolume c k w = (r4, w') \<Longrightarrow> frame w0 w'"
    and "FindVolumeByName c k w = (r4, w') \<Longrightarrow> frame w0 w'"
    and "CloneVolume c k n l w = (r5, w') \<Longrightarrow> frame w0 w'"
    and "DeleteVolume c k w = (r3, w') \<Longrightarrow> frame w0 w'"
    and "EnsureVolumeTag c k w = (r3, w') \<Longrightarrow> frame w0 w'"
  by (rule frame_trans [OF assms], erule frames [OF frameD(1) [OF assms]])+

text \<open>A delete request touches one instance.\<close>

lemma DeleteInstance_live:
  assumes "invar w" "DeleteInstance c k w = (r, w')" "listed_ok key v (insts w)"
  shows "invar w' \<and> live_ids key v (insts w') \<subseteq> live_ids key v (insts w)"
proof
  show "invar w'" using DeleteInstance_invar assms(1,2) by blast
  show "live_ids key v (insts w') \<subseteq> live_ids key v (insts w)"
  proof (rule live_ids_aged [OF assms(3)])
    fix k' i'
    assume "insts w' k' = Some i'"
    then show "\<exists>i. insts w k' = Some i \<and> ages_to i i'"
      using DeleteInstance_others [OF assms(1,2), of k'] DeleteInstance_ages [OF assms(1,2)]
      by (cases "k' = k") auto
  qed
qed

end

end
