(* ===== verification/MachineProps.thy ===== *)
theory MachineProps
  imports MachineController LiveInstances
begin

text \<open>
  What the machine reconciler guarantees of the instances, proved once for every client that keeps
  \<open>cloud_contract\<close>: it never makes a second live instance for a machine, and it gives up the
  finalizer only when no live instance of the machine is left.
\<close>

section \<open>Which parts of the object an operation touches\<close>

definition same_machine :: "VerdaMachine \<Rightarrow> VerdaMachine \<Rightarrow> bool" where
  "same_machine vm vm' = (vm_Name vm' = vm_Name vm \<and> vm_Namespace vm' = vm_Namespace vm)"

definition keeps_machine :: "VerdaMachine \<Rightarrow> VerdaMachine \<Rightarrow> bool" where
  "keeps_machine vm vm' = (vm_Meta vm' = vm_Meta vm \<and> InstanceID vm' = InstanceID vm)"

lemma keeps_machine_refl [simp]: "keeps_machine vm vm"
  by (simp add: keeps_machine_def)

lemma keeps_machine_trans: "keeps_machine a b \<Longrightarrow> keeps_machine b c \<Longrightarrow> keeps_machine a c"
  by (simp add: keeps_machine_def)

lemma same_machine_refl [simp]: "same_machine vm vm"
  by (simp add: same_machine_def)

lemma keeps_same: "keeps_machine vm vm' \<Longrightarrow> same_machine vm vm'"
  by (simp add: keeps_machine_def same_machine_def)

lemma machineTagValue_same: "same_machine vm vm' \<Longrightarrow> machineTagValue vm' = machineTagValue vm"
  by (simp add: same_machine_def machineTagValue_def)

lemma machineTagValue_nonempty [simp]: "machineTagValue vm \<noteq> ''''"
  by (auto simp: machineTagValue_def truncateTag_def ToLower_def)

lemma setters_keep [simp]:
  "keeps_machine vm (set_condition K vm cond)"
  "keeps_machine vm (setInstanceReadyFalse K vm reason msg)"
  "keeps_machine vm (set_ready_true K vm t)"
  "keeps_machine vm (os_volume_condition K vm reason msg)"
  by (simp_all add: keeps_machine_def set_condition_def setInstanceReadyFalse_def set_ready_true_def
      os_volume_condition_def)

lemma setters_fields [simp]:
  "vm_Meta (set_condition K vm cond) = vm_Meta vm"
  "vm_Meta (setInstanceReadyFalse K vm reason msg) = vm_Meta vm"
  "vm_Meta (set_ready_true K vm t) = vm_Meta vm"
  "vm_Meta (os_volume_condition K vm reason msg) = vm_Meta vm"
  "InstanceID (set_condition K vm cond) = InstanceID vm"
  "InstanceID (setInstanceReadyFalse K vm reason msg) = InstanceID vm"
  "InstanceID (set_ready_true K vm t) = InstanceID vm"
  "InstanceID (os_volume_condition K vm reason msg) = InstanceID vm"
  "vm_Spec (set_condition K vm cond) = vm_Spec vm"
  "vm_Spec (setInstanceReadyFalse K vm reason msg) = vm_Spec vm"
  "vm_Spec (set_ready_true K vm t) = vm_Spec vm"
  "vm_Spec (os_volume_condition K vm reason msg) = vm_Spec vm"
  by (simp_all add: set_condition_def setInstanceReadyFalse_def set_ready_true_def os_volume_condition_def)

section \<open>Tags of a machine's instance\<close>

lemma instance_spec_tags:
  "distinct (map fst (is_Tags (instance_spec env cluster vc machine vm b s)))"
  "go_get (is_Tags (instance_spec env cluster vc machine vm b s)) TagMachine = machineTagValue vm"
  "go_get (is_Tags (instance_spec env cluster vc machine vm b s)) TagManagedBy = ManagedByValue"
  by (simp_all add: instance_spec_def Let_def)

text \<open>
  The secret whose credentials a call uses for the machine: the one of its cluster, and none, which
  stands for the manager's own credentials, for a machine without an owner or whose VerdaCluster is
  gone.
\<close>

definition used_secret :: "'w machine_env \<Rightarrow> VerdaMachine \<Rightarrow> string" where
  "used_secret env vm =
     (case me_GetOwnerMachine env (vm_Meta vm) of
        Inr (Some machine) \<Rightarrow>
          (case me_GetClusterFromMetadata env (ma_Meta machine) of
             Inr cluster \<Rightarrow>
               (case me_GetVerdaCluster env (vm_Namespace vm) (cl_InfrastructureRefName cluster) of
                  Inr vc \<Rightarrow> IdentitySecretName vc
                | Inl _ \<Rightarrow> '''')
           | Inl _ \<Rightarrow> '''')
      | _ \<Rightarrow> '''')"

text \<open>
  The environment of one call of \<^verbatim>\<open>Reconcile\<close> for the object \<open>vm\<close>: the API server returns
  \<open>vm\<close>, the credentials the call uses lead to the account behind \<open>c\<close>, and the pause check leaves
  the machine's name and instance alone. Everything else is arbitrary.
\<close>

definition env_for :: "'w machine_env \<Rightarrow> VerdaMachine \<Rightarrow> 'w cloud_client \<Rightarrow> bool" where
  "env_for env vm c = (me_GetVerdaMachine env = Inr vm \<and>
     (\<forall>c'. me_ClientFor env \<lparr>id_Namespace = vm_Namespace vm, id_SecretName = used_secret env vm\<rparr> = Inr c' \<longrightarrow> c' = c) \<and>
     (\<forall>cl vm0 r vm1. me_EnsurePausedCondition env cl vm0 = (r, vm1) \<longrightarrow> keeps_machine vm0 vm1))"

text \<open>
  The life of a machine: calls of \<^verbatim>\<open>Reconcile\<close> whose patch is stored or lost, edits of the
  object that keep its recorded instance, and changes in the cloud, in any order.
\<close>

inductive machine_step :: "'w cloud_client \<Rightarrow> ('w \<Rightarrow> string \<rightharpoonup> Instance) \<Rightarrow> ('w \<Rightarrow> bool) \<Rightarrow>
    VerdaMachine \<times> 'w \<Rightarrow> VerdaMachine \<times> 'w \<Rightarrow> bool"
  for c insts invar where
  reconciled: "env_for env vm c \<Longrightarrow> Reconcile env w = (r, out, w') \<Longrightarrow> vm' = vm \<or> out = Some vm' \<Longrightarrow>
     machine_step c insts invar (vm, w) (vm', w')"
| edited: "same_machine vm vm' \<Longrightarrow> InstanceID vm' = InstanceID vm \<Longrightarrow>
     machine_step c insts invar (vm, w) (vm', w)"
| evolved: "cloud_evolves TagMachine (machineTagValue vm) (insts w) (insts w') \<Longrightarrow> invar w' \<Longrightarrow>
     machine_step c insts invar (vm, w) (vm, w')"

inductive machine_reach :: "'w cloud_client \<Rightarrow> ('w \<Rightarrow> string \<rightharpoonup> Instance) \<Rightarrow> ('w \<Rightarrow> bool) \<Rightarrow>
    VerdaMachine \<Rightarrow> 'w \<Rightarrow> bool"
  for c insts invar where
  new_machine: "invar w \<Longrightarrow> InstanceID vm = '''' \<Longrightarrow> live_ids TagMachine (machineTagValue vm) (insts w) = {} \<Longrightarrow>
     listed_ok TagMachine (machineTagValue vm) (insts w) \<Longrightarrow> machine_reach c insts invar vm w"
| next_step: "machine_reach c insts invar vm w \<Longrightarrow> machine_step c insts invar (vm, w) (vm', w') \<Longrightarrow>
     listed_ok TagMachine (machineTagValue vm') (insts w') \<Longrightarrow> machine_reach c insts invar vm' w'"

lemma findInstance_cong:
  "InstanceID vm' = InstanceID vm \<Longrightarrow> machineTagValue vm' = machineTagValue vm \<Longrightarrow>
     findInstance c vm' w = findInstance c vm w"
  by (simp only: findInstance_def)

section \<open>Calls under the contract\<close>

context cloud_contract
begin

lemma findInstance_frame:
  assumes "invar w" "findInstance c vm w = (r, w')"
  shows "frame w w'"
  using assms by (auto simp: findInstance_def dest: frames(1,2) split: if_splits prod.splits sum.splits)

lemma findInstance_None:
  assumes "invar w" "findInstance c vm w = (Inr None, w')"
  shows "InstanceID vm = ''''"
    and "listed_ok TagMachine (machineTagValue vm) (insts w) \<Longrightarrow> live_ids TagMachine (machineTagValue vm) (insts w) = {}"
proof -
  let ?v = "machineTagValue vm"
  show id: "InstanceID vm = ''''"
    using assms(2) by (auto simp: findInstance_def split: if_splits prod.splits sum.splits)
  obtain q w1 where q: "FindInstanceByTag c TagMachine ?v w = (q, w1)" by fastforce
  assume ok: "listed_ok TagMachine ?v (insts w)"
  show "live_ids TagMachine ?v (insts w) = {}"
  proof (cases q)
    case (Inl e)
    with q assms(2) id have "errors_Is e ErrNotFound"
      by (auto simp: findInstance_def split: if_splits)
    with FindInstanceByTag_NotFound [OF assms(1)] q Inl show ?thesis
      by (force simp: live_ids_def tagged_def ran_def)
  next
    case (Inr i)
    with q assms(2) id have "instanceGone i" by (auto simp: findInstance_def split: if_splits)
    moreover from FindInstanceByTag_Inr [OF assms(1)] q Inr have "i \<in> ran (insts w)" "tagged TagMachine ?v i"
      by (simp_all add: tagged_def)
    ultimately have "i_Status i = StatusDiscontinued" using ok by (simp add: listed_ok_def)
    with FindInstanceByTag_gone [OF assms(1)] q Inr show ?thesis
      by (force simp: live_ids_def tagged_def ran_def)
  qed
qed

lemma findInstance_Some:
  assumes "invar w" "findInstance c vm w = (Inr (Some i), w')"
  shows "InstanceID vm \<noteq> '''' \<Longrightarrow> i_ID i = InstanceID vm \<and>
      (insts w (InstanceID vm) = Some i \<or>
       insts w (InstanceID vm) = None \<and> i = bare_Instance (InstanceID vm) StatusNotFound)"
    and "InstanceID vm = '''' \<Longrightarrow> i_ID i \<in> live_ids TagMachine (machineTagValue vm) (insts w) \<and> insts w (i_ID i) = Some i"
proof -
  show "i_ID i = InstanceID vm \<and> (insts w (InstanceID vm) = Some i \<or>
       insts w (InstanceID vm) = None \<and> i = bare_Instance (InstanceID vm) StatusNotFound)"
    if "InstanceID vm \<noteq> ''''"
    using assms(2) that GetInstance_Inr [OF assms(1)] GetInstance_NotFound [OF assms(1)] insts_ID [OF assms(1)]
    by (fastforce simp: findInstance_def split: if_splits prod.splits sum.splits)
  assume id: "InstanceID vm = ''''"
  with assms(2) have found: "FindInstanceByTag c TagMachine (machineTagValue vm) w = (Inr i, w')"
    and live: "\<not> instanceGone i"
    by (auto simp: findInstance_def split: if_splits prod.splits sum.splits)
  from FindInstanceByTag_Inr [OF assms(1) found] obtain k where "insts w k = Some i" "tagged TagMachine (machineTagValue vm) i"
    by (auto simp: ran_def tagged_def)
  with insts_ID [OF assms(1)] live show "i_ID i \<in> live_ids TagMachine (machineTagValue vm) (insts w) \<and> insts w (i_ID i) = Some i"
    by (auto simp: live_ids_def)
qed

lemma ensureOSVolumeTag_frame:
  assumes "frame w0 w" "ensureOSVolumeTag K c vm w = (vm', w')"
  shows "frame w0 w' \<and> keeps_machine vm vm'"
  using assms by (auto simp: ensureOSVolumeTag_def dest: framed split: if_splits prod.splits sum.splits)

lemma record_volume_frame:
  assumes "frame w0 w" "record_volume K c vm volume w = (r, vm', w')"
  shows "frame w0 w' \<and> keeps_machine vm vm'"
  using assms
  by (auto simp: record_volume_def Let_def keeps_machine_def dest: framed split: if_splits prod.splits sum.splits)

lemma resolveOSVolume_frame:
  assumes "frame w0 w" "resolveOSVolume c name w = (r, w')"
  shows "frame w0 w'"
  using assms
  by (auto simp: resolveOSVolume_def resolve_by_name_def dest: framed split: if_splits prod.splits sum.splits)

lemma clone_volume_frame:
  assumes "frame w0 w" "clone_volume K c vc vm w = (r, vm', w')"
  shows "frame w0 w' \<and> keeps_machine vm vm'"
proof -
  obtain q w1 where q: "resolveOSVolume c (ms_OSVolumeID (vm_Spec vm)) w = (q, w1)" by fastforce
  note f1 = resolveOSVolume_frame [OF assms(1) q]
  show ?thesis
  proof (cases q)
    case (Inl e)
    with q f1 assms(2) show ?thesis by (auto simp: clone_volume_def)
  next
    case (Inr src)
    obtain q2 w2 where q2: "CloneVolume c src (osVolumeName vm) (cs_Location (vc_Spec vc)) w1 = (q2, w2)" by fastforce
    note f2 = framed(8) [OF f1 q2]
    show ?thesis
      using q q2 f2 assms(2) Inr record_volume_frame [OF f2]
      by (cases q2) (auto simp: clone_volume_def keeps_machine_def)
  qed
qed

lemma ensureOSVolume_frame:
  assumes "frame w0 w" "ensureOSVolume K c vc vm w = (r, vm', w')"
  shows "frame w0 w' \<and> keeps_machine vm vm'"
  using assms
  by (auto simp: ensureOSVolume_def dest: framed clone_volume_frame record_volume_frame
      split: if_splits prod.splits sum.splits)

lemma record_instance_frame:
  assumes "frame w0 w" "record_instance K c vm inst w = (vm', w')"
  shows "frame w0 w' \<and> vm_Meta vm' = vm_Meta vm \<and> InstanceID vm' = i_ID inst"
  using assms
  by (auto simp: record_instance_def Let_def keeps_machine_def dest: ensureOSVolumeTag_frame
      split: if_splits prod.splits)

lemma deleteOSVolume_frame:
  assumes "frame w0 w" "deleteOSVolume c vm w = (r, vm', w')"
  shows "frame w0 w' \<and> keeps_machine vm vm'"
  using assms
  by (auto simp: deleteOSVolume_def Let_def keeps_machine_def dest: framed split: if_splits prod.splits sum.splits)

lemma delete_script_frame:
  assumes "frame w0 w" "delete_script c vm w = (r, vm', w')"
  shows "frame w0 w' \<and> keeps_machine vm vm'"
  using assms
  by (auto simp: delete_script_def Let_def keeps_machine_def dest: framed split: if_splits prod.splits sum.splits)

lemma act_on_status_live:
  assumes "invar w" "act_on_status K c vc vm inst w = (r, vm', w')"
    and "i_Status inst = StatusNoCapacity \<Longrightarrow> listed_ok TagMachine v (insts w)"
  shows "invar w' \<and> live_ids TagMachine v (insts w') \<subseteq> live_ids TagMachine v (insts w) \<and> vm_Meta vm' = vm_Meta vm \<and>
     InstanceID vm' \<in> {InstanceID vm, ''''}"
proof (cases "i_Status inst = StatusNoCapacity")
  case True
  obtain q w1 where q: "DeleteInstance c (i_ID inst) w = (q, w1)" by fastforce
  from DeleteInstance_live [OF assms(1) q assms(3) [OF True]] q assms(2) True show ?thesis
    by (cases q) (auto simp: act_on_status_def Let_def same_machine_def)
next
  case False
  with assms(1,2) show ?thesis
    by (auto simp: act_on_status_def Let_def same_machine_def split: if_splits)
qed

lemma use_instance_live:
  assumes "invar w" "use_instance K c vc vm inst w = (r, vm', w')"
    and "i_Status inst = StatusNoCapacity \<Longrightarrow> listed_ok TagMachine v (insts w)"
  shows "invar w' \<and> live_ids TagMachine v (insts w') \<subseteq> live_ids TagMachine v (insts w) \<and> vm_Meta vm' = vm_Meta vm \<and>
     InstanceID vm' \<in> {i_ID inst, ''''}"
proof -
  obtain vm1 w1 where rec: "record_instance K c vm inst w = (vm1, w1)" by fastforce
  note f = record_instance_frame [OF frame_refl [OF assms(1)] rec]
  from rec assms(2) have act: "act_on_status K c vc vm1 inst w1 = (r, vm', w')"
    by (simp add: use_instance_def)
  have "invar w1" "insts w1 = insts w" using f by (auto dest: frameD)
  with act_on_status_live [OF _ act, of v] assms(3) f show ?thesis
    by (auto simp: same_machine_def)
qed

lemma createInstance_cases:
  assumes "invar w" "createInstance env c cluster vc machine vm b w = (r, w')"
  obtains "frame w w'" "\<exists>e. r = Inl e"
    | s i where "invar w'" "added (insts w) s i (insts w')" "go_get (is_Tags s) TagMachine = machineTagValue vm"
        "r = Inr i \<or> (\<exists>e. r = Inl e)"
proof (cases "getBootstrapData env machine")
  case (Inl e)
  with assms that(1) show ?thesis by (auto simp: createInstance_def frame_refl)
next
  case (Inr data)
  note data = Inr
  show ?thesis
  proof (cases "ToStartupScript (me_yaml_keys env) (me_yaml_cfg env) (me_gzip env) data (vm_Name vm)")
    case (Inl e)
    with data assms that(1) show ?thesis by (auto simp: createInstance_def frame_refl)
  next
    case (Inr script)
    let ?s = "instance_spec env cluster vc machine vm b (br_Script script)"
    from Inr data assms(2) have create: "CreateInstance c ?s w = (r, w')" by (simp add: createInstance_def)
    note invar' = CreateInstance_invar [OF assms(1) create]
    note tag = instance_spec_tags(2) [of env cluster vc machine vm b "br_Script script"]
    show ?thesis
    proof (cases r)
      case (Inl e)
      from CreateInstance_Inl [OF assms(1) instance_spec_tags(1) create [unfolded Inl]]
      show ?thesis
      proof
        assume "insts w' = insts w"
        with invar' Inl show ?thesis by (intro that(1)) (auto simp: frame_def)
      next
        assume "\<exists>i. added (insts w) ?s i (insts w')"
        with invar' tag Inl show ?thesis using that(2) by blast
      qed
    next
      case (Inr i)
      from CreateInstance_Inr [OF assms(1) instance_spec_tags(1) create [unfolded Inr]]
      show ?thesis using invar' tag Inr that(2) by blast
    qed
  qed
qed

lemma create_and_use_safe:
  assumes "invar w" "create_and_use env c cluster vc machine vm b w = (r, vm', w')"
    and "InstanceID vm = ''''" "v = machineTagValue vm"
    and "listed_ok TagMachine v (insts w)" "live_ids TagMachine v (insts w) = {}"
  shows "invar w' \<and> vm_Meta vm' = vm_Meta vm \<and> safe TagMachine v '''' (insts w') \<and> safe TagMachine v (InstanceID vm') (insts w')"
proof -
  obtain q w1 where q: "createInstance env c cluster vc machine vm b w = (q, w1)" by fastforce
  show ?thesis
  proof (cases q)
    case (Inl e)
    have "invar w1 \<and> safe TagMachine v '''' (insts w1)"
      using createInstance_cases [OF assms(1) q]
    proof cases
      case 1
      with assms(6) show ?thesis by (simp add: frame_def safe_def at_most_one_def)
    next
      case (2 s i)
      with live_ids_added(1) [OF 2(2), of TagMachine v] assms(6) show ?thesis by (auto simp: safe_def at_most_one_def)
    qed
    with Inl q assms(2,3) show ?thesis
      by (auto simp: create_and_use_def same_machine_def split: if_splits)
  next
    case (Inr i)
    obtain s where s: "invar w1" "added (insts w) s i (insts w1)"
      using createInstance_cases [OF assms(1) q] Inr by cases auto
    have use: "use_instance (me_lib env) c vc vm i w1 = (r, vm', w')"
      using Inr q assms(2) by (simp add: create_and_use_def)
    have "listed_ok TagMachine v (insts w1)" if "i_Status i = StatusNoCapacity"
      using listed_ok_added [OF assms(5) s(2)] that by simp
    note live = use_instance_live [OF s(1) use this]
    from live_ids_added(1) [OF s(2), of TagMachine v] assms(6) have "live_ids TagMachine v (insts w1) \<subseteq> {i_ID i}" by simp
    with live have "live_ids TagMachine v (insts w') \<subseteq> {i_ID i}" by blast
    then have "safe TagMachine v (i_ID i) (insts w')" by (rule safe_single)
    with live show ?thesis by (auto intro: safe_none)
  qed
qed

lemma reconcileNormal_cases:
  assumes "invar w" "reconcileNormal env c cluster vc machine vm w = (r, vm', w')"
    and q: "findInstance c vm w = (q, w1)"
  obtains (quiet) "frame w w'" "keeps_machine vm vm'"
    | (found) inst where "q = Inr (Some inst)" "use_instance (me_lib env) c vc vm inst w1 = (r, vm', w')"
    | (create) vm1 w2 b where "q = Inr None" "frame w w2" "keeps_machine vm vm1"
        "create_and_use env c cluster vc machine vm1 b w2 = (r, vm', w')"
proof -
  note f = findInstance_frame [OF assms(1) q] frame_refl [OF assms(1)]
  have tri: "isl q \<or> q = Inr None \<or> (\<exists>inst. q = Inr (Some inst))"
  proof (cases q)
    case (Inr b)
    then show ?thesis by (cases b) auto
  qed simp
  consider (wait) "ptr_Deref (mst_Provisioned (vm_Status vm)) False \<or>
        \<not> ptr_Deref (cl_InfrastructureProvisioned cluster) False \<or> ma_DataSecretName machine = None \<or> isl q"
    | (some) inst where "q = Inr (Some inst)" "\<not> ptr_Deref (mst_Provisioned (vm_Status vm)) False"
        "ptr_Deref (cl_InfrastructureProvisioned cluster) False" "ma_DataSecretName machine \<noteq> None"
    | (none) "q = Inr None" "\<not> ptr_Deref (mst_Provisioned (vm_Status vm)) False"
        "ptr_Deref (cl_InfrastructureProvisioned cluster) False" "ma_DataSecretName machine \<noteq> None"
    using tri by blast
  then show ?thesis
  proof cases
    case wait
    then have "(w' = w \<or> w' = w1) \<and> keeps_machine vm vm'"
      using assms(2) q
      by (auto simp: reconcileNormal_def resyncInstance_def resync_condition_def Let_def keeps_machine_def
          split: if_splits sum.splits option.splits)
    with f quiet show ?thesis by blast
  next
    case some
    with assms(2) q found show ?thesis by (auto simp: reconcileNormal_def Let_def)
  next
    case none
    show ?thesis
    proof (cases "ms_OSVolumeID (vm_Spec vm) = ''''")
      case True
      with none assms(2) q f create [of w1 vm] show ?thesis by (auto simp: reconcileNormal_def Let_def)
    next
      case False
      obtain qv vm1 w2 where qv: "ensureOSVolume (me_lib env) c vc vm w1 = (qv, vm1, w2)" by (metis prod_cases3)
      note f2 = ensureOSVolume_frame [OF f(1) qv]
      show ?thesis
      proof (cases "isl qv \<or> v_Status (projr qv) \<noteq> VolumeStatusDetached")
        case True
        with False none assms(2) q qv f2 have "frame w w' \<and> keeps_machine vm vm'"
          by (cases qv) (auto simp: reconcileNormal_def Let_def keeps_machine_def)
        with quiet show ?thesis by blast
      next
        case detached: False
        with False none assms(2) q qv f2 create [of w2 vm1] show ?thesis
          by (cases qv) (auto simp: reconcileNormal_def Let_def)
      qed
    qed
  qed
qed

lemma reconcileNormal_safe:
  assumes "invar w" "reconcileNormal env c cluster vc machine vm w = (r, vm', w')"
    and "v = machineTagValue vm" "listed_ok TagMachine v (insts w)" "safe TagMachine v (InstanceID vm) (insts w)"
  shows "invar w' \<and> vm_Meta vm' = vm_Meta vm \<and> safe TagMachine v (InstanceID vm) (insts w') \<and> safe TagMachine v (InstanceID vm') (insts w')"
proof -
  obtain q w1 where q: "findInstance c vm w = (q, w1)" by fastforce
  note f = findInstance_frame [OF assms(1) q]
  from assms(1,2) q show ?thesis
  proof (cases rule: reconcileNormal_cases)
    case quiet
    with assms(5) show ?thesis by (simp add: frame_def keeps_machine_def same_machine_def)
  next
    case (found inst)
    have live: "invar w' \<and> live_ids TagMachine v (insts w') \<subseteq> live_ids TagMachine v (insts w) \<and> vm_Meta vm' = vm_Meta vm \<and>
        InstanceID vm' \<in> {i_ID inst, ''''}"
      using use_instance_live [OF frameD(1) [OF f] found(2), of v] assms(4) frameD(2) [OF f] by simp
    note some = findInstance_Some [OF assms(1) q [unfolded found(1)]]
    have "safe TagMachine v (i_ID inst) (insts w)"
      using some assms(3,5) safe_adopt by (cases "InstanceID vm = ''''") auto
    with live assms(5) have "safe TagMachine v (i_ID inst) (insts w')" "safe TagMachine v (InstanceID vm) (insts w')"
      using safe_mono by blast+
    with live show ?thesis by (auto intro: safe_none)
  next
    case (create vm1 w2 b)
    note none = findInstance_None [OF assms(1) q [unfolded create(1)]]
    have "machineTagValue vm1 = v" "InstanceID vm1 = ''''"
      using create(3) none(1) assms(3) machineTagValue_same [OF keeps_same [OF create(3)]]
      by (simp_all add: keeps_machine_def)
    with create_and_use_safe [OF frameD(1) [OF create(2)] create(4), of v] none(2) assms(3,4)
      frameD(2) [OF create(2)] create(3) none(1)
    show ?thesis by (simp add: keeps_machine_def same_machine_def)
  qed
qed

lemma finish_delete_frame:
  assumes "frame w0 w" "finish_delete K c vm w = (r, vm', w')"
  shows "frame w0 w' \<and> same_machine vm vm' \<and> InstanceID vm' = InstanceID vm"
proof -
  obtain q1 vm1 w1 where q1: "delete_script c vm w = (q1, vm1, w1)" by (metis prod_cases3)
  note f1 = delete_script_frame [OF assms(1) q1]
  obtain q2 vm2 w2 where q2: "deleteOSVolume c vm1 w1 = (q2, vm2, w2)" by (metis prod_cases3)
  note f2 = deleteOSVolume_frame [OF conjunct1 [OF f1] q2]
  show ?thesis
    using f1 f2 q1 q2 assms(2)
    by (cases q1; cases q2)
      (auto simp: finish_delete_def remove_finalizer_def keeps_machine_def same_machine_def)
qed

lemma request_delete_live:
  assumes "invar w" "request_delete K now c vm inst w = (r, vm', w')" "listed_ok TagMachine v (insts w)"
  shows "invar w' \<and> live_ids TagMachine v (insts w') \<subseteq> live_ids TagMachine v (insts w) \<and> same_machine vm vm' \<and>
     InstanceID vm' = InstanceID vm \<and> om_Finalizers (vm_Meta vm') = om_Finalizers (vm_Meta vm)"
proof -
  obtain q w1 where q: "DeleteInstance c (i_ID inst) w = (q, w1)" by fastforce
  obtain due meta where due: "deleteRequestDue now (vm_Meta vm) '''' (i_Status inst) = (due, meta)" by fastforce
  from deleteRequestDue_state [OF due] DeleteInstance_live [OF assms(1) q assms(3)] assms(1,2) q due
  show ?thesis
    by (cases q) (auto simp: request_delete_def Let_def same_machine_def split: if_splits)
qed

text \<open>When a delete removes the finalizer, the instance it looked for is gone.\<close>

lemma reconcileDelete_cases:
  assumes "invar w" "reconcileDelete K now c vm w = (r, vm', w')"
  obtains (wait) w1 inst where "findInstance c vm w = (Inr (Some inst), w1)" "\<not> instanceGone inst"
      "request_delete K now c (setInstanceReadyFalse K vm (DeletingReason K) (Text ''Deleting Verda instance'')) inst w1 = (r, vm', w')"
    | (quiet) "frame w w'" "keeps_machine vm vm'"
    | (finish) w1 w2 found where "findInstance c vm w = (Inr found, w1)" "frame w w2"
        "case found of None \<Rightarrow> True | Some inst \<Rightarrow> instanceGone inst"
        "finish_delete K c (setInstanceReadyFalse K vm (DeletingReason K) (Text ''Deleting Verda instance'')) w2 = (r, vm', w')"
proof -
  define vm0 where "vm0 = setInstanceReadyFalse K vm (DeletingReason K) (Text ''Deleting Verda instance'')"
  have vm0: "findInstance c vm0 w = findInstance c vm w"
    by (rule findInstance_cong) (simp_all add: vm0_def machineTagValue_def)
  obtain q w1 where q: "findInstance c vm w = (q, w1)" by fastforce
  note f = findInstance_frame [OF assms(1) q]
  have run: "(case findInstance c vm w of
        (Inl err, w) \<Rightarrow> (Inl err, vm0, w)
      | (Inr None, w) \<Rightarrow> finish_delete K c vm0 w
      | (Inr (Some inst), w) \<Rightarrow>
          if \<not> instanceGone inst then request_delete K now c vm0 inst w
          else if i_Status inst \<noteq> StatusNotFound then
            (case PurgeInstanceVolumes c (i_ID inst) w of
               (Inl err, w) \<Rightarrow> (Inl err, vm0, w)
             | (Inr pending, w) \<Rightarrow>
                 if pending > 0 then (Inr (requeue_after deletePollInterval), vm0, w)
                 else finish_delete K c vm0 w)
          else finish_delete K c vm0 w) = (r, vm', w')"
    using assms(2) unfolding reconcileDelete_def Let_def vm0_def [symmetric] vm0 .
  note wait' = wait [folded vm0_def] and finish' = finish [folded vm0_def]
  have keep: "keeps_machine vm vm0" by (simp add: vm0_def)
  consider (err) e where "q = Inl e" | (none) "q = Inr None" | (some) inst where "q = Inr (Some inst)"
    by (metis sum.exhaust option.exhaust)
  then show ?thesis
  proof cases
    case err
    with q run f keep show ?thesis by (intro quiet) auto
  next
    case none
    with q run f show ?thesis by (intro finish' [of None w1 w1]) auto
  next
    case (some inst)
    obtain p w2 where p: "PurgeInstanceVolumes c (i_ID inst) w1 = (p, w2)" by fastforce
    note f2 = framed(3) [OF f p]
    show ?thesis
    proof (cases "instanceGone inst \<and> \<not> isl p \<and> projr p \<le> 0 \<or> i_Status inst = StatusNotFound")
      case True
      then have "finish_delete K c vm0 w1 = (r, vm', w') \<or> finish_delete K c vm0 w2 = (r, vm', w')"
        using some q run p by (cases p) (auto split: if_splits)
      with q some f f2 True show ?thesis using finish' [of "Some inst" w1] by auto
    next
      case False
      then show ?thesis
      proof (cases "instanceGone inst")
        case True
        with False some q run p f2 keep show ?thesis by (intro quiet) (cases p; auto split: if_splits)+
      next
        case notGone: False
        with some q run show ?thesis by (intro wait') auto
      qed
    qed
  qed
qed

lemma reconcileDelete_safe:
  assumes "invar w" "reconcileDelete K now c vm w = (r, vm', w')"
    and "v = machineTagValue vm" "listed_ok TagMachine v (insts w)" "safe TagMachine v (InstanceID vm) (insts w)"
  shows "invar w' \<and> same_machine vm vm' \<and> InstanceID vm' = InstanceID vm \<and> safe TagMachine v (InstanceID vm) (insts w') \<and>
     (om_Finalizers (vm_Meta vm') \<noteq> om_Finalizers (vm_Meta vm) \<longrightarrow> live_ids TagMachine v (insts w') = {})"
  using assms(1,2)
proof (cases rule: reconcileDelete_cases)
  case (wait w1 inst)
  note f = findInstance_frame [OF assms(1) wait(1)]
  from request_delete_live [OF frameD(1) [OF f] wait(3), of v] frameD(2) [OF f] assms(4,5) show ?thesis
    by (auto simp: same_machine_def intro: safe_mono)
next
  case quiet
  with assms(5) show ?thesis by (simp add: frame_def keeps_machine_def same_machine_def)
next
  case (finish w1 w2 found)
  note fin = finish_delete_frame [OF finish(2,4)]
  have "live_ids TagMachine v (insts w) = {}"
  proof (cases found)
    case None
    with findInstance_None(2) [OF assms(1)] finish(1) assms(3,4) show ?thesis by simp
  next
    case (Some inst)
    with finish(1) have q: "findInstance c vm w = (Inr (Some inst), w1)" by simp
    from Some finish(3) have gone: "instanceGone inst" by simp
    note some = findInstance_Some [OF assms(1) q]
    have "InstanceID vm \<noteq> ''''" using some(2) gone by (auto simp: live_ids_def)
    with some(1) gone have "InstanceID vm \<notin> live_ids TagMachine v (insts w)" by (auto simp: live_ids_def)
    with assms(5) \<open>InstanceID vm \<noteq> ''''\<close> show ?thesis by (auto simp: safe_def)
  qed
  with fin assms(5) show ?thesis by (simp add: frame_def same_machine_def)
qed

lemma reconcile_scope_safe:
  assumes "\<And>c'. me_ClientFor env \<lparr>id_Namespace = vm_Namespace vm,
      id_SecretName = (case vc of Some v \<Rightarrow> IdentitySecretName v | None \<Rightarrow> '''')\<rparr> = Inr c' \<Longrightarrow> c' = c"
    and "invar w" "reconcile_scope env cluster vc machine vm w = (r, vm', w')"
    and "v = machineTagValue vm" "listed_ok TagMachine v (insts w)" "safe TagMachine v (InstanceID vm) (insts w)"
  shows "invar w' \<and> same_machine vm vm' \<and> safe TagMachine v (InstanceID vm) (insts w') \<and> safe TagMachine v (InstanceID vm') (insts w') \<and>
     (om_Finalizers (vm_Meta vm') \<noteq> om_Finalizers (vm_Meta vm) \<longrightarrow> live_ids TagMachine v (insts w') = {})"
proof -
  let ?ident = "\<lparr>id_Namespace = vm_Namespace vm,
      id_SecretName = (case vc of Some v \<Rightarrow> IdentitySecretName v | None \<Rightarrow> '''')\<rparr>"
  show ?thesis
  proof (cases "me_ClientFor env ?ident")
    case (Inl e)
    with assms(2,3,6) show ?thesis by (auto simp: reconcile_scope_def same_machine_def)
  next
    case (Inr c')
    with assms(1) have "me_ClientFor env ?ident = Inr c" by auto
    with assms(3) consider "om_DeletionTimestamp (vm_Meta vm) \<noteq> None"
        "reconcileDelete (me_lib env) (me_now env) c vm w = (r, vm', w')"
      | vc' where "om_DeletionTimestamp (vm_Meta vm) = None" "reconcileNormal env c cluster vc' machine vm w = (r, vm', w')"
      | "om_DeletionTimestamp (vm_Meta vm) = None" "vm' = vm" "w' = w"
      by (auto simp: reconcile_scope_def split: if_splits option.splits)
    then show ?thesis
    proof cases
      case 1
      from reconcileDelete_safe [OF assms(2) 1(2) assms(4-6)] show ?thesis by auto
    next
      case 2
      from reconcileNormal_safe [OF assms(2) 2(2) assms(4-6)] show ?thesis by (auto simp: same_machine_def)
    next
      case 3
      with assms(2,6) show ?thesis by simp
    qed
  qed
qed

lemma Reconcile_cases:
  assumes "env_for env vm c" "Reconcile env w = (r, out, w')"
  obtains (idle) "out = None" "w' = w"
    | (scope) cluster vc machine vm1 res vm2 where "keeps_machine vm vm1"
        "reconcile_scope env cluster vc machine vm1 w = (res, vm2, w')" "out = Some (snd (patchVerdaMachine env vm2))"
        "used_secret env vm = (case vc of Some v \<Rightarrow> IdentitySecretName v | None \<Rightarrow> '''')"
    | (orphan) res vm2 where "reconcileDelete (me_lib env) (me_now env) c vm w = (res, vm2, w')"
        "out = Some (snd (patchVerdaMachine env vm2))"
    | (no_client) "out = Some (snd (patchVerdaMachine env vm))" "w' = w"
proof -
  have patch: "with_patch env p = (r, out, w') \<Longrightarrow>
      \<exists>res vm2. p = (res, vm2, w') \<and> out = Some (snd (patchVerdaMachine env vm2))" for p
    by (cases p) (auto simp: with_patch_def split: prod.splits)
  have vm: "me_GetVerdaMachine env = Inr vm"
    and client: "\<And>c'. me_ClientFor env \<lparr>id_Namespace = vm_Namespace vm, id_SecretName = used_secret env vm\<rparr> = Inr c' \<Longrightarrow> c' = c"
    and paused: "\<And>cl q vm1. me_EnsurePausedCondition env cl vm = (q, vm1) \<Longrightarrow> keeps_machine vm vm1"
    using assms(1) by (auto simp: env_for_def)
  consider (a) "out = None" "w' = w"
    | (b) "me_GetOwnerMachine env (vm_Meta vm) = Inr None" "reconcileOrphanDelete env vm w = (r, out, w')"
    | (d) cluster vc machine q vm1 where "me_EnsurePausedCondition env cluster vm = (q, vm1)"
        "with_patch env (reconcile_scope env cluster vc machine vm1 w) = (r, out, w')"
        "me_GetOwnerMachine env (vm_Meta vm) = Inr (Some machine)" "me_GetClusterFromMetadata env (ma_Meta machine) = Inr cluster"
        "vc = (case me_GetVerdaCluster env (vm_Namespace vm1) (cl_InfrastructureRefName cluster) of Inr v \<Rightarrow> Some v | Inl _ \<Rightarrow> None)"
    using assms(2) vm unfolding Reconcile_def Let_def
    by (auto split: sum.splits option.splits prod.splits if_splits)
  then show ?thesis
  proof cases
    case a
    then show ?thesis by (rule idle)
  next
    case b
    show ?thesis
    proof (cases "me_ClientFor env \<lparr>id_Namespace = vm_Namespace vm, id_SecretName = ''''\<rparr>")
      case (Inl e)
      with b show ?thesis using idle no_client
        by (auto simp: reconcileOrphanDelete_def split: sum.splits dest!: patch)
    next
      case (Inr c')
      with b(1) have "c' = c" by (intro client) (simp add: used_secret_def)
      with b(2) Inr show ?thesis using idle orphan
        by (auto simp: reconcileOrphanDelete_def split: sum.splits dest!: patch)
    qed
  next
    case d
    have "vm_Namespace vm1 = vm_Namespace vm" using paused [OF d(1)] by (simp add: keeps_machine_def)
    with d(3-5) have "used_secret env vm = (case vc of Some v \<Rightarrow> IdentitySecretName v | None \<Rightarrow> '''')"
      by (simp add: used_secret_def split: sum.splits)
    with patch [OF d(2)] scope [OF paused [OF d(1)]] show ?thesis by blast
  qed
qed

lemma patch_keeps: "keeps_machine vm (snd (patchVerdaMachine env vm))"
  by (simp add: patchVerdaMachine_def Let_def)

lemma Reconcile_safe:
  assumes "env_for env vm c" "Reconcile env w = (r, out, w')" "invar w"
    and "v = machineTagValue vm" "listed_ok TagMachine v (insts w)" "safe TagMachine v (InstanceID vm) (insts w)"
  shows "invar w' \<and> safe TagMachine v (InstanceID vm) (insts w') \<and>
     (\<forall>vm'. out = Some vm' \<longrightarrow> same_machine vm vm' \<and> safe TagMachine v (InstanceID vm') (insts w') \<and>
        (om_Finalizers (vm_Meta vm') \<noteq> om_Finalizers (vm_Meta vm) \<longrightarrow> live_ids TagMachine v (insts w') = {}))"
  using assms(1,2)
proof (cases rule: Reconcile_cases)
  case idle
  with assms(3,6) show ?thesis by simp
next
  case (scope cluster vc machine vm1 res vm2)
  have vm1: "v = machineTagValue vm1" "InstanceID vm1 = InstanceID vm"
    using machineTagValue_same [OF keeps_same [OF scope(1)]] scope(1) assms(4) by (simp_all add: keeps_machine_def)
  have client: "c' = c" if "me_ClientFor env \<lparr>id_Namespace = vm_Namespace vm1,
      id_SecretName = (case vc of Some v \<Rightarrow> IdentitySecretName v | None \<Rightarrow> '''')\<rparr> = Inr c'" for c'
    using assms(1) scope(1,4) that by (simp add: env_for_def keeps_machine_def)
  from reconcile_scope_safe [OF client assms(3) scope(2) vm1(1)] vm1 assms(5,6) scope(1,3) patch_keeps [of vm2 env]
  show ?thesis by (auto simp: keeps_machine_def same_machine_def)
next
  case (orphan res vm2)
  from reconcileDelete_safe [OF assms(3) orphan(1) assms(4-6)] orphan(2) patch_keeps [of vm2 env] show ?thesis
    by (auto simp: keeps_machine_def same_machine_def)
next
  case no_client
  with assms(3,6) patch_keeps [of vm env] show ?thesis by (auto simp: keeps_machine_def same_machine_def)
qed

theorem machine_reach_safe:
  "machine_reach c insts invar vm w \<Longrightarrow> invar w \<and> listed_ok TagMachine (machineTagValue vm) (insts w) \<and>
     safe TagMachine (machineTagValue vm) (InstanceID vm) (insts w)"
proof (induction rule: machine_reach.induct)
  case (new_machine w vm)
  then show ?case by (simp add: safe_def at_most_one_def)
next
  case (next_step vm w vm' w')
  from next_step.hyps(2) show ?case
  proof cases
    case (reconciled env r out)
    from Reconcile_safe [OF reconciled(1,2), of "machineTagValue vm"] next_step.IH reconciled(3)
    have "invar w' \<and> same_machine vm vm' \<and> safe TagMachine (machineTagValue vm) (InstanceID vm') (insts w')" by auto
    with machineTagValue_same [of vm vm'] next_step.hyps(3) show ?thesis by simp
  next
    case edited
    with machineTagValue_same [of vm vm'] next_step.IH next_step.hyps(3) show ?thesis by simp
  next
    case evolved
    have "live_ids TagMachine (machineTagValue vm) (insts w') \<subseteq> live_ids TagMachine (machineTagValue vm) (insts w)"
      by (rule live_ids_aged) (use next_step.IH evolved(2) in \<open>auto simp: cloud_evolves_def\<close>)
    with evolved next_step.IH next_step.hyps(3) show ?thesis by (auto intro: safe_mono)
  qed
qed

lemma machine_reach_one_live:
  assumes "machine_reach c insts invar vm w"
    and "insts w k = Some i" "tagged TagMachine (machineTagValue vm) i" "\<not> instanceGone i"
    and "insts w k' = Some j" "tagged TagMachine (machineTagValue vm) j" "\<not> instanceGone j"
  shows "k = k'"
proof -
  have "k \<in> live_ids TagMachine (machineTagValue vm) (insts w)" "k' \<in> live_ids TagMachine (machineTagValue vm) (insts w)"
    using assms(2-) by (auto simp: live_ids_def)
  then show ?thesis using machine_reach_safe [OF assms(1)] by (auto simp: safe_def at_most_one_def)
qed

lemma machine_reach_no_leak:
  assumes "machine_reach c insts invar vm w" "env_for env vm c" "Reconcile env w = (r, Some vm', w')"
    and "MachineFinalizer \<in> set (om_Finalizers (vm_Meta vm))" "MachineFinalizer \<notin> set (om_Finalizers (vm_Meta vm'))"
    and "insts w' k = Some i" "tagged TagMachine (machineTagValue vm) i"
  shows "instanceGone i"
proof -
  from assms(4,5) have "om_Finalizers (vm_Meta vm') \<noteq> om_Finalizers (vm_Meta vm)" by auto
  with Reconcile_safe [OF assms(2,3), of "machineTagValue vm"] machine_reach_safe [OF assms(1)]
  have "live_ids TagMachine (machineTagValue vm) (insts w') = {}" by auto
  with assms(6,7) show ?thesis unfolding live_ids_def by blast
qed

end

end
