(* ===== verification/CloudSDK.thy ===== *)
theory CloudSDK
  imports CloudTypes
begin

text \<open>
  \<^verbatim>\<open>sdkClient\<close> of \<^verbatim>\<open>internal/cloud/client.go\<close>, the client the manager
  and the cloud controller manager run with. The Verda SDK it calls is not part of the
  repository: it is the parameter \<open>api\<close>, a record of the SDK's operations over some state of the
  Verda cloud, together with the two string constants the code takes from it. The theorems
  describe the client for every such SDK; where they rely on how the Verda API behaves, the
  hypothesis is \<open>verda_api_ok\<close>.
\<close>

section \<open>The SDK\<close>

record verda_Tag =
  t_Key :: string
  t_Value :: string

record verda_Instance =
  vi_ID :: string
  vi_Hostname :: string
  vi_Status :: string
  vi_IP :: "string option"
  vi_Location :: string
  vi_InstanceType :: string
  vi_StartupScriptID :: "string option"
  vi_OSVolumeID :: "string option"
  vi_VolumeIDs :: "string list"
  vi_Tags :: "verda_Tag list"

record verda_Volume =
  vv_ID :: string
  vv_Name :: string
  vv_Status :: string
  vv_Location :: string
  vv_IsOSVolume :: bool
  vv_InstanceID :: "string option"
  vv_Tags :: "verda_Tag list"

record verda_InstanceType =
  vt_InstanceType :: string
  vt_NumberOfCores :: int
  vt_SizeInGigabytes :: int
  vt_NumberOfGPUs :: int
  vt_Model :: string

record verda_StartupScript =
  vs_ID :: string
  vs_Name :: string

record OSVolumeCreateRequest =
  ov_Name :: string
  ov_Size :: int
  ov_OnSpotDiscontinue :: string

record VolumeCreateRequest =
  vc_Name :: string
  vc_Size :: int
  vc_Type :: string
  vc_OnSpotDiscontinue :: string

record CreateInstanceRequest =
  r_InstanceType :: string
  r_Image :: string
  r_Hostname :: string
  r_Description :: message
  r_SSHKeyIDs :: "string list"
  r_LocationCode :: string
  r_Contract :: string
  r_IsSpot :: bool
  r_OSVolume :: "OSVolumeCreateRequest option"
  r_Volumes :: "VolumeCreateRequest list"
  r_Tags :: "verda_Tag list"
  r_StartupScriptID :: "string option"

record 'a verda_api =
  Instances_Get :: "string \<Rightarrow> ('a, verda_Instance list) call"
  Instances_GetByID :: "string \<Rightarrow> ('a, verda_Instance) call"
  Instances_Create :: "CreateInstanceRequest \<Rightarrow> ('a, verda_Instance) call"
  Instances_Shutdown :: "string \<Rightarrow> ('a, unit) call"
  Instances_Delete :: "string list \<Rightarrow> string list \<Rightarrow> bool \<Rightarrow> ('a, unit) call"
  InstanceTypes_Get :: "string \<Rightarrow> ('a, verda_InstanceType list) call"
  Volumes_GetVolumesInTrash :: "('a, verda_Volume list) call"
  Volumes_GetVolume :: "string \<Rightarrow> ('a, verda_Volume) call"
  Volumes_ListVolumes :: "('a, verda_Volume list) call"
  Volumes_CloneVolume :: "string \<Rightarrow> string \<Rightarrow> string \<Rightarrow> ('a, string) call"
  Volumes_AddTag :: "string \<Rightarrow> verda_Tag \<Rightarrow> ('a, unit) call"
  Volumes_DeleteVolume :: "string \<Rightarrow> bool \<Rightarrow> ('a, unit) call"
  StartupScripts_GetAllStartupScripts :: "('a, verda_StartupScript list) call"
  StartupScripts_AddStartupScript :: "string \<Rightarrow> string \<Rightarrow> ('a, verda_StartupScript) call"
  StartupScripts_DeleteStartupScript :: "string \<Rightarrow> ('a, unit) call"
  VolumeTypeNVMe :: string
  SpotDiscontinueDeletePermanent :: string

section \<open>Conversions\<close>

definition isNotFound :: "go_error \<Rightarrow> bool" where
  "isNotFound err = (errors_As_APIError err = Some 404)"

fun hasTag :: "verda_Tag list \<Rightarrow> string \<Rightarrow> string \<Rightarrow> bool" where
  "hasTag [] key value = False"
| "hasTag (t # ts) key value = (if t_Key t = key \<and> t_Value t = value then True else hasTag ts key value)"

definition str_of :: "string option \<Rightarrow> string" where
  "str_of p = ptr_Deref p ''''"

definition toVolume :: "verda_Volume \<Rightarrow> Volume" where
  "toVolume v =
     \<lparr>v_ID = vv_ID v, v_Name = vv_Name v, v_Status = vv_Status v, v_Location = vv_Location v,
      v_IsOSVolume = vv_IsOSVolume v, v_InstanceID = str_of (vv_InstanceID v),
      v_Managed = hasTag (vv_Tags v) TagManagedBy ManagedByValue\<rparr>"

text \<open>The loop that fills the tag map: a later tag with the same key wins.\<close>

definition tag_map :: "verda_Tag list \<Rightarrow> gomap" where
  "tag_map ts = fold (\<lambda>t m. AList.update (t_Key t) (t_Value t) m) ts []"

definition toInstance :: "verda_Instance \<Rightarrow> Instance" where
  "toInstance i =
     \<lparr>i_ID = vi_ID i, i_Hostname = vi_Hostname i, i_Status = vi_Status i, i_IP = str_of (vi_IP i),
      i_Location = vi_Location i, i_InstanceType = vi_InstanceType i,
      i_StartupScriptID = str_of (vi_StartupScriptID i), i_OSVolumeID = str_of (vi_OSVolumeID i),
      i_Tags = tag_map (vi_Tags i)\<rparr>"

section \<open>Reading\<close>

definition sdkClient_GetInstanceType :: "'a verda_api \<Rightarrow> string \<Rightarrow> ('a, InstanceTypeInfo) call" where
  "sdkClient_GetInstanceType api instanceType w =
     (case InstanceTypes_Get api '''' w of
        (Inl err, w) \<Rightarrow> (Inl (Wrapf ''listing instance types: %w'' [] err), w)
      | (Inr types, w) \<Rightarrow>
          (case List.find (\<lambda>t. vt_InstanceType t = instanceType) types of
             Some t \<Rightarrow>
               (Inr \<lparr>it_InstanceType = vt_InstanceType t, it_CPUs = vt_NumberOfCores t,
                     it_MemoryGB = vt_SizeInGigabytes t, it_GPUs = vt_NumberOfGPUs t,
                     it_GPUModel = vt_Model t\<rparr>, w)
           | None \<Rightarrow> (Inl ErrNotFound, w)))"

definition sdkClient_GetInstance :: "'a verda_api \<Rightarrow> string \<Rightarrow> ('a, Instance) call" where
  "sdkClient_GetInstance api ident w =
     (case Instances_GetByID api ident w of
        (Inl err, w) \<Rightarrow>
          if isNotFound err then (Inl ErrNotFound, w)
          else (Inl (Wrapf ''getting instance %s: %w'' [ident] err), w)
      | (Inr inst, w) \<Rightarrow> (Inr (toInstance inst), w))"

definition sdkClient_FindInstanceByHostname :: "'a verda_api \<Rightarrow> string \<Rightarrow> ('a, Instance) call" where
  "sdkClient_FindInstanceByHostname api hostname w =
     (case Instances_Get api '''' w of
        (Inl err, w) \<Rightarrow> (Inl (Wrapf ''listing instances: %w'' [] err), w)
      | (Inr instances, w) \<Rightarrow>
          (find_loop (\<lambda>inst. i_Hostname inst = hostname) None (map toInstance instances), w))"

definition sdkClient_FindInstanceByTag :: "'a verda_api \<Rightarrow> string \<Rightarrow> string \<Rightarrow> ('a, Instance) call" where
  "sdkClient_FindInstanceByTag api key value w =
     (case Instances_Get api '''' w of
        (Inl err, w) \<Rightarrow> (Inl (Wrapf ''listing instances: %w'' [] err), w)
      | (Inr instances, w) \<Rightarrow>
          (find_loop (\<lambda>inst. go_get (i_Tags inst) key = value) None (map toInstance instances), w))"

definition sdkClient_GetVolume :: "'a verda_api \<Rightarrow> string \<Rightarrow> ('a, Volume) call" where
  "sdkClient_GetVolume api ident w =
     (case Volumes_GetVolume api ident w of
        (Inl err, w) \<Rightarrow>
          if isNotFound err then (Inl ErrNotFound, w)
          else (Inl (Wrapf ''getting volume %s: %w'' [ident] err), w)
      | (Inr vol, w) \<Rightarrow> (Inr (toVolume vol), w))"

definition sdkClient_FindVolumeByName :: "'a verda_api \<Rightarrow> string \<Rightarrow> ('a, Volume) call" where
  "sdkClient_FindVolumeByName api name w =
     (case Volumes_ListVolumes api w of
        (Inl err, w) \<Rightarrow> (Inl (Wrapf ''listing volumes: %w'' [] err), w)
      | (Inr volumes, w) \<Rightarrow>
          (case List.find (\<lambda>v. vv_Name v = name) volumes of
             Some v \<Rightarrow> (Inr (toVolume v), w)
           | None \<Rightarrow> (Inl ErrNotFound, w)))"

section \<open>Startup scripts\<close>

definition sdkClient_DeleteStartupScript :: "'a verda_api \<Rightarrow> string \<Rightarrow> ('a, unit) call" where
  "sdkClient_DeleteStartupScript api ident w =
     (case StartupScripts_DeleteStartupScript api ident w of
        (Inl err, w) \<Rightarrow>
          if isNotFound err then (Inr (), w)
          else (Inl (Wrapf ''deleting startup script %s: %w'' [ident] err), w)
      | (Inr u, w) \<Rightarrow> (Inr (), w))"

fun delete_scripts_loop :: "'a verda_api \<Rightarrow> string \<Rightarrow> verda_StartupScript list \<Rightarrow> ('a, unit) call" where
  "delete_scripts_loop api name [] w = (Inr (), w)"
| "delete_scripts_loop api name (script # rest) w =
     (if vs_Name script \<noteq> name then delete_scripts_loop api name rest w
      else case sdkClient_DeleteStartupScript api (vs_ID script) w of
        (Inl err, w) \<Rightarrow> (Inl err, w)
      | (Inr u, w) \<Rightarrow> delete_scripts_loop api name rest w)"

definition sdkClient_DeleteStartupScriptByName :: "'a verda_api \<Rightarrow> string \<Rightarrow> ('a, unit) call" where
  "sdkClient_DeleteStartupScriptByName api name w =
     (case StartupScripts_GetAllStartupScripts api w of
        (Inl err, w) \<Rightarrow> (Inl (Wrapf ''listing startup scripts: %w'' [] err), w)
      | (Inr scripts, w) \<Rightarrow> delete_scripts_loop api name scripts w)"

section \<open>Creating\<close>

definition spotPolicy :: "'a verda_api \<Rightarrow> InstanceSpec \<Rightarrow> string" where
  "spotPolicy api spec =
     (if \<not> is_Spot spec then ''''
      else if is_SpotDiscontinuePolicy spec = '''' then SpotDiscontinueDeletePermanent api
      else is_SpotDiscontinuePolicy spec)"

definition create_request :: "'a verda_api \<Rightarrow> InstanceSpec \<Rightarrow> CreateInstanceRequest" where
  "create_request api spec =
     \<lparr>r_InstanceType = is_InstanceType spec, r_Image = is_Image spec,
      r_Hostname = is_Hostname spec, r_Description = is_Description spec,
      r_SSHKeyIDs = is_SSHKeyIDs spec, r_LocationCode = is_Location spec,
      r_Contract = is_Contract spec, r_IsSpot = is_Spot spec,
      r_OSVolume =
        (if is_OSVolumeSizeGB spec > 0
         then Some \<lparr>ov_Name = is_Hostname spec @ ''-os'', ov_Size = is_OSVolumeSizeGB spec,
                    ov_OnSpotDiscontinue = spotPolicy api spec\<rparr>
         else None),
      r_Volumes =
        map (\<lambda>dv. \<lparr>vc_Name = is_Hostname spec @ ''-'' @ dv_Name dv, vc_Size = dv_SizeGB dv,
                   vc_Type = (if dv_Type dv = '''' then VolumeTypeNVMe api else dv_Type dv),
                   vc_OnSpotDiscontinue = spotPolicy api spec\<rparr>) (is_DataVolumes spec),
      r_Tags = map (\<lambda>(k, v). \<lparr>t_Key = k, t_Value = v\<rparr>) (is_Tags spec),
      r_StartupScriptID = None\<rparr>"

text \<open>The request is sent; when it fails, the script made for it is deleted again.\<close>

definition send_create :: "'a verda_api \<Rightarrow> InstanceSpec \<Rightarrow> CreateInstanceRequest \<Rightarrow> ('a, Instance) call" where
  "send_create api spec req w =
     (case Instances_Create api req w of
        (Inl err, w) \<Rightarrow>
          let w = (case r_StartupScriptID req of
                     Some sid \<Rightarrow> snd (StartupScripts_DeleteStartupScript api sid w)
                   | None \<Rightarrow> w)
          in (Inl (Wrapf ''creating instance %s: %w'' [is_Hostname spec] err), w)
      | (Inr inst, w) \<Rightarrow>
          let out = toInstance inst in
          (Inr (if i_StartupScriptID out = '''' \<and> r_StartupScriptID req \<noteq> None
                then out\<lparr>i_StartupScriptID := str_of (r_StartupScriptID req)\<rparr> else out), w))"

definition sdkClient_CreateInstance :: "'a verda_api \<Rightarrow> InstanceSpec \<Rightarrow> ('a, Instance) call" where
  "sdkClient_CreateInstance api spec w =
     (case Instances_Get api '''' w of
        (Inl err, w) \<Rightarrow> (Inl (Wrapf ''listing instances: %w'' [] err), w)
      | (Inr instances, w) \<Rightarrow>
          (case List.find (hostname_conflict spec) (map toInstance instances) of
             Some existing \<Rightarrow> (Inl (Wrapf ''instance %s: %w'' [i_ID existing] ErrHostnameInUse), w)
           | None \<Rightarrow>
               (case sdkClient_DeleteStartupScriptByName api (is_Hostname spec) w of
                  (Inl err, w) \<Rightarrow> (Inl err, w)
                | (Inr u, w) \<Rightarrow>
                    let req = create_request api spec in
                    if is_StartupScript spec \<noteq> '''' then
                      (case StartupScripts_AddStartupScript api (is_Hostname spec) (is_StartupScript spec) w of
                         (Inl err, w) \<Rightarrow>
                           (Inl (Wrapf ''creating startup script for %s: %w'' [is_Hostname spec] err), w)
                       | (Inr script, w) \<Rightarrow>
                           send_create api spec (req\<lparr>r_StartupScriptID := Some (vs_ID script)\<rparr>) w)
                    else send_create api spec req w)))"

section \<open>Deleting\<close>

text \<open>The identifiers of an instance's volumes: each once, none empty, the OS volume first.\<close>

fun add_ids :: "string list \<Rightarrow> string list \<Rightarrow> string list" where
  "add_ids seen [] = []"
| "add_ids seen (ident # rest) =
     (if ident \<noteq> '''' \<and> ident \<notin> set seen then ident # add_ids (ident # seen) rest else add_ids seen rest)"

definition instanceVolumeIDs :: "verda_Instance \<Rightarrow> string list" where
  "instanceVolumeIDs inst =
     add_ids [] ((case vi_OSVolumeID inst of Some v \<Rightarrow> [v] | None \<Rightarrow> []) @ vi_VolumeIDs inst)"

fun purge_loop :: "'a verda_api \<Rightarrow> string list \<Rightarrow> string list \<Rightarrow> int \<Rightarrow> ('a, int) call" where
  "purge_loop api inTrash [] pending w = (Inr pending, w)"
| "purge_loop api inTrash (volID # rest) pending w =
     (if volID \<in> set inTrash then
        (case Volumes_DeleteVolume api volID True w of
           (Inl err, w) \<Rightarrow>
             if isNotFound err then purge_loop api inTrash rest pending w
             else (Inl (Wrapf ''purging volume %s: %w'' [volID] err), w)
         | (Inr u, w) \<Rightarrow> purge_loop api inTrash rest pending w)
      else
        (case Volumes_GetVolume api volID w of
           (Inr vol, w) \<Rightarrow>
             purge_loop api inTrash rest
               (if vv_Status vol \<noteq> VolumeStatusDeleted then pending + 1 else pending) w
         | (Inl err, w) \<Rightarrow>
             if \<not> isNotFound err then (Inl (Wrapf ''getting volume %s: %w'' [volID] err), w)
             else purge_loop api inTrash rest pending w))"

definition sdkClient_PurgeInstanceVolumes :: "'a verda_api \<Rightarrow> string \<Rightarrow> ('a, int) call" where
  "sdkClient_PurgeInstanceVolumes api ident w =
     (case Instances_GetByID api ident w of
        (Inl err, w) \<Rightarrow>
          if isNotFound err then (Inr 0, w)
          else (Inl (Wrapf ''getting instance %s: %w'' [ident] err), w)
      | (Inr inst, w) \<Rightarrow>
          if go_get (i_Tags (toInstance inst)) TagManagedBy \<noteq> ManagedByValue
          then (Inl (Wrapf ''instance %s (%s): %w'' [ident, vi_Hostname inst] ErrNotManaged), w)
          else
            (case Volumes_GetVolumesInTrash api w of
               (Inl err, w) \<Rightarrow> (Inl (Wrapf ''listing trashed volumes: %w'' [] err), w)
             | (Inr trash, w) \<Rightarrow>
                 purge_loop api (map vv_ID trash) (instanceVolumeIDs inst) 0 w))"

definition sdkClient_DeleteInstance :: "'a verda_api \<Rightarrow> string \<Rightarrow> ('a, unit) call" where
  "sdkClient_DeleteInstance api ident w =
     (case Instances_GetByID api ident w of
        (Inl err, w) \<Rightarrow>
          if isNotFound err then (Inr (), w)
          else (Inl (Wrapf ''getting instance %s before delete: %w'' [ident] err), w)
      | (Inr inst, w) \<Rightarrow>
          if go_get (i_Tags (toInstance inst)) TagManagedBy \<noteq> ManagedByValue
          then (Inl (Wrapf ''instance %s (%s): %w'' [ident, vi_Hostname inst] ErrNotManaged), w)
          else if vi_Status inst = StatusDiscontinued \<or> vi_Status inst = StatusDeleted then
            (case sdkClient_PurgeInstanceVolumes api ident w of
               (Inl err, w) \<Rightarrow> (Inl err, w)
             | (Inr n, w) \<Rightarrow> (Inr (), w))
          else if vi_Status inst = StatusDeleting then (Inr (), w)
          else if vi_Status inst \<noteq> StatusOffline then
            (case Instances_Shutdown api ident w of
               (Inl err, w) \<Rightarrow>
                 if isNotFound err then (Inr (), w)
                 else (Inl (Wrapf ''shutting down instance %s: %w'' [ident] err), w)
             | (Inr u, w) \<Rightarrow> (Inr (), w))
          else
            (case Instances_Delete api [ident] (instanceVolumeIDs inst) False w of
               (Inl err, w) \<Rightarrow>
                 if isNotFound err then (Inr (), w)
                 else (Inl (Wrapf ''deleting instance %s: %w'' [ident] err), w)
             | (Inr u, w) \<Rightarrow> (Inr (), w)))"

section \<open>Volumes\<close>

definition tagVolume :: "'a verda_api \<Rightarrow> string \<Rightarrow> ('a, unit) call" where
  "tagVolume api ident w =
     (case Volumes_AddTag api ident \<lparr>t_Key = TagManagedBy, t_Value = ManagedByValue\<rparr> w of
        (Inl err, w) \<Rightarrow> if errors_As_APIError err = Some 409 then (Inr (), w) else (Inl err, w)
      | (Inr u, w) \<Rightarrow> (Inr (), w))"

definition sdkClient_CloneVolume :: "'a verda_api \<Rightarrow> string \<Rightarrow> string \<Rightarrow> string \<Rightarrow> ('a, string) call" where
  "sdkClient_CloneVolume api sourceID name location w =
     (case Volumes_CloneVolume api sourceID name location w of
        (Inl err, w) \<Rightarrow> (Inl (Wrapf ''cloning volume %s as %s: %w'' [sourceID, name] err), w)
      | (Inr ident, w) \<Rightarrow> (Inr ident, snd (tagVolume api ident w)))"

definition sdkClient_EnsureVolumeTag :: "'a verda_api \<Rightarrow> string \<Rightarrow> ('a, unit) call" where
  "sdkClient_EnsureVolumeTag api ident w = tagVolume api ident w"

definition sdkClient_DeleteVolume :: "'a verda_api \<Rightarrow> string \<Rightarrow> ('a, unit) call" where
  "sdkClient_DeleteVolume api ident w =
     (case Volumes_GetVolume api ident w of
        (Inl err, w) \<Rightarrow>
          if isNotFound err then (Inr (), w)
          else (Inl (Wrapf ''getting volume %s before delete: %w'' [ident] err), w)
      | (Inr vol, w) \<Rightarrow>
          if \<not> hasTag (vv_Tags vol) TagManagedBy ManagedByValue
          then (Inl (Wrapf ''volume %s (%s): %w'' [ident, vv_Name vol] ErrNotManaged), w)
          else
            (case Volumes_DeleteVolume api ident True w of
               (Inl err, w) \<Rightarrow>
                 if isNotFound err then (Inr (), w)
                 else (Inl (Wrapf ''deleting volume %s: %w'' [ident] err), w)
             | (Inr u, w) \<Rightarrow> (Inr (), w)))"

definition sdkClient :: "'a verda_api \<Rightarrow> 'a cloud_client" where
  "sdkClient api =
     \<lparr>GetInstanceType = sdkClient_GetInstanceType api,
      GetInstance = sdkClient_GetInstance api,
      FindInstanceByHostname = sdkClient_FindInstanceByHostname api,
      FindInstanceByTag = sdkClient_FindInstanceByTag api,
      CreateInstance = sdkClient_CreateInstance api,
      DeleteStartupScriptByName = sdkClient_DeleteStartupScriptByName api,
      DeleteInstance = sdkClient_DeleteInstance api,
      PurgeInstanceVolumes = sdkClient_PurgeInstanceVolumes api,
      DeleteStartupScript = sdkClient_DeleteStartupScript api,
      GetVolume = sdkClient_GetVolume api,
      FindVolumeByName = sdkClient_FindVolumeByName api,
      CloneVolume = sdkClient_CloneVolume api,
      DeleteVolume = sdkClient_DeleteVolume api,
      EnsureVolumeTag = sdkClient_EnsureVolumeTag api\<rparr>"

section \<open>Tags\<close>

lemma fold_update_get:
  "go_get (fold (\<lambda>t m. AList.update (t_Key t) (t_Value t) m) ts m) k =
     (case map_of (rev (map (\<lambda>t. (t_Key t, t_Value t)) ts)) k of Some v \<Rightarrow> v | None \<Rightarrow> go_get m k)"
  by (induction ts arbitrary: m) (auto simp: map_add_def split: option.splits)

lemma tag_map_request:
  assumes "distinct (map fst m)"
  shows "go_get (tag_map (map (\<lambda>(k, v). \<lparr>t_Key = k, t_Value = v\<rparr>) m)) k = go_get m k"
proof -
  have "map_of (rev m) k = map_of m k"
    using assms map_of_inject_set [of "rev m" m] by (simp flip: rev_map)
  moreover have "go_get (tag_map (map (\<lambda>(k, v). \<lparr>t_Key = k, t_Value = v\<rparr>) m)) k =
      (case map_of (rev m) k of Some v \<Rightarrow> v | None \<Rightarrow> '''')"
    by (simp add: tag_map_def fold_update_get o_def case_prod_unfold split: option.splits)
  ultimately show ?thesis by (simp add: go_get_def split: option.splits)
qed

lemma toInstance_simps [simp]:
  "i_ID (toInstance i) = vi_ID i" "i_Hostname (toInstance i) = vi_Hostname i"
  "i_Status (toInstance i) = vi_Status i" "i_Tags (toInstance i) = tag_map (vi_Tags i)"
  by (simp_all add: toInstance_def)

section \<open>Volume identifiers\<close>

lemma set_add_ids: "set (add_ids seen ids) = set ids - {''''} - set seen"
  by (induction seen ids rule: add_ids.induct) auto

lemma distinct_add_ids: "distinct (add_ids seen ids)"
  by (induction seen ids rule: add_ids.induct) (auto simp: set_add_ids)

section \<open>What the client relies on\<close>

text \<open>
  The behaviour of the Verda API that the client relies on, for a view \<open>view\<close> of the instances
  the account holds and the states \<open>ok\<close> the service can be in: identifiers are unique and not
  empty, a listing shows every instance, "not found" is not reported for an instance that is
  there, a create adds one instance with the requested tags and hostname (even when its answer is
  lost), a shutdown or delete touches the named instance only and keeps its tags, a discontinued
  instance stays discontinued, and calls about volumes, scripts and instance types leave the
  instances alone. Every call may fail at any time.
\<close>

definition api_keeps :: "('a \<Rightarrow> 'v) \<Rightarrow> ('a \<Rightarrow> bool) \<Rightarrow> ('a, 'r) call \<Rightarrow> bool" where
  "api_keeps view ok f = (\<forall>w r w'. ok w \<longrightarrow> f w = (r, w') \<longrightarrow> ok w' \<and> view w' = view w)"

definition api_added :: "(string \<rightharpoonup> verda_Instance) \<Rightarrow> CreateInstanceRequest \<Rightarrow> verda_Instance \<Rightarrow>
    (string \<rightharpoonup> verda_Instance) \<Rightarrow> bool" where
  "api_added m req i m' = (m (vi_ID i) = None \<and> vi_ID i \<noteq> '''' \<and> m' = m(vi_ID i \<mapsto> i) \<and>
     vi_Tags i = r_Tags req \<and> vi_Hostname i = r_Hostname req)"

definition api_ages :: "verda_Instance \<Rightarrow> verda_Instance \<Rightarrow> bool" where
  "api_ages i i' = (vi_Tags i' = vi_Tags i \<and> vi_Hostname i' = vi_Hostname i \<and>
     (vi_Status i = StatusDiscontinued \<longrightarrow> vi_Status i' = StatusDiscontinued))"

definition api_touches_only :: "('a \<Rightarrow> string \<rightharpoonup> verda_Instance) \<Rightarrow> ('a \<Rightarrow> bool) \<Rightarrow> string \<Rightarrow>
    ('a, 'r) call \<Rightarrow> bool" where
  "api_touches_only view ok k f = (\<forall>w r w'. ok w \<longrightarrow> f w = (r, w') \<longrightarrow>
     ok w' \<and> (\<forall>k'. k' \<noteq> k \<longrightarrow> view w' k' = view w k') \<and>
     (\<forall>i'. view w' k = Some i' \<longrightarrow> (\<exists>i. view w k = Some i \<and> api_ages i i')))"

definition verda_reads_ok :: "'a verda_api \<Rightarrow> ('a \<Rightarrow> string \<rightharpoonup> verda_Instance) \<Rightarrow> ('a \<Rightarrow> bool) \<Rightarrow> bool" where
  "verda_reads_ok api view ok =
     (\<forall>w. ok w \<longrightarrow>
        (\<forall>k i. view w k = Some i \<longrightarrow> vi_ID i = k \<and> k \<noteq> '''') \<and>
        (\<forall>r w'. Instances_Get api '''' w = (r, w') \<longrightarrow>
           (case r of Inr xs \<Rightarrow> set xs = ran (view w) | Inl e \<Rightarrow> \<not> errors_Is e ErrNotFound)) \<and>
        (\<forall>k r w'. Instances_GetByID api k w = (r, w') \<longrightarrow>
           (case r of Inr i \<Rightarrow> view w k = Some i
            | Inl e \<Rightarrow> \<not> errors_Is e ErrNotFound \<and> (isNotFound e \<longrightarrow> view w k = None))))"

definition verda_writes_ok :: "'a verda_api \<Rightarrow> ('a \<Rightarrow> string \<rightharpoonup> verda_Instance) \<Rightarrow> ('a \<Rightarrow> bool) \<Rightarrow> bool" where
  "verda_writes_ok api view ok =
     ((\<forall>w req r w'. ok w \<longrightarrow> Instances_Create api req w = (r, w') \<longrightarrow> ok w' \<and>
         (case r of Inr i \<Rightarrow> api_added (view w) req i (view w')
          | Inl e \<Rightarrow> view w' = view w \<or> (\<exists>i. api_added (view w) req i (view w')))) \<and>
      (\<forall>k. api_touches_only view ok k (Instances_Shutdown api k)) \<and>
      (\<forall>k vs p. api_touches_only view ok k (Instances_Delete api [k] vs p)))"

definition verda_frame_ok :: "'a verda_api \<Rightarrow> ('a \<Rightarrow> string \<rightharpoonup> verda_Instance) \<Rightarrow> ('a \<Rightarrow> bool) \<Rightarrow> bool" where
  "verda_frame_ok api view ok =
     (api_keeps view ok (Instances_Get api '''') \<and>
      (\<forall>k. api_keeps view ok (Instances_GetByID api k)) \<and>
      (\<forall>c. api_keeps view ok (InstanceTypes_Get api c)) \<and>
      api_keeps view ok (Volumes_GetVolumesInTrash api) \<and>
      (\<forall>k. api_keeps view ok (Volumes_GetVolume api k)) \<and>
      api_keeps view ok (Volumes_ListVolumes api) \<and>
      (\<forall>k n l. api_keeps view ok (Volumes_CloneVolume api k n l)) \<and>
      (\<forall>k t. api_keeps view ok (Volumes_AddTag api k t)) \<and>
      (\<forall>k p. api_keeps view ok (Volumes_DeleteVolume api k p)) \<and>
      api_keeps view ok (StartupScripts_GetAllStartupScripts api) \<and>
      (\<forall>n t. api_keeps view ok (StartupScripts_AddStartupScript api n t)) \<and>
      (\<forall>k. api_keeps view ok (StartupScripts_DeleteStartupScript api k)))"

definition verda_api_ok :: "'a verda_api \<Rightarrow> ('a \<Rightarrow> string \<rightharpoonup> verda_Instance) \<Rightarrow> ('a \<Rightarrow> bool) \<Rightarrow> bool" where
  "verda_api_ok api view ok =
     (verda_reads_ok api view ok \<and> verda_writes_ok api view ok \<and> verda_frame_ok api view ok)"

lemma api_keepsD: "api_keeps view ok f \<Longrightarrow> f w = (r, w') \<Longrightarrow> ok w \<Longrightarrow> ok w' \<and> view w' = view w"
  unfolding api_keeps_def by blast

lemma api_keepsI: "(\<And>w r w'. ok w \<Longrightarrow> f w = (r, w') \<Longrightarrow> ok w' \<and> view w' = view w) \<Longrightarrow> api_keeps view ok f"
  unfolding api_keeps_def by blast

text \<open>Sequencing a call that keeps the view with one that does.\<close>

lemma api_keeps_case:
  assumes "api_keeps view ok f" "\<And>e. api_keeps view ok (g e)" "\<And>a. api_keeps view ok (h a)"
  shows "api_keeps view ok (\<lambda>w. case f w of (Inl e, w) \<Rightarrow> g e w | (Inr a, w) \<Rightarrow> h a w)"
proof (rule api_keepsI)
  fix w r w'
  assume "ok w" and eq: "(case f w of (Inl e, w) \<Rightarrow> g e w | (Inr a, w) \<Rightarrow> h a w) = (r, w')"
  obtain q v where q: "f w = (q, v)" by fastforce
  from api_keepsD [OF assms(1) q \<open>ok w\<close>] have v: "ok v" "view v = view w" by auto
  show "ok w' \<and> view w' = view w"
  proof (cases q)
    case (Inl e)
    with eq q have "g e v = (r, w')" by simp
    from api_keepsD [OF assms(2) this v(1)] v show ?thesis by simp
  next
    case (Inr a)
    with eq q have "h a v = (r, w')" by simp
    from api_keepsD [OF assms(3) this v(1)] v show ?thesis by simp
  qed
qed

lemma api_keeps_if [intro]:
  "api_keeps view ok f \<Longrightarrow> api_keeps view ok g \<Longrightarrow> api_keeps view ok (\<lambda>w. if b then f w else g w)"
  by (cases b) simp_all

lemma api_keeps_return [simp]: "api_keeps view ok (\<lambda>w. (r, w))"
  by (rule api_keepsI) simp

lemma verda_api_keeps:
  assumes "verda_api_ok api view ok"
  shows "api_keeps view ok (Instances_Get api '''')"
    and "api_keeps view ok (Instances_GetByID api k)"
    and "api_keeps view ok (InstanceTypes_Get api k)"
    and "api_keeps view ok (Volumes_GetVolumesInTrash api)"
    and "api_keeps view ok (Volumes_GetVolume api k)"
    and "api_keeps view ok (Volumes_ListVolumes api)"
    and "api_keeps view ok (Volumes_CloneVolume api k n l)"
    and "api_keeps view ok (Volumes_AddTag api k t)"
    and "api_keeps view ok (Volumes_DeleteVolume api k p)"
    and "api_keeps view ok (StartupScripts_GetAllStartupScripts api)"
    and "api_keeps view ok (StartupScripts_AddStartupScript api n txt)"
    and "api_keeps view ok (StartupScripts_DeleteStartupScript api k)"
  using assms by (simp_all add: verda_api_ok_def verda_frame_ok_def)

lemma verda_read_facts:
  assumes "verda_api_ok api view ok" and "ok w"
  shows "view w k = Some i \<Longrightarrow> vi_ID i = k \<and> k \<noteq> ''''"
    and "Instances_Get api '''' w = (Inr xs, w') \<Longrightarrow> set xs = ran (view w)"
    and "Instances_Get api '''' w = (Inl e, w') \<Longrightarrow> \<not> errors_Is e ErrNotFound"
    and "Instances_GetByID api k w = (Inr i, w') \<Longrightarrow> view w k = Some i"
    and "Instances_GetByID api k w = (Inl e, w') \<Longrightarrow> isNotFound e \<Longrightarrow> view w k = None"
    and "Instances_GetByID api k w = (Inl e, w') \<Longrightarrow> \<not> errors_Is e ErrNotFound"
proof -
  from assms have ids: "\<forall>k i. view w k = Some i \<longrightarrow> vi_ID i = k \<and> k \<noteq> ''''"
    and get: "\<forall>r w'. Instances_Get api '''' w = (r, w') \<longrightarrow>
           (case r of Inr xs \<Rightarrow> set xs = ran (view w) | Inl e \<Rightarrow> \<not> errors_Is e ErrNotFound)"
    and by_id: "\<forall>k r w'. Instances_GetByID api k w = (r, w') \<longrightarrow>
           (case r of Inr i \<Rightarrow> view w k = Some i
            | Inl e \<Rightarrow> \<not> errors_Is e ErrNotFound \<and> (isNotFound e \<longrightarrow> view w k = None))"
    unfolding verda_api_ok_def verda_reads_ok_def by blast+
  show "view w k = Some i \<Longrightarrow> vi_ID i = k \<and> k \<noteq> ''''" using ids by blast
  show "Instances_Get api '''' w = (Inr xs, w') \<Longrightarrow> set xs = ran (view w)"
    and "Instances_Get api '''' w = (Inl e, w') \<Longrightarrow> \<not> errors_Is e ErrNotFound"
    by (auto dest!: get [rule_format])
  show "Instances_GetByID api k w = (Inr i, w') \<Longrightarrow> view w k = Some i"
    and "Instances_GetByID api k w = (Inl e, w') \<Longrightarrow> isNotFound e \<Longrightarrow> view w k = None"
    and "Instances_GetByID api k w = (Inl e, w') \<Longrightarrow> \<not> errors_Is e ErrNotFound"
    by (auto dest!: by_id [rule_format])
qed

lemma verda_create_facts:
  assumes "verda_api_ok api view ok" and "ok w" and "Instances_Create api req w = (r, w')"
  shows "ok w'"
    and "r = Inr i \<Longrightarrow> api_added (view w) req i (view w')"
    and "r = Inl e \<Longrightarrow> view w' = view w \<or> (\<exists>i. api_added (view w) req i (view w'))"
proof -
  from assms(1) have "\<forall>w req r w'. ok w \<longrightarrow> Instances_Create api req w = (r, w') \<longrightarrow> ok w' \<and>
         (case r of Inr i \<Rightarrow> api_added (view w) req i (view w')
          | Inl e \<Rightarrow> view w' = view w \<or> (\<exists>i. api_added (view w) req i (view w')))"
    unfolding verda_api_ok_def verda_writes_ok_def by (elim conjE)
  from this [rule_format, OF assms(2,3)]
  show "ok w'" and "r = Inr i \<Longrightarrow> api_added (view w) req i (view w')"
    and "r = Inl e \<Longrightarrow> view w' = view w \<or> (\<exists>i. api_added (view w) req i (view w'))"
    by simp_all
qed

lemma verda_touch_facts:
  assumes "verda_api_ok api view ok"
  shows "api_touches_only view ok k (Instances_Shutdown api k)"
    and "api_touches_only view ok k (Instances_Delete api [k] vs p)"
  using assms unfolding verda_api_ok_def verda_writes_ok_def by simp_all

lemmas keeps_intros = api_keeps_case api_keeps_if api_keeps_return

lemma api_keeps_option:
  "(\<And>x. api_keeps view ok (f x)) \<Longrightarrow> api_keeps view ok g \<Longrightarrow>
     api_keeps view ok (\<lambda>w. case z of Some x \<Rightarrow> f x w | None \<Rightarrow> g w)"
  by (cases z) simp_all

lemma sdkClient_reads_keep:
  assumes "verda_api_ok api view ok"
  shows "api_keeps view ok (sdkClient_GetInstanceType api ty)"
    and "api_keeps view ok (sdkClient_GetInstance api k)"
    and "api_keeps view ok (sdkClient_FindInstanceByTag api key val)"
    and "api_keeps view ok (sdkClient_FindInstanceByHostname api h)"
    and "api_keeps view ok (sdkClient_GetVolume api k)"
    and "api_keeps view ok (sdkClient_FindVolumeByName api n)"
  unfolding sdkClient_GetInstance_def [abs_def] sdkClient_FindInstanceByTag_def [abs_def]
    sdkClient_GetVolume_def [abs_def] sdkClient_GetInstanceType_def [abs_def]
    sdkClient_FindInstanceByHostname_def [abs_def] sdkClient_FindVolumeByName_def [abs_def]
  by (intro keeps_intros api_keeps_option verda_api_keeps [OF assms])+

lemma sdkClient_volumes_keep:
  assumes "verda_api_ok api view ok"
  shows "api_keeps view ok (tagVolume api k)"
    and "api_keeps view ok (sdkClient_EnsureVolumeTag api k)"
    and "api_keeps view ok (sdkClient_DeleteVolume api k)"
  unfolding sdkClient_EnsureVolumeTag_def [abs_def] tagVolume_def [abs_def]
    sdkClient_DeleteVolume_def [abs_def]
  by (intro keeps_intros verda_api_keeps [OF assms])+

lemma api_keeps_snd:
  "api_keeps view ok f \<Longrightarrow> api_keeps view ok (\<lambda>w. (x, snd (f w)))"
  unfolding api_keeps_def by (metis prod.collapse prod.inject)

lemma sdkClient_CloneVolume_keeps:
  assumes "verda_api_ok api view ok"
  shows "api_keeps view ok (sdkClient_CloneVolume api k n l)"
  unfolding sdkClient_CloneVolume_def [abs_def]
  by (intro keeps_intros api_keeps_snd verda_api_keeps [OF assms] sdkClient_volumes_keep [OF assms])

lemma sdkClient_DeleteStartupScript_keeps:
  assumes "verda_api_ok api view ok"
  shows "api_keeps view ok (sdkClient_DeleteStartupScript api k)"
  unfolding sdkClient_DeleteStartupScript_def [abs_def]
  by (intro keeps_intros verda_api_keeps [OF assms])

lemma delete_scripts_loop_keeps:
  assumes "verda_api_ok api view ok"
  shows "api_keeps view ok (delete_scripts_loop api name scripts)"
proof (induction scripts)
  case Nil
  show ?case by (rule api_keepsI) simp
next
  case (Cons s rest)
  show ?case
    unfolding delete_scripts_loop.simps [abs_def]
    by (intro keeps_intros sdkClient_DeleteStartupScript_keeps [OF assms] Cons.IH)
qed

lemma sdkClient_DeleteStartupScriptByName_keeps:
  assumes "verda_api_ok api view ok"
  shows "api_keeps view ok (sdkClient_DeleteStartupScriptByName api name)"
  unfolding sdkClient_DeleteStartupScriptByName_def [abs_def]
  by (intro keeps_intros verda_api_keeps [OF assms] delete_scripts_loop_keeps [OF assms])

lemma purge_loop_keeps:
  assumes "verda_api_ok api view ok"
  shows "api_keeps view ok (purge_loop api inTrash ids pending)"
proof (induction ids arbitrary: pending)
  case Nil
  show ?case by (rule api_keepsI) simp
next
  case (Cons s rest)
  show ?case
    unfolding purge_loop.simps [abs_def]
    by (intro keeps_intros verda_api_keeps [OF assms] Cons.IH)
qed

lemma sdkClient_PurgeInstanceVolumes_keeps:
  assumes "verda_api_ok api view ok"
  shows "api_keeps view ok (sdkClient_PurgeInstanceVolumes api k)"
  unfolding sdkClient_PurgeInstanceVolumes_def [abs_def]
  by (intro keeps_intros verda_api_keeps [OF assms] purge_loop_keeps [OF assms])

lemmas sdkClient_keeps = sdkClient_reads_keep sdkClient_volumes_keep sdkClient_CloneVolume_keeps
  sdkClient_DeleteStartupScript_keeps sdkClient_DeleteStartupScriptByName_keeps
  sdkClient_PurgeInstanceVolumes_keeps

section \<open>What deleting changes\<close>

lemma api_touches_keeps: "api_keeps view ok f \<Longrightarrow> api_touches_only view ok k f"
  unfolding api_keeps_def api_touches_only_def api_ages_def by metis

lemma api_touches_after_read:
  assumes "api_keeps view ok f" "\<And>e. api_touches_only view ok k (g e)"
    "\<And>a. api_touches_only view ok k (h a)"
  shows "api_touches_only view ok k (\<lambda>w. case f w of (Inl e, w) \<Rightarrow> g e w | (Inr a, w) \<Rightarrow> h a w)"
  unfolding api_touches_only_def
proof (intro allI impI)
  fix w r w'
  assume "ok w" and eq: "(case f w of (Inl e, w) \<Rightarrow> g e w | (Inr a, w) \<Rightarrow> h a w) = (r, w')"
  obtain q v where q: "f w = (q, v)" by fastforce
  from api_keepsD [OF assms(1) q \<open>ok w\<close>] have v: "ok v" "view v = view w" by auto
  have "\<exists>p. api_touches_only view ok k p \<and> p v = (r, w')"
    using eq q assms(2,3) by (cases q) auto
  then show "ok w' \<and> (\<forall>k'. k' \<noteq> k \<longrightarrow> view w' k' = view w k') \<and>
      (\<forall>i'. view w' k = Some i' \<longrightarrow> (\<exists>i. view w k = Some i \<and> api_ages i i'))"
    using v unfolding api_touches_only_def by (metis (no_types))
qed

lemma api_touches_before_return:
  assumes "api_touches_only view ok k f"
  shows "api_touches_only view ok k (\<lambda>w. case f w of
      (Inl e, w) \<Rightarrow> if b e then (x, w) else (y e, w) | (Inr a, w) \<Rightarrow> (z, w))"
  unfolding api_touches_only_def
proof (intro allI impI)
  fix w r w'
  assume "ok w" and eq: "(case f w of (Inl e, w) \<Rightarrow> if b e then (x, w) else (y e, w)
      | (Inr a, w) \<Rightarrow> (z, w)) = (r, w')"
  obtain q v where q: "f w = (q, v)" by fastforce
  with eq have "v = w'" by (cases q) (auto split: if_splits)
  with assms q \<open>ok w\<close> show "ok w' \<and> (\<forall>k'. k' \<noteq> k \<longrightarrow> view w' k' = view w k') \<and>
      (\<forall>i'. view w' k = Some i' \<longrightarrow> (\<exists>i. view w k = Some i \<and> api_ages i i'))"
    unfolding api_touches_only_def by blast
qed

lemma api_touches_if:
  "api_touches_only view ok k f \<Longrightarrow> api_touches_only view ok k g \<Longrightarrow>
     api_touches_only view ok k (\<lambda>w. if b then f w else g w)"
  by (cases b) simp_all

lemma sdkClient_DeleteInstance_touches:
  assumes "verda_api_ok api view ok"
  shows "api_touches_only view ok k (sdkClient_DeleteInstance api k)"
  unfolding sdkClient_DeleteInstance_def [abs_def]
  by (intro api_touches_after_read verda_api_keeps [OF assms] api_touches_if
      api_touches_keeps [OF api_keeps_return] api_touches_before_return verda_touch_facts [OF assms]
      sdkClient_keeps [OF assms])

lemma sdkClient_DeleteInstance_unmanaged:
  assumes "verda_api_ok api view ok" "ok w" "view w k = Some i"
    and "go_get (tag_map (vi_Tags i)) TagManagedBy \<noteq> ManagedByValue"
    and "sdkClient_DeleteInstance api k w = (r, w')"
  shows "view w' = view w" and "\<exists>e. r = Inl e"
proof -
  obtain q v where q: "Instances_GetByID api k w = (q, v)" by fastforce
  from api_keepsD [OF verda_api_keeps(2) [OF assms(1)] q assms(2)] have v: "view v = view w" by auto
  have "w' = v \<and> (\<exists>e. r = Inl e)"
  proof (cases q)
    case (Inl e)
    with assms(3,5) q verda_read_facts(5) [OF assms(1,2)] show ?thesis
      by (auto simp: sdkClient_DeleteInstance_def split: if_splits)
  next
    case (Inr j)
    with q verda_read_facts(4) [OF assms(1,2)] assms(3) have "j = i" by fastforce
    with Inr q assms(4,5) show ?thesis by (auto simp: sdkClient_DeleteInstance_def)
  qed
  with v show "view w' = view w" and "\<exists>e. r = Inl e" by auto
qed

section \<open>What creating changes\<close>

definition create_effect :: "(string \<rightharpoonup> verda_Instance) \<Rightarrow> InstanceSpec \<Rightarrow> (go_error + Instance) \<Rightarrow>
    (string \<rightharpoonup> verda_Instance) \<Rightarrow> bool" where
  "create_effect m spec r m' =
     (let added = (\<lambda>v. \<exists>req. api_added m req v m' \<and> r_Hostname req = is_Hostname spec \<and>
            r_Tags req = map (\<lambda>(k, v). \<lparr>t_Key = k, t_Value = v\<rparr>) (is_Tags spec))
      in case r of
           Inr i \<Rightarrow> \<exists>v. added v \<and> i_ID i = vi_ID v \<and> i_Status i = vi_Status v
         | Inl e \<Rightarrow> m' = m \<or> (\<exists>v. added v))"

lemma send_create_effect:
  assumes "verda_api_ok api view ok" "ok w" "send_create api spec req w = (r, w')"
    and "r_Hostname req = is_Hostname spec"
    and "r_Tags req = map (\<lambda>(k, v). \<lparr>t_Key = k, t_Value = v\<rparr>) (is_Tags spec)"
  shows "ok w' \<and> create_effect (view w) spec r (view w')"
proof -
  obtain q v where q: "Instances_Create api req w = (q, v)" by fastforce
  note facts = verda_create_facts [OF assms(1,2) q]
  show ?thesis
  proof (cases q)
    case (Inr i)
    with q assms(3) have "w' = v" "r = Inr (if i_StartupScriptID (toInstance i) = '''' \<and> r_StartupScriptID req \<noteq> None
          then toInstance i\<lparr>i_StartupScriptID := str_of (r_StartupScriptID req)\<rparr> else toInstance i)"
      by (auto simp: send_create_def Let_def)
    with facts(1) facts(2) [OF Inr] assms(4,5) show ?thesis
      by (auto simp: create_effect_def)
  next
    case (Inl e)
    define u where "u = (case r_StartupScriptID req of
        Some sid \<Rightarrow> snd (StartupScripts_DeleteStartupScript api sid v) | None \<Rightarrow> v)"
    from Inl q assms(3) have r: "w' = u" "\<exists>e. r = Inl e"
      by (auto simp: send_create_def Let_def u_def)
    have "ok u \<and> view u = view v"
    proof (cases "r_StartupScriptID req")
      case (Some sid)
      obtain x y where "StartupScripts_DeleteStartupScript api sid v = (x, y)" by fastforce
      with api_keepsD [OF verda_api_keeps(12) [OF assms(1)] this facts(1)] Some show ?thesis
        by (simp add: u_def)
    qed (simp add: u_def facts(1))
    with r facts(3) [OF Inl] assms(4,5) show ?thesis
      by (auto simp: create_effect_def)
  qed
qed

lemma create_effect_unchanged: "create_effect m spec (Inl e) m"
  by (simp add: create_effect_def)

lemma sdkClient_CreateInstance_effect:
  assumes api: "verda_api_ok api view ok" and "ok w"
    and "sdkClient_CreateInstance api spec w = (r, w')"
  shows "ok w' \<and> create_effect (view w) spec r (view w')"
proof -
  note keeps = api_keepsD [OF verda_api_keeps(1) [OF api]]
    api_keepsD [OF sdkClient_DeleteStartupScriptByName_keeps [OF api]]
    api_keepsD [OF verda_api_keeps(11) [OF api]]
  obtain q1 w1 where q1: "Instances_Get api '''' w = (q1, w1)" by fastforce
  obtain q2 w2 where q2: "sdkClient_DeleteStartupScriptByName api (is_Hostname spec) w1 = (q2, w2)" by fastforce
  obtain q3 w3 where q3: "StartupScripts_AddStartupScript api (is_Hostname spec) (is_StartupScript spec) w2 = (q3, w3)"
    by fastforce
  from keeps(1) [OF q1 \<open>ok w\<close>] have w1: "ok w1" "view w1 = view w" by auto
  from keeps(2) [OF q2 w1(1)] w1(2) have w2: "ok w2" "view w2 = view w" by auto
  from keeps(3) [OF q3 w2(1)] w2(2) have w3: "ok w3" "view w3 = view w" by auto
  have send: "ok w' \<and> create_effect (view v) spec r (view w')"
    if "ok v" "send_create api spec ((create_request api spec)\<lparr>r_StartupScriptID := sid\<rparr>) v = (r, w')"
    for v sid
    using send_create_effect [OF api that] by (simp add: create_request_def)
  have none: "create_request api spec = (create_request api spec)\<lparr>r_StartupScriptID := None\<rparr>"
    by (simp add: create_request_def)
  consider (early) e where "r = Inl e" "w' \<in> {w1, w2, w3}"
    | (plain) "send_create api spec (create_request api spec) w2 = (r, w')"
    | (script) sid where "send_create api spec ((create_request api spec)\<lparr>r_StartupScriptID := Some sid\<rparr>) w3 = (r, w')"
    using assms(3) q1 q2 q3
    by (auto simp: sdkClient_CreateInstance_def Let_def split: sum.splits option.splits if_splits)
  then show ?thesis
  proof cases
    case early
    with w1 w2 w3 show ?thesis by (auto simp: create_effect_unchanged)
  next
    case plain
    with send [of w2 None] w2 none show ?thesis by simp
  next
    case script
    from send [OF w3(1) script] w3(2) show ?thesis by simp
  qed
qed

end
