(* ===== verification/MemApi.thy ===== *)
theory MemApi
  imports CloudSDK
begin

text \<open>
  A small in-memory Verda service. It shows that the laws the client relies on can hold
  together, and lets the witnesses run the client on concrete accounts.
\<close>

record mem =
  mm_Instances :: "verda_Instance list"
  mm_Scripts :: "verda_StartupScript list"
  mm_Volumes :: "verda_Volume list"
  mm_Trash :: "verda_Volume list"

abbreviation mem_view :: "mem \<Rightarrow> string \<rightharpoonup> verda_Instance" where
  "mem_view w \<equiv> map_of (map (\<lambda>i. (vi_ID i, i)) (mm_Instances w))"

definition mem_ok :: "mem \<Rightarrow> bool" where
  "mem_ok w = (distinct (map vi_ID (mm_Instances w)) \<and> '''' \<notin> vi_ID ` set (mm_Instances w))"

definition mem_lookup :: "('b \<Rightarrow> string) \<Rightarrow> 'b list \<Rightarrow> string \<Rightarrow> go_error + 'b" where
  "mem_lookup key xs k = (case List.find (\<lambda>x. key x = k) xs of Some x \<Rightarrow> Inr x | None \<Rightarrow> Inl (APIError 404))"

definition mem_fresh :: "mem \<Rightarrow> string" where
  "mem_fresh w = replicate (Suc (sum_list (map (length \<circ> vi_ID) (mm_Instances w)))) (CHR ''i'')"

definition mem_set_status :: "string \<Rightarrow> string \<Rightarrow> mem \<Rightarrow> mem" where
  "mem_set_status k status w = w\<lparr>mm_Instances := map (\<lambda>i.
     if vi_ID i = k \<and> vi_Status i \<noteq> StatusDiscontinued then i\<lparr>vi_Status := status\<rparr> else i) (mm_Instances w)\<rparr>"

definition mem_create :: "CreateInstanceRequest \<Rightarrow> (mem, verda_Instance) call" where
  "mem_create req w =
     (let i = \<lparr>vi_ID = mem_fresh w, vi_Hostname = r_Hostname req, vi_Status = ''provisioning'', vi_IP = None,
               vi_Location = r_LocationCode req, vi_InstanceType = r_InstanceType req,
               vi_StartupScriptID = r_StartupScriptID req, vi_OSVolumeID = None, vi_VolumeIDs = [],
               vi_Tags = r_Tags req\<rparr>
      in (Inr i, w\<lparr>mm_Instances := mm_Instances w @ [i]\<rparr>))"

definition mem_api :: "mem verda_api" where
  "mem_api =
     \<lparr>Instances_Get = (\<lambda>_ w. (Inr (mm_Instances w), w)),
      Instances_GetByID = (\<lambda>k w. (mem_lookup vi_ID (mm_Instances w) k, w)),
      Instances_Create = mem_create,
      Instances_Shutdown = (\<lambda>k w. (Inr (), mem_set_status k StatusOffline w)),
      Instances_Delete = (\<lambda>ks _ _ w. (Inr (), fold (\<lambda>k. mem_set_status k StatusDiscontinued) ks w)),
      InstanceTypes_Get = (\<lambda>_ w. (Inr [], w)),
      Volumes_GetVolumesInTrash = (\<lambda>w. (Inr (mm_Trash w), w)),
      Volumes_GetVolume = (\<lambda>k w. (mem_lookup vv_ID (mm_Volumes w) k, w)),
      Volumes_ListVolumes = (\<lambda>w. (Inr (mm_Volumes w), w)),
      Volumes_CloneVolume = (\<lambda>k _ _ w. (Inl (APIError 404), w)),
      Volumes_AddTag = (\<lambda>k t w. (Inr (), w)),
      Volumes_DeleteVolume = (\<lambda>k _ w. (Inr (), w\<lparr>mm_Volumes := filter (\<lambda>v. vv_ID v \<noteq> k) (mm_Volumes w),
                                             mm_Trash := filter (\<lambda>v. vv_ID v \<noteq> k) (mm_Trash w)\<rparr>)),
      StartupScripts_GetAllStartupScripts = (\<lambda>w. (Inr (mm_Scripts w), w)),
      StartupScripts_AddStartupScript = (\<lambda>n t w.
        let s = \<lparr>vs_ID = ''script-'' @ n, vs_Name = n\<rparr> in (Inr s, w\<lparr>mm_Scripts := s # mm_Scripts w\<rparr>)),
      StartupScripts_DeleteStartupScript = (\<lambda>k w. (Inr (), w\<lparr>mm_Scripts := filter (\<lambda>s. vs_ID s \<noteq> k) (mm_Scripts w)\<rparr>)),
      VolumeTypeNVMe = ''NVMe'', SpotDiscontinueDeletePermanent = ''delete_permanently''\<rparr>"

lemma mem_api_simps [simp]:
  "Instances_Get mem_api = (\<lambda>_ w. (Inr (mm_Instances w), w))"
  "Instances_GetByID mem_api = (\<lambda>k w. (mem_lookup vi_ID (mm_Instances w) k, w))"
  "Instances_Create mem_api = mem_create"
  "Instances_Shutdown mem_api = (\<lambda>k w. (Inr (), mem_set_status k StatusOffline w))"
  "Instances_Delete mem_api = (\<lambda>ks _ _ w. (Inr (), fold (\<lambda>k. mem_set_status k StatusDiscontinued) ks w))"
  "InstanceTypes_Get mem_api = (\<lambda>_ w. (Inr [], w))"
  "Volumes_GetVolumesInTrash mem_api = (\<lambda>w. (Inr (mm_Trash w), w))"
  "Volumes_GetVolume mem_api = (\<lambda>k w. (mem_lookup vv_ID (mm_Volumes w) k, w))"
  "Volumes_ListVolumes mem_api = (\<lambda>w. (Inr (mm_Volumes w), w))"
  "Volumes_CloneVolume mem_api = (\<lambda>k _ _ w. (Inl (APIError 404), w))"
  "Volumes_AddTag mem_api = (\<lambda>k t w. (Inr (), w))"
  "Volumes_DeleteVolume mem_api = (\<lambda>k _ w. (Inr (), w\<lparr>mm_Volumes := filter (\<lambda>v. vv_ID v \<noteq> k) (mm_Volumes w),
                                             mm_Trash := filter (\<lambda>v. vv_ID v \<noteq> k) (mm_Trash w)\<rparr>))"
  "StartupScripts_GetAllStartupScripts mem_api = (\<lambda>w. (Inr (mm_Scripts w), w))"
  "StartupScripts_AddStartupScript mem_api = (\<lambda>n t w.
        let s = \<lparr>vs_ID = ''script-'' @ n, vs_Name = n\<rparr> in (Inr s, w\<lparr>mm_Scripts := s # mm_Scripts w\<rparr>))"
  "StartupScripts_DeleteStartupScript mem_api =
     (\<lambda>k w. (Inr (), w\<lparr>mm_Scripts := filter (\<lambda>s. vs_ID s \<noteq> k) (mm_Scripts w)\<rparr>))"
  by (simp_all add: mem_api_def)

lemma find_map_of: "List.find (\<lambda>x. key x = k) xs = map_of (map (\<lambda>x. (key x, x)) xs) k"
  by (induction xs) auto

lemma mem_fresh_new: "i \<in> set (mm_Instances w) \<Longrightarrow> vi_ID i \<noteq> mem_fresh w"
proof
  assume i: "i \<in> set (mm_Instances w)" and eq: "vi_ID i = mem_fresh w"
  from i have "length (vi_ID i) \<le> sum_list (map (length \<circ> vi_ID) (mm_Instances w))"
    by (intro member_le_sum_list) auto
  with eq show False by (simp add: mem_fresh_def)
qed

lemma mem_view_ID: "mem_view w k = Some i \<Longrightarrow> vi_ID i = k \<and> i \<in> set (mm_Instances w)"
  by (auto dest!: map_of_SomeD)

lemma mem_view_fresh: "mem_view w (mem_fresh w) = None"
  by (auto simp: map_of_eq_None_iff dest: mem_fresh_new)

lemma mem_ran: "mem_ok w \<Longrightarrow> ran (mem_view w) = set (mm_Instances w)"
  by (subst ran_distinct) (auto simp: mem_ok_def o_def image_image)

lemma mem_create_ok:
  assumes "mem_ok w" "mem_create req w = (r, w')"
  shows "mem_ok w' \<and> (\<exists>i. r = Inr i \<and> api_added (mem_view w) req i (mem_view w'))"
proof -
  obtain i where i: "r = Inr i" "w' = w\<lparr>mm_Instances := mm_Instances w @ [i]\<rparr>" "vi_ID i = mem_fresh w"
    "vi_Tags i = r_Tags req" "vi_Hostname i = r_Hostname req"
    using assms(2) by (auto simp: mem_create_def Let_def)
  have "mem_fresh w \<noteq> ''''" by (simp add: mem_fresh_def)
  moreover have "mem_view w' = (mem_view w)(vi_ID i \<mapsto> i)"
    using i(2,3) mem_view_fresh [of w] by (auto simp: fun_eq_iff map_add_def split: option.splits)
  ultimately show ?thesis
    using assms(1) i mem_view_fresh [of w]
    by (auto simp: mem_ok_def api_added_def dest: mem_fresh_new)
qed

lemma mem_set_status_touches:
  assumes "mem_ok w"
  shows "mem_ok (mem_set_status k s w)" and "k' \<noteq> k \<Longrightarrow> mem_view (mem_set_status k s w) k' = mem_view w k'"
    and "mem_view (mem_set_status k s w) k = Some i' \<Longrightarrow> \<exists>i. mem_view w k = Some i \<and> api_ages i i'"
proof -
  define g where "g = (\<lambda>i::verda_Instance. if vi_ID i = k \<and> vi_Status i \<noteq> StatusDiscontinued then i\<lparr>vi_Status := s\<rparr> else i)"
  have g: "vi_ID (g i) = vi_ID i" for i by (simp add: g_def)
  have view: "map_of (map (\<lambda>i. (vi_ID i, i)) (map g xs)) = map_option g \<circ> map_of (map (\<lambda>i. (vi_ID i, i)) xs)" for xs
    by (induction xs) (auto simp: g fun_eq_iff)
  have eq: "mm_Instances (mem_set_status k s w) = map g (mm_Instances w)"
    by (simp add: mem_set_status_def g_def)
  show "mem_ok (mem_set_status k s w)"
    using assms by (simp add: mem_ok_def eq o_def g image_image)
  show "k' \<noteq> k \<Longrightarrow> mem_view (mem_set_status k s w) k' = mem_view w k'"
    unfolding eq view by (cases "mem_view w k'") (auto simp: g_def dest: mem_view_ID)
  show "mem_view (mem_set_status k s w) k = Some i' \<Longrightarrow> \<exists>i. mem_view w k = Some i \<and> api_ages i i'"
    unfolding eq view by (auto simp: g_def api_ages_def)
qed

lemma mem_set_status_only: "api_touches_only mem_view mem_ok k (\<lambda>w. (r, mem_set_status k s w))"
  unfolding api_touches_only_def
proof (intro allI impI)
  fix w r' w' assume "mem_ok w" "(r, mem_set_status k s w) = (r', w')"
  then have w': "w' = mem_set_status k s w" by simp
  show "mem_ok w' \<and> (\<forall>k'. k' \<noteq> k \<longrightarrow> mem_view w' k' = mem_view w k') \<and>
      (\<forall>i'. mem_view w' k = Some i' \<longrightarrow> (\<exists>i. mem_view w k = Some i \<and> api_ages i i'))"
    unfolding w' using mem_set_status_touches [OF \<open>mem_ok w\<close>] by blast
qed

lemma mem_api_ok: "verda_api_ok mem_api mem_view mem_ok"
proof -
  have "verda_reads_ok mem_api mem_view mem_ok"
    unfolding verda_reads_ok_def
  proof (intro allI impI conjI)
    fix w k i assume "mem_ok w" "mem_view w k = Some i"
    from mem_view_ID [OF this(2)] this(1) show "vi_ID i = k" "k \<noteq> ''''"
      by (auto simp: mem_ok_def image_iff)
  qed (auto simp: mem_ran mem_lookup_def find_map_of isNotFound_def split: option.splits)
  moreover have "verda_writes_ok mem_api mem_view mem_ok"
    unfolding verda_writes_ok_def
  proof (intro allI impI conjI)
    fix w req r w' assume "mem_ok w" "Instances_Create mem_api req w = (r, w')"
    with mem_create_ok [of w req r w'] show "mem_ok w'"
      "case r of Inr i \<Rightarrow> api_added (mem_view w) req i (mem_view w')
       | Inl e \<Rightarrow> mem_view w' = mem_view w \<or> (\<exists>i. api_added (mem_view w) req i (mem_view w'))"
      by auto
  qed (simp_all add: mem_set_status_only)
  moreover have "verda_frame_ok mem_api mem_view mem_ok"
    by (simp add: verda_frame_ok_def api_keeps_def mem_ok_def Let_def)
  ultimately show ?thesis by (simp add: verda_api_ok_def)
qed

end
