(* ===== verification/CloudSDKProps.thy ===== *)
theory CloudSDKProps
  imports CloudSDK MemApi
begin

text \<open>
  What the production client guarantees: under the laws of the API it satisfies the contract the
  controllers rely on, it refuses to touch what the provider does not own, it deletes in two
  phases, and it never keeps the startup script of an instance it could not create.
\<close>

section \<open>The client implements the contract\<close>

abbreviation sdk_insts :: "('a \<Rightarrow> string \<rightharpoonup> verda_Instance) \<Rightarrow> 'a \<Rightarrow> string \<rightharpoonup> Instance" where
  "sdk_insts view w \<equiv> map_option toInstance \<circ> view w"

lemma added_of_api_added:
  assumes "api_added m req v m'" "distinct (map fst (is_Tags s))" "i_ID i = vi_ID v" "i_Status i = vi_Status v"
    and "r_Hostname req = is_Hostname s"
    and "r_Tags req = map (\<lambda>(k, v). \<lparr>t_Key = k, t_Value = v\<rparr>) (is_Tags s)"
  shows "added (map_option toInstance \<circ> m) s i (map_option toInstance \<circ> m')"
  unfolding added_def
  by (rule exI [of _ "toInstance v"])
    (use assms in \<open>auto simp: api_added_def tag_map_request fun_eq_iff\<close>)

lemma ages_to_of_api_ages: "api_ages i i' \<Longrightarrow> ages_to (toInstance i) (toInstance i')"
  by (simp add: api_ages_def ages_to_def)

lemma ran_sdk_insts: "ran (map_option toInstance \<circ> m) = toInstance ` ran m"
  by (auto simp: ran_def)

lemma sdk_find_loop:
  assumes "verda_api_ok api view ok" "ok w"
    and "(case Instances_Get api '''' w of
        (Inl err, w) \<Rightarrow> (Inl (Wrapf msg [] err), w)
      | (Inr instances, w) \<Rightarrow> (find_loop p None (map toInstance instances), w)) = (r, w')"
  shows "r = Inr i \<Longrightarrow> i \<in> ran (sdk_insts view w) \<and> p i"
    and "r = Inr i \<Longrightarrow> i_Status i = StatusDiscontinued \<Longrightarrow> j \<in> ran (sdk_insts view w) \<Longrightarrow> p j \<Longrightarrow>
      i_Status j = StatusDiscontinued"
    and "r = Inl e \<Longrightarrow> errors_Is e ErrNotFound \<Longrightarrow> j \<in> ran (sdk_insts view w) \<Longrightarrow> \<not> p j"
proof -
  obtain q v where q: "Instances_Get api '''' w = (q, v)" by fastforce
  have "\<exists>xs. r = find_loop p None xs \<and> set xs = ran (sdk_insts view w)" if "q = Inr xs" for xs
    using that assms(3) q verda_read_facts(2) [OF assms(1,2)]
    by (intro exI [of _ "map toInstance xs"]) (auto simp: ran_sdk_insts)
  moreover have "\<exists>e'. r = Inl e' \<and> \<not> errors_Is e' ErrNotFound" if "q = Inl e" for e
    using that assms(3) q verda_read_facts(3) [OF assms(1,2)] by auto
  ultimately have "(\<exists>xs. r = find_loop p None xs \<and> set xs = ran (sdk_insts view w)) \<or>
      (\<exists>e'. r = Inl e' \<and> \<not> errors_Is e' ErrNotFound)"
    by (cases q) blast+
  then consider (found) xs where "find_loop p None xs = r" "ran (sdk_insts view w) = set xs"
    | (failed) e' where "r = Inl e'" "\<not> errors_Is e' ErrNotFound" by metis
  note cases = this
  show "r = Inr i \<Longrightarrow> i \<in> ran (sdk_insts view w) \<and> p i"
    by (cases rule: cases) (auto dest: find_loop_None_Inr(1,2))
  show "r = Inr i \<Longrightarrow> i_Status i = StatusDiscontinued \<Longrightarrow> j \<in> ran (sdk_insts view w) \<Longrightarrow> p j \<Longrightarrow>
      i_Status j = StatusDiscontinued"
    by (cases rule: cases) (auto dest: find_loop_None_Inr(3))
  show "r = Inl e \<Longrightarrow> errors_Is e ErrNotFound \<Longrightarrow> j \<in> ran (sdk_insts view w) \<Longrightarrow> \<not> p j"
    by (cases rule: cases) (auto dest: find_loop_Inl)
qed

lemma sdkClient_simps [simp]:
  "GetInstanceType (sdkClient api) = sdkClient_GetInstanceType api"
  "GetInstance (sdkClient api) = sdkClient_GetInstance api"
  "FindInstanceByHostname (sdkClient api) = sdkClient_FindInstanceByHostname api"
  "FindInstanceByTag (sdkClient api) = sdkClient_FindInstanceByTag api"
  "CreateInstance (sdkClient api) = sdkClient_CreateInstance api"
  "DeleteStartupScriptByName (sdkClient api) = sdkClient_DeleteStartupScriptByName api"
  "DeleteInstance (sdkClient api) = sdkClient_DeleteInstance api"
  "PurgeInstanceVolumes (sdkClient api) = sdkClient_PurgeInstanceVolumes api"
  "DeleteStartupScript (sdkClient api) = sdkClient_DeleteStartupScript api"
  "GetVolume (sdkClient api) = sdkClient_GetVolume api"
  "FindVolumeByName (sdkClient api) = sdkClient_FindVolumeByName api"
  "CloneVolume (sdkClient api) = sdkClient_CloneVolume api"
  "DeleteVolume (sdkClient api) = sdkClient_DeleteVolume api"
  "EnsureVolumeTag (sdkClient api) = sdkClient_EnsureVolumeTag api"
  by (simp_all add: sdkClient_def)

lemma sdk_insts_frame:
  assumes "api_keeps view ok f" "ok w" "f w = (r, w')"
  shows "ok w' \<and> sdk_insts view w' = sdk_insts view w"
  using api_keepsD [OF assms(1,3,2)] by simp

lemma sdk_GetInstance:
  assumes "verda_api_ok api view ok" "ok w" "sdkClient_GetInstance api k w = (r, w')"
  shows "r = Inr i \<Longrightarrow> sdk_insts view w k = Some i"
    and "r = Inl e \<Longrightarrow> errors_Is e ErrNotFound \<Longrightarrow> sdk_insts view w k = None"
proof -
  obtain q v where q: "Instances_GetByID api k w = (q, v)" by fastforce
  note facts = verda_read_facts [OF assms(1,2)]
  show "r = Inr i \<Longrightarrow> sdk_insts view w k = Some i"
    and "r = Inl e \<Longrightarrow> errors_Is e ErrNotFound \<Longrightarrow> sdk_insts view w k = None"
    using assms(3) q facts(4-6) by (cases q; auto simp: sdkClient_GetInstance_def split: if_splits)+
qed

lemma sdk_CreateInstance:
  assumes "verda_api_ok api view ok" "ok w" "sdkClient_CreateInstance api s w = (r, w')"
    and "distinct (map fst (is_Tags s))"
  shows "r = Inr i \<Longrightarrow> added (sdk_insts view w) s i (sdk_insts view w')"
    and "r = Inl e \<Longrightarrow> sdk_insts view w' = sdk_insts view w \<or>
      (\<exists>i. added (sdk_insts view w) s i (sdk_insts view w'))"
proof -
  note eff = sdkClient_CreateInstance_effect [OF assms(1-3), THEN conjunct2]
  show "added (sdk_insts view w) s i (sdk_insts view w')" if "r = Inr i"
    using eff that assms(4) by (auto simp: create_effect_def intro: added_of_api_added)
  show "sdk_insts view w' = sdk_insts view w \<or>
      (\<exists>i. added (sdk_insts view w) s i (sdk_insts view w'))" if "r = Inl e"
  proof (cases "view w' = view w")
    case False
    with eff that obtain req v where "api_added (view w) req v (view w')"
      "r_Hostname req = is_Hostname s"
      "r_Tags req = map (\<lambda>(k, v). \<lparr>t_Key = k, t_Value = v\<rparr>) (is_Tags s)"
      by (auto simp: create_effect_def)
    then have "added (sdk_insts view w) s (toInstance v) (sdk_insts view w')"
      using assms(4) by (intro added_of_api_added) simp_all
    then show ?thesis by blast
  qed simp
qed

lemma sdk_DeleteInstance:
  assumes "verda_api_ok api view ok" "ok w" "sdkClient_DeleteInstance api k w = (r, w')"
  shows "ok w'"
    and "k' \<noteq> k \<Longrightarrow> sdk_insts view w' k' = sdk_insts view w k'"
    and "sdk_insts view w' k = Some i' \<Longrightarrow> \<exists>i. sdk_insts view w k = Some i \<and> ages_to i i'"
    and "sdk_insts view w k = Some i \<Longrightarrow> \<not> managed i \<Longrightarrow> sdk_insts view w' k = Some i"
proof -
  from sdkClient_DeleteInstance_touches [OF assms(1), of k] assms(2,3)
  have t: "ok w'" "\<And>k'. k' \<noteq> k \<Longrightarrow> view w' k' = view w k'"
    "\<And>i'. view w' k = Some i' \<Longrightarrow> \<exists>i. view w k = Some i \<and> api_ages i i'"
    unfolding api_touches_only_def by blast+
  then show "ok w'" "k' \<noteq> k \<Longrightarrow> sdk_insts view w' k' = sdk_insts view w k'" by simp_all
  show "\<exists>i. sdk_insts view w k = Some i \<and> ages_to i i'" if "sdk_insts view w' k = Some i'"
    using that t(3) ages_to_of_api_ages by fastforce
  show "sdk_insts view w' k = Some i" if "sdk_insts view w k = Some i" "\<not> managed i"
    using that sdkClient_DeleteInstance_unmanaged(1) [OF assms(1,2) _ _ assms(3)]
    by (auto simp: managed_def)
qed

lemma sdk_FindInstanceByTag:
  assumes "verda_api_ok api view ok" "ok w" "sdkClient_FindInstanceByTag api key val w = (r, w')"
  shows "r = Inr i \<Longrightarrow> i \<in> ran (sdk_insts view w) \<and> go_get (i_Tags i) key = val"
    and "r = Inr i \<Longrightarrow> i_Status i = StatusDiscontinued \<Longrightarrow> j \<in> ran (sdk_insts view w) \<Longrightarrow>
      go_get (i_Tags j) key = val \<Longrightarrow> i_Status j = StatusDiscontinued"
    and "r = Inl e \<Longrightarrow> errors_Is e ErrNotFound \<Longrightarrow> j \<in> ran (sdk_insts view w) \<Longrightarrow>
      go_get (i_Tags j) key \<noteq> val"
  by (erule sdk_find_loop [OF assms(1,2) assms(3) [unfolded sdkClient_FindInstanceByTag_def]]; assumption)+

lemma sdk_FindInstanceByHostname:
  assumes "verda_api_ok api view ok" "ok w" "sdkClient_FindInstanceByHostname api h w = (r, w')"
  shows "r = Inr i \<Longrightarrow> i \<in> ran (sdk_insts view w) \<and> i_Hostname i = h"
    and "r = Inr i \<Longrightarrow> i_Status i = StatusDiscontinued \<Longrightarrow> j \<in> ran (sdk_insts view w) \<Longrightarrow>
      i_Hostname j = h \<Longrightarrow> i_Status j = StatusDiscontinued"
    and "r = Inl e \<Longrightarrow> errors_Is e ErrNotFound \<Longrightarrow> j \<in> ran (sdk_insts view w) \<Longrightarrow> i_Hostname j \<noteq> h"
  by (erule sdk_find_loop [OF assms(1,2) assms(3) [unfolded sdkClient_FindInstanceByHostname_def]]; assumption)+

lemma sdk_insts_ID:
  assumes "verda_api_ok api view ok" "ok w" "sdk_insts view w k = Some i"
  shows "i_ID i = k \<and> k \<noteq> ''''"
  using assms(3) verda_read_facts(1) [OF assms(1,2)] by auto

lemma sdkClient_contract:
  assumes "verda_api_ok api view ok"
  shows "cloud_contract (sdkClient api) (sdk_insts view) ok"
  by (unfold_locales, unfold sdkClient_simps)
    (assumption | rule refl | rule sdkClient_keeps [OF assms, THEN sdk_insts_frame]
     | rule sdk_insts_ID [OF assms] sdk_GetInstance [OF assms] sdk_FindInstanceByTag [OF assms]
         sdk_FindInstanceByHostname [OF assms] sdk_CreateInstance [OF assms]
         sdk_DeleteInstance [OF assms] sdkClient_CreateInstance_effect [OF assms, THEN conjunct1])+

text \<open>
  C5. The production client implements the contract of \<^verbatim>\<open>cloud.Client\<close> that the
  controllers rely on, for every Verda API that keeps its documented laws.
\<close>

theorem sdkClient_implements_contract:
  "verda_api_ok api view ok \<Longrightarrow> cloud_contract (sdkClient api) (\<lambda>w k. map_option toInstance (view w k)) ok"
  using sdkClient_contract [of api view ok] by (simp add: o_def)

theorem sdkClient_implements_contract_witness:
  "cloud_contract (sdkClient mem_api) (\<lambda>w k. map_option toInstance (mem_view w k)) mem_ok"
  by (rule sdkClient_implements_contract [OF mem_api_ok])

section \<open>What is not the provider's is left alone\<close>

text \<open>
  C7. On an instance without the provider's tag, \<^verbatim>\<open>DeleteInstance\<close> and
  \<^verbatim>\<open>PurgeInstanceVolumes\<close> fail with \<^verbatim>\<open>ErrNotManaged\<close> after a single
  read, and so does \<^verbatim>\<open>DeleteVolume\<close> on a volume without it: nothing else is sent to the API,
  whatever the API does.
\<close>

theorem sdk_refuses_unmanaged:
  "(\<forall>inst w'. Instances_GetByID api k w = (Inr inst, w') \<and> go_get (tag_map (vi_Tags inst)) TagManagedBy \<noteq> ManagedByValue \<longrightarrow>
      (\<exists>e. sdkClient_DeleteInstance api k w = (Inl e, w') \<and> errors_Is e ErrNotManaged) \<and>
      (\<exists>e. sdkClient_PurgeInstanceVolumes api k w = (Inl e, w') \<and> errors_Is e ErrNotManaged)) \<and>
   (\<forall>vol w'. Volumes_GetVolume api k w = (Inr vol, w') \<and> \<not> hasTag (vv_Tags vol) TagManagedBy ManagedByValue \<longrightarrow>
      (\<exists>e. sdkClient_DeleteVolume api k w = (Inl e, w') \<and> errors_Is e ErrNotManaged))"
  by (simp add: sdkClient_DeleteInstance_def sdkClient_PurgeInstanceVolumes_def sdkClient_DeleteVolume_def)

definition demo_instance :: "string \<Rightarrow> string \<Rightarrow> verda_Tag list \<Rightarrow> verda_Instance" where
  "demo_instance ident status tags = \<lparr>vi_ID = ident, vi_Hostname = ''node-1'', vi_Status = status, vi_IP = Some ''10.0.0.1'',
     vi_Location = ''FIN-01'', vi_InstanceType = ''CPU.4V.16G'', vi_StartupScriptID = None,
     vi_OSVolumeID = Some ''v1'', vi_VolumeIDs = [''v1'', ''v2''], vi_Tags = tags\<rparr>"

definition demo_volume :: "string \<Rightarrow> string \<Rightarrow> verda_Tag list \<Rightarrow> verda_Volume" where
  "demo_volume ident status tags = \<lparr>vv_ID = ident, vv_Name = ident, vv_Status = status, vv_Location = ''FIN-01'',
     vv_IsOSVolume = False, vv_InstanceID = None, vv_Tags = tags\<rparr>"

definition managed_tag :: verda_Tag where
  "managed_tag = \<lparr>t_Key = TagManagedBy, t_Value = ManagedByValue\<rparr>"

theorem sdk_refuses_unmanaged_witness:
  defines "w \<equiv> \<lparr>mm_Instances = [demo_instance ''a'' ''running'' []], mm_Scripts = [],
      mm_Volumes = [demo_volume ''v9'' ''detached'' []], mm_Trash = []\<rparr>"
  shows "(\<exists>e. sdkClient_DeleteInstance mem_api ''a'' w = (Inl e, w) \<and> errors_Is e ErrNotManaged) \<and>
     (\<exists>e. sdkClient_PurgeInstanceVolumes mem_api ''a'' w = (Inl e, w) \<and> errors_Is e ErrNotManaged) \<and>
     (\<exists>e. sdkClient_DeleteVolume mem_api ''v9'' w = (Inl e, w) \<and> errors_Is e ErrNotManaged)"
proof -
  have "Instances_GetByID mem_api ''a'' w = (Inr (demo_instance ''a'' ''running'' []), w)"
    "go_get (tag_map (vi_Tags (demo_instance ''a'' ''running'' []))) TagManagedBy \<noteq> ManagedByValue"
    "Volumes_GetVolume mem_api ''v9'' w = (Inr (demo_volume ''v9'' ''detached'' []), w)"
    "\<not> hasTag (vv_Tags (demo_volume ''v9'' ''detached'' [])) TagManagedBy ManagedByValue"
    by (simp_all add: w_def mem_lookup_def demo_instance_def demo_volume_def tag_map_def)
  with sdk_refuses_unmanaged [of mem_api "''a''" w] sdk_refuses_unmanaged [of mem_api "''v9''" w] show ?thesis by blast
qed

section \<open>Deletion in two phases\<close>

lemma purge_loop_no_delete:
  "purge_loop (api\<lparr>Instances_Delete := f\<rparr>) inTrash ids n w = purge_loop api inTrash ids n w"
  by (induction ids arbitrary: n w) (auto split: prod.splits sum.splits)

text \<open>
  An instance is deleted only when it is offline: in every other state
  \<^verbatim>\<open>DeleteInstance\<close> behaves the same whatever the API's delete operation does, and
  with the running states it is exactly a shutdown.
\<close>

theorem sdk_deletes_only_offline:
  assumes "Instances_GetByID api k w = (Inr inst, w1)" "vi_Status inst \<noteq> StatusOffline"
  shows "sdkClient_DeleteInstance (api\<lparr>Instances_Delete := f\<rparr>) k w = sdkClient_DeleteInstance api k w \<and>
     (go_get (tag_map (vi_Tags inst)) TagManagedBy = ManagedByValue \<longrightarrow>
      vi_Status inst \<notin> {StatusDiscontinued, StatusDeleted, StatusDeleting} \<longrightarrow>
        snd (sdkClient_DeleteInstance api k w) = snd (Instances_Shutdown api k w1))"
  using assms
  by (auto simp: sdkClient_DeleteInstance_def sdkClient_PurgeInstanceVolumes_def purge_loop_no_delete
      split: prod.splits sum.splits)

theorem sdk_deletes_only_offline_witness:
  "snd (sdkClient_DeleteInstance mem_api ''a''
     \<lparr>mm_Instances = [demo_instance ''a'' ''running'' [managed_tag]], mm_Scripts = [], mm_Volumes = [], mm_Trash = []\<rparr>) =
     \<lparr>mm_Instances = [demo_instance ''a'' ''offline'' [managed_tag]], mm_Scripts = [], mm_Volumes = [], mm_Trash = []\<rparr>"
  using sdk_deletes_only_offline [of mem_api "''a''"
      "\<lparr>mm_Instances = [demo_instance ''a'' ''running'' [managed_tag]], mm_Scripts = [], mm_Volumes = [], mm_Trash = []\<rparr>"
      "demo_instance ''a'' ''running'' [managed_tag]"]
  by (simp add: mem_lookup_def demo_instance_def managed_tag_def tag_map_def mem_set_status_def)

text \<open>
  The volumes of an instance that are deleted or purged with it are all of its volumes: the OS
  volume and the data volumes, each once.
\<close>

theorem instanceVolumeIDs_exact:
  "distinct (instanceVolumeIDs inst) \<and>
   set (instanceVolumeIDs inst) = (set_option (vi_OSVolumeID inst) \<union> set (vi_VolumeIDs inst)) - {''''}"
  by (auto simp: instanceVolumeIDs_def distinct_add_ids set_add_ids split: option.splits)

section \<open>Purging\<close>

text \<open>
  What the API promises of volumes: \<open>inUse\<close> are the volumes of the account outside the trash and
  \<open>trash\<close> the identifiers in it. Reads are truthful, a permanent delete that succeeds (or finds
  nothing) leaves no such volume, and neither makes another volume appear.
\<close>

definition volume_api_ok :: "'a verda_api \<Rightarrow> ('a \<Rightarrow> string \<rightharpoonup> verda_Volume) \<Rightarrow> ('a \<Rightarrow> string set) \<Rightarrow> bool" where
  "volume_api_ok api inUse trash =
     ((\<forall>w r w'. Volumes_GetVolumesInTrash api w = (r, w') \<longrightarrow> inUse w' = inUse w \<and> trash w' = trash w \<and>
         (case r of Inr vs \<Rightarrow> trash w = vv_ID ` set vs | Inl _ \<Rightarrow> True)) \<and>
      (\<forall>w k r w'. Volumes_GetVolume api k w = (r, w') \<longrightarrow> inUse w' = inUse w \<and> trash w' = trash w \<and>
         (case r of Inr v \<Rightarrow> inUse w k = Some v | Inl e \<Rightarrow> isNotFound e \<longrightarrow> inUse w k = None)) \<and>
      (\<forall>w k r w'. Volumes_DeleteVolume api k True w = (r, w') \<longrightarrow>
         inUse w' \<subseteq>\<^sub>m inUse w \<and> trash w' \<subseteq> trash w \<and>
         ((case r of Inr _ \<Rightarrow> True | Inl e \<Rightarrow> isNotFound e) \<longrightarrow> inUse w' k = None \<and> k \<notin> trash w')))"

definition vol_gone :: "(string \<rightharpoonup> verda_Volume) \<Rightarrow> string set \<Rightarrow> string \<Rightarrow> bool" where
  "vol_gone m t k = (k \<notin> t \<and> (case m k of None \<Rightarrow> True | Some v \<Rightarrow> vv_Status v = VolumeStatusDeleted))"

lemma vol_gone_mono: "m' \<subseteq>\<^sub>m m \<Longrightarrow> t' \<subseteq> t \<Longrightarrow> vol_gone m t k \<Longrightarrow> vol_gone m' t' k"
  by (auto simp: vol_gone_def map_le_def dom_def split: option.splits)

lemma purge_loop_gone:
  assumes "volume_api_ok api inUse trash" "purge_loop api inTrash ids n w = (Inr n', w')" "trash w \<subseteq> set inTrash"
  shows "n \<le> n' \<and> inUse w' \<subseteq>\<^sub>m inUse w \<and> trash w' \<subseteq> trash w \<and>
     (n' = n \<longrightarrow> (\<forall>k\<in>set ids. vol_gone (inUse w') (trash w') k))"
  using assms(2,3)
proof (induction ids arbitrary: n w)
  case (Cons k ids)
  obtain q1 w1 where q1: "Volumes_DeleteVolume api k True w = (q1, w1)" by fastforce
  obtain q2 w2 where q2: "Volumes_GetVolume api k w = (q2, w2)" by fastforce
  have del: "inUse w1 \<subseteq>\<^sub>m inUse w" "trash w1 \<subseteq> trash w"
    "(case q1 of Inr _ \<Rightarrow> True | Inl e \<Rightarrow> isNotFound e) \<Longrightarrow> vol_gone (inUse w1) (trash w1) k"
    using assms(1) q1 unfolding volume_api_ok_def vol_gone_def by auto
  have get: "inUse w2 = inUse w" "trash w2 = trash w" "q2 = Inr v \<Longrightarrow> inUse w k = Some v"
    "q2 = Inl e \<Longrightarrow> isNotFound e \<Longrightarrow> inUse w k = None" for v e
    using assms(1) q2 unfolding volume_api_ok_def by (auto split: sum.splits)
  consider (trash) "purge_loop api inTrash ids n w1 = (Inr n', w')" "vol_gone (inUse w1) (trash w1) k"
    | (pending) "purge_loop api inTrash ids (n + 1) w2 = (Inr n', w')"
    | (settled) "purge_loop api inTrash ids n w2 = (Inr n', w')" "vol_gone (inUse w2) (trash w2) k"
  proof (cases "k \<in> set inTrash")
    case True
    with Cons.prems(1) q1 del(3) that(1) show ?thesis by (cases q1) (auto split: if_splits)
  next
    case False
    with Cons.prems(2) have "k \<notin> trash w" by auto
    with False Cons.prems(1) q2 get that(2,3) show ?thesis
      by (cases q2) (auto simp: vol_gone_def split: if_splits)
  qed
  then show ?case
  proof cases
    case trash
    from Cons.IH [OF trash(1)] Cons.prems(2) trash(2) del(1,2) show ?thesis
      by (auto intro: vol_gone_mono map_le_trans)
  next
    case pending
    from Cons.IH [OF pending] Cons.prems(2) get(1,2) show ?thesis by auto
  next
    case settled
    from Cons.IH [OF settled(1)] Cons.prems(2) settled(2) get(1,2) show ?thesis by (auto intro: vol_gone_mono)
  qed
qed simp

text \<open>
  C8. When a purge reports nothing pending, the API either has no instance under the identifier any
  more, in which case this is all that was asked, or it has one of the provider, and then none of its
  volumes is in the trash, and each is absent from the account or marked as deleted there.
\<close>

theorem purge_complete:
  assumes "volume_api_ok api inUse trash" "sdkClient_PurgeInstanceVolumes api k w = (Inr 0, w')"
  shows "(\<exists>e. Instances_GetByID api k w = (Inl e, w') \<and> isNotFound e) \<or>
     (\<exists>inst w1. Instances_GetByID api k w = (Inr inst, w1) \<and> go_get (tag_map (vi_Tags inst)) TagManagedBy = ManagedByValue \<and>
        (\<forall>vol \<in> set (instanceVolumeIDs inst). vol \<notin> trash w' \<and>
           (case inUse w' vol of None \<Rightarrow> True | Some v \<Rightarrow> vv_Status v = VolumeStatusDeleted)))"
proof -
  obtain q w1 where q: "Instances_GetByID api k w = (q, w1)" by fastforce
  show ?thesis
  proof (cases q)
    case (Inl e)
    with q assms(2) show ?thesis by (auto simp: sdkClient_PurgeInstanceVolumes_def split: if_splits)
  next
    case (Inr inst)
    with q assms(2) obtain vs w2 where managed: "go_get (tag_map (vi_Tags inst)) TagManagedBy = ManagedByValue" and
      list: "Volumes_GetVolumesInTrash api w1 = (Inr vs, w2)" and
      loop: "purge_loop api (map vv_ID vs) (instanceVolumeIDs inst) 0 w2 = (Inr 0, w')"
      by (auto simp: sdkClient_PurgeInstanceVolumes_def split: prod.splits sum.splits if_splits)
    from assms(1) list have "trash w2 \<subseteq> set (map vv_ID vs)"
      unfolding volume_api_ok_def by fastforce
    from purge_loop_gone [OF assms(1) loop this] q Inr managed show ?thesis by (simp add: vol_gone_def)
  qed
qed

lemma mem_volume_ok:
  "volume_api_ok mem_api (\<lambda>w. map_of (map (\<lambda>v. (vv_ID v, v)) (mm_Volumes w))) (\<lambda>w. vv_ID ` set (mm_Trash w))"
proof -
  have drop: "map_of (map (\<lambda>v. (vv_ID v, v)) (filter (\<lambda>v. vv_ID v \<noteq> k) vs)) j =
      (if j = k then None else map_of (map (\<lambda>v. (vv_ID v, v)) vs) j)" for vs :: "verda_Volume list" and k j
    by (induction vs) auto
  show ?thesis
    by (auto simp: volume_api_ok_def mem_lookup_def find_map_of drop map_le_def isNotFound_def split: option.splits)
qed

theorem purge_complete_witness:
  defines "w \<equiv> \<lparr>mm_Instances = [demo_instance ''a'' ''discontinued'' [managed_tag]], mm_Scripts = [],
      mm_Volumes = [], mm_Trash = [demo_volume ''v2'' ''deleted'' []]\<rparr>"
  shows "''v2'' \<notin> vv_ID ` set (mm_Trash (snd (sdkClient_PurgeInstanceVolumes mem_api ''a'' w)))"
proof -
  have get: "Instances_GetByID mem_api ''a'' w = (Inr (demo_instance ''a'' ''discontinued'' [managed_tag]), w)"
    by (simp add: w_def mem_lookup_def demo_instance_def)
  have ids: "instanceVolumeIDs (demo_instance ''a'' ''discontinued'' [managed_tag]) = [''v1'', ''v2'']"
    by (simp add: instanceVolumeIDs_def demo_instance_def)
  have "fst (sdkClient_PurgeInstanceVolumes mem_api ''a'' w) = Inr 0"
    by (simp add: sdkClient_PurgeInstanceVolumes_def instanceVolumeIDs_def w_def mem_lookup_def demo_instance_def
        demo_volume_def managed_tag_def tag_map_def isNotFound_def)
  then have "sdkClient_PurgeInstanceVolumes mem_api ''a'' w = (Inr 0, snd (sdkClient_PurgeInstanceVolumes mem_api ''a'' w))"
    by (metis prod.collapse)
  from purge_complete [OF mem_volume_ok this] get ids show ?thesis by simp
qed

section \<open>Startup scripts\<close>

text \<open>
  What the API promises of startup scripts, \<open>scripts\<close> being those of the account: a listing is
  complete, a delete that succeeds (or finds nothing) removes the script, an added script has the
  requested name, and calls about instances leave the scripts alone.
\<close>

definition script_api_ok :: "'a verda_api \<Rightarrow> ('a \<Rightarrow> verda_StartupScript set) \<Rightarrow> bool" where
  "script_api_ok api scripts =
     ((\<forall>w r w'. Instances_Get api '''' w = (r, w') \<longrightarrow> scripts w' = scripts w) \<and>
      (\<forall>req w r w'. Instances_Create api req w = (r, w') \<longrightarrow> scripts w' = scripts w) \<and>
      (\<forall>w r w'. StartupScripts_GetAllStartupScripts api w = (r, w') \<longrightarrow> scripts w' = scripts w \<and>
         (case r of Inr xs \<Rightarrow> set xs = scripts w | Inl _ \<Rightarrow> True)) \<and>
      (\<forall>k w r w'. StartupScripts_DeleteStartupScript api k w = (r, w') \<longrightarrow> scripts w' \<subseteq> scripts w \<and>
         ((case r of Inr _ \<Rightarrow> True | Inl e \<Rightarrow> isNotFound e) \<longrightarrow> (\<forall>s\<in>scripts w'. vs_ID s \<noteq> k))) \<and>
      (\<forall>n t w r w'. StartupScripts_AddStartupScript api n t w = (r, w') \<longrightarrow>
         (case r of Inr s \<Rightarrow> scripts w' = insert s (scripts w) \<and> vs_Name s = n | Inl _ \<Rightarrow> True)))"

lemma delete_scripts_loop_gone:
  assumes "script_api_ok api scripts" "delete_scripts_loop api name xs w = (Inr u, w')"
  shows "scripts w' \<subseteq> scripts w \<and> (\<forall>s\<in>set xs. vs_Name s = name \<longrightarrow> s \<notin> scripts w')"
  using assms(2)
proof (induction xs arbitrary: w)
  case (Cons s xs)
  show ?case
  proof (cases "vs_Name s = name")
    case True
    obtain q w1 where q: "StartupScripts_DeleteStartupScript api (vs_ID s) w = (q, w1)" by fastforce
    with True Cons.prems have loop: "delete_scripts_loop api name xs w1 = (Inr u, w')"
      and "case q of Inr _ \<Rightarrow> True | Inl e \<Rightarrow> isNotFound e"
      by (auto simp: sdkClient_DeleteStartupScript_def split: sum.splits if_splits)
    with assms(1) q have "scripts w1 \<subseteq> scripts w" "s \<notin> scripts w1"
      unfolding script_api_ok_def by blast+
    with Cons.IH [OF loop] show ?thesis by auto
  next
    case False
    with Cons show ?thesis by auto
  qed
qed simp

lemma DeleteStartupScriptByName_gone:
  assumes "script_api_ok api scripts" "sdkClient_DeleteStartupScriptByName api name w = (Inr u, w')"
  shows "\<forall>s\<in>scripts w'. vs_Name s \<noteq> name"
proof -
  obtain q w1 where q: "StartupScripts_GetAllStartupScripts api w = (q, w1)" by fastforce
  with assms(2) obtain xs where xs: "q = Inr xs" and loop: "delete_scripts_loop api name xs w1 = (Inr u, w')"
    by (cases q) (auto simp: sdkClient_DeleteStartupScriptByName_def)
  from assms(1) q xs have "set xs = scripts w1" unfolding script_api_ok_def by fastforce
  with delete_scripts_loop_gone [OF assms(1) loop] show ?thesis by blast
qed

lemma send_create_scripts:
  assumes "script_api_ok api scripts" "send_create api spec req w = (Inr i, w')"
  shows "scripts w' = scripts w"
  using assms by (auto simp: send_create_def Let_def script_api_ok_def split: prod.splits sum.splits)

text \<open>
  After an instance has been created, the account holds at most one startup script under its
  hostname: the scripts of earlier attempts, which carry bootstrap secrets, are gone.
\<close>

theorem create_leaves_one_script:
  assumes "script_api_ok api scripts" "sdkClient_CreateInstance api spec w = (Inr i, w')"
    and "s \<in> scripts w'" "vs_Name s = is_Hostname spec"
    and "s' \<in> scripts w'" "vs_Name s' = is_Hostname spec"
  shows "s = s'"
proof -
  let ?h = "is_Hostname spec"
  obtain q1 w1 where q1: "Instances_Get api '''' w = (q1, w1)" by fastforce
  obtain q3 w3 where q3: "sdkClient_DeleteStartupScriptByName api ?h w1 = (q3, w3)" by fastforce
  obtain q4 w4 where q4: "StartupScripts_AddStartupScript api ?h (is_StartupScript spec) w3 = (q4, w4)" by fastforce
  have run: "q3 = Inr ()" and cases: "(\<exists>req. send_create api spec req w3 = (Inr i, w')) \<or>
      (\<exists>new req. q4 = Inr new \<and> send_create api spec req w4 = (Inr i, w'))"
    using assms(2) q1 q3 q4
    by (auto simp: sdkClient_CreateInstance_def Let_def split: sum.splits option.splits if_splits)
  have clean: "\<forall>s\<in>scripts w3. vs_Name s \<noteq> ?h"
    by (rule DeleteStartupScriptByName_gone [OF assms(1) q3 [unfolded run]])
  consider (plain) req where "send_create api spec req w3 = (Inr i, w')"
    | (script) new req where "StartupScripts_AddStartupScript api ?h (is_StartupScript spec) w3 = (Inr new, w4)"
        "send_create api spec req w4 = (Inr i, w')"
    using cases q4 by blast
  then show ?thesis
  proof cases
    case plain
    from send_create_scripts [OF assms(1) plain] clean assms(3,4) show ?thesis by auto
  next
    case script
    have "scripts w4 = insert new (scripts w3)"
      using assms(1) script(1) unfolding script_api_ok_def by fastforce
    with send_create_scripts [OF assms(1) script(2)] clean assms(3-6) show ?thesis by auto
  qed
qed

lemma mem_script_ok: "script_api_ok mem_api (\<lambda>w. set (mm_Scripts w))"
  by (auto simp: script_api_ok_def mem_create_def Let_def)

theorem create_leaves_one_script_witness:
  defines "spec \<equiv> \<lparr>is_Hostname = ''n'', is_Description = Text '''', is_InstanceType = ''t'', is_Image = ''img'',
      is_Location = ''FIN-01'', is_SSHKeyIDs = [], is_OSVolumeSizeGB = 0, is_Contract = '''', is_Spot = False,
      is_SpotDiscontinuePolicy = '''', is_DataVolumes = [], is_StartupScript = ''#!/bin/sh'', is_Tags = []\<rparr>"
    and "w \<equiv> \<lparr>mm_Instances = [], mm_Scripts = [\<lparr>vs_ID = ''old'', vs_Name = ''n''\<rparr>], mm_Volumes = [], mm_Trash = []\<rparr>"
  shows "\<exists>i w'. sdkClient_CreateInstance mem_api spec w = (Inr i, w') \<and>
     (\<forall>s\<in>set (mm_Scripts w'). vs_Name s = ''n'' \<longrightarrow> s = \<lparr>vs_ID = ''script-n'', vs_Name = ''n''\<rparr>)"
proof -
  obtain i w' where run: "sdkClient_CreateInstance mem_api spec w = (Inr i, w')"
    and new: "\<lparr>vs_ID = ''script-n'', vs_Name = ''n''\<rparr> \<in> set (mm_Scripts w')"
    by (simp add: sdkClient_CreateInstance_def sdkClient_DeleteStartupScriptByName_def sdkClient_DeleteStartupScript_def
        send_create_def mem_create_def Let_def w_def spec_def)
  have "s = \<lparr>vs_ID = ''script-n'', vs_Name = ''n''\<rparr>" if "s \<in> set (mm_Scripts w')" "vs_Name s = ''n''" for s
    by (rule create_leaves_one_script [OF mem_script_ok run]) (use that new in \<open>simp_all add: spec_def\<close>)
  with run show ?thesis by blast
qed

end
