(* ===== verification/CloudFake.thy ===== *)
theory CloudFake
  imports CloudTypes
begin

text \<open>
  The in-memory cloud of \<^verbatim>\<open>internal/cloud/fake.go\<close>, which the controllers are tested
  against. Its maps are association lists whose order is the order a \<^verbatim>\<open>range\<close> visits;
  the mutex makes every method one step, so a method is a function on the state. The theory ends
  with the interpretation of \<open>cloud_contract\<close>: the fake keeps every law the controllers rely on.
\<close>

section \<open>State\<close>

record Fake =
  f_nextID :: nat
  f_Instances :: "(string \<times> Instance) list"
  f_Scripts :: gomap
  f_ScriptNames :: gomap
  f_Volumes :: "(string \<times> Volume) list"
  f_InstanceTypes :: "(string \<times> InstanceTypeInfo) list"
  f_Created :: "InstanceSpec list"

definition NewFake :: Fake where
  "NewFake =
     \<lparr>f_nextID = 0, f_Instances = [], f_Scripts = [], f_ScriptNames = [], f_Volumes = [],
      f_InstanceTypes =
        [(''CPU.4V.16G'', \<lparr>it_InstanceType = ''CPU.4V.16G'', it_CPUs = 4, it_MemoryGB = 16,
                           it_GPUs = 0, it_GPUModel = ''''\<rparr>),
         (''1H100.80S.30V'', \<lparr>it_InstanceType = ''1H100.80S.30V'', it_CPUs = 30, it_MemoryGB = 120,
                              it_GPUs = 1, it_GPUModel = ''H100''\<rparr>)],
      f_Created = []\<rparr>"

section \<open>Reading\<close>

definition lookup_or_NotFound :: "(string \<times> 'b) list \<Rightarrow> string \<Rightarrow> go_error + 'b" where
  "lookup_or_NotFound m k = (case map_of m k of Some x \<Rightarrow> Inr x | None \<Rightarrow> Inl ErrNotFound)"

definition Fake_GetInstanceType :: "string \<Rightarrow> (Fake, InstanceTypeInfo) call" where
  "Fake_GetInstanceType instanceType f = (lookup_or_NotFound (f_InstanceTypes f) instanceType, f)"

definition Fake_GetInstance :: "string \<Rightarrow> (Fake, Instance) call" where
  "Fake_GetInstance ident f = (lookup_or_NotFound (f_Instances f) ident, f)"

definition Fake_FindInstanceByHostname :: "string \<Rightarrow> (Fake, Instance) call" where
  "Fake_FindInstanceByHostname hostname f =
     (find_loop (\<lambda>inst. i_Hostname inst = hostname) None (map snd (f_Instances f)), f)"

definition Fake_FindInstanceByTag :: "string \<Rightarrow> string \<Rightarrow> (Fake, Instance) call" where
  "Fake_FindInstanceByTag key value f =
     (find_loop (\<lambda>inst. go_get (i_Tags inst) key = value) None (map snd (f_Instances f)), f)"

definition Fake_GetVolume :: "string \<Rightarrow> (Fake, Volume) call" where
  "Fake_GetVolume ident f = (lookup_or_NotFound (f_Volumes f) ident, f)"

definition Fake_FindVolumeByName :: "string \<Rightarrow> (Fake, Volume) call" where
  "Fake_FindVolumeByName name f =
     (case List.find (\<lambda>vol. v_Name vol = name) (map snd (f_Volumes f)) of
        Some vol \<Rightarrow> (Inr vol, f)
      | None \<Rightarrow> (Inl ErrNotFound, f))"

section \<open>Changing\<close>

text \<open>The loop over \<^verbatim>\<open>ScriptNames\<close> that deletes every script of a name.\<close>

definition drop_scripts :: "string \<Rightarrow> Fake \<Rightarrow> Fake" where
  "drop_scripts name f =
     (let ids = map fst (filter (\<lambda>(k, n). n = name) (f_ScriptNames f)) in
      f\<lparr>f_Scripts := filter (\<lambda>(k, s). k \<notin> set ids) (f_Scripts f),
        f_ScriptNames := filter (\<lambda>(k, n). k \<notin> set ids) (f_ScriptNames f)\<rparr>)"

definition Fake_CreateInstance :: "InstanceSpec \<Rightarrow> (Fake, Instance) call" where
  "Fake_CreateInstance spec f =
     (case List.find (hostname_conflict spec) (map snd (f_Instances f)) of
        Some existing \<Rightarrow> (Inl (Wrapf ''instance %s: %w'' [i_ID existing] ErrHostnameInUse), f)
      | None \<Rightarrow>
          let f = drop_scripts (is_Hostname spec) f;
              f = f\<lparr>f_Created := f_Created f @ [spec], f_nextID := f_nextID f + 1\<rparr>;
              ident = ''inst-'' @ itoa (f_nextID f);
              scriptID = (if is_StartupScript spec \<noteq> '''' then ''script-'' @ itoa (f_nextID f) else '''');
              f = (if is_StartupScript spec \<noteq> ''''
                   then f\<lparr>f_Scripts := AList.update scriptID (is_StartupScript spec) (f_Scripts f),
                          f_ScriptNames := AList.update scriptID (is_Hostname spec) (f_ScriptNames f)\<rparr>
                   else f);
              inst = \<lparr>i_ID = ident, i_Hostname = is_Hostname spec, i_Status = ''provisioning'',
                      i_IP = '''', i_Location = is_Location spec, i_InstanceType = is_InstanceType spec,
                      i_StartupScriptID = scriptID,
                      i_OSVolumeID = (if map_of (f_Volumes f) (is_Image spec) \<noteq> None
                                      then is_Image spec else ''''),
                      i_Tags = is_Tags spec\<rparr>;
              f = f\<lparr>f_Volumes := AList.map_entry (is_Image spec)
                                  (\<lambda>vol. vol\<lparr>v_Status := ''attached'', v_InstanceID := ident\<rparr>) (f_Volumes f)\<rparr>
          in (Inr inst, f\<lparr>f_Instances := AList.update ident inst (f_Instances f)\<rparr>))"

definition Fake_DeleteInstance :: "string \<Rightarrow> (Fake, unit) call" where
  "Fake_DeleteInstance ident f =
     (case map_of (f_Instances f) ident of
        Some inst \<Rightarrow>
          if go_get (i_Tags inst) TagManagedBy \<noteq> ManagedByValue then (Inl ErrNotManaged, f)
          else (Inr (), f\<lparr>f_Volumes := AList.delete (i_OSVolumeID inst) (f_Volumes f),
                          f_Instances := AList.map_entry ident (\<lambda>i. i\<lparr>i_Status := StatusDiscontinued\<rparr>) (f_Instances f)\<rparr>)
      | None \<Rightarrow> (Inr (), f))"

definition Fake_PurgeInstanceVolumes :: "string \<Rightarrow> (Fake, int) call" where
  "Fake_PurgeInstanceVolumes ident f =
     (case map_of (f_Instances f) ident of
        Some inst \<Rightarrow> (Inr 0, f\<lparr>f_Volumes := AList.delete (i_OSVolumeID inst) (f_Volumes f)\<rparr>)
      | None \<Rightarrow> (Inr 0, f))"

definition Fake_DeleteStartupScript :: "string \<Rightarrow> (Fake, unit) call" where
  "Fake_DeleteStartupScript ident f =
     (Inr (), f\<lparr>f_Scripts := AList.delete ident (f_Scripts f),
               f_ScriptNames := AList.delete ident (f_ScriptNames f)\<rparr>)"

definition Fake_DeleteStartupScriptByName :: "string \<Rightarrow> (Fake, unit) call" where
  "Fake_DeleteStartupScriptByName name f = (Inr (), drop_scripts name f)"

definition Fake_CloneVolume :: "string \<Rightarrow> string \<Rightarrow> string \<Rightarrow> (Fake, string) call" where
  "Fake_CloneVolume sourceID name location f =
     (case map_of (f_Volumes f) sourceID of
        None \<Rightarrow> (Inl ErrNotFound, f)
      | Some src \<Rightarrow>
          let f = f\<lparr>f_nextID := f_nextID f + 1\<rparr>;
              ident = ''vol-'' @ itoa (f_nextID f)
          in (Inr ident,
              f\<lparr>f_Volumes := AList.update ident
                   \<lparr>v_ID = ident, v_Name = name, v_Status = ''cloning'', v_Location = location,
                    v_IsOSVolume = v_IsOSVolume src, v_InstanceID = '''', v_Managed = True\<rparr> (f_Volumes f)\<rparr>))"

definition Fake_EnsureVolumeTag :: "string \<Rightarrow> (Fake, unit) call" where
  "Fake_EnsureVolumeTag ident f =
     (Inr (), f\<lparr>f_Volumes := AList.map_entry ident (\<lambda>vol. vol\<lparr>v_Managed := True\<rparr>) (f_Volumes f)\<rparr>)"

definition Fake_DeleteVolume :: "string \<Rightarrow> (Fake, unit) call" where
  "Fake_DeleteVolume ident f =
     (if (case map_of (f_Volumes f) ident of Some vol \<Rightarrow> \<not> v_Managed vol | None \<Rightarrow> False)
      then (Inl ErrNotManaged, f)
      else (Inr (), f\<lparr>f_Volumes := AList.delete ident (f_Volumes f)\<rparr>))"

definition Fake_Reset :: "Fake \<Rightarrow> Fake" where
  "Fake_Reset f = f\<lparr>f_Created := []\<rparr>"

definition Fake_SetVolumeStatus :: "string \<Rightarrow> string \<Rightarrow> Fake \<Rightarrow> Fake" where
  "Fake_SetVolumeStatus ident status f =
     f\<lparr>f_Volumes := AList.map_entry ident (\<lambda>vol. vol\<lparr>v_Status := status\<rparr>) (f_Volumes f)\<rparr>"

definition Fake_SetStatus :: "string \<Rightarrow> string \<Rightarrow> string \<Rightarrow> Fake \<Rightarrow> Fake" where
  "Fake_SetStatus ident status ip f =
     f\<lparr>f_Instances := AList.map_entry ident (\<lambda>i. i\<lparr>i_Status := status, i_IP := ip\<rparr>) (f_Instances f)\<rparr>"

definition fake_client :: "Fake cloud_client" where
  "fake_client =
     \<lparr>GetInstanceType = Fake_GetInstanceType, GetInstance = Fake_GetInstance,
      FindInstanceByHostname = Fake_FindInstanceByHostname, FindInstanceByTag = Fake_FindInstanceByTag,
      CreateInstance = Fake_CreateInstance, DeleteStartupScriptByName = Fake_DeleteStartupScriptByName,
      DeleteInstance = Fake_DeleteInstance, PurgeInstanceVolumes = Fake_PurgeInstanceVolumes,
      DeleteStartupScript = Fake_DeleteStartupScript, GetVolume = Fake_GetVolume,
      FindVolumeByName = Fake_FindVolumeByName, CloneVolume = Fake_CloneVolume,
      DeleteVolume = Fake_DeleteVolume, EnsureVolumeTag = Fake_EnsureVolumeTag\<rparr>"

section \<open>Invariant\<close>

text \<open>
  Instances are stored under their own, non-empty identifier, once each, and the identifiers the
  counter has still to give out are free.
\<close>

definition fake_insts :: "Fake \<Rightarrow> string \<rightharpoonup> Instance" where
  "fake_insts f = map_of (f_Instances f)"

definition fake_ok :: "Fake \<Rightarrow> bool" where
  "fake_ok f = (distinct (map fst (f_Instances f)) \<and>
     (\<forall>k i. fake_insts f k = Some i \<longrightarrow> i_ID i = k \<and> k \<noteq> '''') \<and>
     (\<forall>n > f_nextID f. fake_insts f (''inst-'' @ itoa n) = None))"

lemma fake_client_simps [simp]:
  "GetInstanceType fake_client = Fake_GetInstanceType" "GetInstance fake_client = Fake_GetInstance"
  "FindInstanceByHostname fake_client = Fake_FindInstanceByHostname"
  "FindInstanceByTag fake_client = Fake_FindInstanceByTag"
  "CreateInstance fake_client = Fake_CreateInstance"
  "DeleteStartupScriptByName fake_client = Fake_DeleteStartupScriptByName"
  "DeleteInstance fake_client = Fake_DeleteInstance"
  "PurgeInstanceVolumes fake_client = Fake_PurgeInstanceVolumes"
  "DeleteStartupScript fake_client = Fake_DeleteStartupScript" "GetVolume fake_client = Fake_GetVolume"
  "FindVolumeByName fake_client = Fake_FindVolumeByName" "CloneVolume fake_client = Fake_CloneVolume"
  "DeleteVolume fake_client = Fake_DeleteVolume" "EnsureVolumeTag fake_client = Fake_EnsureVolumeTag"
  by (simp_all add: fake_client_def)

lemma fake_ok_frame:
  "f_Instances f' = f_Instances f \<Longrightarrow> f_nextID f \<le> f_nextID f' \<Longrightarrow> fake_ok f \<Longrightarrow>
     fake_ok f' \<and> fake_insts f' = fake_insts f"
  by (simp add: fake_ok_def fake_insts_def)

lemma drop_scripts_simps [simp]:
  "f_Instances (drop_scripts n f) = f_Instances f" "f_nextID (drop_scripts n f) = f_nextID f"
  "f_Volumes (drop_scripts n f) = f_Volumes f" "f_Created (drop_scripts n f) = f_Created f"
  by (simp_all add: drop_scripts_def Let_def)

lemma fake_insts_ID: "fake_ok f \<Longrightarrow> fake_insts f k = Some i \<Longrightarrow> i_ID i = k \<and> k \<noteq> ''''"
  by (simp add: fake_ok_def)

lemma fake_ran: "fake_ok f \<Longrightarrow> set (map snd (f_Instances f)) = ran (fake_insts f)"
  by (simp add: fake_ok_def fake_insts_def snd_set_ran)

lemma fake_entry_ok:
  assumes "fake_ok f" "\<And>i. i_ID (g i) = i_ID i"
  shows "fake_ok (f\<lparr>f_Instances := AList.map_entry k g (f_Instances f)\<rparr>)"
  using assms by (fastforce simp: fake_ok_def fake_insts_def distinct_map_entry split: if_splits)

lemma fake_insts_entry [simp]:
  "fake_insts (f\<lparr>f_Instances := AList.map_entry k g (f_Instances f)\<rparr>) k' =
     (if k' = k then map_option g (fake_insts f k) else fake_insts f k')"
  by (simp add: fake_insts_def)

lemma fake_find_loop:
  assumes "fake_ok f" "r = find_loop p None (map snd (f_Instances f))"
  shows "r = Inr i \<Longrightarrow> i \<in> ran (fake_insts f) \<and> p i"
    and "r = Inr i \<Longrightarrow> i_Status i = StatusDiscontinued \<Longrightarrow> j \<in> ran (fake_insts f) \<Longrightarrow> p j \<Longrightarrow>
      i_Status j = StatusDiscontinued"
    and "r = Inl e \<Longrightarrow> j \<in> ran (fake_insts f) \<Longrightarrow> \<not> p j"
proof -
  define xs where "xs = map snd (f_Instances f)"
  have xs: "find_loop p None xs = r" "ran (fake_insts f) = set xs"
    using assms(2) fake_ran [OF assms(1)] by (simp_all only: xs_def)
  show "r = Inr i \<Longrightarrow> i \<in> ran (fake_insts f) \<and> p i"
    using xs by (auto dest: find_loop_None_Inr(1,2))
  show "r = Inr i \<Longrightarrow> i_Status i = StatusDiscontinued \<Longrightarrow> j \<in> ran (fake_insts f) \<Longrightarrow> p j \<Longrightarrow>
      i_Status j = StatusDiscontinued"
    using xs by (auto dest: find_loop_None_Inr(3))
  show "r = Inl e \<Longrightarrow> j \<in> ran (fake_insts f) \<Longrightarrow> \<not> p j"
    using xs by (auto dest: find_loop_Inl)
qed

lemma fake_create:
  assumes "fake_ok f" "Fake_CreateInstance spec f = (r, f')"
  shows "fake_ok f'" and "r = Inr i \<Longrightarrow> added (fake_insts f) spec i (fake_insts f')"
    and "r = Inl e \<Longrightarrow> f' = f"
proof -
  let ?k = "''inst-'' @ itoa (f_nextID f + 1)"
  have fresh: "fake_insts f ?k = None" using assms(1) by (simp add: fake_ok_def)
  have "(\<exists>e. r = Inl e) \<and> f' = f \<or> (\<exists>i. r = Inr i \<and> f_nextID f' = f_nextID f + 1 \<and>
      f_Instances f' = AList.update ?k i (f_Instances f) \<and> i_ID i = ?k \<and> i_Tags i = is_Tags spec \<and>
      i_Hostname i = is_Hostname spec)"
    using assms(2) by (auto simp: Fake_CreateInstance_def Let_def split: option.splits)
  then consider (failed) e where "r = Inl e" "f' = f" | (made) i where "r = Inr i" "f_nextID f' = f_nextID f + 1"
      "f_Instances f' = AList.update ?k i (f_Instances f)" "i_ID i = ?k" "i_Tags i = is_Tags spec"
      "i_Hostname i = is_Hostname spec"
    by blast
  note cases = this
  show "fake_ok f'"
  proof (cases rule: cases)
    case made
    with assms(1) show ?thesis
      by (auto simp: fake_ok_def fake_insts_def distinct_update map_of_update_apply split: if_splits)
  qed (use assms(1) in simp)
  show "r = Inr i \<Longrightarrow> added (fake_insts f) spec i (fake_insts f')"
    using fresh by (cases rule: cases) (auto simp: added_def fake_insts_def map_of_update_apply fun_eq_iff)
  show "r = Inl e \<Longrightarrow> f' = f"
    by (cases rule: cases) auto
qed

lemma fake_keeps:
  assumes "fake_ok f"
  shows "Fake_GetInstanceType k f = (r1, f') \<Longrightarrow> fake_ok f' \<and> fake_insts f' = fake_insts f"
    and "Fake_GetInstance k f = (r2, f') \<Longrightarrow> fake_ok f' \<and> fake_insts f' = fake_insts f"
    and "Fake_FindInstanceByHostname k f = (r2, f') \<Longrightarrow> fake_ok f' \<and> fake_insts f' = fake_insts f"
    and "Fake_FindInstanceByTag k v f = (r2, f') \<Longrightarrow> fake_ok f' \<and> fake_insts f' = fake_insts f"
    and "Fake_GetVolume k f = (r3, f') \<Longrightarrow> fake_ok f' \<and> fake_insts f' = fake_insts f"
    and "Fake_FindVolumeByName k f = (r3, f') \<Longrightarrow> fake_ok f' \<and> fake_insts f' = fake_insts f"
    and "Fake_PurgeInstanceVolumes k f = (r4, f') \<Longrightarrow> fake_ok f' \<and> fake_insts f' = fake_insts f"
    and "Fake_DeleteStartupScript k f = (u, f') \<Longrightarrow> fake_ok f' \<and> fake_insts f' = fake_insts f"
    and "Fake_DeleteStartupScriptByName k f = (u, f') \<Longrightarrow> fake_ok f' \<and> fake_insts f' = fake_insts f"
    and "Fake_CloneVolume k n l f = (r5, f') \<Longrightarrow> fake_ok f' \<and> fake_insts f' = fake_insts f"
    and "Fake_EnsureVolumeTag k f = (u, f') \<Longrightarrow> fake_ok f' \<and> fake_insts f' = fake_insts f"
    and "Fake_DeleteVolume k f = (u, f') \<Longrightarrow> fake_ok f' \<and> fake_insts f' = fake_insts f"
  by (rule fake_ok_frame [OF _ _ assms];
      auto simp: Fake_GetInstanceType_def Fake_GetInstance_def Fake_FindInstanceByHostname_def
        Fake_FindInstanceByTag_def Fake_GetVolume_def Fake_FindVolumeByName_def
        Fake_PurgeInstanceVolumes_def Fake_DeleteStartupScript_def Fake_DeleteStartupScriptByName_def
        Fake_CloneVolume_def Fake_EnsureVolumeTag_def Fake_DeleteVolume_def Let_def
        split: option.splits if_splits)+

lemma fake_delete:
  assumes "fake_ok f" "Fake_DeleteInstance k f = (u, f')"
  shows "fake_ok f'"
    and "k' \<noteq> k \<Longrightarrow> fake_insts f' k' = fake_insts f k'"
    and "fake_insts f' k = Some i' \<Longrightarrow> \<exists>i. fake_insts f k = Some i \<and> ages_to i i'"
    and "fake_insts f k = Some i \<Longrightarrow> \<not> managed i \<Longrightarrow> fake_insts f' k = Some i"
proof -
  define g where "g = (\<lambda>i::Instance. i\<lparr>i_Status := StatusDiscontinued\<rparr>)"
  consider (same) "f' = f" | (marked) i vols where "fake_insts f k = Some i" "managed i"
      "f' = f\<lparr>f_Volumes := vols, f_Instances := AList.map_entry k g (f_Instances f)\<rparr>"
    using assms(2) by (auto simp: Fake_DeleteInstance_def fake_insts_def managed_def g_def
        split: option.splits if_splits)
  note cases = this
  show "fake_ok f'"
  proof (cases rule: cases)
    case marked
    have "fake_ok (f\<lparr>f_Volumes := vols\<rparr>)" using assms(1) by (simp add: fake_ok_def fake_insts_def)
    from fake_entry_ok [OF this, of g k] marked(3) show ?thesis by (simp add: g_def)
  qed (use assms(1) in simp)
  show "k' \<noteq> k \<Longrightarrow> fake_insts f' k' = fake_insts f k'"
    by (cases rule: cases) (simp_all add: fake_insts_def)
  show "fake_insts f' k = Some i' \<Longrightarrow> \<exists>i. fake_insts f k = Some i \<and> ages_to i i'"
    by (cases rule: cases) (auto simp: fake_insts_def ages_to_def g_def)
  show "fake_insts f k = Some i \<Longrightarrow> \<not> managed i \<Longrightarrow> fake_insts f' k = Some i"
    by (cases rule: cases) auto
qed

section \<open>The fake implements the contract\<close>

lemma fake_GetInstance:
  assumes "Fake_GetInstance k f = (r, f')"
  shows "r = Inr i \<Longrightarrow> fake_insts f k = Some i" and "r = Inl e \<Longrightarrow> fake_insts f k = None"
  using assms by (auto simp: Fake_GetInstance_def lookup_or_NotFound_def fake_insts_def split: option.splits)

lemma fake_FindInstanceByTag:
  assumes "fake_ok f" "Fake_FindInstanceByTag key val f = (r, f')"
  shows "r = Inr i \<Longrightarrow> i \<in> ran (fake_insts f) \<and> go_get (i_Tags i) key = val"
    and "r = Inr i \<Longrightarrow> i_Status i = StatusDiscontinued \<Longrightarrow> j \<in> ran (fake_insts f) \<Longrightarrow>
      go_get (i_Tags j) key = val \<Longrightarrow> i_Status j = StatusDiscontinued"
    and "r = Inl e \<Longrightarrow> j \<in> ran (fake_insts f) \<Longrightarrow> go_get (i_Tags j) key \<noteq> val"
proof -
  have "r = find_loop (\<lambda>inst. go_get (i_Tags inst) key = val) None (map snd (f_Instances f))"
    using assms(2) by (auto simp: Fake_FindInstanceByTag_def)
  note loop = fake_find_loop [OF assms(1) this]
  show "r = Inr i \<Longrightarrow> i \<in> ran (fake_insts f) \<and> go_get (i_Tags i) key = val" by (rule loop(1))
  show "r = Inr i \<Longrightarrow> i_Status i = StatusDiscontinued \<Longrightarrow> j \<in> ran (fake_insts f) \<Longrightarrow>
      go_get (i_Tags j) key = val \<Longrightarrow> i_Status j = StatusDiscontinued" by (rule loop(2))
  show "r = Inl e \<Longrightarrow> j \<in> ran (fake_insts f) \<Longrightarrow> go_get (i_Tags j) key \<noteq> val" by (rule loop(3))
qed

lemma fake_FindInstanceByHostname:
  assumes "fake_ok f" "Fake_FindInstanceByHostname h f = (r, f')"
  shows "r = Inr i \<Longrightarrow> i \<in> ran (fake_insts f) \<and> i_Hostname i = h"
    and "r = Inr i \<Longrightarrow> i_Status i = StatusDiscontinued \<Longrightarrow> j \<in> ran (fake_insts f) \<Longrightarrow>
      i_Hostname j = h \<Longrightarrow> i_Status j = StatusDiscontinued"
    and "r = Inl e \<Longrightarrow> j \<in> ran (fake_insts f) \<Longrightarrow> i_Hostname j \<noteq> h"
proof -
  have "r = find_loop (\<lambda>inst. i_Hostname inst = h) None (map snd (f_Instances f))"
    using assms(2) by (auto simp: Fake_FindInstanceByHostname_def)
  note loop = fake_find_loop [OF assms(1) this]
  show "r = Inr i \<Longrightarrow> i \<in> ran (fake_insts f) \<and> i_Hostname i = h" by (rule loop(1))
  show "r = Inr i \<Longrightarrow> i_Status i = StatusDiscontinued \<Longrightarrow> j \<in> ran (fake_insts f) \<Longrightarrow>
      i_Hostname j = h \<Longrightarrow> i_Status j = StatusDiscontinued" by (rule loop(2))
  show "r = Inl e \<Longrightarrow> j \<in> ran (fake_insts f) \<Longrightarrow> i_Hostname j \<noteq> h" by (rule loop(3))
qed

interpretation fk: cloud_contract fake_client fake_insts fake_ok
  by (unfold_locales, unfold fake_client_simps)
    (assumption | rule refl disjI1 fake_insts_ID fake_keeps fake_GetInstance fake_FindInstanceByTag
        fake_FindInstanceByHostname fake_create fake_delete fake_create(3) [THEN arg_cong])+

end
