(* ===== verification/MachineSafety.thy ===== *)
theory MachineSafety
  imports MachineProps CloudSDKProps CloudFake
begin

text \<open>
  The guarantees of the machine reconciler with the production client, and a concrete account to
  see them at work. The proofs are the lemmas of \<open>cloud_contract\<close>, at the instance that
  \<open>sdkClient_contract\<close> gives.
\<close>

section \<open>Claims\<close>

text \<open>
  C1. A machine never has two live instances. In every state that reconciles (with their patch
  stored or lost), edits of the object and changes in the cloud can lead to, from a machine that
  has none, two live instances with the machine's tag are the same instance. The creation of an
  instance may report a failure and still have happened. Assumed: the API keeps its laws, and an
  instance that is gone is listed as discontinued.
\<close>

theorem one_live_instance:
  assumes "verda_api_ok api view ok"
    and "machine_reach (sdkClient api) (\<lambda>w k. map_option toInstance (view w k)) ok vm w"
    and "view w k = Some i" "go_get (tag_map (vi_Tags i)) TagMachine = machineTagValue vm"
      "\<not> instanceGone (toInstance i)"
    and "view w k' = Some j" "go_get (tag_map (vi_Tags j)) TagMachine = machineTagValue vm"
      "\<not> instanceGone (toInstance j)"
  shows "k = k'"
  by (rule cloud_contract.machine_reach_one_live [OF sdkClient_contract [OF assms(1)], of vm w k "toInstance i" k' "toInstance j"])
    (use assms(2-) in \<open>simp_all add: tagged_def o_def\<close>)

text \<open>
  C2. No instance is leaked: when a reconcile takes the finalizer off a machine in such a state,
  every instance with the machine's tag is gone. The account that is meant is the one the reconcile
  has the credentials for: those of the cluster's identity, and the manager's own for a machine
  without an owner or whose VerdaCluster is gone. That this is the account the instances were made in
  is assumed.
\<close>

theorem no_leaked_instance:
  assumes "verda_api_ok api view ok"
    and "machine_reach (sdkClient api) (\<lambda>w k. map_option toInstance (view w k)) ok vm w"
    and "env_for env vm (sdkClient api)" "Reconcile env w = (r, Some vm', w')"
    and "MachineFinalizer \<in> set (om_Finalizers (vm_Meta vm))" "MachineFinalizer \<notin> set (om_Finalizers (vm_Meta vm'))"
    and "view w' k = Some i" "go_get (tag_map (vi_Tags i)) TagMachine = machineTagValue vm"
  shows "instanceGone (toInstance i)"
  by (rule cloud_contract.machine_reach_no_leak [OF sdkClient_contract [OF assms(1)], of vm w env r vm' w' k])
    (use assms(2-) in \<open>simp_all add: tagged_def o_def\<close>)

section \<open>An example\<close>

definition demo_meta :: "nat option \<Rightarrow> ObjectMeta" where
  "demo_meta deleted = \<lparr>om_Name = ''node-1'', om_Namespace = ''default'', om_Annotations = [], om_Labels = [],
     om_Finalizers = [MachineFinalizer], om_DeletionTimestamp = deleted\<rparr>"

definition demo_vm :: "nat option \<Rightarrow> VerdaMachine" where
  "demo_vm deleted =
     \<lparr>vm_Kind = ''VerdaMachine'', vm_Meta = demo_meta deleted,
      vm_Spec = \<lparr>ms_ProviderID = '''', ms_InstanceType = ''CPU.4V.16G'', ms_Image = ''24.04.base'', ms_OSVolumeID = '''',
        ms_SSHKeyIDs = None, ms_OSVolumeSizeGB = 50, ms_Contract = '''', ms_Spot = None, ms_SpotDiscontinuePolicy = '''',
        ms_AdditionalVolumes = None\<rparr>,
      vm_Status = \<lparr>mst_Provisioned = None, mst_Conditions = [], mst_Addresses = [], mst_FailureDomain = '''',
        mst_InstanceID = '''', mst_InstanceState = '''', mst_OSVolumeID = '''', mst_StartupScriptID = ''''\<rparr>\<rparr>"

definition no_lb :: ControlPlaneLoadBalancer where
  "no_lb = \<lparr>lb_Enabled = None, lb_InstanceType = '''', lb_Image = '''', lb_SSHKeyIDs = None\<rparr>"

definition no_lb_status :: LoadBalancerStatus where
  "no_lb_status = \<lparr>ls_InstanceID = '''', ls_StartupScriptID = '''', ls_Address = '''', ls_Backends = [], ls_SecretPublished = None\<rparr>"

definition demo_vc :: VerdaCluster where
  "demo_vc =
     \<lparr>vc_Kind = ''VerdaCluster'', vc_Meta = demo_meta None,
      vc_Spec = \<lparr>cs_Location = ''FIN-01'', cs_ControlPlaneEndpoint = \<lparr>ep_Host = ''cp'', ep_Port = 6443\<rparr>, cs_IdentityRef = None,
        cs_ControlPlaneLoadBalancer = no_lb, cs_ServiceLoadBalancer = no_lb\<rparr>,
      vc_Status = \<lparr>cst_Provisioned = Some True, cst_Conditions = [], cst_LoadBalancer = no_lb_status,
        cst_ServiceLoadBalancer = no_lb_status, cst_FailureDomains = []\<rparr>\<rparr>"

definition demo_cluster :: Cluster where
  "demo_cluster = \<lparr>cl_Meta = demo_meta None, cl_InfrastructureProvisioned = Some True, cl_InfrastructureRefName = ''c'',
     cl_InfrastructureRefKind = ''VerdaCluster'', cl_InfrastructureRefDefined = True,
     cl_ControlPlaneEndpoint = \<lparr>ep_Host = '''', ep_Port = 0\<rparr>\<rparr>"

lemma demo_cluster_simps [simp]:
  "cl_Meta demo_cluster = demo_meta None" "cl_InfrastructureProvisioned demo_cluster = Some True"
  "cl_InfrastructureRefName demo_cluster = ''c''"
  by (simp_all add: demo_cluster_def)

definition demo_env :: "'w cloud_client \<Rightarrow> VerdaMachine \<Rightarrow> 'w machine_env" where
  "demo_env c vm =
     \<lparr>me_lib = plain_klib, me_now = 0, me_GetVerdaMachine = Inr vm, me_EnsureFinalizer = (\<lambda>_. Inr False),
      me_GetOwnerMachine = (\<lambda>_. Inr (Some \<lparr>ma_Meta = demo_meta None, ma_DataSecretName = Some ''boot''\<rparr>)),
      me_GetClusterFromMetadata = (\<lambda>_. Inr demo_cluster),
      me_EnsurePausedCondition = (\<lambda>_ vm. (Inr (False, False), vm)),
      me_GetVerdaCluster = (\<lambda>_ _. Inr demo_vc), me_NewHelper = (\<lambda>_. Inr ()), me_Patch = (\<lambda>_. None),
      me_ClientFor = (\<lambda>_. Inr c), me_GetSecret = (\<lambda>_ _. Inr [(''value'', ''#!/bin/sh'')]),
      me_IsControlPlaneMachine = (\<lambda>_. True), me_yaml_keys = (\<lambda>_. Inl (Opaque ''yaml'')),
      me_yaml_cfg = (\<lambda>_. Inl (Opaque ''yaml'')), me_gzip = Inr\<rparr>"

lemma demo_env_for: "env_for (demo_env c vm) vm c"
  by (simp add: env_for_def demo_env_def)

lemma demo_script:
  "ToStartupScript yk yc gz ''#!/bin/sh'' ''node-1'' = Inr \<lparr>br_Script = ''#!/bin/sh'', br_Unsupported = []\<rparr>"
proof -
  have "replace_placeholders ''#!/bin/sh'' ''node-1'' = ''#!/bin/sh''" "TrimSpace ''#!/bin/sh'' = ''#!/bin/sh''"
    by code_simp+
  then show ?thesis by (simp add: ToStartupScript_def HasPrefix_def)
qed

lemma demo_tag: "machineTagValue (demo_vm d) = ''default/node-1''"
proof -
  have "ToLower ''default/node-1'' = ''default/node-1''" by code_simp
  then show ?thesis by (simp add: machineTagValue_def demo_vm_def demo_meta_def truncateTag_def)
qed

definition empty_mem :: mem where
  "empty_mem = \<lparr>mm_Instances = [], mm_Scripts = [], mm_Volumes = [], mm_Trash = []\<rparr>"

lemma demo_vm_simps:
  "mst_InstanceID (vm_Status (demo_vm d)) = ''''" "mst_Provisioned (vm_Status (demo_vm d)) = None"
  "mst_OSVolumeID (vm_Status (demo_vm d)) = ''''" "mst_StartupScriptID (vm_Status (demo_vm d)) = ''''"
  "ms_OSVolumeID (vm_Spec (demo_vm d)) = ''''" "ms_AdditionalVolumes (vm_Spec (demo_vm d)) = None"
  "ms_SSHKeyIDs (vm_Spec (demo_vm d)) = None" "ms_Image (vm_Spec (demo_vm d)) = ''24.04.base''"
  "vm_Meta (demo_vm d) = demo_meta d" "om_DeletionTimestamp (demo_meta d) = d" "om_Name (demo_meta d) = ''node-1''"
  "om_Finalizers (demo_meta d) = [MachineFinalizer]"
  by (simp_all add: demo_vm_def demo_meta_def)

lemma demo_env_simps:
  "me_lib (demo_env c vm) = plain_klib" "me_GetVerdaMachine (demo_env c vm) = Inr vm"
  "me_EnsureFinalizer (demo_env c vm) = (\<lambda>_. Inr False)"
  "me_GetOwnerMachine (demo_env c vm) = (\<lambda>_. Inr (Some \<lparr>ma_Meta = demo_meta None, ma_DataSecretName = Some ''boot''\<rparr>))"
  "me_GetClusterFromMetadata (demo_env c vm) = (\<lambda>_. Inr demo_cluster)"
  "me_EnsurePausedCondition (demo_env c vm) = (\<lambda>_ vm. (Inr (False, False), vm))"
  "me_GetVerdaCluster (demo_env c vm) = (\<lambda>_ _. Inr demo_vc)" "me_NewHelper (demo_env c vm) = (\<lambda>_. Inr ())"
  "me_ClientFor (demo_env c vm) = (\<lambda>_. Inr c)" "me_now (demo_env c vm) = 0" "me_GetSecret (demo_env c vm) = (\<lambda>_ _. Inr [(''value'', ''#!/bin/sh'')])"
  by (simp_all add: demo_env_def)

lemma demo_create:
  "\<exists>i. createInstance (demo_env (sdkClient mem_api) (demo_vm None)) (sdkClient mem_api) cl demo_vc
          \<lparr>ma_Meta = demo_meta None, ma_DataSecretName = Some ''boot''\<rparr> (demo_vm None) b empty_mem =
     (Inr (toInstance i), \<lparr>mm_Instances = [i], mm_Scripts = [\<lparr>vs_ID = ''script-node-1'', vs_Name = ''node-1''\<rparr>],
        mm_Volumes = [], mm_Trash = []\<rparr>) \<and>
     vi_ID i = ''i'' \<and> vi_Status i = ''provisioning'' \<and> go_get (tag_map (vi_Tags i)) TagMachine = ''default/node-1''"
  by (simp add: createInstance_def getBootstrapData_def demo_env_simps demo_vm_simps demo_script
      sdkClient_CreateInstance_def sdkClient_DeleteStartupScriptByName_def send_create_def mem_create_def Let_def
      empty_mem_def instance_spec_def create_request_def demo_tag mem_fresh_def toInstance_def str_of_def tag_map_def)

lemma demo_find: "findInstance (sdkClient mem_api) (demo_vm d) empty_mem = (Inr None, empty_mem)"
  by (simp add: findInstance_def demo_vm_simps sdkClient_FindInstanceByTag_def empty_mem_def)

lemma demo_created:
  "\<exists>r vm' i. Reconcile (demo_env (sdkClient mem_api) (demo_vm None)) empty_mem =
     (r, Some vm', \<lparr>mm_Instances = [i], mm_Scripts = [\<lparr>vs_ID = ''script-node-1'', vs_Name = ''node-1''\<rparr>],
        mm_Volumes = [], mm_Trash = []\<rparr>) \<and>
     vi_ID i = ''i'' \<and> vi_Status i = ''provisioning'' \<and> go_get (tag_map (vi_Tags i)) TagMachine = ''default/node-1''"
proof -
  let ?cl = "demo_cluster"
  let ?ma = "\<lparr>ma_Meta = demo_meta None, ma_DataSecretName = Some ''boot''\<rparr>"
  obtain i where i: "createInstance (demo_env (sdkClient mem_api) (demo_vm None)) (sdkClient mem_api) ?cl demo_vc ?ma
        (demo_vm None) ''24.04.base'' empty_mem =
      (Inr (toInstance i), \<lparr>mm_Instances = [i], mm_Scripts = [\<lparr>vs_ID = ''script-node-1'', vs_Name = ''node-1''\<rparr>],
        mm_Volumes = [], mm_Trash = []\<rparr>)"
    "vi_ID i = ''i''" "vi_Status i = ''provisioning''" "go_get (tag_map (vi_Tags i)) TagMachine = ''default/node-1''"
    using demo_create [of ?cl "''24.04.base''"] by auto
  have "\<exists>r vm'. Reconcile (demo_env (sdkClient mem_api) (demo_vm None)) empty_mem =
     (r, Some vm', \<lparr>mm_Instances = [i], mm_Scripts = [\<lparr>vs_ID = ''script-node-1'', vs_Name = ''node-1''\<rparr>],
        mm_Volumes = [], mm_Trash = []\<rparr>)"
    by (simp add: Reconcile_def demo_env_simps demo_vm_simps with_patch_def reconcile_scope_def reconcileNormal_def
        Let_def demo_find create_and_use_def i(1) use_instance_def record_instance_def ensureOSVolumeTag_def
        act_on_status_def i(3) patchVerdaMachine_def)
  with i show ?thesis by blast
qed

lemma demo_reach_new: "machine_reach (sdkClient mem_api) (\<lambda>w k. map_option toInstance (mem_view w k)) mem_ok (demo_vm d) empty_mem"
  by (rule machine_reach.new_machine) (simp_all add: empty_mem_def mem_ok_def demo_vm_simps live_ids_def listed_ok_def)

theorem one_live_instance_witness:
  "\<exists>vm w k i. machine_reach (sdkClient mem_api) (\<lambda>w k. map_option toInstance (mem_view w k)) mem_ok vm w \<and>
     mem_view w k = Some i \<and> go_get (tag_map (vi_Tags i)) TagMachine = machineTagValue vm \<and>
     \<not> instanceGone (toInstance i) \<and> (\<forall>k' j. mem_view w k' = Some j \<longrightarrow>
       go_get (tag_map (vi_Tags j)) TagMachine = machineTagValue vm \<longrightarrow> \<not> instanceGone (toInstance j) \<longrightarrow> k = k')"
proof -
  let ?ins = "\<lambda>w k. map_option toInstance (mem_view w k)"
  obtain r vm' i w where run: "Reconcile (demo_env (sdkClient mem_api) (demo_vm None)) empty_mem = (r, Some vm', w)"
    and w: "mm_Instances w = [i]" and i: "vi_ID i = ''i''" "vi_Status i = ''provisioning''"
      "go_get (tag_map (vi_Tags i)) TagMachine = ''default/node-1''"
    using demo_created by fastforce
  have gone: "\<not> instanceGone (toInstance i)" by (simp add: i(2))
  have "machine_step (sdkClient mem_api) ?ins mem_ok (demo_vm None, empty_mem) (demo_vm None, w)"
    by (rule machine_step.reconciled [OF demo_env_for run]) simp
  then have reach: "machine_reach (sdkClient mem_api) ?ins mem_ok (demo_vm None) w"
    by (rule machine_reach.next_step [OF demo_reach_new]) (use gone in \<open>simp add: listed_ok_def w i ran_def\<close>)
  show ?thesis
    by (rule exI [of _ "demo_vm None"], rule exI [of _ w], rule exI [of _ "''i''"], rule exI [of _ i])
      (use reach gone one_live_instance [OF mem_api_ok reach, of "''i''" i] in \<open>auto simp: w i demo_tag\<close>)
qed

text \<open>An account that still lists the machine's instance, discontinued, while the machine is deleted.\<close>

definition old_instance :: verda_Instance where
  "old_instance = \<lparr>vi_ID = ''i'', vi_Hostname = ''node-1'', vi_Status = StatusDiscontinued, vi_IP = None,
     vi_Location = ''FIN-01'', vi_InstanceType = ''CPU.4V.16G'', vi_StartupScriptID = None, vi_OSVolumeID = None,
     vi_VolumeIDs = [], vi_Tags = [\<lparr>t_Key = TagMachine, t_Value = ''default/node-1''\<rparr>,
       \<lparr>t_Key = TagManagedBy, t_Value = ManagedByValue\<rparr>]\<rparr>"

definition old_mem :: mem where
  "old_mem = empty_mem\<lparr>mm_Instances := [old_instance]\<rparr>"

lemma demo_deleted:
  "\<exists>r vm'. Reconcile (demo_env (sdkClient mem_api) (demo_vm (Some 0))) old_mem = (r, Some vm', old_mem) \<and>
     MachineFinalizer \<notin> set (om_Finalizers (vm_Meta vm'))"
proof -
  let ?vm = "setInstanceReadyFalse plain_klib (demo_vm (Some 0)) ''Deleting'' (Text ''Deleting Verda instance'')"
  have vm: "mst_InstanceID (vm_Status ?vm) = ''''" "machineTagValue ?vm = ''default/node-1''" "vm_Meta ?vm = demo_meta (Some 0)"
    "mst_StartupScriptID (vm_Status ?vm) = ''''" "mst_OSVolumeID (vm_Status ?vm) = ''''"
    using demo_tag [of "Some 0"] by (simp_all add: machineTagValue_def setInstanceReadyFalse_def set_condition_def demo_vm_simps)
  have find: "findInstance (sdkClient mem_api) ?vm old_mem = (Inr None, old_mem)"
    by (simp add: findInstance_def vm demo_vm_simps sdkClient_FindInstanceByTag_def old_mem_def old_instance_def
        toInstance_def tag_map_def)
  have fin: "finish_delete plain_klib (sdkClient mem_api) ?vm old_mem = (Inr no_requeue, remove_finalizer plain_klib ?vm, old_mem)"
    by (simp add: finish_delete_def delete_script_def deleteOSVolume_def vm Let_def demo_vm_simps
        sdkClient_DeleteStartupScriptByName_def old_mem_def empty_mem_def)
  have "reconcileDelete plain_klib 0 (sdkClient mem_api) (demo_vm (Some 0)) old_mem =
      (Inr no_requeue, remove_finalizer plain_klib ?vm, old_mem)"
    using find fin by (simp add: reconcileDelete_def plain_klib_def Let_def)
  then show ?thesis
    by (simp add: Reconcile_def demo_env_simps demo_vm_simps with_patch_def reconcile_scope_def patchVerdaMachine_def
        Let_def remove_finalizer_def vm) (simp add: plain_klib_def)
qed

theorem no_leaked_instance_witness:
  "\<exists>r vm'. Reconcile (demo_env (sdkClient mem_api) (demo_vm (Some 0))) old_mem = (r, Some vm', old_mem) \<and>
     MachineFinalizer \<notin> set (om_Finalizers (vm_Meta vm')) \<and> instanceGone (toInstance old_instance)"
proof -
  let ?ins = "\<lambda>w k. map_option toInstance (mem_view w k)"
  obtain r vm' where run: "Reconcile (demo_env (sdkClient mem_api) (demo_vm (Some 0))) old_mem = (r, Some vm', old_mem)"
    and fin: "MachineFinalizer \<notin> set (om_Finalizers (vm_Meta vm'))"
    using demo_deleted by blast
  have "machine_reach (sdkClient mem_api) ?ins mem_ok (demo_vm (Some 0)) old_mem"
    by (rule machine_reach.new_machine)
      (simp_all add: old_mem_def old_instance_def empty_mem_def mem_ok_def demo_vm_simps live_ids_def listed_ok_def ran_def)
  with run fin show ?thesis
    using no_leaked_instance [OF mem_api_ok _ demo_env_for run, of "''i''" old_instance]
    by (auto simp: demo_vm_simps demo_tag old_mem_def old_instance_def tag_map_def)
qed

end
