(* ===== verification/MachineClaims.thy ===== *)
theory MachineClaims
  imports MachineSafety
begin

text \<open>
  The functional behaviour of the machine reconciler: what it reports of an instance, when it asks
  for a deletion again, and which names its tags keep apart.
\<close>

section \<open>Lemmas\<close>

lemma ensureOSVolumeTag_fields:
  assumes "ensureOSVolumeTag K c vm w = (vm', w')"
  shows "vm_Meta vm' = vm_Meta vm" "vm_Spec vm' = vm_Spec vm" "mst_InstanceID (vm_Status vm') = mst_InstanceID (vm_Status vm)"
    "mst_Provisioned (vm_Status vm') = mst_Provisioned (vm_Status vm)"
  using assms by (auto simp: ensureOSVolumeTag_def set_ready_true_def set_condition_def split: if_splits prod.splits sum.splits)

lemma record_instance_fields:
  assumes "record_instance K c vm inst w = (vm', w')"
  shows "mst_InstanceID (vm_Status vm') = i_ID inst" "mst_Provisioned (vm_Status vm') = mst_Provisioned (vm_Status vm)"
    "ms_ProviderID (vm_Spec vm') = ProviderID (i_Hostname inst)" "mst_Addresses (vm_Status vm') = instanceAddresses inst"
proof -
  obtain vm1 w1 where e: "ensureOSVolumeTag K c
      (upd_status (\<lambda>s. s\<lparr>mst_InstanceID := i_ID inst, mst_InstanceState := i_Status inst\<rparr>) vm) w = (vm1, w1)"
    by fastforce
  from ensureOSVolumeTag_fields [OF e] assms show "mst_InstanceID (vm_Status vm') = i_ID inst"
    "mst_Provisioned (vm_Status vm') = mst_Provisioned (vm_Status vm)"
    "ms_ProviderID (vm_Spec vm') = ProviderID (i_Hostname inst)" "mst_Addresses (vm_Status vm') = instanceAddresses inst"
    by (auto simp: record_instance_def Let_def e)
qed

lemma condition_setters [simp]:
  "mst_Conditions (vm_Status (set_condition K vm cond)) = conditions_Set K (mst_Conditions (vm_Status vm)) cond"
  "mst_Provisioned (vm_Status (set_condition K vm cond)) = mst_Provisioned (vm_Status vm)"
  "mst_Provisioned (vm_Status (setInstanceReadyFalse K vm reason msg)) = mst_Provisioned (vm_Status vm)"
  "mst_Provisioned (vm_Status (set_ready_true K vm t)) = mst_Provisioned (vm_Status vm)"
  "mst_Addresses (vm_Status (setInstanceReadyFalse K vm reason msg)) = mst_Addresses (vm_Status vm)"
  "mst_Addresses (vm_Status (set_ready_true K vm t)) = mst_Addresses (vm_Status vm)"
  by (simp_all add: set_condition_def setInstanceReadyFalse_def set_ready_true_def)

lemma ready_conditions:
  assumes "klib_ok K"
  shows "conditions_IsTrue K (mst_Conditions (vm_Status (setInstanceReadyFalse K vm reason msg))) InstanceReadyCondition = False"
    and "conditions_IsTrue K (mst_Conditions (vm_Status (set_ready_true K vm InstanceReadyCondition))) InstanceReadyCondition = True"
  by (simp_all add: setInstanceReadyFalse_def set_ready_true_def klib_simps [OF assms])

lemma os_volume_provisioned [simp]:
  "mst_Provisioned (vm_Status (os_volume_condition K vm reason msg)) = mst_Provisioned (vm_Status vm)"
  by (simp add: os_volume_condition_def)

lemma ensureOSVolume_provisioned:
  assumes "ensureOSVolume K c vc vm w = (r, vm', w')"
  shows "mst_Provisioned (vm_Status vm') = mst_Provisioned (vm_Status vm) \<and> vm_Meta vm' = vm_Meta vm \<and> vm_Spec vm' = vm_Spec vm"
  using assms
  by (auto simp: ensureOSVolume_def clone_volume_def record_volume_def os_volume_condition_def set_condition_def Let_def
      split: if_splits prod.splits sum.splits)

definition became_ready :: "klib \<Rightarrow> Instance \<Rightarrow> (go_error + Result) \<Rightarrow> VerdaMachine \<Rightarrow> bool" where
  "became_ready K inst r vm' = (i_Status inst = StatusRunning \<and> r = Inr no_requeue \<and> InstanceID vm' = i_ID inst \<and>
     ms_ProviderID (vm_Spec vm') = ''verda://'' @ i_Hostname inst \<and>
     conditions_IsTrue K (mst_Conditions (vm_Status vm')) InstanceReadyCondition)"

lemma use_instance_ready:
  assumes "klib_ok K" "use_instance K c vc vm inst w = (r, vm', w')"
    and "mst_Provisioned (vm_Status vm) \<noteq> Some True" "mst_Provisioned (vm_Status vm') = Some True"
  shows "became_ready K inst r vm'"
proof -
  obtain vm1 w1 where e: "record_instance K c vm inst w = (vm1, w1)" by fastforce
  from assms(2) have "act_on_status K c vc vm1 inst w1 = (r, vm', w')" by (simp add: use_instance_def e)
  moreover have "mst_Provisioned (vm_Status vm1) \<noteq> Some True" using record_instance_fields(2) [OF e] assms(3) by simp
  ultimately show ?thesis
    using assms(4) unfolding became_ready_def
    by (auto simp: act_on_status_def record_instance_fields(1,3,4) [OF e] ready_conditions [OF assms(1)] Let_def ProviderID_def
        simp del: instanceGone.simps split: if_splits prod.splits sum.splits)
qed

lemma create_and_use_ready:
  assumes "klib_ok (me_lib env)" "create_and_use env c cl vc ma vm b w = (r, vm', w')"
    and "mst_Provisioned (vm_Status vm) \<noteq> Some True" "mst_Provisioned (vm_Status vm') = Some True"
  shows "\<exists>inst w1. createInstance env c cl vc ma vm b w = (Inr inst, w1) \<and> became_ready (me_lib env) inst r vm'"
proof -
  obtain q w1 where e: "createInstance env c cl vc ma vm b w = (q, w1)" by fastforce
  with assms(2-4) obtain inst where inst: "q = Inr inst" "use_instance (me_lib env) c vc vm inst w1 = (r, vm', w')"
    by (cases q) (auto simp: create_and_use_def split: if_splits)
  from use_instance_ready [OF assms(1) inst(2) assms(3,4)] e inst(1) show ?thesis by auto
qed

section \<open>Claims\<close>

text \<open>
  What an instance's state makes of its machine: it is ready exactly when the instance runs, and
  only then becomes provisioned; the instance, the provider ID and the addresses are recorded unless
  there was no capacity; the machine is looked at again except when it runs or has failed for good.
\<close>

theorem instance_state_reported:
  assumes "klib_ok K" "use_instance K c vc vm inst w = (Inr r, vm', w')"
  shows "conditions_IsTrue K (mst_Conditions (vm_Status vm')) InstanceReadyCondition = (i_Status inst = StatusRunning) \<and>
    mst_Provisioned (vm_Status vm') = (if i_Status inst = StatusRunning then Some True else mst_Provisioned (vm_Status vm)) \<and>
    (RequeueAfter r = 0) = (i_Status inst \<in> {StatusRunning, StatusError', StatusDiscontinued, StatusNotFound}) \<and>
    (if i_Status inst = StatusNoCapacity
     then InstanceID vm' = '''' \<and> ms_ProviderID (vm_Spec vm') = '''' \<and> mst_Addresses (vm_Status vm') = []
     else InstanceID vm' = i_ID inst \<and> ms_ProviderID (vm_Spec vm') = ProviderID (i_Hostname inst) \<and>
       mst_Addresses (vm_Status vm') = instanceAddresses inst)"
proof -
  obtain vm1 w1 where e: "record_instance K c vm inst w = (vm1, w1)" by fastforce
  note fields = record_instance_fields [OF e]
  from assms(2) have act: "act_on_status K c vc vm1 inst w1 = (Inr r, vm', w')" by (simp add: use_instance_def e)
  then show ?thesis
    by (auto simp: act_on_status_def fields ready_conditions [OF assms(1)] Let_def no_requeue_def requeue_after_def
        instancePollInterval_def noCapacityRetryInterval_def time_Minute_def time_Second_def simp del: instanceGone.simps split: if_splits prod.splits sum.splits)
qed

text \<open>
  What \<^verbatim>\<open>reconcileNormal\<close> creates the instance of a machine that has none from, in state \<open>w0\<close>: its
  image, or the clone of its OS volume once that is detached.
\<close>

definition boots_from :: "'w machine_env \<Rightarrow> 'w cloud_client \<Rightarrow> VerdaCluster \<Rightarrow> VerdaMachine \<Rightarrow> 'w \<Rightarrow>
    VerdaMachine \<Rightarrow> string \<Rightarrow> 'w \<Rightarrow> bool" where
  "boots_from env c vc vm w0 vm1 b w =
     (if ms_OSVolumeID (vm_Spec vm) = '''' then vm1 = vm \<and> b = ms_Image (vm_Spec vm) \<and> w = w0
      else \<exists>volume. ensureOSVolume (me_lib env) c vc vm w0 = (Inr volume, vm1, w) \<and>
             v_Status volume = VolumeStatusDetached \<and> b = v_ID volume)"

lemma reconcileNormal_provisions:
  assumes "reconcileNormal env c cl vc ma vm w = (r, vm', w')" "findInstance c vm w = (q, w0)"
    and "mst_Provisioned (vm_Status vm) \<noteq> Some True" "mst_Provisioned (vm_Status vm') = Some True"
  obtains (found) inst where "q = Inr (Some inst)" "use_instance (me_lib env) c vc vm inst w0 = (r, vm', w')"
    | (create) vm1 b w1 where "q = Inr None" "boots_from env c vc vm w0 vm1 b w1" "create_and_use env c cl vc ma vm1 b w1 = (r, vm', w')"
proof -
  have flag: "\<not> ptr_Deref (mst_Provisioned (vm_Status vm)) False" using assms(3) by (cases "mst_Provisioned (vm_Status vm)") auto
  have "ptr_Deref (cl_InfrastructureProvisioned cl) False" "ma_DataSecretName ma \<noteq> None"
    using assms(1,3,4) flag by (auto simp: reconcileNormal_def Let_def split: if_splits)
  note run = assms(1) [unfolded reconcileNormal_def Let_def assms(2)]
  from this flag have q: "(case q of Inl err \<Rightarrow> (Inl err, vm, w0) | Inr (Some inst) \<Rightarrow> use_instance (me_lib env) c vc vm inst w0
      | Inr None \<Rightarrow> if ms_OSVolumeID (vm_Spec vm) \<noteq> '''' then
          (case ensureOSVolume (me_lib env) c vc vm w0 of
             (Inl err, vm, w) \<Rightarrow> (Inl err, vm, w)
           | (Inr volume, vm, w) \<Rightarrow>
               if v_Status volume \<noteq> VolumeStatusDetached
               then (Inr (requeue_after instancePollInterval), setInstanceReadyFalse (me_lib env) vm ''WaitingForOSVolume''
                 (Sprintf ''OS volume clone %s is in state %q'' [v_ID volume, v_Status volume]), w)
               else create_and_use env c cl vc ma vm (v_ID volume) w)
        else create_and_use env c cl vc ma vm (ms_Image (vm_Spec vm)) w0) = (r, vm', w')"
    using \<open>ptr_Deref (cl_InfrastructureProvisioned cl) False\<close> \<open>ma_DataSecretName ma \<noteq> None\<close>
    by (cases q) (simp_all split: option.splits)
  show thesis
  proof (cases q)
    case (Inl e)
    with q assms(3,4) show thesis by simp
  next
    case (Inr found)
    obtain p vm1 w1 where p: "ensureOSVolume (me_lib env) c vc vm w0 = (p, vm1, w1)" by (metis prod_cases3)
    from ensureOSVolume_provisioned [OF this] assms(3) have "mst_Provisioned (vm_Status vm1) \<noteq> Some True" by simp
    with Inr q p assms(4) that show thesis by (cases found; cases p) (auto simp: boots_from_def split: if_splits)
  qed
qed

text \<open>
  C12. A machine becomes provisioned only through an instance that runs: one the cloud reported for
  it, or, when it had none, one just created for this machine from what its spec says. It is then
  ready, and its provider ID is \<open>verda://\<close> and the host name of that instance.
\<close>

theorem provisioned_only_when_running:
  assumes "klib_ok (me_lib env)" "reconcileNormal env c cl vc ma vm w = (r, vm', w')"
    and "mst_Provisioned (vm_Status vm) \<noteq> Some True" "mst_Provisioned (vm_Status vm') = Some True"
  shows "\<exists>inst w1. became_ready (me_lib env) inst r vm' \<and>
      (findInstance c vm w = (Inr (Some inst), w1) \<or>
       (\<exists>w0 vm1 b w2. findInstance c vm w = (Inr None, w0) \<and> boots_from env c vc vm w0 vm1 b w2 \<and>
          vm_Meta vm1 = vm_Meta vm \<and> vm_Spec vm1 = vm_Spec vm \<and> createInstance env c cl vc ma vm1 b w2 = (Inr inst, w1)))"
proof -
  obtain q w0 where find: "findInstance c vm w = (q, w0)" by fastforce
  from assms(2) find assms(3,4) show ?thesis
  proof (cases rule: reconcileNormal_provisions)
    case (found inst)
    with use_instance_ready [OF assms(1) found(2) assms(3,4)] find show ?thesis by auto
  next
    case (create vm1 b w1)
    have vm1: "mst_Provisioned (vm_Status vm1) = mst_Provisioned (vm_Status vm) \<and> vm_Meta vm1 = vm_Meta vm \<and> vm_Spec vm1 = vm_Spec vm"
      using create(2) ensureOSVolume_provisioned by (fastforce simp: boots_from_def split: if_splits)
    with create_and_use_ready [OF assms(1) create(3) _ assms(4)] assms(3) obtain inst w2 where
      "createInstance env c cl vc ma vm1 b w1 = (Inr inst, w2)" "became_ready (me_lib env) inst r vm'" by auto
    with create(1,2) vm1 find show ?thesis by blast
  qed
qed

text \<open>
  C31. Delete requests are spaced: after a request for an instance in some state, whether or not it
  failed, the next reconcile that sees the same state sends none before the retry interval is over
  and only asks to be called again; from then on it sends one. The interval counts from the request's
  time in whole seconds.
\<close>

theorem delete_requests_spaced:
  assumes "request_delete K now c vm inst w = (r, vm', w')" "i_Status inst \<noteq> StatusDeleting"
    and "fst (deleteRequestDue now (vm_Meta vm) '''' (i_Status inst))"
    and "CHR ''@'' \<notin> set (i_Status inst)" "year_of now < 10000"
  shows "if int later - int (now div 1000000000) * 1000000000 < deleteRetryInterval
    then \<exists>vm''. request_delete K later c vm' inst w2 = (Inr (requeue_after deletePollInterval), vm'', w2)
    else snd (snd (request_delete K later c vm' inst w2)) = snd (DeleteInstance c (i_ID inst) w2)"
proof -
  obtain meta where due: "deleteRequestDue now (vm_Meta vm) '''' (i_Status inst) = (True, meta)"
    using assms(3) by (cases "deleteRequestDue now (vm_Meta vm) '''' (i_Status inst)") auto
  have "vm_Meta vm' = meta"
    using assms(1,2) due by (auto simp: request_delete_def Let_def split: sum.splits prod.splits)
  moreover obtain due' meta' where due': "deleteRequestDue later meta '''' (i_Status inst) = (due', meta')" by fastforce
  ultimately show ?thesis
    using deleteRequestDue_again [OF due assms(4,5), of later] assms(2)
    by (auto simp: request_delete_def Let_def split: sum.splits prod.splits)
qed

text \<open>
  Whatever a reconcile does, the object it patches is \<open>Ready\<close> exactly when it is not being
  deleted and its instance is ready.
\<close>

theorem ready_summarises:
  assumes "klib_ok (me_lib env)" "Reconcile env w = (r, Some vm', w')"
  shows "conditions_IsTrue (me_lib env) (mst_Conditions (vm_Status vm')) ReadyCondition =
    (om_DeletionTimestamp (vm_Meta vm') = None \<and>
     conditions_IsTrue (me_lib env) (mst_Conditions (vm_Status vm')) InstanceReadyCondition)"
proof -
  have out: "\<exists>vm. vm' = snd (patchVerdaMachine env vm)" if "with_patch env x = (r, Some vm', w')" for x
  proof -
    obtain res vm w0 where "x = (res, vm, w0)" by (cases x)
    with that have "vm' = snd (patchVerdaMachine env vm)" by (auto simp: with_patch_def split: prod.splits)
    then show ?thesis by blast
  qed
  obtain x where "with_patch env x = (r, Some vm', w')"
  proof -
    consider (b) vm where "reconcileOrphanDelete env vm w = (r, Some vm', w')"
      | (d) x where "with_patch env x = (r, Some vm', w')"
      using assms(2) unfolding Reconcile_def Let_def by (auto split: sum.splits option.splits prod.splits if_splits)
    then show thesis
    proof cases
      case b
      with that show thesis by (auto simp: reconcileOrphanDelete_def split: sum.splits)
    qed (rule that)
  qed
  then have "\<exists>vm. vm' = snd (patchVerdaMachine env vm)" by (rule out)
  then obtain vm where "vm' = set_condition (me_lib env) vm (ready_condition (me_lib env) vm)"
    by (auto simp: patchVerdaMachine_def Let_def)
  then show ?thesis by (simp add: klib_simps [OF assms(1)] ready_condition_def Let_def)
qed

text \<open>
  Machines with different names have different tags, as long as namespace and name are lower
  case, the namespace has no slash, and the two together have at most 126 characters.
\<close>

theorem machine_tags_distinct:
  assumes "machineTagValue vm = machineTagValue vm'"
    and "\<forall>v \<in> {vm, vm'}. lower_name (vm_Namespace v @ vm_Name v) \<and> CHR ''/'' \<notin> set (vm_Namespace v) \<and>
      length (vm_Namespace v) + length (vm_Name v) \<le> 126"
  shows "vm_Namespace vm = vm_Namespace vm' \<and> vm_Name vm = vm_Name vm'"
proof -
  have slash: "ascii_lower CHR ''/'' = CHR ''/''" by (simp add: ascii_lower_def)
  have "machineTagValue v = vm_Namespace v @ ''/'' @ vm_Name v" if "v \<in> {vm, vm'}" for v
  proof -
    have "lower_name (vm_Namespace v @ ''/'' @ vm_Name v)"
      using assms(2) that slash by (auto simp: lower_name_def)
    moreover have "length (vm_Namespace v @ ''/'' @ vm_Name v) \<le> 127" using assms(2) that by auto
    ultimately show ?thesis by (simp only: machineTagValue_def truncateTag_short ToLower_lower)
  qed
  from this [of vm] this [of vm'] assms(1)
  have "vm_Namespace vm @ CHR ''/'' # vm_Name vm = vm_Namespace vm' @ CHR ''/'' # vm_Name vm'" by simp
  with append_sep_inject [of "CHR ''/''" "vm_Namespace vm" "vm_Namespace vm'"] assms(2) show ?thesis by blast
qed

section \<open>Examples\<close>

definition running_instance :: verda_Instance where
  "running_instance = old_instance\<lparr>vi_Status := StatusRunning\<rparr>"

definition running_mem :: mem where
  "running_mem = empty_mem\<lparr>mm_Instances := [running_instance]\<rparr>"

lemma running_simps:
  "vi_Status running_instance = StatusRunning" "vi_ID running_instance = ''i''"
  "vi_Hostname running_instance = ''node-1''" "vi_StartupScriptID running_instance = None"
  by (simp_all add: running_instance_def old_instance_def)

lemma find_running:
  "findInstance (sdkClient mem_api) (demo_vm d) running_mem = (Inr (Some (toInstance running_instance)), running_mem)"
  by (simp add: findInstance_def demo_vm_simps demo_tag sdkClient_FindInstanceByTag_def running_mem_def
      running_instance_def old_instance_def toInstance_def tag_map_def)

lemma use_running:
  "\<exists>vm'. use_instance plain_klib (sdkClient mem_api) demo_vc (demo_vm None) (toInstance running_instance) running_mem =
     (Inr no_requeue, vm', running_mem) \<and> mst_Provisioned (vm_Status vm') = Some True"
  by (simp add: use_instance_def record_instance_def ensureOSVolumeTag_def demo_vm_simps act_on_status_def running_simps Let_def)

theorem instance_state_reported_witness:
  "\<exists>vm'. use_instance plain_klib (sdkClient mem_api) demo_vc (demo_vm None) (toInstance running_instance) running_mem =
     (Inr no_requeue, vm', running_mem) \<and> InstanceID vm' = ''i'' \<and> ms_ProviderID (vm_Spec vm') = ''verda://node-1'' \<and>
     conditions_IsTrue plain_klib (mst_Conditions (vm_Status vm')) InstanceReadyCondition"
proof -
  obtain vm' where run: "use_instance plain_klib (sdkClient mem_api) demo_vc (demo_vm None) (toInstance running_instance)
      running_mem = (Inr no_requeue, vm', running_mem)"
    using use_running by blast
  with instance_state_reported [OF plain_klib_ok run] show ?thesis by (simp add: running_simps ProviderID_def)
qed

theorem provisioned_only_when_running_witness:
  "\<exists>vm'. reconcileNormal (demo_env (sdkClient mem_api) (demo_vm None)) (sdkClient mem_api)
       demo_cluster demo_vc
       \<lparr>ma_Meta = demo_meta None, ma_DataSecretName = Some ''boot''\<rparr> (demo_vm None) running_mem =
     (Inr no_requeue, vm', running_mem) \<and> ms_ProviderID (vm_Spec vm') = ''verda://node-1''"
proof -
  let ?env = "demo_env (sdkClient mem_api) (demo_vm None)"
  let ?cl = "demo_cluster"
  let ?ma = "\<lparr>ma_Meta = demo_meta None, ma_DataSecretName = Some ''boot''\<rparr>"
  obtain vm' where "use_instance plain_klib (sdkClient mem_api) demo_vc (demo_vm None) (toInstance running_instance)
      running_mem = (Inr no_requeue, vm', running_mem)" and prov: "mst_Provisioned (vm_Status vm') = Some True"
    using use_running by blast
  then have run: "reconcileNormal ?env (sdkClient mem_api) ?cl demo_vc ?ma (demo_vm None) running_mem =
      (Inr no_requeue, vm', running_mem)"
    by (simp add: reconcileNormal_def Let_def demo_env_simps demo_vm_simps find_running)
  have "klib_ok (me_lib ?env)" by (simp add: demo_env_simps)
  from provisioned_only_when_running [OF this run] prov obtain inst w1 where
    "became_ready plain_klib inst (Inr no_requeue) vm'" "findInstance (sdkClient mem_api) (demo_vm None) running_mem = (Inr (Some inst), w1)"
    by (auto simp: demo_vm_simps demo_env_simps find_running)
  with run show ?thesis by (auto simp: became_ready_def find_running running_simps)
qed

lemma year_zero: "year_of 0 < 10000"
  by (simp add: year_of_def split_year.simps days_in_year_def is_leap_def)

theorem delete_requests_spaced_witness:
  "\<exists>r vm' vm'' w'. request_delete plain_klib 0 (sdkClient mem_api) (demo_vm (Some 0)) (toInstance running_instance) running_mem =
      (r, vm', w') \<and>
    request_delete plain_klib 1000000000 (sdkClient mem_api) vm' (toInstance running_instance) w' =
      (Inr (requeue_after deletePollInterval), vm'', w')"
proof -
  let ?i = "toInstance running_instance" and ?vm = "demo_vm (Some 0)"
  obtain r vm' w' where run: "request_delete plain_klib 0 (sdkClient mem_api) ?vm ?i running_mem = (r, vm', w')" by (metis prod_cases3)
  have "fst (deleteRequestDue 0 (vm_Meta ?vm) '''' (i_Status ?i))"
    by (simp add: deleteRequestDue_def demo_vm_simps demo_meta_def)
  then show ?thesis
    using delete_requests_spaced [OF run _ _ _ year_zero, of 1000000000 w'] run
    by (simp add: running_simps deleteRetryInterval_def time_Second_def)
qed

theorem ready_summarises_witness:
  "\<exists>r vm' w'. Reconcile (demo_env (sdkClient mem_api) (demo_vm None)) empty_mem = (r, Some vm', w') \<and>
    conditions_IsTrue plain_klib (mst_Conditions (vm_Status vm')) ReadyCondition =
    (om_DeletionTimestamp (vm_Meta vm') = None \<and>
     conditions_IsTrue plain_klib (mst_Conditions (vm_Status vm')) InstanceReadyCondition)"
proof -
  obtain r vm' w' where run: "Reconcile (demo_env (sdkClient mem_api) (demo_vm None)) empty_mem = (r, Some vm', w')"
    using demo_created by blast
  have "klib_ok (me_lib (demo_env (sdkClient mem_api) (demo_vm None)))" by (simp add: demo_env_simps)
  from ready_summarises [OF this run] run show ?thesis by (simp add: demo_env_simps)
qed

theorem machine_tags_distinct_witness:
  "machineTagValue (demo_vm None) = machineTagValue (demo_vm (Some 0)) \<and> vm_Name (demo_vm None) = vm_Name (demo_vm (Some 0))"
proof -
  have "lower_name ''defaultnode-1''" by code_simp
  then have "\<forall>v \<in> {demo_vm None, demo_vm (Some 0)}. lower_name (vm_Namespace v @ vm_Name v) \<and> CHR ''/'' \<notin> set (vm_Namespace v) \<and>
      length (vm_Namespace v) + length (vm_Name v) \<le> 126"
    by (simp add: demo_vm_def demo_meta_def)
  with machine_tags_distinct [OF _ this] show ?thesis by (simp add: demo_tag)
qed

end
