(* ===== verification/Webhooks.thy ===== *)
theory Webhooks
  imports ApiTypes
begin

text \<open>
  The admission webhooks of \<^verbatim>\<open>internal/webhook/v1beta1\<close>: defaulting and validation of
  machines, clusters and their templates. A validation collects field errors; an object is
  admitted when the list is empty. \<^verbatim>\<open>apierrors.NewInvalid\<close>,
  \<^verbatim>\<open>admission.RequestFromContext\<close> and \<^verbatim>\<open>topology.IsDryRunRequest\<close> are
  arguments.
\<close>

section \<open>Field errors\<close>

datatype bad_value = BadString string | BadBool bool

type_synonym path = "string list"

datatype field_error =
    Required path string
  | Forbidden path string
  | Invalid path bad_value string

definition aggregate :: "(string \<Rightarrow> string \<Rightarrow> field_error list \<Rightarrow> go_error) \<Rightarrow> string \<Rightarrow> ObjectMeta \<Rightarrow>
    field_error list \<Rightarrow> go_error + unit" where
  "aggregate NewInvalid kind meta errs =
     (if errs = [] then Inr () else Inl (NewInvalid kind (om_Name meta) errs))"

definition boolValue :: "bool option \<Rightarrow> bool" where
  "boolValue b = (b \<noteq> None \<and> the b)"

text \<open>\<^verbatim>\<open>^[A-Z]{3}-[0-9]{2}$\<close>\<close>

definition locationCodeRe :: "string \<Rightarrow> bool" where
  "locationCodeRe s =
     (let upper = (\<lambda>c::char. CHR ''A'' \<le> c \<and> c \<le> CHR ''Z'');
          digit = (\<lambda>c::char. CHR ''0'' \<le> c \<and> c \<le> CHR ''9'')
      in list_all2 (\<lambda>p c. p c) [upper, upper, upper, \<lambda>c. c = CHR ''-'', digit, digit] s)"

section \<open>Validation\<close>

definition validateMachineSpec :: "VerdaMachineSpec \<Rightarrow> path \<Rightarrow> field_error list" where
  "validateMachineSpec spec path =
     (if ms_InstanceType spec = ''''
      then [Required (path @ [''instanceType'']) ''instanceType is required''] else []) @
     (if ms_Image spec = '''' \<and> ms_OSVolumeID spec = ''''
      then [Required (path @ [''image'']) ''one of image or osVolumeID is required'']
      else if ms_Image spec \<noteq> '''' \<and> ms_OSVolumeID spec \<noteq> ''''
      then [Forbidden (path @ [''osVolumeID'']) ''osVolumeID cannot be set together with image'']
      else []) @
     (if ms_OSVolumeID spec \<noteq> '''' \<and> ms_OSVolumeSizeGB spec \<noteq> 0
      then [Forbidden (path @ [''osVolumeSizeGB''])
              ''osVolumeSizeGB cannot be set with osVolumeID; a clone keeps the size of its source'']
      else []) @
     (if ms_SpotDiscontinuePolicy spec \<noteq> '''' \<and> (ms_Spot spec = None \<or> \<not> the (ms_Spot spec))
      then [Forbidden (path @ [''spotDiscontinuePolicy'']) ''spotDiscontinuePolicy requires spot to be true'']
      else []) @
     (if ms_Spot spec \<noteq> None \<and> the (ms_Spot spec) \<and> ms_Contract spec \<noteq> '''' \<and> ms_Contract spec \<noteq> ''SPOT''
      then [Invalid (path @ [''contract'']) (BadString (ms_Contract spec))
              ''contract must be SPOT or empty when spot is true'']
      else [])"

definition validateMachineSpecUpdate :: "VerdaMachineSpec \<Rightarrow> VerdaMachineSpec \<Rightarrow> path \<Rightarrow> field_error list" where
  "validateMachineSpecUpdate oldSpec newSpec path =
     (if ms_InstanceType oldSpec \<noteq> ms_InstanceType newSpec
      then [Forbidden (path @ [''instanceType'']) ''instanceType is immutable''] else []) @
     (if ms_Image oldSpec \<noteq> ms_Image newSpec
      then [Forbidden (path @ [''image'']) ''image is immutable''] else []) @
     (if ms_OSVolumeID oldSpec \<noteq> ms_OSVolumeID newSpec
      then [Forbidden (path @ [''osVolumeID'']) ''osVolumeID is immutable''] else []) @
     (if ms_OSVolumeSizeGB oldSpec \<noteq> ms_OSVolumeSizeGB newSpec
      then [Forbidden (path @ [''osVolumeSizeGB'']) ''osVolumeSizeGB is immutable''] else []) @
     (if ms_Contract oldSpec \<noteq> ms_Contract newSpec
      then [Forbidden (path @ [''contract'']) ''contract is immutable''] else []) @
     (if boolValue (ms_Spot oldSpec) \<noteq> boolValue (ms_Spot newSpec)
      then [Forbidden (path @ [''spot'']) ''spot is immutable''] else []) @
     (if ms_AdditionalVolumes oldSpec \<noteq> ms_AdditionalVolumes newSpec
      then [Forbidden (path @ [''additionalVolumes'']) ''additionalVolumes is immutable''] else []) @
     (if ms_SpotDiscontinuePolicy oldSpec \<noteq> ms_SpotDiscontinuePolicy newSpec
      then [Forbidden (path @ [''spotDiscontinuePolicy'']) ''spotDiscontinuePolicy is immutable''] else []) @
     (if ms_ProviderID oldSpec \<noteq> '''' \<and> ms_ProviderID oldSpec \<noteq> ms_ProviderID newSpec
      then [Forbidden (path @ [''providerID'']) ''providerID cannot be changed once set''] else [])"

text \<open>The loop over the two load balancers; a \<^verbatim>\<open>range\<close> over the map literal may visit them in either
  order, which changes only the order of the errors.\<close>

definition validate_lb :: "path \<Rightarrow> string \<times> ControlPlaneLoadBalancer \<Rightarrow> field_error list" where
  "validate_lb path entry =
     (case entry of (name, lb) \<Rightarrow>
        if lb_Enabled lb \<noteq> None \<and> \<not> the (lb_Enabled lb) \<and>
           (lb_InstanceType lb \<noteq> '''' \<or> lb_Image lb \<noteq> '''' \<or> length (elems (lb_SSHKeyIDs lb)) > 0)
        then [Invalid (path @ [name, ''enabled'']) (BadBool False)
                ''load balancer settings are set but enabled is false'']
        else [])"

definition validateClusterSpec :: "VerdaClusterSpec \<Rightarrow> path \<Rightarrow> field_error list" where
  "validateClusterSpec spec path =
     (if cs_Location spec = '''' then [Required (path @ [''location'']) ''location is required'']
      else if \<not> locationCodeRe (cs_Location spec)
      then [Invalid (path @ [''location'']) (BadString (cs_Location spec))
              ''must be a Verda location code such as FIN-01'']
      else []) @
     (if ep_Host (cs_ControlPlaneEndpoint spec) \<noteq> '''' \<and> ep_Port (cs_ControlPlaneEndpoint spec) = 0
      then [Required (path @ [''controlPlaneEndpoint'', ''port'']) ''port is required when host is set'']
      else []) @
     concat (map (validate_lb path)
       [(''controlPlaneLoadBalancer'', cs_ControlPlaneLoadBalancer spec),
        (''serviceLoadBalancer'', cs_ServiceLoadBalancer spec)])"

definition validateClusterSpecUpdate :: "VerdaClusterSpec \<Rightarrow> VerdaClusterSpec \<Rightarrow> path \<Rightarrow> field_error list" where
  "validateClusterSpecUpdate oldSpec newSpec path =
     (if cs_Location oldSpec \<noteq> cs_Location newSpec
      then [Forbidden (path @ [''location'']) ''location is immutable''] else []) @
     (if boolValue (lb_Enabled (cs_ControlPlaneLoadBalancer oldSpec)) \<noteq>
         boolValue (lb_Enabled (cs_ControlPlaneLoadBalancer newSpec))
      then [Forbidden (path @ [''controlPlaneLoadBalancer'', ''enabled''])
              (''the load balancer cannot be enabled or disabled after creation; '' @
               ''the control plane endpoint is baked into the cluster'' @ [CHR 0x27] @ ''s certificates'')]
      else []) @
     (if ep_Host (cs_ControlPlaneEndpoint oldSpec) \<noteq> '''' \<and>
         cs_ControlPlaneEndpoint oldSpec \<noteq> cs_ControlPlaneEndpoint newSpec
      then [Forbidden (path @ [''controlPlaneEndpoint'']) ''controlPlaneEndpoint is immutable once set'']
      else [])"

section \<open>Defaulting\<close>

definition defaultMachineSpec :: "VerdaMachineSpec \<Rightarrow> VerdaMachineSpec" where
  "defaultMachineSpec spec =
     (if ms_Spot spec \<noteq> None \<and> the (ms_Spot spec) \<and> ms_Contract spec = ''''
      then spec\<lparr>ms_Contract := ''SPOT''\<rparr> else spec)"

definition defaultLoadBalancer :: "ControlPlaneLoadBalancer \<Rightarrow> ControlPlaneLoadBalancer" where
  "defaultLoadBalancer lb =
     (if lb_Enabled lb = None \<or> \<not> the (lb_Enabled lb) then lb
      else
        let lb = (if lb_InstanceType lb = ''''
                  then lb\<lparr>lb_InstanceType := DefaultLoadBalancerInstanceType\<rparr> else lb)
        in if lb_Image lb = '''' then lb\<lparr>lb_Image := DefaultLoadBalancerImage\<rparr> else lb)"

definition defaultClusterSpec :: "VerdaClusterSpec \<Rightarrow> VerdaClusterSpec" where
  "defaultClusterSpec spec =
     (let spec = (if ep_Host (cs_ControlPlaneEndpoint spec) \<noteq> '''' \<and> ep_Port (cs_ControlPlaneEndpoint spec) = 0
                  then spec\<lparr>cs_ControlPlaneEndpoint := (cs_ControlPlaneEndpoint spec)\<lparr>ep_Port := 6443\<rparr>\<rparr>
                  else spec);
          spec = spec\<lparr>cs_ControlPlaneLoadBalancer := defaultLoadBalancer (cs_ControlPlaneLoadBalancer spec)\<rparr>
      in spec\<lparr>cs_ServiceLoadBalancer := defaultLoadBalancer (cs_ServiceLoadBalancer spec)\<rparr>)"

section \<open>Handlers\<close>

definition VerdaMachine_Default :: "VerdaMachine \<Rightarrow> VerdaMachine" where
  "VerdaMachine_Default obj = obj\<lparr>vm_Spec := defaultMachineSpec (vm_Spec obj)\<rparr>"

definition VerdaMachine_ValidateCreate :: "(string \<Rightarrow> string \<Rightarrow> field_error list \<Rightarrow> go_error) \<Rightarrow>
    VerdaMachine \<Rightarrow> go_error + unit" where
  "VerdaMachine_ValidateCreate NewInvalid obj =
     aggregate NewInvalid (vm_Kind obj) (vm_Meta obj) (validateMachineSpec (vm_Spec obj) [''spec''])"

definition VerdaMachine_ValidateUpdate :: "(string \<Rightarrow> string \<Rightarrow> field_error list \<Rightarrow> go_error) \<Rightarrow>
    VerdaMachine \<Rightarrow> VerdaMachine \<Rightarrow> go_error + unit" where
  "VerdaMachine_ValidateUpdate NewInvalid oldObj newObj =
     aggregate NewInvalid (vm_Kind newObj) (vm_Meta newObj)
       (validateMachineSpec (vm_Spec newObj) [''spec''] @
        validateMachineSpecUpdate (vm_Spec oldObj) (vm_Spec newObj) [''spec''])"

definition VerdaCluster_Default :: "VerdaCluster \<Rightarrow> VerdaCluster" where
  "VerdaCluster_Default obj = obj\<lparr>vc_Spec := defaultClusterSpec (vc_Spec obj)\<rparr>"

definition VerdaCluster_ValidateCreate :: "(string \<Rightarrow> string \<Rightarrow> field_error list \<Rightarrow> go_error) \<Rightarrow>
    VerdaCluster \<Rightarrow> go_error + unit" where
  "VerdaCluster_ValidateCreate NewInvalid obj =
     aggregate NewInvalid (vc_Kind obj) (vc_Meta obj) (validateClusterSpec (vc_Spec obj) [''spec''])"

definition VerdaCluster_ValidateUpdate :: "(string \<Rightarrow> string \<Rightarrow> field_error list \<Rightarrow> go_error) \<Rightarrow>
    VerdaCluster \<Rightarrow> VerdaCluster \<Rightarrow> go_error + unit" where
  "VerdaCluster_ValidateUpdate NewInvalid oldObj newObj =
     aggregate NewInvalid (vc_Kind newObj) (vc_Meta newObj)
       (validateClusterSpec (vc_Spec newObj) [''spec''] @
        validateClusterSpecUpdate (vc_Spec oldObj) (vc_Spec newObj) [''spec''])"

definition VerdaMachineTemplate_Default :: "VerdaMachineTemplate \<Rightarrow> VerdaMachineTemplate" where
  "VerdaMachineTemplate_Default obj = obj\<lparr>mt_Spec := defaultMachineSpec (mt_Spec obj)\<rparr>"

definition VerdaMachineTemplate_ValidateCreate :: "(string \<Rightarrow> string \<Rightarrow> field_error list \<Rightarrow> go_error) \<Rightarrow>
    VerdaMachineTemplate \<Rightarrow> go_error + unit" where
  "VerdaMachineTemplate_ValidateCreate NewInvalid obj =
     aggregate NewInvalid (mt_Kind obj) (mt_Meta obj)
       (validateMachineSpec (mt_Spec obj) [''spec'', ''template'', ''spec''])"

definition VerdaMachineTemplate_ValidateUpdate :: "(string \<Rightarrow> string \<Rightarrow> field_error list \<Rightarrow> go_error) \<Rightarrow>
    (go_error + 'q) \<Rightarrow> ('q \<Rightarrow> VerdaMachineTemplate \<Rightarrow> bool) \<Rightarrow>
    VerdaMachineTemplate \<Rightarrow> VerdaMachineTemplate \<Rightarrow> go_error + unit" where
  "VerdaMachineTemplate_ValidateUpdate NewInvalid request IsDryRunRequest oldObj newObj =
     (case request of
        Inl err \<Rightarrow> Inl (Wrapf ''expected an admission.Request inside context: %w'' [] err)
      | Inr req \<Rightarrow>
          aggregate NewInvalid (mt_Kind newObj) (mt_Meta newObj)
            (validateMachineSpec (mt_Spec newObj) [''spec'', ''template'', ''spec''] @
             (if \<not> IsDryRunRequest req newObj \<and> mt_Spec oldObj \<noteq> mt_Spec newObj
              then [Forbidden [''spec'', ''template'', ''spec'']
                      ''VerdaMachineTemplate spec is immutable; create a new template to change machines'']
              else [])))"

definition VerdaClusterTemplate_Default :: "VerdaClusterTemplate \<Rightarrow> VerdaClusterTemplate" where
  "VerdaClusterTemplate_Default obj = obj\<lparr>ct_Spec := defaultClusterSpec (ct_Spec obj)\<rparr>"

definition VerdaClusterTemplate_ValidateCreate :: "(string \<Rightarrow> string \<Rightarrow> field_error list \<Rightarrow> go_error) \<Rightarrow>
    VerdaClusterTemplate \<Rightarrow> go_error + unit" where
  "VerdaClusterTemplate_ValidateCreate NewInvalid obj =
     aggregate NewInvalid (ct_Kind obj) (ct_Meta obj)
       (validateClusterSpec (ct_Spec obj) [''spec'', ''template'', ''spec''])"

definition VerdaClusterTemplate_ValidateUpdate :: "(string \<Rightarrow> string \<Rightarrow> field_error list \<Rightarrow> go_error) \<Rightarrow>
    (go_error + 'q) \<Rightarrow> ('q \<Rightarrow> VerdaClusterTemplate \<Rightarrow> bool) \<Rightarrow>
    VerdaClusterTemplate \<Rightarrow> VerdaClusterTemplate \<Rightarrow> go_error + unit" where
  "VerdaClusterTemplate_ValidateUpdate NewInvalid request IsDryRunRequest oldObj newObj =
     (case request of
        Inl err \<Rightarrow> Inl (Wrapf ''expected an admission.Request inside context: %w'' [] err)
      | Inr req \<Rightarrow>
          aggregate NewInvalid (ct_Kind newObj) (ct_Meta newObj)
            (validateClusterSpec (ct_Spec newObj) [''spec'', ''template'', ''spec''] @
             (if \<not> IsDryRunRequest req newObj \<and> ct_Spec oldObj \<noteq> ct_Spec newObj
              then [Forbidden [''spec'', ''template'', ''spec'']
                      ''VerdaClusterTemplate spec is immutable; create a new template to change clusters'']
              else [])))"

end
