(* ===== verification/WebhookProps.thy ===== *)
theory WebhookProps
  imports Webhooks
begin

text \<open>
  What the admission webhooks guarantee of a stored object: the object is followed from its
  creation through every update the API server can have accepted.
\<close>

section \<open>Accepted requests\<close>

text \<open>
  On both verbs the defaulter runs first and the validator sees its result; the result is stored.
\<close>

definition machine_created :: "(string \<Rightarrow> string \<Rightarrow> field_error list \<Rightarrow> go_error) \<Rightarrow> VerdaMachine \<Rightarrow> bool" where
  "machine_created NI vm = (\<exists>req. vm = VerdaMachine_Default req \<and> VerdaMachine_ValidateCreate NI vm = Inr ())"

definition machine_updated :: "(string \<Rightarrow> string \<Rightarrow> field_error list \<Rightarrow> go_error) \<Rightarrow> VerdaMachine \<Rightarrow> VerdaMachine \<Rightarrow> bool" where
  "machine_updated NI old vm =
     (\<exists>req. vm = VerdaMachine_Default req \<and> VerdaMachine_ValidateUpdate NI old vm = Inr ())"

definition cluster_created :: "(string \<Rightarrow> string \<Rightarrow> field_error list \<Rightarrow> go_error) \<Rightarrow> VerdaCluster \<Rightarrow> bool" where
  "cluster_created NI vc = (\<exists>req. vc = VerdaCluster_Default req \<and> VerdaCluster_ValidateCreate NI vc = Inr ())"

definition cluster_updated :: "(string \<Rightarrow> string \<Rightarrow> field_error list \<Rightarrow> go_error) \<Rightarrow> VerdaCluster \<Rightarrow> VerdaCluster \<Rightarrow> bool" where
  "cluster_updated NI old vc =
     (\<exists>req. vc = VerdaCluster_Default req \<and> VerdaCluster_ValidateUpdate NI old vc = Inr ())"

section \<open>What validation accepts\<close>

text \<open>The specification of a valid machine, and what an update must keep.\<close>

definition machine_valid :: "VerdaMachineSpec \<Rightarrow> bool" where
  "machine_valid s =
     (ms_InstanceType s \<noteq> '''' \<and> (ms_Image s = '''') \<noteq> (ms_OSVolumeID s = '''') \<and>
      (ms_OSVolumeID s \<noteq> '''' \<longrightarrow> ms_OSVolumeSizeGB s = 0) \<and>
      (ms_SpotDiscontinuePolicy s \<noteq> '''' \<longrightarrow> ms_Spot s = Some True) \<and>
      (ms_Spot s = Some True \<longrightarrow> ms_Contract s \<in> {'''', ''SPOT''}))"

definition machine_same :: "VerdaMachineSpec \<Rightarrow> VerdaMachineSpec \<Rightarrow> bool" where
  "machine_same s s' =
     (ms_InstanceType s' = ms_InstanceType s \<and> ms_Image s' = ms_Image s \<and> ms_OSVolumeID s' = ms_OSVolumeID s \<and>
      ms_OSVolumeSizeGB s' = ms_OSVolumeSizeGB s \<and> ms_Contract s' = ms_Contract s \<and>
      ptr_Deref (ms_Spot s') False = ptr_Deref (ms_Spot s) False \<and>
      ms_AdditionalVolumes s' = ms_AdditionalVolumes s \<and>
      ms_SpotDiscontinuePolicy s' = ms_SpotDiscontinuePolicy s \<and>
      (ms_ProviderID s \<noteq> '''' \<longrightarrow> ms_ProviderID s' = ms_ProviderID s))"

definition cluster_valid :: "VerdaClusterSpec \<Rightarrow> bool" where
  "cluster_valid s =
     (locationCodeRe (cs_Location s) \<and>
      (ep_Host (cs_ControlPlaneEndpoint s) \<noteq> '''' \<longrightarrow> ep_Port (cs_ControlPlaneEndpoint s) \<noteq> 0) \<and>
      (\<forall>lb \<in> {cs_ControlPlaneLoadBalancer s, cs_ServiceLoadBalancer s}. lb_Enabled lb = Some False \<longrightarrow>
         lb_InstanceType lb = '''' \<and> lb_Image lb = '''' \<and> elems (lb_SSHKeyIDs lb) = []))"

definition cluster_same :: "VerdaClusterSpec \<Rightarrow> VerdaClusterSpec \<Rightarrow> bool" where
  "cluster_same s s' =
     (cs_Location s' = cs_Location s \<and>
      (lb_Enabled (cs_ControlPlaneLoadBalancer s') = Some True) = (lb_Enabled (cs_ControlPlaneLoadBalancer s) = Some True) \<and>
      (ep_Host (cs_ControlPlaneEndpoint s) \<noteq> '''' \<longrightarrow> cs_ControlPlaneEndpoint s' = cs_ControlPlaneEndpoint s))"

lemma aggregate_ok [simp]: "aggregate NI kind meta errs = Inr () \<longleftrightarrow> errs = []"
  by (simp add: aggregate_def)

lemma boolValue_eq: "boolValue b = (b = Some True)" "boolValue b = ptr_Deref b False"
  by (cases b; simp add: boolValue_def)+

lemma validateMachineSpec_ok: "validateMachineSpec s p = [] \<longleftrightarrow> machine_valid s"
  by (cases "ms_Spot s") (auto simp: validateMachineSpec_def machine_valid_def)

lemma validateMachineSpecUpdate_ok: "validateMachineSpecUpdate s s' p = [] \<longleftrightarrow> machine_same s s'"
  by (auto simp: validateMachineSpecUpdate_def machine_same_def boolValue_eq(2))

lemma validate_lb_ok:
  "validate_lb p (n, lb) = [] \<longleftrightarrow> (lb_Enabled lb = Some False \<longrightarrow>
     lb_InstanceType lb = '''' \<and> lb_Image lb = '''' \<and> elems (lb_SSHKeyIDs lb) = [])"
  by (cases "lb_Enabled lb") (auto simp: validate_lb_def)

lemma validateClusterSpec_ok: "validateClusterSpec s p = [] \<longleftrightarrow> cluster_valid s"
proof -
  have "\<not> locationCodeRe ''''" by (simp add: locationCodeRe_def Let_def)
  then show ?thesis by (auto simp: validateClusterSpec_def cluster_valid_def validate_lb_ok)
qed

lemma validateClusterSpecUpdate_ok: "validateClusterSpecUpdate s s' p = [] \<longleftrightarrow> cluster_same s s'"
  by (auto simp: validateClusterSpecUpdate_def cluster_same_def boolValue_eq(1))

lemmas admission_simps = machine_created_def machine_updated_def cluster_created_def cluster_updated_def
  VerdaMachine_ValidateCreate_def VerdaMachine_ValidateUpdate_def VerdaCluster_ValidateCreate_def
  VerdaCluster_ValidateUpdate_def validateMachineSpec_ok validateMachineSpecUpdate_ok validateClusterSpec_ok
  validateClusterSpecUpdate_ok

lemma admitted:
  "machine_valid (vm_Spec (VerdaMachine_Default m)) \<Longrightarrow> machine_created NI (VerdaMachine_Default m)"
  "machine_valid (vm_Spec (VerdaMachine_Default m)) \<Longrightarrow> machine_same (vm_Spec old) (vm_Spec (VerdaMachine_Default m)) \<Longrightarrow>
     machine_updated NI old (VerdaMachine_Default m)"
  "cluster_valid (vc_Spec (VerdaCluster_Default c)) \<Longrightarrow> cluster_created NI (VerdaCluster_Default c)"
  by (auto simp: admission_simps)

lemma machine_same_trans: "machine_same a b \<Longrightarrow> machine_same b c \<Longrightarrow> machine_same a c"
  by (auto simp: machine_same_def)

lemma cluster_same_trans: "cluster_same a b \<Longrightarrow> cluster_same b c \<Longrightarrow> cluster_same a c"
  by (auto simp: cluster_same_def)

lemma machine_updates:
  "(machine_updated NI)\<^sup>*\<^sup>* vm vm' \<Longrightarrow> machine_valid (vm_Spec vm) \<Longrightarrow>
     machine_valid (vm_Spec vm') \<and> machine_same (vm_Spec vm) (vm_Spec vm')"
proof (induction rule: rtranclp_induct)
  case base
  then show ?case by (simp add: machine_same_def)
next
  case (step y z)
  then show ?case using machine_same_trans by (auto simp: admission_simps)
qed

lemma cluster_updates:
  "(cluster_updated NI)\<^sup>*\<^sup>* vc vc' \<Longrightarrow> cluster_valid (vc_Spec vc) \<Longrightarrow>
     cluster_valid (vc_Spec vc') \<and> cluster_same (vc_Spec vc) (vc_Spec vc')"
proof (induction rule: rtranclp_induct)
  case base
  then show ?case by (simp add: cluster_same_def)
next
  case (step y z)
  then show ?case using cluster_same_trans by (auto simp: admission_simps)
qed

section \<open>Claims\<close>


text \<open>
  C19. A stored cluster has a location code and, with a control plane host, a port; no accepted update
  changes its location, switches the control plane load balancer, or changes an endpoint once set.
\<close>

theorem cluster_spec_frozen:
  assumes "cluster_created NI vc0" "(cluster_updated NI)\<^sup>*\<^sup>* vc0 vc" "(cluster_updated NI)\<^sup>*\<^sup>* vc vc'"
  shows "cluster_valid (vc_Spec vc) \<and> cluster_same (vc_Spec vc) (vc_Spec vc')"
proof -
  have "cluster_valid (vc_Spec vc0)" using assms(1) by (auto simp: admission_simps)
  with cluster_updates [OF assms(2)] cluster_updates [OF assms(3)] show ?thesis by blast
qed

text \<open>
  Defaulting twice is defaulting once, for all four kinds, and it keeps the host of the
  endpoint of a cluster and fills in the port 6443 of an endpoint that has a host and no port.
\<close>

theorem defaults_idempotent:
  "VerdaMachine_Default (VerdaMachine_Default vm) = VerdaMachine_Default vm \<and>
   VerdaMachineTemplate_Default (VerdaMachineTemplate_Default mt) = VerdaMachineTemplate_Default mt \<and>
   VerdaCluster_Default (VerdaCluster_Default vc) = VerdaCluster_Default vc \<and>
   VerdaClusterTemplate_Default (VerdaClusterTemplate_Default ct) = VerdaClusterTemplate_Default ct \<and>
   ep_Host (cs_ControlPlaneEndpoint (vc_Spec (VerdaCluster_Default vc))) =
     ep_Host (cs_ControlPlaneEndpoint (vc_Spec vc)) \<and>
   ep_Port (cs_ControlPlaneEndpoint (vc_Spec (VerdaCluster_Default vc))) =
     (if ep_Host (cs_ControlPlaneEndpoint (vc_Spec vc)) = '''' then ep_Port (cs_ControlPlaneEndpoint (vc_Spec vc))
      else if ep_Port (cs_ControlPlaneEndpoint (vc_Spec vc)) = 0 then 6443
      else ep_Port (cs_ControlPlaneEndpoint (vc_Spec vc)))"
proof -
  have machine: "defaultMachineSpec (defaultMachineSpec s) = defaultMachineSpec s" for s
    by (auto simp: defaultMachineSpec_def)
  have lb: "defaultLoadBalancer (defaultLoadBalancer l) = defaultLoadBalancer l" for l
    by (cases "lb_Enabled l") (auto simp: defaultLoadBalancer_def Let_def)
  have cluster: "defaultClusterSpec (defaultClusterSpec s) = defaultClusterSpec s" for s
    by (auto simp: defaultClusterSpec_def Let_def lb)
  have "cs_ControlPlaneEndpoint (defaultClusterSpec s) =
      (if ep_Host (cs_ControlPlaneEndpoint s) \<noteq> '''' \<and> ep_Port (cs_ControlPlaneEndpoint s) = 0
       then (cs_ControlPlaneEndpoint s)\<lparr>ep_Port := 6443\<rparr> else cs_ControlPlaneEndpoint s)" for s
    by (simp add: defaultClusterSpec_def Let_def)
  then show ?thesis
    by (simp add: VerdaMachine_Default_def VerdaMachineTemplate_Default_def VerdaCluster_Default_def
        VerdaClusterTemplate_Default_def machine cluster)
qed

text \<open>
  C36. A service load balancer cannot be switched off again by setting \<open>enabled\<close> to false: the
  defaulter has written an instance type and an image next to it, and validation rejects these in a
  load balancer that is disabled.
\<close>

theorem disabling_service_lb_rejected:
  assumes "cluster_created NI vc" "lb_Enabled (cs_ServiceLoadBalancer (vc_Spec vc)) = Some True"
  shows "\<not> cluster_updated NI vc (vc\<lparr>vc_Spec := (vc_Spec vc)\<lparr>cs_ServiceLoadBalancer :=
           (cs_ServiceLoadBalancer (vc_Spec vc))\<lparr>lb_Enabled := Some False\<rparr>\<rparr>\<rparr>)"
proof -
  have "lb_InstanceType (cs_ServiceLoadBalancer (vc_Spec vc)) \<noteq> ''''"
    using assms by (auto simp: cluster_created_def VerdaCluster_Default_def defaultClusterSpec_def Let_def
        defaultLoadBalancer_def split: if_splits)
  then show ?thesis by (auto simp: admission_simps cluster_valid_def)
qed

section \<open>Examples\<close>

definition spot_machine :: VerdaMachine where
  "spot_machine = \<lparr>vm_Kind = ''VerdaMachine'',
     vm_Meta = \<lparr>om_Name = ''node-1'', om_Namespace = ''default'', om_Annotations = [], om_Labels = [], om_Finalizers = [],
       om_DeletionTimestamp = None\<rparr>,
     vm_Spec = \<lparr>ms_ProviderID = '''', ms_InstanceType = ''CPU.4V.16G'', ms_Image = ''24.04.base'', ms_OSVolumeID = '''',
        ms_SSHKeyIDs = None, ms_OSVolumeSizeGB = 50, ms_Contract = '''', ms_Spot = Some True, ms_SpotDiscontinuePolicy = '''',
        ms_AdditionalVolumes = None\<rparr>,
     vm_Status = \<lparr>mst_Provisioned = None, mst_Conditions = [], mst_Addresses = [], mst_FailureDomain = '''',
        mst_InstanceID = '''', mst_InstanceState = '''', mst_OSVolumeID = '''', mst_StartupScriptID = ''''\<rparr>\<rparr>"

definition with_provider_id :: "VerdaMachine \<Rightarrow> VerdaMachine" where
  "with_provider_id vm = vm\<lparr>vm_Spec := (vm_Spec vm)\<lparr>ms_ProviderID := ''verda://node-1''\<rparr>\<rparr>"


definition lb_cluster :: VerdaCluster where
  "lb_cluster = \<lparr>vc_Kind = ''VerdaCluster'', vc_Meta = vm_Meta spot_machine,
     vc_Spec = \<lparr>cs_Location = ''FIN-01'', cs_ControlPlaneEndpoint = \<lparr>ep_Host = ''cp'', ep_Port = 0\<rparr>, cs_IdentityRef = None,
       cs_ControlPlaneLoadBalancer = \<lparr>lb_Enabled = None, lb_InstanceType = '''', lb_Image = '''', lb_SSHKeyIDs = None\<rparr>,
       cs_ServiceLoadBalancer = \<lparr>lb_Enabled = Some True, lb_InstanceType = '''', lb_Image = '''', lb_SSHKeyIDs = None\<rparr>\<rparr>,
     vc_Status = \<lparr>cst_Provisioned = None, cst_Conditions = [],
       cst_LoadBalancer = \<lparr>ls_InstanceID = '''', ls_StartupScriptID = '''', ls_Address = '''', ls_Backends = [], ls_SecretPublished = None\<rparr>,
       cst_ServiceLoadBalancer = \<lparr>ls_InstanceID = '''', ls_StartupScriptID = '''', ls_Address = '''', ls_Backends = [], ls_SecretPublished = None\<rparr>,
       cst_FailureDomains = []\<rparr>\<rparr>"

lemma lb_cluster_created: "cluster_created NI (VerdaCluster_Default lb_cluster)"
proof -
  have "locationCodeRe ''FIN-01''" by code_simp
  then show ?thesis
    by (intro admitted) (simp add: VerdaCluster_Default_def defaultClusterSpec_def Let_def lb_cluster_def
        cluster_valid_def defaultLoadBalancer_def)
qed

text \<open>An update that names an image for the service load balancer.\<close>

definition with_lb_image :: "VerdaCluster \<Rightarrow> VerdaCluster" where
  "with_lb_image vc = vc\<lparr>vc_Spec := (vc_Spec vc)\<lparr>cs_ServiceLoadBalancer :=
     (cs_ServiceLoadBalancer (vc_Spec vc))\<lparr>lb_Image := ''debian''\<rparr>\<rparr>\<rparr>"

lemma lb_cluster_updated:
  "cluster_updated NI (VerdaCluster_Default lb_cluster) (VerdaCluster_Default (with_lb_image lb_cluster))"
proof -
  have "locationCodeRe ''FIN-01''" by code_simp
  then have "cluster_valid (vc_Spec (VerdaCluster_Default (with_lb_image lb_cluster)))"
    "cluster_same (vc_Spec (VerdaCluster_Default lb_cluster)) (vc_Spec (VerdaCluster_Default (with_lb_image lb_cluster)))"
    by (simp_all add: VerdaCluster_Default_def defaultClusterSpec_def Let_def lb_cluster_def with_lb_image_def
        cluster_valid_def cluster_same_def defaultLoadBalancer_def)
  then show ?thesis by (auto simp: admission_simps)
qed

theorem cluster_spec_frozen_witness:
  "let vc = VerdaCluster_Default lb_cluster; vc' = VerdaCluster_Default (with_lb_image lb_cluster) in
   cluster_created (\<lambda>_ _ _. ErrNotFound) vc \<and> cluster_updated (\<lambda>_ _ _. ErrNotFound) vc vc' \<and>
   cluster_valid (vc_Spec vc) \<and> cluster_same (vc_Spec vc) (vc_Spec vc')"
  using cluster_spec_frozen [OF lb_cluster_created rtranclp.rtrancl_refl r_into_rtranclp [of "cluster_updated (\<lambda>_ _ _. ErrNotFound)", OF lb_cluster_updated]]
    lb_cluster_created lb_cluster_updated
  by (simp add: Let_def)

theorem disabling_service_lb_rejected_witness:
  "let vc = VerdaCluster_Default lb_cluster in
   lb_Enabled (cs_ServiceLoadBalancer (vc_Spec vc)) = Some True \<and>
   \<not> cluster_updated (\<lambda>_ _ _. ErrNotFound) vc (vc\<lparr>vc_Spec := (vc_Spec vc)\<lparr>cs_ServiceLoadBalancer :=
       (cs_ServiceLoadBalancer (vc_Spec vc))\<lparr>lb_Enabled := Some False\<rparr>\<rparr>\<rparr>)"
proof -
  have "lb_Enabled (cs_ServiceLoadBalancer (vc_Spec (VerdaCluster_Default lb_cluster))) = Some True"
    by (simp add: VerdaCluster_Default_def defaultClusterSpec_def Let_def lb_cluster_def defaultLoadBalancer_def)
  then show ?thesis using disabling_service_lb_rejected [OF lb_cluster_created] by (simp add: Let_def)
qed

end
