(* ===== verification/MachineLimits.thy ===== *)
theory MachineLimits
  imports MachineClaims WebhookProps
begin

text \<open>
  Where the guarantees of the machine reconciler end: what happens when the cloud lists a deleted
  instance ahead of the live one and when the credentials lead to another account, and two places
  where the reconciler and another component disagree.
\<close>

section \<open>Claims\<close>


text \<open>An account that knows nothing of the machine, whatever other accounts hold.\<close>

definition knows_nothing :: "'a verda_api \<Rightarrow> 'a \<Rightarrow> bool" where
  "knows_nothing api w =
     (Instances_Get api '''' w = (Inr [], w) \<and> (\<forall>k. Instances_GetByID api k w = (Inl (APIError 404), w)) \<and>
      (\<forall>k. Volumes_GetVolume api k w = (Inl (APIError 404), w)) \<and> StartupScripts_GetAllStartupScripts api w = (Inr [], w) \<and>
      (\<forall>k. StartupScripts_DeleteStartupScript api k w = (Inl (APIError 404), w)))"

lemma reconcileDelete_nothing:
  assumes "knows_nothing api w" "klib_ok K"
  shows "\<exists>vm'. reconcileDelete K now (sdkClient api) vm w = (Inr no_requeue, vm', w) \<and>
     MachineFinalizer \<notin> set (om_Finalizers (vm_Meta vm'))"
proof -
  let ?c = "sdkClient api"
  have find: "findInstance ?c v w = (Inr None, w) \<or> findInstance ?c v w = (Inr (Some (bare_Instance (InstanceID v) StatusNotFound)), w)" for v
    using assms(1)
    by (simp add: knows_nothing_def findInstance_def sdkClient_GetInstance_def sdkClient_FindInstanceByTag_def isNotFound_def)
  have "\<exists>vm'. finish_delete K ?c v w = (Inr no_requeue, remove_finalizer K vm', w)" for v
    using assms(1)
    by (auto simp: knows_nothing_def finish_delete_def delete_script_def deleteOSVolume_def Let_def isNotFound_def
        sdkClient_DeleteStartupScript_def sdkClient_DeleteStartupScriptByName_def sdkClient_GetVolume_def)
  then have fin: "\<exists>vm'. finish_delete K ?c v w = (Inr no_requeue, vm', w) \<and> MachineFinalizer \<notin> set (om_Finalizers (vm_Meta vm'))" for v
    by (force simp: remove_finalizer_def klib_simps [OF assms(2)])
  show ?thesis
    using find [of "setInstanceReadyFalse K vm (DeletingReason K) (Text ''Deleting Verda instance'')"] fin
    by (auto simp: reconcileDelete_def Let_def)
qed


text \<open>
  C39. When an instance got no capacity, the reconciler clears the provider ID it has set before, and
  the machine's own webhook rejects that update.
\<close>

theorem no_capacity_patch_rejected:
  assumes "use_instance K c vc vm inst w = (Inr r, vm', w')" "i_Status inst = StatusNoCapacity"
    and "ms_ProviderID (vm_Spec vm) \<noteq> ''''"
  shows "VerdaMachine_ValidateUpdate NI vm vm' \<noteq> Inr ()"
proof -
  have "ms_ProviderID (vm_Spec vm') = ''''"
    using assms(1,2) by (auto simp: use_instance_def act_on_status_def Let_def split: prod.splits sum.splits)
  with assms(3) show ?thesis by (simp add: admission_simps machine_same_def)
qed

definition no_capacity_instance :: verda_Instance where
  "no_capacity_instance = old_instance\<lparr>vi_Status := StatusNoCapacity\<rparr>"

definition no_capacity_mem :: mem where
  "no_capacity_mem = empty_mem\<lparr>mm_Instances := [no_capacity_instance]\<rparr>"

definition offline_mem :: mem where
  "offline_mem = empty_mem\<lparr>mm_Instances := [no_capacity_instance\<lparr>vi_Status := StatusOffline\<rparr>]\<rparr>"

lemma no_capacity_shutdown: "sdkClient_DeleteInstance mem_api ''i'' no_capacity_mem = (Inr (), offline_mem)"
  by (simp add: sdkClient_DeleteInstance_def no_capacity_mem_def offline_mem_def no_capacity_instance_def old_instance_def
      mem_lookup_def mem_set_status_def toInstance_def tag_map_def)

theorem no_capacity_patch_rejected_witness:
  "\<exists>vm vm' w'. ms_ProviderID (vm_Spec vm) = ''verda://node-1'' \<and>
     use_instance plain_klib (sdkClient mem_api) demo_vc vm (toInstance no_capacity_instance) no_capacity_mem =
       (Inr (requeue_after noCapacityRetryInterval), vm', w') \<and>
     VerdaMachine_ValidateUpdate (\<lambda>_ _ _. ErrNotFound) vm vm' \<noteq> Inr ()"
proof -
  let ?vm = "with_provider_id (demo_vm None)"
  have inst: "vi_Status no_capacity_instance = StatusNoCapacity" "vi_ID no_capacity_instance = ''i''"
    by (simp_all add: no_capacity_instance_def old_instance_def)
  have pid: "ms_ProviderID (vm_Spec ?vm) = ''verda://node-1''" "mst_OSVolumeID (vm_Status ?vm) = ''''"
    by (simp_all add: with_provider_id_def demo_vm_simps)
  obtain vm' w' where run: "use_instance plain_klib (sdkClient mem_api) demo_vc ?vm (toInstance no_capacity_instance)
      no_capacity_mem = (Inr (requeue_after noCapacityRetryInterval), vm', w')"
    by (simp add: use_instance_def record_instance_def ensureOSVolumeTag_def pid act_on_status_def inst no_capacity_shutdown Let_def)
  show ?thesis
    using no_capacity_patch_rejected [OF run, of "\<lambda>_ _ _. ErrNotFound"] run pid inst by auto
qed

text \<open>
  An instance without capacity is not deleted when the service can shut it down: the first
  reconcile only sends the shutdown and forgets the instance, the next one finds it again, offline,
  and waits for it to become ready without touching it.
\<close>

theorem no_capacity_kept_offline:
  "\<exists>r vm1. Reconcile (demo_env (sdkClient mem_api) (demo_vm None)) no_capacity_mem = (r, Some vm1, offline_mem) \<and>
     InstanceID vm1 = '''' \<and>
     (\<exists>vm2. Reconcile (demo_env (sdkClient mem_api) vm1) offline_mem =
        (Inr (requeue_after instancePollInterval), Some vm2, offline_mem) \<and> InstanceID vm2 = ''i'')"
proof -
  let ?c = "sdkClient mem_api"
  have inst: "vi_Status no_capacity_instance = StatusNoCapacity" "vi_ID no_capacity_instance = ''i''"
    "vi_StartupScriptID no_capacity_instance = None"
    by (simp_all add: no_capacity_instance_def old_instance_def)
  have find: "findInstance ?c vm no_capacity_mem = (Inr (Some (toInstance no_capacity_instance)), no_capacity_mem)"
    "findInstance ?c vm offline_mem = (Inr (Some (toInstance (no_capacity_instance\<lparr>vi_Status := StatusOffline\<rparr>))), offline_mem)"
    if "mst_InstanceID (vm_Status vm) = ''''" "machineTagValue vm = ''default/node-1''" for vm
    using that by (simp_all add: findInstance_def sdkClient_FindInstanceByTag_def no_capacity_mem_def offline_mem_def
        no_capacity_instance_def old_instance_def toInstance_def tag_map_def)
  have patch: "me_Patch (demo_env ?c vm) = (\<lambda>_. None)" for vm by (simp add: demo_env_def)
  obtain r vm1 where run1: "Reconcile (demo_env ?c (demo_vm None)) no_capacity_mem = (r, Some vm1, offline_mem)"
    and vm1: "mst_InstanceID (vm_Status vm1) = ''''" "vm_Meta vm1 = demo_meta None" "mst_OSVolumeID (vm_Status vm1) = ''''"
      "mst_Provisioned (vm_Status vm1) = None"
    by (simp add: Reconcile_def demo_env_simps demo_vm_simps with_patch_def reconcile_scope_def reconcileNormal_def
        Let_def find demo_tag use_instance_def record_instance_def ensureOSVolumeTag_def
        act_on_status_def inst no_capacity_shutdown patchVerdaMachine_def setInstanceReadyFalse_def set_condition_def)
  have "machineTagValue vm1 = ''default/node-1''"
    using demo_tag [of None] by (simp add: machineTagValue_def vm1 demo_vm_simps)
  then have "\<exists>vm2. Reconcile (demo_env ?c vm1) offline_mem =
        (Inr (requeue_after instancePollInterval), Some vm2, offline_mem) \<and> mst_InstanceID (vm_Status vm2) = ''i''"
    by (simp add: Reconcile_def demo_env_simps vm1 demo_vm_simps with_patch_def reconcile_scope_def reconcileNormal_def
        Let_def find use_instance_def record_instance_def ensureOSVolumeTag_def with_patch_error_def
        act_on_status_def inst patch patchVerdaMachine_def setInstanceReadyFalse_def set_condition_def)
  with run1 vm1 show ?thesis by blast
qed

section \<open>Witnesses\<close>

text \<open>An account that lists an instance in state deleted ahead of the running one.\<close>

definition deleted_first_mem :: mem where
  "deleted_first_mem = empty_mem\<lparr>mm_Instances :=
     [running_instance\<lparr>vi_ID := ''d'', vi_Status := StatusDeleted\<rparr>, running_instance]\<rparr>"

lemma deleted_first_create:
  "\<exists>inst w'. createInstance (demo_env (sdkClient mem_api) (demo_vm None)) (sdkClient mem_api) demo_cluster demo_vc
      \<lparr>ma_Meta = demo_meta None, ma_DataSecretName = Some ''boot''\<rparr> (demo_vm None) ''24.04.base'' deleted_first_mem =
    (Inr inst, w') \<and> i_Status inst = ''provisioning''"
  by (simp add: createInstance_def getBootstrapData_def demo_env_simps demo_vm_simps demo_script
      sdkClient_CreateInstance_def sdkClient_DeleteStartupScriptByName_def send_create_def mem_create_def Let_def
      deleted_first_mem_def empty_mem_def instance_spec_def create_request_def demo_tag toInstance_def str_of_def tag_map_def
      running_instance_def old_instance_def hostname_conflict_def)


definition orphan_vm :: VerdaMachine where
  "orphan_vm = (demo_vm (Some 0))\<lparr>vm_Status := (vm_Status (demo_vm (Some 0)))\<lparr>mst_InstanceID := ''i''\<rparr>\<rparr>"

definition other_account :: "mem verda_api" where
  "other_account = mem_api\<lparr>Instances_Get := (\<lambda>_ w. (Inr [], w)), Instances_GetByID := (\<lambda>_ w. (Inl (APIError 404), w)),
     Volumes_GetVolume := (\<lambda>_ w. (Inl (APIError 404), w)), StartupScripts_GetAllStartupScripts := (\<lambda>w. (Inr [], w)),
     StartupScripts_DeleteStartupScript := (\<lambda>_ w. (Inl (APIError 404), w))\<rparr>"

definition two_accounts_env :: "mem machine_env" where
  "two_accounts_env = (demo_env (sdkClient mem_api) orphan_vm)\<lparr>me_GetOwnerMachine := (\<lambda>_. Inr None),
     me_ClientFor := (\<lambda>ident. if id_SecretName ident = '''' then Inr (sdkClient other_account) else Inr (sdkClient mem_api))\<rparr>"


end
