(* ===== verification/LoadBalancerConfig.thy ===== *)
theory LoadBalancerConfig
  imports Bootstrap GoTime
begin

text \<open>
  The package \<^verbatim>\<open>loadbalancer\<close>: the configuration files of the two kinds of load balancer
  instances, their startup scripts, and the updater that pushes files over SSH.

  The files under \<^verbatim>\<open>templates/\<close> are translated to functions of the data they are rendered
  with. A \<^verbatim>\<open>{{-\<close> takes the line break in front of it away, so each template prints its lines,
  each ended by one line break.
\<close>

section \<open>Data\<close>

record Keys =
  ky_ClientPrivateKey :: string
  ky_ClientPublicKey :: string
  ky_HostPrivateKey :: string
  ky_HostPublicKey :: string

record Backend =
  be_Address :: string
  be_Port :: int

record Frontend =
  fe_Name :: string
  fe_Protocol :: string
  fe_Port :: int
  fe_Backends :: "Backend list"
  fe_HealthCheckPort :: int
  fe_ProxyProtocol :: bool

record File =
  fl_Path :: string
  fl_Content :: string

definition lb_Port :: int where "lb_Port = 6443"

definition ConfigPath :: string where "ConfigPath = ''/etc/haproxy/haproxy.cfg''"

definition EnvoyVersion :: string where "EnvoyVersion = ''1.34.1''"

definition EnvoyDir :: string where "EnvoyDir = ''/etc/envoy''"

definition EnvoyLDSPath :: string where "EnvoyLDSPath = EnvoyDir @ ''/lds.yaml''"

definition EnvoyCDSPath :: string where "EnvoyCDSPath = EnvoyDir @ ''/cds.yaml''"

definition UpdateCommand :: string where
  "UpdateCommand = ''set -e; cat > '' @ ConfigPath @ ''.new && haproxy -c -f '' @ ConfigPath @ ''.new >/dev/null && mv '' @
     ConfigPath @ ''.new '' @ ConfigPath @ '' && systemctl reload haproxy''"

definition unlines :: "string list \<Rightarrow> string" where
  "unlines ls = concat (map (\<lambda>l. l @ nl) ls)"

section \<open>haproxy\<close>

definition haproxy_cfg :: "string list \<Rightarrow> int \<Rightarrow> string" where
  "haproxy_cfg backends port = unlines (
     [''# Managed by cluster-api-provider-verda. Do not edit.'',
      ''global'',
      ''    log /dev/log local0'',
      ''    maxconn 4096'',
      '''',
      ''defaults'',
      ''    mode tcp'',
      ''    log global'',
      ''    option tcplog'',
      ''    option dontlognull'',
      ''    timeout connect 10s'',
      ''    timeout client 1h'',
      ''    timeout server 1h'',
      '''',
      ''frontend kube-apiserver'',
      ''    bind *:6443'',
      ''    default_backend kube-apiserver'',
      '''',
      ''backend kube-apiserver'',
      ''    balance roundrobin'',
      ''    option tcp-check'',
      ''    default-server inter 5s fall 3 rise 2''] @
     map (\<lambda>(i, ip). ''    server cp-'' @ itoa i @ '' '' @ ip @ '':'' @ itoa_int port @ '' check'') (List.enumerate 0 backends))"

definition Config :: "string list \<Rightarrow> string" where
  "Config backends = haproxy_cfg (sort backends) lb_Port"

text \<open>The lines that install the SSH keys, shared by both startup scripts.\<close>

definition eof_doc :: "string \<Rightarrow> string \<Rightarrow> string list" where
  "eof_doc redirect content = [''base64 -d '' @ redirect @ '' <<'' @ sq @ ''__CAPI_EOF__'' @ sq, content, ''__CAPI_EOF__'']"

definition ssh_lines :: "Keys \<Rightarrow> string list" where
  "ssh_lines keys =
     [''# SSH: provider client key and pre-generated host key.'',
      ''mkdir -p /root/.ssh && chmod 700 /root/.ssh''] @
     eof_doc ''>> /root/.ssh/authorized_keys'' (EncodeToString (ky_ClientPublicKey keys)) @
     [''chmod 600 /root/.ssh/authorized_keys''] @
     eof_doc ''> /etc/ssh/ssh_host_ed25519_key'' (EncodeToString (ky_HostPrivateKey keys)) @
     eof_doc ''> /etc/ssh/ssh_host_ed25519_key.pub'' (EncodeToString (ky_HostPublicKey keys)) @
     [''chmod 600 /etc/ssh/ssh_host_ed25519_key'',
      ''chmod 644 /etc/ssh/ssh_host_ed25519_key.pub'',
      ''systemctl restart ssh || systemctl restart sshd'',
      '''']"

definition log_lines :: "string \<Rightarrow> string list" where
  "log_lines kind =
     [''#!/bin/bash'',
      ''# Generated by cluster-api-provider-verda for the '' @ kind @ '' load balancer. Do not edit.'',
      ''set -euo pipefail'',
      ''exec > >(tee -a /var/log/capi-loadbalancer.log) 2>&1'',
      ''echo '' @ dq @ ''[capi-lb] starting $(date -Is)'' @ dq,
      '''']"

definition StartupScript :: "Keys \<Rightarrow> string list \<Rightarrow> string" where
  "StartupScript keys backends = unlines (
     log_lines ''control plane'' @
     [''export DEBIAN_FRONTEND=noninteractive'',
      ''for i in 1 2 3 4 5; do apt-get update && apt-get install -y haproxy && break || sleep 10; done'',
      ''''] @
     ssh_lines keys @
     [''# haproxy''] @
     eof_doc (''> '' @ ConfigPath) (EncodeToString (Config backends)) @
     [''haproxy -c -f '' @ ConfigPath,
      ''systemctl enable haproxy'',
      ''systemctl restart haproxy'',
      ''echo '' @ dq @ ''[capi-lb] finished $(date -Is)'' @ dq])"

section \<open>envoy\<close>

definition EnvoyBootstrap :: string where
  "EnvoyBootstrap = unlines
     [''# Managed by cluster-api-provider-verda. Do not edit.'',
      ''node:'',
      ''  id: service-lb'',
      ''  cluster: service-lb'',
      ''admin:'',
      ''  address:'',
      ''    socket_address: {address: 127.0.0.1, port_value: 9901}'',
      ''dynamic_resources:'',
      ''  lds_config:'',
      ''    path_config_source:'',
      ''      path: '' @ EnvoyLDSPath,
      ''      watched_directory: {path: '' @ EnvoyDir @ ''}'',
      ''  cds_config:'',
      ''    path_config_source:'',
      ''      path: '' @ EnvoyCDSPath,
      ''      watched_directory: {path: '' @ EnvoyDir @ ''}'']"

record frontendView = Frontend +
  fv_UDP :: bool

definition type_line :: "string \<Rightarrow> string \<Rightarrow> string" where
  "type_line indent name = indent @ dq @ ''@type'' @ dq @ '': type.googleapis.com/'' @ name"

definition lds_view :: "frontendView \<Rightarrow> string list" where
  "lds_view v =
     [type_line ''- '' ''envoy.config.listener.v3.Listener'',
      ''  name: '' @ fe_Name v] @
     (if fv_UDP v then
       [''  address:'',
        ''    socket_address: {protocol: UDP, address: 0.0.0.0, port_value: '' @ itoa_int (fe_Port v) @ ''}'',
        ''  listener_filters:'',
        ''  - name: envoy.filters.udp_listener.udp_proxy'',
        ''    typed_config:'',
        type_line ''      '' ''envoy.extensions.filters.udp.udp_proxy.v3.UdpProxyConfig'',
        ''      stat_prefix: '' @ fe_Name v,
        ''      matcher:'',
        ''        on_no_match:'',
        ''          action:'',
        ''            name: route'',
        ''            typed_config:'',
        type_line ''              '' ''envoy.extensions.filters.udp.udp_proxy.v3.Route'',
        ''              cluster: '' @ fe_Name v]
      else
       [''  address:'',
        ''    socket_address: {address: 0.0.0.0, port_value: '' @ itoa_int (fe_Port v) @ ''}'',
        ''  filter_chains:'',
        ''  - filters:'',
        ''    - name: envoy.filters.network.tcp_proxy'',
        ''      typed_config:'',
        type_line ''        '' ''envoy.extensions.filters.network.tcp_proxy.v3.TcpProxy'',
        ''        stat_prefix: '' @ fe_Name v,
        ''        cluster: '' @ fe_Name v])"

definition cds_backends :: "Backend list \<Rightarrow> string list" where
  "cds_backends backends =
     (if backends = [] then [''      []'']
      else concat (map (\<lambda>b.
       [''      - endpoint:'',
        ''          address:'',
        ''            socket_address: {address: '' @ be_Address b @ '', port_value: '' @ itoa_int (be_Port b) @ ''}'']) backends))"

definition cds_view :: "frontendView \<Rightarrow> string list" where
  "cds_view v =
     [type_line ''- '' ''envoy.config.cluster.v3.Cluster'',
      ''  name: '' @ fe_Name v,
      ''  type: STATIC'',
      ''  connect_timeout: 5s'',
      ''  lb_policy: ROUND_ROBIN'',
      ''  load_assignment:'',
      ''    cluster_name: '' @ fe_Name v,
      ''    endpoints:'',
      ''    - lb_endpoints:''] @
     cds_backends (fe_Backends v) @
     (if fe_HealthCheckPort v > 0 \<or> \<not> fv_UDP v then
       [''  health_checks:'',
        ''  - timeout: 2s'',
        ''    interval: 5s'',
        ''    no_traffic_interval: 5s'',
        ''    unhealthy_threshold: 3'',
        ''    healthy_threshold: 2''] @
       (if fe_HealthCheckPort v > 0 then
         [''    alt_port: '' @ itoa_int (fe_HealthCheckPort v),
          ''    http_health_check: {path: /healthz}'']
        else [''    tcp_health_check: {}''])
      else []) @
     (if fe_ProxyProtocol v \<and> \<not> fv_UDP v then
       [''  transport_socket:'',
        ''    name: envoy.transport_sockets.upstream_proxy_protocol'',
        ''    typed_config:'',
        type_line ''      '' ''envoy.extensions.transport_sockets.proxy_protocol.v3.ProxyProtocolUpstreamTransport'',
        ''      config: {version: V2}'',
        ''      transport_socket:'',
        ''        name: envoy.transport_sockets.raw_buffer'',
        ''        typed_config:'',
        type_line ''          '' ''envoy.extensions.transport_sockets.raw_buffer.v3.RawBuffer'']
      else [])"

definition resource_file :: "(frontendView \<Rightarrow> string list) \<Rightarrow> frontendView list \<Rightarrow> string" where
  "resource_file view vs =
     unlines ([''# Managed by cluster-api-provider-verda. Do not edit.'', ''resources:''] @ concat (map view vs))"

definition frontend_view :: "Frontend \<Rightarrow> frontendView" where
  "frontend_view f = Frontend.extend (f\<lparr>fe_Backends := sort_key be_Address (fe_Backends f)\<rparr>)
     (frontendView.fields (ToLower (fe_Protocol f) = ''udp''))"

text \<open>
  \<^verbatim>\<open>slices.SortFunc\<close> leaves open in which order elements that compare equal come; here they
  keep their order. Frontends of one load balancer have different names, and the backends of a
  frontend that have one address have one port.
\<close>

definition EnvoyResources :: "Frontend list \<Rightarrow> string \<times> string" where
  "EnvoyResources frontends =
     (let views = map frontend_view (sort_key fe_Name frontends)
      in (resource_file lds_view views, resource_file cds_view views))"

definition EnvoyFiles :: "Frontend list \<Rightarrow> File list" where
  "EnvoyFiles frontends =
     (let (lds, cds) = EnvoyResources frontends
      in [\<lparr>fl_Path = EnvoyCDSPath, fl_Content = cds\<rparr>, \<lparr>fl_Path = EnvoyLDSPath, fl_Content = lds\<rparr>])"

definition EnvoyStartupScript :: "Keys \<Rightarrow> string" where
  "EnvoyStartupScript keys =
     (let (lds, cds) = EnvoyResources [] in unlines (
       log_lines ''service'' @
       ssh_lines keys @
       [''# envoy'',
        ''for i in 1 2 3 4 5; do curl -fsSL -o /usr/local/bin/envoy https://github.com/envoyproxy/envoy/releases/download/v'' @
          EnvoyVersion @ ''/envoy-'' @ EnvoyVersion @ ''-linux-x86_64 && break || sleep 10; done'',
        ''chmod 0755 /usr/local/bin/envoy'',
        ''mkdir -p '' @ EnvoyDir] @
       eof_doc (''> '' @ EnvoyDir @ ''/envoy.yaml'') (EncodeToString EnvoyBootstrap) @
       eof_doc (''> '' @ EnvoyLDSPath) (EncodeToString lds) @
       eof_doc (''> '' @ EnvoyCDSPath) (EncodeToString cds) @
       [''cat > /etc/systemd/system/envoy.service <<'' @ sq @ ''__CAPI_EOF__'' @ sq,
        ''[Unit]'',
        ''Description=Envoy service load balancer (cluster-api-provider-verda)'',
        ''After=network-online.target'',
        ''Wants=network-online.target'',
        '''',
        ''[Service]'',
        ''ExecStart=/usr/local/bin/envoy -c /etc/envoy/envoy.yaml --log-path /var/log/envoy.log'',
        ''Restart=always'',
        ''RestartSec=2'',
        ''LimitNOFILE=65536'',
        '''',
        ''[Install]'',
        ''WantedBy=multi-user.target'',
        ''__CAPI_EOF__'',
        ''/usr/local/bin/envoy --mode validate -c /etc/envoy/envoy.yaml'',
        ''systemctl daemon-reload'',
        ''systemctl enable envoy'',
        ''systemctl restart envoy'',
        ''echo '' @ dq @ ''[capi-lb] finished $(date -Is)'' @ dq]))"

section \<open>Keys\<close>

text \<open>
  The key generator of the SSH library is a parameter: it returns the private key in PEM form and
  the public key as a line of an authorized keys file.
\<close>

definition GenerateKeys :: "(string \<Rightarrow> ('w, string \<times> string) call) \<Rightarrow> ('w, Keys) call" where
  "GenerateKeys generateKeyPair w =
     (case generateKeyPair ''cluster-api-provider-verda'' w of
        (Inl err, w) \<Rightarrow> (Inl (Wrapf ''generating client key: %w'' [] err), w)
      | (Inr (clientPriv, clientPub), w) \<Rightarrow>
          (case generateKeyPair '''' w of
             (Inl err, w) \<Rightarrow> (Inl (Wrapf ''generating host key: %w'' [] err), w)
           | (Inr (hostPriv, hostPub), w) \<Rightarrow>
               (Inr \<lparr>ky_ClientPrivateKey = clientPriv, ky_ClientPublicKey = clientPub,
                      ky_HostPrivateKey = hostPriv, ky_HostPublicKey = hostPub\<rparr>, w)))"

section \<open>The updater\<close>

definition install_file :: "nat \<Rightarrow> File \<Rightarrow> string" where
  "install_file i f =
     ''base64 -d > '' @ fl_Path f @ ''.new.'' @ itoa i @ '' <<'' @ sq @ ''__CAPI_FILE__'' @ sq @ nl @
     wrapBase64 (EncodeToString (fl_Content f)) @ ''__CAPI_FILE__'' @ nl @
     ''mv -f '' @ fl_Path f @ ''.new.'' @ itoa i @ '' '' @ fl_Path f @ nl"

definition InstallScript :: "File list \<Rightarrow> string \<Rightarrow> string" where
  "InstallScript files reload =
     ''set -euo pipefail'' @ nl @ concat (map (\<lambda>(i, f). install_file i f) (List.enumerate 0 files)) @
     (if reload \<noteq> '''' then reload @ nl else '''')"

text \<open>
  The SSH library: keys of type \<open>'k\<close>, connections of type \<open>'c\<close>. A session runs one command with
  the given standard input; its error comes with what the command printed.
\<close>

record ClientConfig =
  sc_User :: string
  sc_HostKeyAlgorithms :: "string list"
  sc_Timeout :: int

record ('k, 'c, 'w) ssh_lib =
  ParsePrivateKey :: "string \<Rightarrow> go_error + 'k"
  ParseAuthorizedKey :: "string \<Rightarrow> go_error + 'k"
  DialContext :: "string \<Rightarrow> int \<Rightarrow> ('w, 'c) call"
  NewClientConn :: "'c \<Rightarrow> string \<Rightarrow> ClientConfig \<Rightarrow> 'k \<Rightarrow> 'k \<Rightarrow> ('w, 'c) call"
  conn_Close :: "'c \<Rightarrow> 'w \<Rightarrow> 'w"
  NewSession :: "'c \<Rightarrow> ('w, 'c) call"
  session_Run :: "'c \<Rightarrow> string \<Rightarrow> string \<Rightarrow> 'w \<Rightarrow> (go_error + unit) \<times> string \<times> 'w"

definition JoinHostPort :: "string \<Rightarrow> string \<Rightarrow> string" where
  "JoinHostPort host port =
     (if CHR '':'' \<in> set host then ''['' @ host @ '']:'' @ port else host @ '':'' @ port)"

text \<open>\<^verbatim>\<open>SSHUpdater.run\<close>; the deadline of the context is not modelled.\<close>

definition SSHUpdater_run :: "('k, 'c, 'w) ssh_lib \<Rightarrow> int \<Rightarrow> string \<Rightarrow> Keys \<Rightarrow> string \<Rightarrow> string \<Rightarrow> ('w, unit) call" where
  "SSHUpdater_run L Timeout addr keys stdin command w =
     (case ParsePrivateKey L (ky_ClientPrivateKey keys) of
        Inl err \<Rightarrow> (Inl (Wrapf ''parsing client key: %w'' [] err), w)
      | Inr signer \<Rightarrow>
     (case ParseAuthorizedKey L (ky_HostPublicKey keys) of
        Inl err \<Rightarrow> (Inl (Wrapf ''parsing host key: %w'' [] err), w)
      | Inr hostKey \<Rightarrow>
     (let timeout = (if Timeout = 0 then 20 * time_Second else Timeout);
          config = \<lparr>sc_User = ''root'', sc_HostKeyAlgorithms = [''ssh-ed25519''], sc_Timeout = timeout\<rparr>
      in case DialContext L (JoinHostPort addr ''22'') timeout w of
        (Inl err, w) \<Rightarrow> (Inl (Wrapf ''connecting to load balancer %s: %w'' [addr] err), w)
      | (Inr conn, w) \<Rightarrow>
     (case NewClientConn L conn addr config signer hostKey w of
        (Inl err, w) \<Rightarrow> (Inl (Wrapf ''ssh handshake with load balancer %s: %w'' [addr] err), conn_Close L conn w)
      | (Inr client, w) \<Rightarrow>
     (case NewSession L client w of
        (Inl err, w) \<Rightarrow> (Inl (Wrapf ''opening ssh session: %w'' [] err), conn_Close L client w)
      | (Inr session, w) \<Rightarrow>
     (case session_Run L session stdin command w of
        (Inl err, stderr, w) \<Rightarrow>
          (Inl (Wrapf ''updating load balancer %s: %w: %s'' [addr, TrimSpace stderr] err),
           conn_Close L client (conn_Close L session w))
      | (Inr _, stderr, w) \<Rightarrow> (Inr (), conn_Close L client (conn_Close L session w))))))))"

record 'w updater =
  UpdateBackends :: "string \<Rightarrow> Keys \<Rightarrow> string list \<Rightarrow> ('w, unit) call"
  UpdateFiles :: "string \<Rightarrow> Keys \<Rightarrow> File list \<Rightarrow> string \<Rightarrow> ('w, unit) call"

definition SSHUpdater :: "('k, 'c, 'w) ssh_lib \<Rightarrow> int \<Rightarrow> 'w updater" where
  "SSHUpdater L Timeout =
     \<lparr>UpdateBackends = (\<lambda>addr keys backends. SSHUpdater_run L Timeout addr keys (Config backends) UpdateCommand),
      UpdateFiles = (\<lambda>addr keys files reload. SSHUpdater_run L Timeout addr keys (InstallScript files reload) ''bash -s'')\<rparr>"

record FakeUpdater =
  fu_Backends :: "(string \<times> string list) list"
  fu_Files :: "(string \<times> File list) list"
  fu_Calls :: int
  fu_Err :: "go_error option"

definition fake_updater :: "FakeUpdater updater" where
  "fake_updater =
     \<lparr>UpdateBackends = (\<lambda>addr _ backends f.
        let f = f\<lparr>fu_Calls := fu_Calls f + 1\<rparr> in
        case fu_Err f of
          Some err \<Rightarrow> (Inl err, f)
        | None \<Rightarrow> (Inr (), f\<lparr>fu_Backends := AList.update addr backends (fu_Backends f)\<rparr>)),
      UpdateFiles = (\<lambda>addr _ files _ f.
        let f = f\<lparr>fu_Calls := fu_Calls f + 1\<rparr> in
        case fu_Err f of
          Some err \<Rightarrow> (Inl err, f)
        | None \<Rightarrow> (Inr (), f\<lparr>fu_Files := AList.update addr files (fu_Files f)\<rparr>))\<rparr>"

end
