(* ===== verification/CloudProvider.thy ===== *)
theory CloudProvider
  imports ApiTypes CloudTypes LoadBalancerConfig
begin

text \<open>
  The cloud controller manager's provider (package \<^verbatim>\<open>ccm\<close>): the node lookups of
  \<^verbatim>\<open>provider.go\<close> and the service load balancer of \<^verbatim>\<open>loadbalancer.go\<close>. The Kubernetes API is a
  record of the reads these use.
\<close>

section \<open>Kubernetes objects\<close>

text \<open>Node addresses are \<open>MachineAddress\<close> values; both have a type and an address.\<close>

record Node =
  nd_Meta :: ObjectMeta
  nd_ProviderID :: string
  nd_Addresses :: "MachineAddress list"

record ServicePort =
  sp_Protocol :: string
  sp_Port :: int
  sp_NodePort :: int

record Service =
  sv_Meta :: ObjectMeta
  sv_CreationTimestamp :: int
  sv_Type :: string
  sv_Ports :: "ServicePort list"
  sv_ExternalTrafficPolicy :: string
  sv_HealthCheckNodePort :: int
  sv_Ingress :: "string list"

abbreviation sv_Name :: "Service \<Rightarrow> string" where "sv_Name s \<equiv> om_Name (sv_Meta s)"
abbreviation sv_Namespace :: "Service \<Rightarrow> string" where "sv_Namespace s \<equiv> om_Namespace (sv_Meta s)"

section \<open>Nodes\<close>

definition providerIDPrefix :: string where "providerIDPrefix = ''verda'' @ ''://''"

definition lookup :: "'w cloud_client \<Rightarrow> Node \<Rightarrow> ('w, Instance) call" where
  "lookup c node w =
     (let ident = nd_ProviderID node in
      if ident \<noteq> '''' \<and> \<not> HasPrefix ident providerIDPrefix then
        (Inl (Errorf ''node %s has foreign provider ID %q'' [om_Name (nd_Meta node), ident]), w)
      else
        let hostname = (if ident \<noteq> '''' then TrimPrefix ident providerIDPrefix else om_Name (nd_Meta node)) in
        case FindInstanceByHostname c hostname w of
          (Inl err, w) \<Rightarrow> (Inl err, w)
        | (Inr inst, w) \<Rightarrow> (Inr inst, w))"

definition InstanceExists :: "'w cloud_client \<Rightarrow> Node \<Rightarrow> ('w, bool) call" where
  "InstanceExists c node w =
     (case lookup c node w of
        (Inl err, w) \<Rightarrow> if errors_Is err ErrNotFound then (Inr False, w) else (Inl err, w)
      | (Inr inst, w) \<Rightarrow>
          if i_Status inst = StatusDiscontinued \<or> i_Status inst = StatusDeleted \<or> i_Status inst = StatusNotFound
          then (Inr False, w) else (Inr True, w))"

definition InstanceShutdown :: "'w cloud_client \<Rightarrow> Node \<Rightarrow> ('w, bool) call" where
  "InstanceShutdown c node w =
     (case lookup c node w of
        (Inl err, w) \<Rightarrow> (Inl err, w)
      | (Inr inst, w) \<Rightarrow> (Inr (i_Status inst = StatusOffline), w))"

record InstanceMetadata =
  im_ProviderID :: string
  im_InstanceType :: string
  im_NodeAddresses :: "MachineAddress list"
  im_Zone :: string
  im_Region :: string

definition Provider_InstanceMetadata :: "'w cloud_client \<Rightarrow> Node \<Rightarrow> ('w, InstanceMetadata) call" where
  "Provider_InstanceMetadata c node w =
     (case lookup c node w of
        (Inl err, w) \<Rightarrow> (Inl err, w)
      | (Inr inst, w) \<Rightarrow>
          (Inr \<lparr>im_ProviderID = providerIDPrefix @ i_Hostname inst,
                 im_InstanceType = i_InstanceType inst,
                 im_NodeAddresses =
                   (MachineHostName, i_Hostname inst) #
                   (if i_IP inst \<noteq> '''' then [(MachineExternalIP, i_IP inst), (MachineInternalIP, i_IP inst)] else []),
                 im_Zone = i_Location inst,
                 im_Region = i_Location inst\<rparr>, w))"

section \<open>Frontends of the services\<close>

definition AnnotationProxyProtocol :: string where
  "AnnotationProxyProtocol = ''verda.cluster.x-k8s.io/proxy-protocol''"

definition excludeFromLBLabel :: string where
  "excludeFromLBLabel = ''node.kubernetes.io/exclude-from-external-load-balancers''"

abbreviation ServiceTypeLoadBalancer :: string where "ServiceTypeLoadBalancer \<equiv> ''LoadBalancer''"

definition sanitize :: "string \<Rightarrow> string" where
  "sanitize s = map (\<lambda>ch. if ch = CHR ''-'' \<or> ch = CHR ''.'' then CHR ''_'' else ch) s"

definition frontendName :: "Service \<Rightarrow> ServicePort \<Rightarrow> string" where
  "frontendName svc port =
     (let proto = ToLower (sp_Protocol port); proto = (if proto = '''' then ''tcp'' else proto)
      in sanitize (sv_Namespace svc) @ ''_'' @ sanitize (sv_Name svc) @ ''_'' @ itoa_int (sp_Port port) @ ''_'' @ proto)"

definition service_key :: "Service \<Rightarrow> string" where
  "service_key svc = sv_Namespace svc @ ''/'' @ sv_Name svc"

definition port_proto :: "ServicePort \<Rightarrow> string" where
  "port_proto port = (if sp_Protocol port = '''' then ''TCP'' else sp_Protocol port)"

definition slot :: "int \<Rightarrow> string \<Rightarrow> string" where
  "slot port proto = itoa_int port @ ''/'' @ proto"

definition port_frontend :: "string list \<Rightarrow> Service \<Rightarrow> ServicePort \<Rightarrow> Frontend" where
  "port_frontend nodes svc port =
     \<lparr>fe_Name = frontendName svc port,
      fe_Protocol = port_proto port,
      fe_Port = sp_Port port,
      fe_Backends = map (\<lambda>n. \<lparr>be_Address = n, be_Port = sp_NodePort port\<rparr>) nodes,
      fe_HealthCheckPort =
        (if sv_ExternalTrafficPolicy svc = ''Local'' \<and> sv_HealthCheckNodePort svc \<noteq> 0 then sv_HealthCheckNodePort svc else 0),
      fe_ProxyProtocol = (ToLower (go_get (om_Annotations (sv_Meta svc)) AnnotationProxyProtocol) = ''true'')\<rparr>"

type_synonym conflicts = "(string \<times> message) list"

text \<open>The loop over a service's ports: a conflict ends it.\<close>

fun ports_loop :: "(string \<times> string) list \<Rightarrow> string list \<Rightarrow> Service \<Rightarrow> conflicts \<Rightarrow> Frontend list \<Rightarrow> ServicePort list \<Rightarrow>
    conflicts \<times> Frontend list" where
  "ports_loop taken nodes svc conflicts mine [] = (conflicts, mine)"
| "ports_loop taken nodes svc conflicts mine (port # ports) =
     (let key = service_key svc; proto = port_proto port in
      if proto \<noteq> ''TCP'' \<and> proto \<noteq> ''UDP'' then
        (AList.update key (Sprintf ''protocol %s is not supported'' [proto]) conflicts, mine)
      else if sp_NodePort port = 0 then
        (AList.update key (Sprintf ''port %d has no nodePort yet'' [itoa_int (sp_Port port)]) conflicts, mine)
      else case map_of taken (slot (sp_Port port) proto) of
        Some owner \<Rightarrow>
          (AList.update key (Sprintf ''port %s is already used by %s on the shared load balancer''
             [slot (sp_Port port) proto, owner]) conflicts, mine)
      | None \<Rightarrow> ports_loop taken nodes svc conflicts (mine @ [port_frontend nodes svc port]) ports)"

fun services_loop :: "string list \<Rightarrow> (string \<times> string) list \<Rightarrow> conflicts \<Rightarrow> Frontend list \<Rightarrow> Service list \<Rightarrow>
    Frontend list \<times> conflicts" where
  "services_loop nodes taken conflicts frontends [] = (frontends, conflicts)"
| "services_loop nodes taken conflicts frontends (svc # rest) =
     (let key = service_key svc; (conflicts, mine) = ports_loop taken nodes svc conflicts [] (sv_Ports svc) in
      if key \<in> set (map fst conflicts) then services_loop nodes taken conflicts frontends rest
      else services_loop nodes
             (fold (\<lambda>f taken. AList.update (slot (fe_Port f) (fe_Protocol f)) key taken) mine taken)
             conflicts (frontends @ mine) rest)"

text \<open>Services compare by age and then by name; two different services never compare equal.\<close>

definition Frontends :: "Service list \<Rightarrow> string list \<Rightarrow> Frontend list \<times> conflicts" where
  "Frontends services nodes =
     services_loop nodes [] [] [] (sort_key (\<lambda>s. (sv_CreationTimestamp s, service_key s)) services)"

section \<open>The service load balancer\<close>

record lbConfig =
  lc_address :: string
  lc_keys :: Keys

record 'w kube =
  Secrets_Get :: "string \<Rightarrow> string \<Rightarrow> ('w, (string \<times> string) list) call"
  Services_List :: "('w, Service list) call"
  Nodes_List :: "('w, Node list) call"
  kube_updater :: "'w updater"

definition config :: "'w kube \<Rightarrow> ('w, lbConfig) call" where
  "config k w =
     (case Secrets_Get k ''kube-system'' ''verda-service-lb'' w of
        (Inl err, w) \<Rightarrow>
          if apierrors_IsNotFound err then (Inl (StatusError ''NotFound''), w)
          else (Inl (Wrapf ''reading %s/%s: %w'' [''kube-system'', ''verda-service-lb''] err), w)
      | (Inr data, w) \<Rightarrow>
          if go_get data ''address'' = '''' \<or> go_get data ''ssh-privatekey'' = '''' \<or> go_get data ''host-publickey'' = ''''
          then (Inl (Errorf ''secret %s/%s is incomplete'' [''kube-system'', ''verda-service-lb'']), w)
          else (Inr \<lparr>lc_address = go_get data ''address'',
                      lc_keys = \<lparr>ky_ClientPrivateKey = go_get data ''ssh-privatekey'', ky_ClientPublicKey = '''',
                                 ky_HostPrivateKey = '''', ky_HostPublicKey = go_get data ''host-publickey''\<rparr>\<rparr>, w))"

definition nodeAddress :: "Node \<Rightarrow> string" where
  "nodeAddress node =
     (case filter (\<lambda>(t, a). t = MachineInternalIP \<and> a \<noteq> '''') (nd_Addresses node) @
           filter (\<lambda>(t, a). t = MachineExternalIP \<and> a \<noteq> '''') (nd_Addresses node) of
        [] \<Rightarrow> '''' | (t, a) # _ \<Rightarrow> a)"

definition backend_addresses :: "Node list \<Rightarrow> string list" where
  "backend_addresses nodes =
     sort (filter (\<lambda>a. a \<noteq> '''') (map nodeAddress (filter (\<lambda>n.
       excludeFromLBLabel \<notin> set (map fst (om_Labels (nd_Meta n))) \<and> om_DeletionTimestamp (nd_Meta n) = None) nodes)))"

definition backendNodes :: "'w kube \<Rightarrow> ('w, string list) call" where
  "backendNodes k w =
     (case Nodes_List k w of
        (Inl err, w) \<Rightarrow> (Inl (Wrapf ''listing nodes: %w'' [] err), w)
      | (Inr nodes, w) \<Rightarrow> (Inr (backend_addresses nodes), w))"

text \<open>The services \<^verbatim>\<open>sync\<close> exposes, given the one it is called for and the ones being deleted.\<close>

definition services_to_expose :: "Service list \<Rightarrow> Service option \<Rightarrow> Service list \<Rightarrow> Service list" where
  "services_to_expose items current deleting =
     filter (\<lambda>svc. \<not> (sv_Type svc \<noteq> ServiceTypeLoadBalancer \<or> service_key svc \<in> set (map service_key deleting) \<or>
         om_DeletionTimestamp (sv_Meta svc) \<noteq> None) \<and>
       \<not> (case current of
            Some cur \<Rightarrow> sv_Namespace svc = sv_Namespace cur \<and> sv_Name svc = sv_Name cur
          | None \<Rightarrow> False)) items @
     (case current of Some cur \<Rightarrow> [cur] | None \<Rightarrow> [])"

definition sync :: "'w kube \<Rightarrow> lbConfig \<Rightarrow> Service option \<Rightarrow> Service list \<Rightarrow> ('w, unit) call" where
  "sync k lb current deleting w =
     (case Services_List k w of
        (Inl err, w) \<Rightarrow> (Inl (Wrapf ''listing services: %w'' [] err), w)
      | (Inr items, w) \<Rightarrow>
          (case backendNodes k w of
             (Inl err, w) \<Rightarrow> (Inl err, w)
           | (Inr nodes, w) \<Rightarrow>
               let (frontends, conflicts) = Frontends (services_to_expose items current deleting) nodes in
               (case current of
                  Some cur \<Rightarrow>
                    if service_key cur \<in> set (map fst conflicts)
                    then (Inl (Errorf ''service %s/%s: %s'' [sv_Namespace cur, sv_Name cur]), w)
                    else UpdateFiles (kube_updater k) (lc_address lb) (lc_keys lb) (EnvoyFiles frontends) '''' w
                | None \<Rightarrow> UpdateFiles (kube_updater k) (lc_address lb) (lc_keys lb) (EnvoyFiles frontends) '''' w)))"

definition GetLoadBalancerName :: "Service \<Rightarrow> string" where
  "GetLoadBalancerName service = sv_Namespace service @ ''_'' @ sv_Name service"

definition GetLoadBalancer :: "'w kube \<Rightarrow> Service \<Rightarrow> ('w, string option) call" where
  "GetLoadBalancer k service w =
     (case config k w of
        (Inl err, w) \<Rightarrow> if apierrors_IsNotFound err then (Inr None, w) else (Inl err, w)
      | (Inr lb, w) \<Rightarrow> (Inr (if length (sv_Ingress service) = 0 then None else Some (lc_address lb)), w))"

definition EnsureLoadBalancer :: "'w kube \<Rightarrow> Service \<Rightarrow> ('w, string) call" where
  "EnsureLoadBalancer k service w =
     (case config k w of
        (Inl err, w) \<Rightarrow> (Inl err, w)
      | (Inr lb, w) \<Rightarrow>
          (case sync k lb (Some service) [] w of
             (Inl err, w) \<Rightarrow> (Inl err, w)
           | (Inr _, w) \<Rightarrow> (Inr (lc_address lb), w)))"

definition UpdateLoadBalancer :: "'w kube \<Rightarrow> Service \<Rightarrow> ('w, unit) call" where
  "UpdateLoadBalancer k service w =
     (case config k w of
        (Inl err, w) \<Rightarrow> (Inl err, w)
      | (Inr lb, w) \<Rightarrow> sync k lb (Some service) [] w)"

definition EnsureLoadBalancerDeleted :: "'w kube \<Rightarrow> Service \<Rightarrow> ('w, unit) call" where
  "EnsureLoadBalancerDeleted k service w =
     (case config k w of
        (Inl err, w) \<Rightarrow> if apierrors_IsNotFound err then (Inr (), w) else (Inl err, w)
      | (Inr lb, w) \<Rightarrow> sync k lb None [service] w)"

end
