(* ===== verification/LoadBalancerProps.thy ===== *)
theory LoadBalancerProps
  imports LoadBalancerConfig "HOL-Library.Multiset"
begin

text \<open>
  What the load balancer's files and scripts promise: the script pushed to the instance puts every
  file in place, and what is pushed does not depend on the order in which Services and nodes were
  listed.
\<close>

section \<open>Running an install script\<close>

text \<open>
  The fragment of the shell that \<^verbatim>\<open>InstallScript\<close> uses, on a file system of names and contents:
  \<^verbatim>\<open>base64 -d > file\<close> with a here-document, and \<^verbatim>\<open>mv -f\<close>. Every other line is a command whose
  effect is the parameter \<open>exec\<close>. \<open>None\<close> is a script that fails: under \<^verbatim>\<open>set -e\<close> it ends there.
\<close>

type_synonym files = "string \<rightharpoonup> string"

datatype sh_command = Skip | Doc string string | Mv string string | Other

definition sh_parse :: "string \<Rightarrow> sh_command" where
  "sh_parse l =
     (if l = '''' \<or> l = ''set -euo pipefail'' then Skip
      else case Split CHR '' '' l of
        [a, b, from, to] \<Rightarrow> if a = ''mv'' \<and> b = ''-f'' then Mv from to else Other
      | [a, b, c, target, doc] \<Rightarrow>
          let delim = butlast (drop 3 doc) in
          if a = ''base64'' \<and> b = ''-d'' \<and> c = ''>'' \<and> doc = ''<<'' @ sq @ delim @ sq then Doc target delim else Other
      | _ \<Rightarrow> Other)"

function install_run :: "(string \<Rightarrow> files \<Rightarrow> files option) \<Rightarrow> files \<Rightarrow> string list \<Rightarrow> files option" where
  "install_run exec fs [] = Some fs"
| "install_run exec fs (l # ls) =
     (case sh_parse l of
        Skip \<Rightarrow> install_run exec fs ls
      | Doc target delim \<Rightarrow>
          let body = takeWhile (\<lambda>x. x \<noteq> delim) ls in
          if body = ls then None
          else (case DecodeString (unlines body) of
                  None \<Rightarrow> None
                | Some content \<Rightarrow> install_run exec (fs(target \<mapsto> content)) (drop (Suc (length body)) ls))
      | Mv from to \<Rightarrow>
          (case fs from of
             None \<Rightarrow> None
           | Some content \<Rightarrow> install_run exec ((fs(from := None))(to \<mapsto> content)) ls)
      | Other \<Rightarrow> (case exec l fs of None \<Rightarrow> None | Some fs \<Rightarrow> install_run exec fs ls))"
  by pat_completeness auto
termination
  by (relation "measure (\<lambda>(_, _, ls). length ls)") auto

definition one_word :: "string \<Rightarrow> bool" where
  "one_word p = (CHR '' '' \<notin> set p \<and> CHR 0x0A \<notin> set p)"

text \<open>
  Paths that the shell takes as they stand, and that name one file each: absolute, of letters, digits,
  dots, dashes and underscores, with no empty component and none that is a dot or two.
\<close>

definition plain_path :: "string \<Rightarrow> bool" where
  "plain_path p = (set p \<subseteq> set ''ABCDEFGHIJKLMNOPQRSTUVWXYZabcdefghijklmnopqrstuvwxyz0123456789/._-'' \<and>
     p \<noteq> '''' \<and> hd p = CHR ''/'' \<and> set (Split (CHR ''/'') (tl p)) \<inter> {'''', ''.'', ''..''} = {})"

lemma plain_path_one_word: "plain_path p \<Longrightarrow> one_word p"
  unfolding plain_path_def one_word_def by auto

definition new_path :: "nat \<Rightarrow> string \<Rightarrow> string" where
  "new_path i p = p @ ''.new.'' @ itoa i"

lemma itoa_plain: "one_word (itoa n)"
proof -
  have "c \<noteq> CHR '' '' \<and> c \<noteq> CHR 0x0A" if "c \<in> set (itoa n)" for c
    using itoa_digits [OF that] by auto
  then show ?thesis by (auto simp: one_word_def)
qed

lemma new_path_plain: "one_word p \<Longrightarrow> one_word (new_path i p)"
  using itoa_plain [of i] by (simp add: one_word_def new_path_def)

lemma new_path_other: "new_path i p \<noteq> p"
proof
  assume "new_path i p = p"
  then have "length (new_path i p) = length p" by simp
  then show False by (simp add: new_path_def)
qed

text \<open>The two commands, one at a time.\<close>

lemma install_run_doc:
  assumes "one_word p" and that: "\<forall>l\<in>set ls. CHR ''_'' \<notin> set l"
  shows "install_run exec fs ((''base64 -d > '' @ p @ '' <<'' @ sq @ ''__CAPI_FILE__'' @ sq) # ls @ ''__CAPI_FILE__'' # rest) =
    (case DecodeString (unlines ls) of
       None \<Rightarrow> None
     | Some content \<Rightarrow> install_run exec (fs(p \<mapsto> content)) rest)"
proof -
  have words: "Split CHR '' '' (''base64 -d > '' @ p @ '' <<'' @ sq @ ''__CAPI_FILE__'' @ sq) =
      [''base64'', ''-d'', ''>'', p, ''<<'' @ sq @ ''__CAPI_FILE__'' @ sq]"
    using assms(1) by (simp add: Split_append one_word_def)
  have delim: "butlast (drop 3 (''<<'' @ sq @ ''__CAPI_FILE__'' @ sq)) = ''__CAPI_FILE__''" by simp
  have "sh_parse (''base64 -d > '' @ p @ '' <<'' @ sq @ ''__CAPI_FILE__'' @ sq) = Doc p ''__CAPI_FILE__''"
    unfolding sh_parse_def words list.case Let_def delim by simp
  moreover have body: "takeWhile (\<lambda>x. x \<noteq> ''__CAPI_FILE__'') (ls @ ''__CAPI_FILE__'' # rest) = ls"
    using that by (subst takeWhile_append2) auto
  ultimately show ?thesis
    unfolding install_run.simps(2) by (simp only: sh_command.case Let_def body) (simp split: option.splits)
qed

lemma install_run_mv:
  assumes "one_word p" "one_word q"
  shows "install_run exec fs ((''mv -f '' @ p @ '' '' @ q) # rest) =
    (case fs p of None \<Rightarrow> None | Some content \<Rightarrow> install_run exec ((fs(p := None))(q \<mapsto> content)) rest)"
proof -
  have words: "Split CHR '' '' (''mv -f '' @ p @ '' '' @ q) = [''mv'', ''-f'', p, q]"
    using assms by (simp add: Split_append Split_single one_word_def)
  have "sh_parse (''mv -f '' @ p @ '' '' @ q) = Mv p q" unfolding sh_parse_def words by simp
  then show ?thesis unfolding install_run.simps(2) by simp
qed

lemma install_run_file:
  assumes "one_word (fl_Path f)"
  shows "install_run exec fs (Split (CHR 0x0A) (install_file i f @ rest)) =
    install_run exec ((fs(new_path i (fl_Path f) := None))(fl_Path f \<mapsto> fl_Content f)) (Split (CHR 0x0A) rest)"
proof -
  let ?p = "fl_Path f" and ?n = "new_path i (fl_Path f)" and ?s = "EncodeToString (fl_Content f)"
  note n = new_path_plain [OF assms, of i]
  define moved where "moved = ''mv -f '' @ ?n @ '' '' @ ?p"
  define tail where "tail = ''__CAPI_FILE__'' @ nl @ moved @ nl @ rest"
  have plain: "CHR 0x0A \<notin> set ?s" "CHR ''_'' \<notin> set ?s" by (blast dest: EncodeToString_no_specials)+
  from wrapBase64_lines [OF plain(1), of tail] obtain ls where
    ls: "Split (CHR 0x0A) (wrapBase64 ?s @ tail) = ls @ Split (CHR 0x0A) tail" "concat ls = ?s"
      "wrapBase64 ?s = unlines ls"
    unfolding unlines_def by blast
  have lines: "\<forall>l\<in>set ls. CHR ''_'' \<notin> set l" using plain(2) unfolding ls(2) [symmetric] by simp
  have "CHR 0x0A \<notin> set moved" using assms n by (simp add: moved_def one_word_def)
  then have tail: "Split (CHR 0x0A) tail = ''__CAPI_FILE__'' # moved # Split (CHR 0x0A) rest"
    by (simp add: tail_def Split_append)
  define head where "head = ''base64 -d > '' @ ?n @ '' <<'' @ sq @ ''__CAPI_FILE__'' @ sq"
  have "CHR 0x0A \<notin> set head" using n by (simp add: head_def one_word_def)
  then have "Split (CHR 0x0A) (head @ nl @ wrapBase64 ?s @ tail) = head # ls @ ''__CAPI_FILE__'' # moved # Split (CHR 0x0A) rest"
    by (simp add: Split_append ls(1) tail)
  moreover have "install_file i f @ rest = head @ nl @ wrapBase64 ?s @ tail"
    by (simp add: install_file_def head_def tail_def moved_def new_path_def)
  ultimately have run: "Split (CHR 0x0A) (install_file i f @ rest) = head # ls @ ''__CAPI_FILE__'' # moved # Split (CHR 0x0A) rest"
    by simp
  have decode: "DecodeString (unlines ls) = Some (fl_Content f)"
    using DecodeString_wrapBase64 [of "fl_Content f"] unfolding ls(3) .
  have "install_run exec fs (Split (CHR 0x0A) (install_file i f @ rest)) =
      install_run exec ((fs(?n \<mapsto> fl_Content f, ?n := None))(?p \<mapsto> fl_Content f)) (Split (CHR 0x0A) rest)"
    unfolding run head_def install_run_doc [OF n lines] decode option.case moved_def install_run_mv [OF n assms]
      fun_upd_same ..
  then show ?thesis by simp
qed

definition install_step :: "nat \<times> File \<Rightarrow> files \<Rightarrow> files" where
  "install_step p fs = (case p of (i, f) \<Rightarrow> (fs(new_path i (fl_Path f) := None))(fl_Path f \<mapsto> fl_Content f))"

lemma install_run_files:
  "\<forall>f\<in>set files. one_word (fl_Path f) \<Longrightarrow>
   install_run exec fs (Split (CHR 0x0A) (concat (map (\<lambda>(i, f). install_file i f) (List.enumerate n files)) @ rest)) =
     install_run exec (fold install_step (List.enumerate n files) fs) (Split (CHR 0x0A) rest)"
proof (induction files arbitrary: n fs)
  case Nil
  then show ?case by (simp add: sh_parse_def)
next
  case (Cons f files)
  then show ?case by (simp add: install_run_file install_step_def)
qed

lemma install_steps_other:
  assumes "p \<notin> fl_Path ` set files" "\<forall>f\<in>set files. \<forall>i. p \<noteq> new_path i (fl_Path f)"
  shows "fold install_step (List.enumerate n files) fs p = fs p"
  using assms by (induction files arbitrary: n fs) (auto simp: install_step_def)

lemma install_steps_all:
  assumes "distinct (map fl_Path files)" "\<forall>f\<in>set files. \<forall>g\<in>set files. \<forall>i. fl_Path f \<noteq> new_path i (fl_Path g)"
    and "f \<in> set files"
  shows "fold install_step (List.enumerate n files) fs (fl_Path f) = Some (fl_Content f)"
  using assms
proof (induction files arbitrary: n fs)
  case (Cons g files)
  show ?case
  proof (cases "f = g")
    case True
    with Cons.prems have "fold install_step (List.enumerate (Suc n) files) fs' (fl_Path f) = fs' (fl_Path f)" for fs'
      by (intro install_steps_other) auto
    moreover have "install_step (n, g) fs (fl_Path g) = Some (fl_Content g)" by (simp add: install_step_def)
    ultimately show ?thesis using True by simp
  next
    case False
    with Cons show ?thesis by auto
  qed
qed simp

lemma sort_key_perm:
  assumes "mset xs = mset ys" "distinct (map f xs)"
  shows "sort_key f xs = sort_key f ys"
proof (rule properties_for_sort_key)
  show "mset (sort_key f ys) = mset xs" using assms(1) by simp
  fix k assume "k \<in> set (sort_key f ys)"
  have distinct: "distinct (map f (sort_key f ys))"
    using assms by (metis distinct_map mset_map mset_eq_imp_distinct_iff mset_sort)
  have one: "distinct (map f zs) \<Longrightarrow> k \<in> set zs \<Longrightarrow> filter (\<lambda>x. f k = f x) zs = [k]" for zs
  proof (induction zs)
    case (Cons z zs)
    show ?case
    proof (cases "z = k")
      case False
      with Cons.prems have "f k \<in> f ` set zs" "f z \<notin> f ` set zs" by auto
      then have "f k \<noteq> f z" by metis
      with Cons False show ?thesis by simp
    qed (use Cons.prems in \<open>auto simp: filter_empty_conv\<close>)
  qed simp
  have "set xs = set ys" using assms(1) by (rule mset_eq_setD)
  with one [OF distinct] one [OF assms(2)] \<open>k \<in> set (sort_key f ys)\<close>
  show "filter (\<lambda>x. f k = f x) (sort_key f ys) = filter (\<lambda>x. f k = f x) xs" by simp
qed simp

section \<open>Claims\<close>

text \<open>
  C26. Running the script that \<^verbatim>\<open>InstallScript\<close> writes leaves every file with exactly its content
  under its path and touches nothing but these files and their temporary names; only then the reload
  command runs, if there is one. The paths are plain, different, and none is a temporary name of
  another; the reload command is one line. Directories that exist, and enough space, are assumed.
\<close>

theorem InstallScript_installs:
  assumes "\<forall>f\<in>set files. plain_path (fl_Path f)" "distinct (map fl_Path files)"
    and "\<forall>f\<in>set files. \<forall>g\<in>set files. \<forall>i. fl_Path f \<noteq> new_path i (fl_Path g)"
    and "reload = '''' \<or> sh_parse reload = Other \<and> CHR 0x0A \<notin> set reload"
  shows "\<exists>fs'. install_run exec fs (Split (CHR 0x0A) (InstallScript files reload)) =
       (if reload = '''' then Some fs' else exec reload fs') \<and>
     (\<forall>f\<in>set files. fs' (fl_Path f) = Some (fl_Content f)) \<and>
     (\<forall>p. p \<notin> fl_Path ` set files \<longrightarrow> (\<forall>f\<in>set files. \<forall>i. p \<noteq> new_path i (fl_Path f)) \<longrightarrow> fs' p = fs p)"
proof -
  let ?fs = "fold install_step (List.enumerate 0 files) fs" and ?rest = "if reload \<noteq> '''' then reload @ nl else ''''"
  have "sh_parse ''set -euo pipefail'' = Skip" by (simp add: sh_parse_def)
  moreover have "Split (CHR 0x0A) (InstallScript files reload) = ''set -euo pipefail'' #
      Split (CHR 0x0A) (concat (map (\<lambda>(i, f). install_file i f) (List.enumerate 0 files)) @ ?rest)"
    by (simp add: InstallScript_def)
  moreover have "\<forall>f\<in>set files. one_word (fl_Path f)" using assms(1) plain_path_one_word by blast
  ultimately have "install_run exec fs (Split (CHR 0x0A) (InstallScript files reload)) =
      install_run exec ?fs (Split (CHR 0x0A) ?rest)"
    by (simp only: install_run.simps(2) sh_command.case install_run_files)
  also have "\<dots> = (if reload = '''' then Some ?fs else exec reload ?fs)"
  proof (cases "reload = ''''")
    case False
    with assms(4) have "Split (CHR 0x0A) ?rest = [reload, '''']" "sh_parse reload = Other" by (simp_all add: Split_append)
    then show ?thesis using False by (simp add: sh_parse_def [of "''''"] split: option.splits)
  qed (simp add: sh_parse_def)
  finally show ?thesis using install_steps_all [OF assms(2,3)] install_steps_other by blast
qed

theorem InstallScript_installs_witness:
  "\<exists>fs'. install_run (\<lambda>_. Some) Map.empty (Split (CHR 0x0A) (InstallScript (EnvoyFiles []) ''sync'')) = Some fs' \<and>
     fs' ''/etc/envoy/lds.yaml'' = Some (fst (EnvoyResources [])) \<and> fs' ''/etc/envoy/cds.yaml'' = Some (snd (EnvoyResources []))"
proof -
  let ?files = "EnvoyFiles []"
  have files: "?files = [\<lparr>fl_Path = ''/etc/envoy/cds.yaml'', fl_Content = snd (EnvoyResources [])\<rparr>,
      \<lparr>fl_Path = ''/etc/envoy/lds.yaml'', fl_Content = fst (EnvoyResources [])\<rparr>]"
    by (simp add: EnvoyFiles_def EnvoyCDSPath_def EnvoyLDSPath_def EnvoyDir_def split_beta)
  have "\<forall>f\<in>set ?files. plain_path (fl_Path f)" "distinct (map fl_Path ?files)"
    "\<forall>f\<in>set ?files. \<forall>g\<in>set ?files. \<forall>i. fl_Path f \<noteq> new_path i (fl_Path g)"
    by (simp_all add: files plain_path_def new_path_def)
  moreover have "sh_parse ''sync'' = Other" by (simp add: sh_parse_def)
  ultimately show ?thesis
    using InstallScript_installs [of ?files "''sync''" "\<lambda>_. Some" Map.empty] by (auto simp: files)
qed

text \<open>
  What is pushed to the load balancers does not depend on the order of the lists it is made
  from: the haproxy configuration is the same for every order of the backends, the envoy files are
  the same for every order of the frontends, as long as their names differ.
\<close>

theorem pushed_config_canonical:
  assumes "mset backends = mset backends'" "mset frontends = mset frontends'" "distinct (map fe_Name frontends)"
  shows "Config backends = Config backends' \<and> EnvoyFiles frontends = EnvoyFiles frontends'"
proof -
  have "sort backends = sort backends'" using assms(1) by (metis mset_sort properties_for_sort sorted_sort)
  moreover have "sort_key fe_Name frontends = sort_key fe_Name frontends'"
    using assms(2,3) by (rule sort_key_perm)
  ultimately show ?thesis by (simp add: Config_def EnvoyFiles_def EnvoyResources_def)
qed

definition demo_frontend :: "string \<Rightarrow> int \<Rightarrow> Frontend" where
  "demo_frontend name port = \<lparr>fe_Name = name, fe_Protocol = ''TCP'', fe_Port = port,
     fe_Backends = [\<lparr>be_Address = ''10.0.0.1'', be_Port = 30080\<rparr>], fe_HealthCheckPort = 0, fe_ProxyProtocol = False\<rparr>"

theorem pushed_config_canonical_witness:
  "Config [''10.0.0.2'', ''10.0.0.1''] = Config [''10.0.0.1'', ''10.0.0.2''] \<and>
   EnvoyFiles [demo_frontend ''b'' 80, demo_frontend ''a'' 443] = EnvoyFiles [demo_frontend ''a'' 443, demo_frontend ''b'' 80]"
  by (rule pushed_config_canonical) (simp_all add: demo_frontend_def add_mset_commute)

end
