(* ===== verification/CloudProviderProps.thy ===== *)
theory CloudProviderProps
  imports CloudProvider LoadBalancerProps ControllerCommon
begin

text \<open>
  What the shared service load balancer promises to the services: a reference definition of who
  gets which port, and what follows from it for the envoy files.
\<close>

section \<open>Who gets which port\<close>

text \<open>
  The reference: services in order of age, each admitted when all its ports are supported and free,
  and then the owner of all of them.
\<close>

definition port_ok :: "ServicePort \<Rightarrow> bool" where
  "port_ok p = ((port_proto p = ''TCP'' \<or> port_proto p = ''UDP'') \<and> sp_NodePort p \<noteq> 0)"

definition slots :: "Service \<Rightarrow> (int \<times> string) set" where
  "slots s = (\<lambda>p. (sp_Port p, port_proto p)) ` set (sv_Ports s)"

fun admit :: "(int \<times> string) set \<Rightarrow> Service list \<Rightarrow> Service list" where
  "admit taken [] = []"
| "admit taken (s # ss) =
     (if (\<forall>p\<in>set (sv_Ports s). port_ok p) \<and> slots s \<inter> taken = {} then s # admit (taken \<union> slots s) ss
      else admit taken ss)"

definition by_age :: "Service list \<Rightarrow> Service list" where
  "by_age services = sort_key (\<lambda>s. (sv_CreationTimestamp s, service_key s)) services"

definition service_frontends :: "string list \<Rightarrow> Service \<Rightarrow> Frontend list" where
  "service_frontends nodes s = map (port_frontend nodes s) (sv_Ports s)"

section \<open>Printed ports\<close>

lemma itoa_no_sep: "c \<in> set (itoa_int n) \<Longrightarrow> c \<noteq> CHR ''/'' \<and> c \<noteq> CHR ''_''"
  using itoa_digits [of c] by (auto simp: itoa_int_def split: if_splits)

lemma itoa_int_inject: "itoa_int a = itoa_int b \<Longrightarrow> a = b"
proof -
  have minus: "CHR ''-'' # s \<noteq> itoa n" for s n
  proof
    assume "CHR ''-'' # s = itoa n"
    then have "CHR ''-'' \<in> set (itoa n)" by (metis list.set_intros(1))
    from itoa_digits [OF this] show False by simp
  qed
  show "itoa_int a = itoa_int b \<Longrightarrow> a = b"
    using minus minus [symmetric] by (auto simp: itoa_int_def itoa_inject split: if_splits)
qed

lemma slot_inject: "slot a p = slot b q \<longleftrightarrow> a = b \<and> p = q"
proof
  assume "slot a p = slot b q"
  then have "itoa_int a @ CHR ''/'' # p = itoa_int b @ CHR ''/'' # q" by (simp add: slot_def)
  moreover have "CHR ''/'' \<notin> set (itoa_int a)" "CHR ''/'' \<notin> set (itoa_int b)" using itoa_no_sep by blast+
  ultimately have "itoa_int a = itoa_int b \<and> p = q" by (intro append_sep_inject)
  then show "a = b \<and> p = q" using itoa_int_inject by blast
qed simp

lemma append_last_sep_inject:
  fixes c :: char
  assumes "c \<notin> set x" "c \<notin> set y" "a @ c # x = b @ c # y"
  shows "a = b \<and> x = y"
proof -
  have "rev (a @ c # x) = rev (b @ c # y)" by (simp only: assms(3))
  then have "rev x @ c # rev a = rev y @ c # rev b" by simp
  then have "rev x = rev y \<and> rev a = rev b" using assms(1,2) by (intro append_sep_inject) simp_all
  then show ?thesis by simp
qed

lemma frontendName_slot:
  assumes "frontendName s p = frontendName s' p'" "port_ok p" "port_ok p'"
  shows "(sp_Port p, port_proto p) = (sp_Port p', port_proto p')"
proof -
  define proto where "proto q = (if ToLower (sp_Protocol q) = '''' then ''tcp'' else ToLower (sp_Protocol q))" for q :: ServicePort
  have low: "ToLower ''TCP'' = ''tcp''" "ToLower ''UDP'' = ''udp''" by code_simp+
  have proto: "proto q = (if port_proto q = ''TCP'' then ''tcp'' else ''udp'')" if "port_ok q" for q
    using that low by (auto simp: proto_def port_ok_def port_proto_def split: if_splits)
  define pre where "pre t q = sanitize (sv_Namespace t) @ ''_'' @ sanitize (sv_Name t) @ ''_'' @ itoa_int (sp_Port q)" for t :: Service and q :: ServicePort
  have name: "frontendName t q = pre t q @ CHR ''_'' # proto q" for t q
    by (simp add: frontendName_def pre_def proto_def Let_def)
  have no: "CHR ''_'' \<notin> set (proto q)" if "port_ok q" for q using proto [OF that] by simp
  from assms(1) have "pre s p @ CHR ''_'' # proto p = pre s' p' @ CHR ''_'' # proto p'" by (simp only: name)
  with no [OF assms(2)] no [OF assms(3)] have eq: "pre s p = pre s' p'" "proto p = proto p'"
    using append_last_sep_inject by blast+
  have "CHR ''_'' \<notin> set (itoa_int (sp_Port q))" for q using itoa_no_sep by blast
  moreover from eq(1) have "(sanitize (sv_Namespace s) @ ''_'' @ sanitize (sv_Name s)) @ CHR ''_'' # itoa_int (sp_Port p) =
      (sanitize (sv_Namespace s') @ ''_'' @ sanitize (sv_Name s')) @ CHR ''_'' # itoa_int (sp_Port p')"
    by (simp add: pre_def)
  ultimately have "sp_Port p = sp_Port p'" using append_last_sep_inject itoa_int_inject by blast
  moreover have "port_proto p = port_proto p'"
    using eq(2) assms(2,3) proto [OF assms(2)] proto [OF assms(3)] by (auto simp: port_ok_def split: if_splits)
  ultimately show ?thesis by simp
qed

section \<open>The loops implement the reference\<close>

definition taken_is :: "(string \<times> string) list \<Rightarrow> (int \<times> string) set \<Rightarrow> bool" where
  "taken_is taken T = (\<forall>a p. (map_of taken (slot a p) \<noteq> None) = ((a, p) \<in> T))"

lemma ports_loop_result:
  assumes "taken_is taken T" "service_key svc \<notin> set (map fst conflicts)"
  shows "if \<forall>p\<in>set ports. port_ok p \<and> (sp_Port p, port_proto p) \<notin> T
    then ports_loop taken nodes svc conflicts mine ports = (conflicts, mine @ map (port_frontend nodes svc) ports)
    else fst ` set (fst (ports_loop taken nodes svc conflicts mine ports)) = insert (service_key svc) (fst ` set conflicts)"
  using assms(2)
proof (induction ports arbitrary: mine)
  case (Cons p ps)
  have "map_of taken (slot (sp_Port p) (port_proto p)) = None \<longleftrightarrow> (sp_Port p, port_proto p) \<notin> T"
    using assms(1) [unfolded taken_is_def, rule_format, of "sp_Port p" "port_proto p"] by auto
  with Cons.IH [OF Cons.prems, of "mine @ [port_frontend nodes svc p]"] show ?case
    by (auto simp: port_ok_def Let_def dom_update split: option.splits if_splits)
qed simp

lemma taken_is_service:
  assumes "taken_is taken T"
  shows "taken_is (fold (\<lambda>f taken. AList.update (slot (fe_Port f) (fe_Protocol f)) key taken) (service_frontends nodes s) taken)
    (T \<union> slots s)"
proof -
  have "taken_is (fold (\<lambda>f taken. AList.update (slot (fe_Port f) (fe_Protocol f)) key taken)
      (map (port_frontend nodes s) ports) taken) (T \<union> (\<lambda>p. (sp_Port p, port_proto p)) ` set ports)" for ports
    using assms
  proof (induction ports arbitrary: taken T)
    case (Cons p ports)
    have "taken_is (AList.update (slot (sp_Port p) (port_proto p)) key taken) (insert (sp_Port p, port_proto p) T)"
      using Cons.prems by (auto simp: taken_is_def map_of_update_apply slot_inject)
    from Cons.IH [OF this] show ?case by (simp add: port_frontend_def)
  qed simp
  then show ?thesis by (simp add: service_frontends_def slots_def)
qed

lemma set_admit: "set (admit T ss) \<subseteq> set ss"
  by (induction T ss rule: admit.induct) auto

lemma services_loop_result:
  assumes "taken_is taken T" "distinct (map service_key ss)" "service_key ` set ss \<inter> fst ` set conflicts = {}"
  shows "fst (services_loop nodes taken conflicts fs ss) = fs @ concat (map (service_frontends nodes) (admit T ss)) \<and>
    fst ` set (snd (services_loop nodes taken conflicts fs ss)) =
      fst ` set conflicts \<union> (service_key ` set ss - service_key ` set (admit T ss))"
  using assms
proof (induction ss arbitrary: taken T conflicts fs)
  case (Cons s ss)
  define good where "good \<longleftrightarrow> (\<forall>p\<in>set (sv_Ports s). port_ok p) \<and> slots s \<inter> T = {}"
  have good: "good \<longleftrightarrow> (\<forall>p\<in>set (sv_Ports s). port_ok p \<and> (sp_Port p, port_proto p) \<notin> T)"
    by (auto simp: good_def slots_def)
  have key: "service_key s \<notin> set (map fst conflicts)" "service_key s \<notin> service_key ` set ss" "distinct (map service_key ss)"
    using Cons.prems(2,3) by auto
  note loop = ports_loop_result [OF Cons.prems(1) key(1), of "sv_Ports s" nodes "[]", folded good]
  show ?case
  proof (cases good)
    case True
    then have "ports_loop taken nodes s conflicts [] (sv_Ports s) = (conflicts, service_frontends nodes s)"
      using loop by (simp add: service_frontends_def)
    moreover have "admit T (s # ss) = s # admit (T \<union> slots s) ss" using True by (simp add: good_def)
    moreover have "service_key ` set ss \<inter> fst ` set conflicts = {}" using Cons.prems(3) by auto
    note Cons.IH [OF taken_is_service [OF Cons.prems(1), of "service_key s" nodes s] key(3) this, of "fs @ service_frontends nodes s"]
    ultimately show ?thesis using key by (auto simp: Let_def)
  next
    case False
    obtain conflicts' mine where run: "ports_loop taken nodes s conflicts [] (sv_Ports s) = (conflicts', mine)" by fastforce
    with False loop have dom: "fst ` set conflicts' = insert (service_key s) (fst ` set conflicts)" by simp
    have "admit T (s # ss) = admit T ss" using False by (auto simp: good_def)
    moreover have "service_key ` set ss \<inter> fst ` set conflicts' = {}" using dom Cons.prems(3) key(2) by auto
    note Cons.IH [OF Cons.prems(1) key(3) this, of fs]
    moreover have "service_key s \<notin> service_key ` set (admit T ss)" using key(2) set_admit [of T ss] by auto
    ultimately show ?thesis using dom by (auto simp: run Let_def)
  qed
qed simp

lemma Frontends_result:
  assumes "distinct (map service_key services)"
  shows "fst (Frontends services nodes) = concat (map (service_frontends nodes) (admit {} (by_age services)))"
    and "fst ` set (snd (Frontends services nodes)) =
      service_key ` (set services) - service_key ` set (admit {} (by_age services))"
proof -
  have "distinct (map service_key (by_age services))"
    using assms by (simp add: by_age_def distinct_map)
  moreover have "taken_is [] {}" by (simp add: taken_is_def)
  ultimately show "fst (Frontends services nodes) = concat (map (service_frontends nodes) (admit {} (by_age services)))"
    "fst ` set (snd (Frontends services nodes)) =
      service_key ` (set services) - service_key ` set (admit {} (by_age services))"
    using services_loop_result [of "[]" "{}" "by_age services" "[]" nodes "[]"] by (simp_all add: Frontends_def by_age_def)
qed

lemma admit_ok: "s \<in> set (admit T ss) \<Longrightarrow> p \<in> set (sv_Ports s) \<Longrightarrow> port_ok p"
  by (induction T ss rule: admit.induct) (auto split: if_splits)

lemma admit_slots:
  "s \<in> set (admit T ss) \<Longrightarrow> slots s \<inter> T = {}"
  by (induction T ss rule: admit.induct) (auto split: if_splits)

definition port_slots :: "Service \<Rightarrow> (int \<times> string) list" where
  "port_slots s = map (\<lambda>p. (sp_Port p, port_proto p)) (sv_Ports s)"

lemma slots_set: "slots s = set (port_slots s)"
  by (simp add: slots_def port_slots_def)

lemma frontend_slots: "map (\<lambda>f. (fe_Port f, fe_Protocol f)) (service_frontends nodes s) = port_slots s"
  by (simp add: service_frontends_def port_slots_def port_frontend_def)

lemma admit_distinct:
  assumes "\<forall>s\<in>set ss. distinct (port_slots s)"
  shows "distinct (concat (map port_slots (admit T ss)))"
  using assms
proof (induction T ss rule: admit.induct)
  case (2 T s ss)
  have "set (port_slots s) \<inter> set (port_slots t) = {}" if "t \<in> set (admit (T \<union> slots s) ss)" for t
    using admit_slots [OF that] by (simp add: slots_set Int_Un_distrib Int_commute)
  then have "set (port_slots s) \<inter> (\<Union>t\<in>set (admit (T \<union> slots s) ss). set (port_slots t)) = {}" by blast
  then show ?case using 2 by simp
qed simp

text \<open>What the API server guarantees of the services it lists: different names, no slash in a namespace.\<close>

definition services_ok :: "'w kube \<Rightarrow> bool" where
  "services_ok k = (\<forall>w items w1. Services_List k w = (Inr items, w1) \<longrightarrow>
     distinct (map service_key items) \<and> (\<forall>s\<in>set items. CHR ''/'' \<notin> set (sv_Namespace s)))"

lemma service_key_inject:
  "CHR ''/'' \<notin> set (sv_Namespace s) \<Longrightarrow> CHR ''/'' \<notin> set (sv_Namespace t) \<Longrightarrow> service_key s = service_key t \<Longrightarrow>
     sv_Namespace s = sv_Namespace t \<and> sv_Name s = sv_Name t"
  unfolding service_key_def by (rule append_sep_inject) simp_all

text \<open>A sync that succeeds has pushed the frontends of the services it has to expose.\<close>

lemma sync_pushes:
  assumes "sync k lb current deleting w = (Inr (), w')"
  shows "\<exists>items w1 nodes w2 frontends conflicts. Services_List k w = (Inr items, w1) \<and> Nodes_List k w1 = (Inr nodes, w2) \<and>
     Frontends (services_to_expose items current deleting) (backend_addresses nodes) = (frontends, conflicts) \<and>
     (\<forall>cur. current = Some cur \<longrightarrow> service_key cur \<notin> fst ` set conflicts) \<and>
     UpdateFiles (kube_updater k) (lc_address lb) (lc_keys lb) (EnvoyFiles frontends) '''' w2 = (Inr (), w')"
proof -
  obtain q w1 where items: "Services_List k w = (q, w1)" by fastforce
  obtain q' w2 where nodes: "Nodes_List k w1 = (q', w2)" by fastforce
  from assms items nodes obtain xs ns where xs: "q = Inr xs" "q' = Inr ns"
    by (cases q; cases q') (auto simp: sync_def backendNodes_def)
  obtain frontends conflicts where fr: "Frontends (services_to_expose xs current deleting) (backend_addresses ns) = (frontends, conflicts)"
    by fastforce
  with assms have "(\<forall>cur. current = Some cur \<longrightarrow> service_key cur \<notin> fst ` set conflicts) \<and>
      UpdateFiles (kube_updater k) (lc_address lb) (lc_keys lb) (EnvoyFiles frontends) '''' w2 = (Inr (), w')"
    by (cases current) (auto simp: sync_def backendNodes_def items nodes xs fr split: if_splits)
  with items nodes xs fr show ?thesis by blast
qed

lemma services_to_expose_distinct:
  assumes "services_ok k" "Services_List k w = (Inr items, w1)" "CHR ''/'' \<notin> set (sv_Namespace svc)"
  shows "distinct (map service_key (services_to_expose items (Some svc) deleting))"
proof -
  have items: "distinct (map service_key items)" "\<forall>s\<in>set items. CHR ''/'' \<notin> set (sv_Namespace s)"
    using assms(1,2) by (auto simp: services_ok_def)
  then have new: "sv_Namespace s = sv_Namespace svc \<and> sv_Name s = sv_Name svc" if "s \<in> set items" "service_key svc = service_key s" for s
    using service_key_inject [of s svc] assms(3) that by simp
  show ?thesis using items(1) by (auto simp: services_to_expose_def distinct_map_filter dest: new)
qed

section \<open>Claims\<close>

text \<open>
  C6. \<^verbatim>\<open>Frontends\<close> computes the reference: in order of age, a service whose ports are all supported
  and free gets all of them, with one frontend per port; every other service gets none and is
  reported as a conflict.
\<close>

theorem Frontends_reference:
  assumes "distinct (map service_key services)"
  shows "fst (Frontends services nodes) = concat (map (service_frontends nodes) (admit {} (by_age services))) \<and>
    fst ` set (snd (Frontends services nodes)) = service_key ` set services - service_key ` set (admit {} (by_age services))"
  using Frontends_result [OF assms] by blast

text \<open>
  C25. No two listeners of the load balancer share a port and protocol, and no two frontends share a
  name, although names are made from sanitised parts. Each service's own ports differ, as the API
  server demands.
\<close>

theorem listeners_distinct:
  assumes "distinct (map service_key services)" "\<forall>s\<in>set services. distinct (port_slots s)"
  shows "distinct (map (\<lambda>f. (fe_Port f, fe_Protocol f)) (fst (Frontends services nodes))) \<and>
    distinct (map fe_Name (fst (Frontends services nodes)))"
proof -
  let ?a = "admit {} (by_age services)" and ?fs = "fst (Frontends services nodes)"
  have members: "set ?a \<subseteq> set services" using set_admit [of "{}" "by_age services"] by (simp add: by_age_def)
  have fs: "?fs = concat (map (service_frontends nodes) ?a)" by (rule Frontends_result [OF assms(1)])
  have "map (\<lambda>f. (fe_Port f, fe_Protocol f)) ?fs = concat (map port_slots ?a)"
    unfolding fs map_concat map_map by (simp add: o_def frontend_slots)
  moreover have "distinct (concat (map port_slots ?a))"
    using assms(2) by (intro admit_distinct) (simp add: by_age_def)
  ultimately have slots: "distinct (map (\<lambda>f. (fe_Port f, fe_Protocol f)) ?fs)" by simp
  have "inj_on fe_Name (set ?fs)"
  proof (rule inj_onI)
    fix f g assume "f \<in> set ?fs" "g \<in> set ?fs" and name: "fe_Name f = fe_Name g"
    then obtain s p t q where f: "f = port_frontend nodes s p" "p \<in> set (sv_Ports s)" "s \<in> set ?a"
      and g: "g = port_frontend nodes t q" "q \<in> set (sv_Ports t)" "t \<in> set ?a"
      unfolding fs by (auto simp: service_frontends_def)
    have "(fe_Port f, fe_Protocol f) = (fe_Port g, fe_Protocol g)"
      using frontendName_slot [of s p t q] name admit_ok [OF f(3,2)] admit_ok [OF g(3,2)]
      by (simp add: f(1) g(1) port_frontend_def)
    with slots \<open>f \<in> set ?fs\<close> \<open>g \<in> set ?fs\<close> show "f = g" by (auto simp: distinct_map dest: inj_onD)
  qed
  with slots show ?thesis by (simp add: distinct_map)
qed

text \<open>
  The outcome does not depend on the order in which the API server lists the services.
\<close>

theorem Frontends_canonical:
  assumes "distinct (map service_key services)" "mset services = mset services'"
  shows "Frontends services nodes = Frontends services' nodes"
proof -
  let ?k = "\<lambda>s. (sv_CreationTimestamp s, service_key s)"
  have "distinct (map ?k services)" using assms(1) by (auto simp: distinct_map inj_on_def)
  then have "sort_key ?k services = sort_key ?k services'" by (rule sort_key_perm [OF assms(2)])
  then show ?thesis by (simp add: Frontends_def)
qed

text \<open>
  C23. When \<^verbatim>\<open>EnsureLoadBalancer\<close> returns, the files it has pushed to the address it reports hold one
  frontend for every port of the service, and behind each frontend the addresses of the nodes listed
  in this call: those that have an address, are not being deleted and are not excluded by label.
\<close>

theorem EnsureLoadBalancer_exposes:
  assumes "EnsureLoadBalancer k svc w = (Inr addr, w')" "services_ok k" "CHR ''/'' \<notin> set (sv_Namespace svc)"
  shows "\<exists>frontends nodes keys w1 w2. Nodes_List k w1 = (Inr nodes, w2) \<and>
     UpdateFiles (kube_updater k) addr keys (EnvoyFiles frontends) '''' w2 = (Inr (), w') \<and>
     set (service_frontends (backend_addresses nodes) svc) \<subseteq> set frontends"
proof -
  obtain lb w1 where "sync k lb (Some svc) [] w1 = (Inr (), w')" and addr: "addr = lc_address lb"
    using assms(1) by (auto simp: EnsureLoadBalancer_def split: prod.splits sum.splits)
  from sync_pushes [OF this(1)] obtain items w2 nodes w3 frontends conflicts where
    items: "Services_List k w1 = (Inr items, w2)" and nodes: "Nodes_List k w2 = (Inr nodes, w3)"
    and fr: "Frontends (services_to_expose items (Some svc) []) (backend_addresses nodes) = (frontends, conflicts)"
    and free: "service_key svc \<notin> fst ` set conflicts"
    and push: "UpdateFiles (kube_updater k) (lc_address lb) (lc_keys lb) (EnvoyFiles frontends) '''' w3 = (Inr (), w')"
    by blast
  let ?svcs = "services_to_expose items (Some svc) []"
  note distinct = services_to_expose_distinct [OF assms(2) items assms(3), of "[]"]
  have svc: "svc \<in> set ?svcs" by (simp add: services_to_expose_def)
  with free Frontends_result(2) [OF distinct, of "backend_addresses nodes"] obtain s where
    s: "s \<in> set (admit {} (by_age ?svcs))" "service_key s = service_key svc"
    by (force simp: fr)
  with set_admit [of "{}" "by_age ?svcs"] have "s \<in> set ?svcs" by (auto simp: by_age_def)
  with distinct svc s(2) have "s = svc" by (auto simp: distinct_map dest: inj_onD)
  with s(1) Frontends_result(1) [OF distinct, of "backend_addresses nodes"] have "set (service_frontends (backend_addresses nodes) svc) \<subseteq> set frontends"
    by (auto simp: fr)
  with nodes push addr show ?thesis by blast
qed

text \<open>
  C24. When \<^verbatim>\<open>EnsureLoadBalancerDeleted\<close> returns without error, either there is no secret, hence no load
  balancer, and nothing was done; or the files it has pushed last are those of the other services: the
  frontends of the services it listed that are of type LoadBalancer, have another name and are not
  being deleted, over the addresses of the nodes it listed. No frontend of the service is left.
\<close>

theorem EnsureLoadBalancerDeleted_withdraws:
  assumes "EnsureLoadBalancerDeleted k svc w = (Inr (), w')"
  shows "(\<exists>e. Secrets_Get k ''kube-system'' ''verda-service-lb'' w = (Inl e, w') \<and> apierrors_IsNotFound e) \<or>
     (\<exists>lb w1 items w2 nodes w3. config k w = (Inr lb, w1) \<and> Services_List k w1 = (Inr items, w2) \<and>
        Nodes_List k w2 = (Inr nodes, w3) \<and>
        UpdateFiles (kube_updater k) (lc_address lb) (lc_keys lb)
          (EnvoyFiles (fst (Frontends (filter (\<lambda>s. sv_Type s = ServiceTypeLoadBalancer \<and>
             service_key s \<noteq> service_key svc \<and> om_DeletionTimestamp (sv_Meta s) = None) items) (backend_addresses nodes))))
          '''' w3 = (Inr (), w'))"
proof (cases "config k w")
  case (Pair q w1)
  show ?thesis
  proof (cases q)
    case (Inl e)
    with Pair assms have "apierrors_IsNotFound e" "w1 = w'"
      by (auto simp: EnsureLoadBalancerDeleted_def split: if_splits)
    with Pair Inl show ?thesis
      by (auto simp: config_def apierrors_IsNotFound_def split: prod.splits sum.splits if_splits)
  next
    case (Inr lb)
    with Pair assms have "sync k lb None [svc] w1 = (Inr (), w')" by (simp add: EnsureLoadBalancerDeleted_def)
    from sync_pushes [OF this] obtain items w2 nodes w3 frontends conflicts where
      pushed: "Services_List k w1 = (Inr items, w2)" "Nodes_List k w2 = (Inr nodes, w3)"
      "Frontends (services_to_expose items None [svc]) (backend_addresses nodes) = (frontends, conflicts)"
      "UpdateFiles (kube_updater k) (lc_address lb) (lc_keys lb) (EnvoyFiles frontends) '''' w3 = (Inr (), w')"
      by blast
    let ?others = "filter (\<lambda>s. sv_Type s = ServiceTypeLoadBalancer \<and> service_key s \<noteq> service_key svc \<and>
        om_DeletionTimestamp (sv_Meta s) = None) items"
    have "services_to_expose items None [svc] = ?others" by (simp add: services_to_expose_def)
    with pushed(3) have "fst (Frontends ?others (backend_addresses nodes)) = frontends" by simp
    with Pair Inr pushed(1,2,4) show ?thesis by blast
  qed
qed

section \<open>Examples\<close>

definition demo_service :: "string \<Rightarrow> int \<Rightarrow> int \<Rightarrow> Service" where
  "demo_service name created port =
     \<lparr>sv_Meta = \<lparr>om_Name = name, om_Namespace = ''shop'', om_Annotations = [], om_Labels = [], om_Finalizers = [],
        om_DeletionTimestamp = None\<rparr>,
      sv_CreationTimestamp = created, sv_Type = ServiceTypeLoadBalancer,
      sv_Ports = [\<lparr>sp_Protocol = '''', sp_Port = port, sp_NodePort = 30080\<rparr>], sv_ExternalTrafficPolicy = ''Cluster'',
      sv_HealthCheckNodePort = 0, sv_Ingress = []\<rparr>"

lemma demo_service_simps:
  "service_key (demo_service n t p) = ''shop/'' @ n" "sv_CreationTimestamp (demo_service n t p) = t"
  "slots (demo_service n t p) = {(p, ''TCP'')}" "port_slots (demo_service n t p) = [(p, ''TCP'')]"
  "\<forall>q\<in>set (sv_Ports (demo_service n t p)). port_ok q" "sv_Namespace (demo_service n t p) = ''shop''"
  by (simp_all add: demo_service_def service_key_def slots_def port_slots_def port_proto_def port_ok_def)

text \<open>Of two services that want port 80, the older one gets it.\<close>

theorem Frontends_reference_witness:
  "fst (Frontends [demo_service ''new'' 2 80, demo_service ''old'' 1 80] [''10.0.0.1'']) =
     service_frontends [''10.0.0.1''] (demo_service ''old'' 1 80) \<and>
   fst ` set (snd (Frontends [demo_service ''new'' 2 80, demo_service ''old'' 1 80] [''10.0.0.1''])) = {''shop/new''}"
proof -
  let ?ss = "[demo_service ''new'' 2 80, demo_service ''old'' 1 80]"
  have "by_age ?ss = [demo_service ''old'' 1 80, demo_service ''new'' 2 80]"
    by (simp add: by_age_def demo_service_simps)
  then have "admit {} (by_age ?ss) = [demo_service ''old'' 1 80]"
    using demo_service_simps(5) by (simp add: demo_service_simps(3))
  moreover have "distinct (map service_key ?ss)" by (simp add: demo_service_simps)
  ultimately show ?thesis using Frontends_reference [of ?ss "[''10.0.0.1'']"] by (auto simp: demo_service_simps)
qed

theorem listeners_distinct_witness:
  "distinct (map fe_Name (fst (Frontends [demo_service ''new'' 2 443, demo_service ''old'' 1 80] [''10.0.0.1''])))"
  using listeners_distinct [of "[demo_service ''new'' 2 443, demo_service ''old'' 1 80]" "[''10.0.0.1'']"]
  by (simp add: demo_service_simps)

theorem Frontends_canonical_witness:
  "Frontends [demo_service ''new'' 2 80, demo_service ''old'' 1 80] [''10.0.0.1''] =
   Frontends [demo_service ''old'' 1 80, demo_service ''new'' 2 80] [''10.0.0.1'']"
  by (rule Frontends_canonical) (simp_all add: demo_service_simps add_mset_commute)

definition demo_node :: Node where
  "demo_node =
     \<lparr>nd_Meta = \<lparr>om_Name = ''node-1'', om_Namespace = '''', om_Annotations = [], om_Labels = [], om_Finalizers = [],
        om_DeletionTimestamp = None\<rparr>,
      nd_ProviderID = '''',
      nd_Addresses = [(MachineExternalIP, ''192.0.2.9''), (MachineInternalIP, ''10.0.0.1'')]\<rparr>"

lemma demo_node_address: "backend_addresses [demo_node] = [''10.0.0.1'']"
  by (simp add: backend_addresses_def demo_node_def nodeAddress_def)

definition demo_kube :: "Service list \<Rightarrow> FakeUpdater kube" where
  "demo_kube services =
     \<lparr>Secrets_Get = (\<lambda>_ _ w. (Inr [(''address'', ''192.0.2.7''), (''ssh-privatekey'', ''k''), (''host-publickey'', ''h'')], w)),
      Services_List = (\<lambda>w. (Inr services, w)),
      Nodes_List = (\<lambda>w. (Inr [demo_node], w)),
      kube_updater = fake_updater\<rparr>"

definition no_updates :: FakeUpdater where
  "no_updates = \<lparr>fu_Backends = [], fu_Files = [], fu_Calls = 0, fu_Err = None\<rparr>"

lemma demo_config: "\<exists>lb. config (demo_kube ss) w = (Inr lb, w) \<and> lc_address lb = ''192.0.2.7''"
  by (simp add: config_def demo_kube_def)

lemma demo_kube_simps:
  "Services_List (demo_kube ss) = (\<lambda>w. (Inr ss, w))" "Nodes_List (demo_kube ss) = (\<lambda>w. (Inr [demo_node], w))"
  "kube_updater (demo_kube ss) = fake_updater"
  "\<exists>w'. UpdateFiles fake_updater addr keys files reload no_updates = (Inr (), w')"
  by (simp_all add: demo_kube_def fake_updater_def no_updates_def)

theorem EnsureLoadBalancer_exposes_witness:
  "\<exists>w' frontends keys w1. EnsureLoadBalancer (demo_kube []) (demo_service ''old'' 1 80) no_updates = (Inr ''192.0.2.7'', w') \<and>
     UpdateFiles fake_updater ''192.0.2.7'' keys (EnvoyFiles frontends) '''' w1 = (Inr (), w') \<and>
     set (service_frontends [''10.0.0.1''] (demo_service ''old'' 1 80)) \<subseteq> set frontends"
proof -
  obtain lb where lb: "config (demo_kube []) no_updates = (Inr lb, no_updates)" "lc_address lb = ''192.0.2.7''"
    using demo_config by blast
  obtain w' where run: "EnsureLoadBalancer (demo_kube []) (demo_service ''old'' 1 80) no_updates = (Inr ''192.0.2.7'', w')"
  proof -
    let ?fs = "fst (Frontends [demo_service ''old'' 1 80] [''10.0.0.1''])"
    have none: "snd (Frontends [demo_service ''old'' 1 80] [''10.0.0.1'']) = []"
      by (simp add: Frontends_def demo_service_def port_proto_def Let_def service_key_def)
    obtain w' where "UpdateFiles fake_updater (lc_address lb) (lc_keys lb) (EnvoyFiles ?fs) '''' no_updates = (Inr (), w')"
      using demo_kube_simps(4) by blast
    then show thesis using none that
      by (cases "Frontends [demo_service ''old'' 1 80] [''10.0.0.1'']") (simp add: EnsureLoadBalancer_def lb sync_def backendNodes_def
          demo_node_address services_to_expose_def demo_kube_simps(1-3))
  qed
  have "services_ok (demo_kube [])" by (simp add: services_ok_def demo_kube_simps)
  from EnsureLoadBalancer_exposes [OF run this] run show ?thesis
    by (auto simp: demo_service_simps demo_kube_simps(2,3) demo_node_address)
qed

theorem EnsureLoadBalancerDeleted_withdraws_witness:
  "\<exists>w' w3 keys. EnsureLoadBalancerDeleted (demo_kube [demo_service ''old'' 1 80]) (demo_service ''old'' 1 80) no_updates =
       (Inr (), w') \<and>
     UpdateFiles fake_updater ''192.0.2.7'' keys (EnvoyFiles (fst (Frontends [] [''10.0.0.1'']))) '''' w3 = (Inr (), w')"
proof -
  let ?ss = "[demo_service ''old'' 1 80]"
  obtain lb where lb: "config (demo_kube ?ss) no_updates = (Inr lb, no_updates)" "lc_address lb = ''192.0.2.7''"
    using demo_config by blast
  obtain w' where "UpdateFiles fake_updater (lc_address lb) (lc_keys lb) (EnvoyFiles (fst (Frontends [] [''10.0.0.1'']))) '''' no_updates = (Inr (), w')"
    using demo_kube_simps(4) by blast
  then have run: "EnsureLoadBalancerDeleted (demo_kube ?ss) (demo_service ''old'' 1 80) no_updates = (Inr (), w')"
    by (cases "Frontends [] [''10.0.0.1'']") (simp add: EnsureLoadBalancerDeleted_def lb sync_def backendNodes_def
        demo_node_address services_to_expose_def demo_kube_simps(1-3))
  have "Secrets_Get (demo_kube ?ss) n m w \<noteq> (Inl e, v)" for n m w e v by (simp add: demo_kube_def)
  with EnsureLoadBalancerDeleted_withdraws [OF run] run lb show ?thesis
    by (auto simp: demo_kube_simps(1-3) demo_node_address)
qed

end
