(* ===== verification/DeletionProgress.thy ===== *)
theory DeletionProgress
  imports MachineProps
begin

text \<open>
  Deletion comes to an end. The locale \<open>deletion_service\<close> says what a client promises of the
  instances that are being deleted: it answers, it accepts delete requests, and each request brings
  the deletion closer to its end, at once or when the cloud settles before the next reconcile. Under
  that contract the reconciler, called again and again, removes the finalizer after a bounded number
  of rounds.
\<close>

section \<open>The throttle opens again\<close>

text \<open>No delete request is held back at time \<open>now\<close>, whatever the state of the instance.\<close>

definition throttle_open :: "nat \<Rightarrow> string \<Rightarrow> ObjectMeta \<Rightarrow> bool" where
  "throttle_open now suffix obj = (\<forall>state. fst (deleteRequestDue now obj suffix state))"

lemma throttle_open_iff:
  "throttle_open now suffix obj \<longleftrightarrow>
     (case Cut CHR ''@'' (go_get (om_Annotations obj) (annotation_key suffix)) of
        None \<Rightarrow> True
      | Some (s, at) \<Rightarrow> (case Parse_RFC3339 at of None \<Rightarrow> True | Some t \<Rightarrow> deleteRetryInterval \<le> int now - t))"
  unfolding throttle_open_def deleteRequestDue_def Let_def
  by (cases "Cut CHR ''@'' (go_get (om_Annotations obj) (annotation_key suffix))")
    (simp_all add: not_less split: prod.split option.split)

lemma throttle_open_due:
  "throttle_open now suffix obj \<Longrightarrow> deleteRequestDue now obj suffix state =
     (True, obj\<lparr>om_Annotations := AList.update (annotation_key suffix) (state @ ''@'' @ Format_RFC3339 now) (om_Annotations obj)\<rparr>)"
  unfolding throttle_open_iff deleteRequestDue_def Let_def by (simp add: not_less split: option.splits prod.splits)

lemma throttle_open_mono:
  "throttle_open now suffix obj \<Longrightarrow> now \<le> later \<Longrightarrow> throttle_open later suffix obj"
  unfolding throttle_open_iff by (auto split: option.splits)

lemma throttle_open_fresh: "go_get (om_Annotations obj) (annotation_key suffix) = '''' \<Longrightarrow> throttle_open now suffix obj"
  by (simp add: throttle_open_iff)

lemma throttle_open_other:
  assumes "throttle_open now suffix obj" "annotation_key suffix' \<noteq> annotation_key suffix"
    and "om_Annotations obj' = AList.update (annotation_key suffix') x (om_Annotations obj)"
  shows "throttle_open now suffix obj'"
  using assms by (simp add: throttle_open_iff)

lemma later_after: "int now + deleteRetryInterval \<le> int later \<Longrightarrow> now \<le> later"
  by (simp add: deleteRetryInterval_def time_Second_def)

text \<open>After a request the next one is let through twenty seconds later, in whatever state.\<close>

lemma throttle_open_again:
  assumes "om_Annotations obj = AList.update (annotation_key suffix) (state @ ''@'' @ Format_RFC3339 now) ann"
    and "CHR ''@'' \<notin> set state" "year_of now < 10000" "int now + deleteRetryInterval \<le> int later"
  shows "throttle_open later suffix obj"
proof -
  define t where "t = int (now div 1000000000) * 1000000000"
  have t: "Parse_RFC3339 (Format_RFC3339 now) = Some t" unfolding t_def by (rule parse_format [OF assms(3)])
  have "int (now div 1000000000 * 1000000000) \<le> int now" by (simp only: of_nat_le_iff div_times_less_eq_dividend)
  then have "t \<le> int now" by (simp add: t_def)
  with assms(4) have late: "\<not> int later - t < deleteRetryInterval" by simp
  have "Cut CHR ''@'' (go_get (om_Annotations obj) (annotation_key suffix)) = Some (state, Format_RFC3339 now)"
    using assms(2) by (simp add: assms(1) Cut_append)
  with t late show ?thesis by (simp add: throttle_open_iff)
qed

section \<open>The contract\<close>

text \<open>
  \<open>ids\<close> are the instances that are being deleted, \<open>tags\<close> the tags only they have, and \<open>vols\<close> the
  volumes; \<open>st\<close> is what the account has under an identifier, \<open>left\<close> bounds the rounds that are still
  needed, and \<open>waiting\<close> says that the cloud is busy with what it was asked for.
\<close>

locale deletion_service =
  fixes c :: "'w cloud_client" and ids :: "string set" and tags :: "(string \<times> string) set" and vols :: "string set"
    and ok :: "'w \<Rightarrow> bool" and st :: "'w \<Rightarrow> string \<rightharpoonup> Instance"
    and left :: "'w \<Rightarrow> nat" and waiting :: "'w \<Rightarrow> bool"
  assumes st_ID: "ok w \<Longrightarrow> k \<in> ids \<Longrightarrow> st w k = Some i \<Longrightarrow> i_ID i = k \<and> CHR ''@'' \<notin> set (i_Status i)"
    and st_deleting: "ok w \<Longrightarrow> k \<in> ids \<Longrightarrow> st w k = Some i \<Longrightarrow> i_Status i = StatusDeleting \<Longrightarrow> waiting w"
    and GetInstance_answers:
      "ok w \<Longrightarrow> k \<in> ids \<Longrightarrow> GetInstance c k w = (r, w') \<Longrightarrow>
         ok w' \<and> st w' = st w \<and> left w' \<le> left w \<and>
         (case st w k of Some i \<Rightarrow> r = Inr i | None \<Rightarrow> (\<exists>e. r = Inl e \<and> errors_Is e ErrNotFound))"
    and FindInstanceByTag_answers:
      "ok w \<Longrightarrow> (key, val) \<in> tags \<Longrightarrow> FindInstanceByTag c key val w = (r, w') \<Longrightarrow>
         ok w' \<and> st w' = st w \<and> left w' \<le> left w \<and>
         (case r of Inr i \<Rightarrow> i_ID i \<in> ids \<and> st w (i_ID i) = Some i | Inl e \<Rightarrow> errors_Is e ErrNotFound)"
    and DeleteInstance_accepted:
      "ok w \<Longrightarrow> k \<in> ids \<Longrightarrow> st w k = Some i \<Longrightarrow> \<not> instanceGone i \<Longrightarrow> i_Status i \<noteq> StatusDeleting \<Longrightarrow>
         DeleteInstance c k w = (u, w') \<Longrightarrow>
         u = Inr () \<and> ok w' \<and> (left w' < left w \<or> left w' \<le> left w \<and> waiting w')"
    and PurgeInstanceVolumes_answers:
      "ok w \<Longrightarrow> k \<in> ids \<Longrightarrow> st w k = Some i \<Longrightarrow> instanceGone i \<Longrightarrow> PurgeInstanceVolumes c k w = (p, w') \<Longrightarrow>
         (\<exists>n. p = Inr n \<and> ok w' \<and> left w' \<le> left w \<and> (n > 0 \<longrightarrow> waiting w'))"
    and DeleteStartupScript_answers: "ok w \<Longrightarrow> DeleteStartupScript c s w = (u, w') \<Longrightarrow> u = Inr () \<and> ok w' \<and> left w' \<le> left w"
    and DeleteStartupScriptByName_answers:
      "ok w \<Longrightarrow> DeleteStartupScriptByName c s w = (u, w') \<Longrightarrow> u = Inr () \<and> ok w' \<and> left w' \<le> left w"
    and GetVolume_answers:
      "ok w \<Longrightarrow> v \<in> vols \<Longrightarrow> GetVolume c v w = (q, w') \<Longrightarrow> ok w' \<and> (\<forall>e. q = Inl e \<longrightarrow> errors_Is e ErrNotFound)"
    and DeleteVolume_answers: "ok w \<Longrightarrow> v \<in> vols \<Longrightarrow> DeleteVolume c v w = (u, w') \<Longrightarrow> u = Inr ()"

text \<open>
  What may happen in the cloud between two reconciles: anything that keeps \<open>ok\<close> and undoes no
  progress, and progress when the cloud was busy with a request.
\<close>

definition settles :: "('w \<Rightarrow> bool) \<Rightarrow> ('w \<Rightarrow> nat) \<Rightarrow> ('w \<Rightarrow> bool) \<Rightarrow> 'w \<Rightarrow> 'w \<Rightarrow> bool" where
  "settles ok left waiting w w' = (ok w' \<and> (if waiting w then left w' < left w else left w' \<le> left w))"

text \<open>What a round of a deletion achieves.\<close>

definition advances :: "('w \<Rightarrow> nat) \<Rightarrow> ('w \<Rightarrow> bool) \<Rightarrow> 'w \<Rightarrow> 'w \<Rightarrow> bool" where
  "advances left waiting w w' = (left w' < left w \<or> left w' \<le> left w \<and> waiting w')"

lemma advances_settles:
  "advances left waiting w w' \<Longrightarrow> settles ok left waiting w' w'' \<Longrightarrow> ok w'' \<and> left w'' < left w"
  by (auto simp: advances_def settles_def split: if_splits)

text \<open>
  Rounds that keep some \<open>good\<close> and make progress whenever \<open>there\<close> holds before and after cannot go on:
  \<open>there\<close> ends within the bound given at the start.
\<close>

lemma bounded_rounds:
  fixes l :: "nat \<Rightarrow> nat"
  assumes "good 0" "\<And>n. good n \<Longrightarrow> there n \<Longrightarrow> there (Suc n) \<Longrightarrow> n \<le> l 0 \<Longrightarrow> good (Suc n) \<and> l (Suc n) < l n"
  shows "\<exists>n \<le> Suc (l 0). \<not> there n"
proof (rule ccontr)
  assume stays: "\<not> ?thesis"
  have "good n \<and> l n + n \<le> l 0" if "n \<le> Suc (l 0)" for n
    using that
  proof (induction n)
    case (Suc n)
    with assms(2) [of n] stays show ?case by force
  qed (simp add: assms(1))
  from this [of "Suc (l 0)"] show False by simp
qed

section \<open>One reconcile of a machine that is being deleted\<close>

abbreviation has_finalizer :: "VerdaMachine \<Rightarrow> bool" where
  "has_finalizer vm \<equiv> MachineFinalizer \<in> set (om_Finalizers (vm_Meta vm))"

text \<open>
  The machine is being deleted, and its instance is one of those the contract is about. What a
  round keeps of it.
\<close>

definition machine_known :: "string set \<Rightarrow> (string \<times> string) set \<Rightarrow> VerdaMachine \<Rightarrow> bool" where
  "machine_known ids tags vm =
     (if InstanceID vm = '''' then (TagMachine, machineTagValue vm) \<in> tags else InstanceID vm \<in> ids)"

definition deleting_machine :: "string set \<Rightarrow> (string \<times> string) set \<Rightarrow> string set \<Rightarrow> nat \<Rightarrow> VerdaMachine \<Rightarrow> bool" where
  "deleting_machine ids tags vols now vm =
     (machine_known ids tags vm \<and> mst_OSVolumeID (vm_Status vm) \<in> insert '''' vols \<and>
      om_DeletionTimestamp (vm_Meta vm) \<noteq> None \<and> throttle_open now '''' (vm_Meta vm))"

lemma deleting_machine_later:
  "deleting_machine ids tags vols now vm \<Longrightarrow> now \<le> later \<Longrightarrow> deleting_machine ids tags vols later vm"
  by (auto simp: deleting_machine_def intro: throttle_open_mono)

lemma deleting_machine_cong:
  assumes "deleting_machine ids tags vols now vm" "throttle_open now '''' (vm_Meta vm')"
    and "vm_Name vm' = vm_Name vm" "vm_Namespace vm' = vm_Namespace vm" "InstanceID vm' = InstanceID vm"
    and "om_DeletionTimestamp (vm_Meta vm') = om_DeletionTimestamp (vm_Meta vm)"
    and "mst_OSVolumeID (vm_Status vm') = mst_OSVolumeID (vm_Status vm)"
  shows "deleting_machine ids tags vols now vm'"
proof -
  have "machineTagValue vm' = machineTagValue vm" using assms(3,4) by (simp add: machineTagValue_def)
  with assms show ?thesis by (simp add: deleting_machine_def machine_known_def)
qed

lemma deleting_machine_fields:
  assumes "deleting_machine ids tags vols now vm" "vm_Meta vm' = vm_Meta vm" "InstanceID vm' = InstanceID vm"
    and "mst_OSVolumeID (vm_Status vm') = mst_OSVolumeID (vm_Status vm)"
  shows "deleting_machine ids tags vols now vm'"
  by (rule deleting_machine_cong [OF assms(1)]) (use assms in \<open>simp_all add: deleting_machine_def\<close>)

lemma set_condition_fields [simp]:
  "mst_OSVolumeID (vm_Status (set_condition K vm cond)) = mst_OSVolumeID (vm_Status vm)"
  "mst_OSVolumeID (vm_Status (setInstanceReadyFalse K vm reason msg)) = mst_OSVolumeID (vm_Status vm)"
  by (simp_all add: set_condition_def setInstanceReadyFalse_def)

context deletion_service
begin

lemma delete_script_answers:
  assumes "ok w" "delete_script c vm w = (r, vm', w')"
  shows "r = Inr () \<and> ok w' \<and> vm_Meta vm' = vm_Meta vm \<and> mst_OSVolumeID (vm_Status vm') = mst_OSVolumeID (vm_Status vm)"
proof -
  obtain u1 w1 where 1: "DeleteStartupScript c (mst_StartupScriptID (vm_Status vm)) w = (u1, w1)" by fastforce
  obtain u2 w2 where 2: "DeleteStartupScriptByName c (vm_Name vm) w = (u2, w2)" by fastforce
  from DeleteStartupScript_answers [OF assms(1) 1] DeleteStartupScriptByName_answers [OF assms(1) 2] assms(2) 1 2
  show ?thesis by (auto simp: delete_script_def Let_def split: if_splits)
qed

lemma deleteOSVolume_answers:
  assumes "ok w" "mst_OSVolumeID (vm_Status vm) \<in> insert '''' vols" "deleteOSVolume c vm w = (r, vm', w')"
  shows "r = Inr () \<and> vm_Meta vm' = vm_Meta vm"
proof (cases "mst_OSVolumeID (vm_Status vm) = ''''")
  case False
  let ?v = "mst_OSVolumeID (vm_Status vm)"
  from False assms(2) have v: "?v \<in> vols" by simp
  obtain q w1 where q: "GetVolume c ?v w = (q, w1)" by fastforce
  note 1 = GetVolume_answers [OF assms(1) v q]
  obtain u w2 where u: "DeleteVolume c ?v w1 = (u, w2)" by fastforce
  note 2 = DeleteVolume_answers [OF conjunct1 [OF 1] v u]
  from False assms(3) q u 1 2 show ?thesis
    by (cases q) (auto simp: deleteOSVolume_def Let_def split: if_splits)
qed (use assms(3) in \<open>auto simp: deleteOSVolume_def\<close>)

lemma finish_delete_releases:
  assumes "klib_ok K" "ok w" "mst_OSVolumeID (vm_Status vm) \<in> insert '''' vols" "finish_delete K c vm w = (r, vm', w')"
  shows "\<not> has_finalizer vm'"
proof -
  obtain r1 vm1 w1 where 1: "delete_script c vm w = (r1, vm1, w1)" by (metis prod_cases3)
  note s = delete_script_answers [OF assms(2) 1]
  obtain r2 vm2 w2 where 2: "deleteOSVolume c vm1 w1 = (r2, vm2, w2)" by (metis prod_cases3)
  from s assms(3) have "ok w1" "mst_OSVolumeID (vm_Status vm1) \<in> insert '''' vols" by auto
  note v = deleteOSVolume_answers [OF this 2]
  from assms(4) 1 2 s v show ?thesis
    by (auto simp: finish_delete_def remove_finalizer_def klib_simps [OF assms(1)])
qed

lemma findInstance_answers:
  assumes "ok w" "machine_known ids tags vm" "findInstance c vm w = (r, w')"
  shows "ok w' \<and> st w' = st w \<and> left w' \<le> left w \<and> (\<exists>found. r = Inr found \<and>
     (\<forall>i. found = Some i \<longrightarrow> i_Status i = StatusNotFound \<or> i_ID i \<in> ids \<and> st w (i_ID i) = Some i))"
proof (cases "InstanceID vm = ''''")
  case False
  obtain q w1 where q: "GetInstance c (InstanceID vm) w = (q, w1)" by fastforce
  from False assms(2) have k: "InstanceID vm \<in> ids" by (simp add: machine_known_def)
  from GetInstance_answers [OF assms(1) k q] st_ID [OF assms(1) k] k False assms(3) q show ?thesis
    by (cases "st w (InstanceID vm)") (auto simp: findInstance_def bare_Instance_def)
next
  case True
  obtain q w1 where q: "FindInstanceByTag c TagMachine (machineTagValue vm) w = (q, w1)" by fastforce
  from True assms(2) have k: "(TagMachine, machineTagValue vm) \<in> tags" by (simp add: machine_known_def)
  from FindInstanceByTag_answers [OF assms(1) k q] True assms(3) q show ?thesis
    by (cases q) (auto simp: findInstance_def split: if_splits)
qed

lemma request_delete_advances:
  assumes "ok w" "deleting_machine ids tags vols now vm" "i_ID i \<in> ids" "st w (i_ID i) = Some i" "\<not> instanceGone i"
    and "year_of now < 10000" "int now + deleteRetryInterval \<le> int later"
    and "request_delete K now c vm i w = (r, vm', w')"
  shows "advances left waiting w w' \<and> ok w' \<and> deleting_machine ids tags vols later vm'"
proof -
  from assms(2) have open_: "throttle_open now '''' (vm_Meta vm)" by (simp add: deleting_machine_def)
  note later = later_after [OF assms(7)]
  note mach = deleting_machine_later [OF assms(2) later]
  note i = st_ID [OF assms(1,3,4)]
  show ?thesis
  proof (cases "i_Status i = StatusDeleting")
    case True
    with assms(8) have eq: "vm' = upd_status (\<lambda>s. s\<lparr>mst_InstanceState := i_Status i\<rparr>) vm" "w' = w"
      by (simp_all add: request_delete_def)
    from st_deleting [OF assms(1,3,4) True] assms(1) deleting_machine_fields [OF mach, of vm'] show ?thesis
      by (simp add: eq advances_def)
  next
    case False
    obtain u w1 where u: "DeleteInstance c (i_ID i) w = (u, w1)" by fastforce
    note d = DeleteInstance_accepted [OF assms(1,3,4,5) False u]
    define obj where "obj = (vm_Meta vm)\<lparr>om_Annotations :=
      AList.update (annotation_key '''') (i_Status i @ ''@'' @ Format_RFC3339 now) (om_Annotations (vm_Meta vm))\<rparr>"
    have "throttle_open later '''' obj"
      by (rule throttle_open_again [where state = "i_Status i"]) (use i assms(6,7) in \<open>simp_all add: obj_def\<close>)
    moreover have "w' = w1" "vm_Meta vm' = obj" "InstanceID vm' = InstanceID vm"
      "mst_OSVolumeID (vm_Status vm') = mst_OSVolumeID (vm_Status vm)"
      using assms(8) False u d i throttle_open_due [OF open_]
      by (auto simp: request_delete_def Let_def obj_def)
    ultimately show ?thesis
      using d deleting_machine_cong [OF mach, of vm'] by (auto simp: advances_def obj_def)
  qed
qed

lemma reconcileDelete_advances:
  assumes "klib_ok K" "ok w" "deleting_machine ids tags vols now vm"
    and "year_of now < 10000" "int now + deleteRetryInterval \<le> int later"
    and "reconcileDelete K now c vm w = (r, vm', w')"
  shows "\<not> has_finalizer vm' \<or> advances left waiting w w' \<and> ok w' \<and> deleting_machine ids tags vols later vm'"
proof -
  define vm0 where "vm0 = setInstanceReadyFalse K vm (DeletingReason K) (Text ''Deleting Verda instance'')"
  have vm0: "deleting_machine ids tags vols now vm0"
    by (rule deleting_machine_fields [OF assms(3)]) (simp_all add: vm0_def)
  obtain q w1 where q: "findInstance c vm0 w = (q, w1)" by fastforce
  from vm0 have k: "machine_known ids tags vm0"
    and v: "mst_OSVolumeID (vm_Status vm0) \<in> insert '''' vols" by (simp_all add: deleting_machine_def)
  from findInstance_answers [OF assms(2) k q] obtain found where
    w1: "ok w1" "st w1 = st w" "left w1 \<le> left w" and found: "q = Inr found"
      "\<And>i. found = Some i \<Longrightarrow> i_Status i = StatusNotFound \<or> i_ID i \<in> ids \<and> st w (i_ID i) = Some i" by blast
  note later = later_after [OF assms(5)]
  have run: "(case findInstance c vm0 w of
        (Inl err, w) \<Rightarrow> (Inl err, vm0, w)
      | (Inr None, w) \<Rightarrow> finish_delete K c vm0 w
      | (Inr (Some inst), w) \<Rightarrow>
          if \<not> instanceGone inst then request_delete K now c vm0 inst w
          else if i_Status inst \<noteq> StatusNotFound then
            (case PurgeInstanceVolumes c (i_ID inst) w of
               (Inl err, w) \<Rightarrow> (Inl err, vm0, w)
             | (Inr pending, w) \<Rightarrow>
                 if pending > 0 then (Inr (requeue_after deletePollInterval), vm0, w)
                 else finish_delete K c vm0 w)
          else finish_delete K c vm0 w) = (r, vm', w')"
    using assms(6) unfolding reconcileDelete_def Let_def vm0_def .
  note finish = finish_delete_releases [OF assms(1) _ v]
  show ?thesis
  proof (cases found)
    case None
    with found(1) q run have "finish_delete K c vm0 w1 = (r, vm', w')" by simp
    from finish [OF w1(1) this] show ?thesis ..
  next
    case (Some i)
    obtain p w2 where p: "PurgeInstanceVolumes c (i_ID i) w1 = (p, w2)" by fastforce
    consider (gone) "i_Status i = StatusNotFound"
      | (there) "i_Status i \<noteq> StatusNotFound" "i_ID i \<in> ids" "st w1 (i_ID i) = Some i"
      using found(2) [OF Some] w1(2) by auto
    then show ?thesis
    proof cases
      case gone
      with run q found(1) Some have "finish_delete K c vm0 w1 = (r, vm', w')" by simp
      from finish [OF w1(1) this] show ?thesis ..
    next
      case there
      show ?thesis
      proof (cases "instanceGone i")
        case False
        with run q found(1) Some have "request_delete K now c vm0 i w1 = (r, vm', w')" by simp
        from request_delete_advances [OF w1(1) vm0 there(2,3) False assms(4,5) this] w1(3) show ?thesis
          by (auto simp: advances_def)
      next
        case True
        from PurgeInstanceVolumes_answers [OF w1(1) there(2,3) True p] obtain n where
          n: "p = Inr n" "ok w2" "left w2 \<le> left w1" "n > 0 \<longrightarrow> waiting w2" by blast
        show ?thesis
        proof (cases "n > 0")
          case True
          with run q found(1) Some \<open>instanceGone i\<close> there(1) p n(1) have "vm' = vm0" "w' = w2" by auto
          with True n w1(3) deleting_machine_later [OF vm0 later] show ?thesis by (auto simp: advances_def)
        next
          case False
          with run q found(1) Some \<open>instanceGone i\<close> there(1) p n(1) have "finish_delete K c vm0 w2 = (r, vm', w')" by auto
          from finish [OF n(2) this] show ?thesis ..
        qed
      qed
    qed
  qed
qed

end

section \<open>Rounds\<close>

text \<open>
  The environment of an undisturbed deletion: the API server returns the machine, its owner and its
  cluster, nothing is paused, the client is \<open>c\<close> and patches are accepted.
\<close>

definition undisturbed :: "'w machine_env \<Rightarrow> 'w cloud_client \<Rightarrow> nat \<Rightarrow> VerdaMachine \<Rightarrow> bool" where
  "undisturbed env c now vm =
     (klib_ok (me_lib env) \<and> me_now env = now \<and> me_GetVerdaMachine env = Inr vm \<and> me_EnsureFinalizer env vm = Inr False \<and>
      (\<exists>ma cl vc. me_GetOwnerMachine env (vm_Meta vm) = Inr (Some ma) \<and> me_GetClusterFromMetadata env (ma_Meta ma) = Inr cl \<and>
         me_EnsurePausedCondition env cl vm = (Inr (False, False), vm) \<and>
         me_GetVerdaCluster env (vm_Namespace vm) (cl_InfrastructureRefName cl) = Inr vc) \<and>
      me_NewHelper env vm = Inr () \<and> (\<forall>ident. me_ClientFor env ident = Inr c) \<and> (\<forall>vm. me_Patch env vm = None))"

text \<open>
  A deletion, round by round: as long as the finalizer is there, the machine is reconciled at time
  \<open>t n\<close>, the patched object is stored, the cloud settles, and the next round comes at least the retry
  interval later.
\<close>

definition delete_rounds :: "(nat \<Rightarrow> 'w machine_env) \<Rightarrow> 'w cloud_client \<Rightarrow> ('w \<Rightarrow> 'w \<Rightarrow> bool) \<Rightarrow> (nat \<Rightarrow> nat) \<Rightarrow>
    (nat \<Rightarrow> VerdaMachine) \<Rightarrow> (nat \<Rightarrow> 'w) \<Rightarrow> bool" where
  "delete_rounds env c settled t vm w =
     (\<forall>n. has_finalizer (vm n) \<longrightarrow>
        undisturbed (env n) c (t n) (vm n) \<and> int (t n) + deleteRetryInterval \<le> int (t (Suc n)) \<and>
        (\<exists>r w'. Reconcile (env n) (w n) = (r, Some (vm (Suc n)), w') \<and>
           (has_finalizer (vm (Suc n)) \<longrightarrow> settled w' (w (Suc n)))))"

lemma Reconcile_undisturbed:
  assumes "undisturbed env c now vm" "om_DeletionTimestamp (vm_Meta vm) \<noteq> None"
  shows "Reconcile env w = with_patch env (reconcileDelete (me_lib env) now c vm w)"
  using assms by (auto simp: undisturbed_def Reconcile_def reconcile_scope_def Let_def)

lemma with_patch_fields:
  assumes "with_patch env (r0, vm0, w0) = (r, Some vm, w)"
  shows "w = w0 \<and> vm_Meta vm = vm_Meta vm0 \<and> InstanceID vm = InstanceID vm0 \<and>
     mst_OSVolumeID (vm_Status vm) = mst_OSVolumeID (vm_Status vm0)"
  using assms by (auto simp: with_patch_def patchVerdaMachine_def Let_def)

context deletion_service
begin

lemma round_advances:
  assumes "undisturbed env c now vm" "ok w" "deleting_machine ids tags vols now vm"
    and "year_of now < 10000" "int now + deleteRetryInterval \<le> int later"
    and "Reconcile env w = (r, Some vm', w')"
  shows "\<not> has_finalizer vm' \<or> advances left waiting w w' \<and> ok w' \<and> deleting_machine ids tags vols later vm'"
proof -
  from assms(1) have K: "klib_ok (me_lib env)" by (simp add: undisturbed_def)
  from assms(3) have "om_DeletionTimestamp (vm_Meta vm) \<noteq> None" by (simp add: deleting_machine_def)
  note run = assms(6) [unfolded Reconcile_undisturbed [OF assms(1) this]]
  obtain r0 vm0 w0 where d: "reconcileDelete (me_lib env) now c vm w = (r0, vm0, w0)" by (metis prod_cases3)
  from with_patch_fields [OF run [unfolded d]] reconcileDelete_advances [OF K assms(2-5) d]
  show ?thesis by (auto intro: deleting_machine_fields)
qed

lemma deletion_ends:
  assumes run: "delete_rounds env c (settles ok left waiting) t vm w"
    and "ok (w 0)" "deleting_machine ids tags vols (t 0) (vm 0)"
    and year: "\<And>n. n \<le> left (w 0) \<Longrightarrow> year_of (t n) < 10000"
  shows "\<exists>n \<le> Suc (left (w 0)). \<not> has_finalizer (vm n)"
proof (rule bounded_rounds [where good = "\<lambda>n. ok (w n) \<and> deleting_machine ids tags vols (t n) (vm n)"])
  fix n assume good: "ok (w n) \<and> deleting_machine ids tags vols (t n) (vm n)"
    and there: "has_finalizer (vm n)" "has_finalizer (vm (Suc n))" and n: "n \<le> left (w 0)"
  from run there obtain r w' where
    u: "undisturbed (env n) c (t n) (vm n)" "int (t n) + deleteRetryInterval \<le> int (t (Suc n))"
    and rec: "Reconcile (env n) (w n) = (r, Some (vm (Suc n)), w')" and s: "settles ok left waiting w' (w (Suc n))"
    unfolding delete_rounds_def by metis
  from round_advances [OF u(1) _ _ year [OF n] u(2) rec] good there(2)
  have a: "advances left waiting (w n) w'" "deleting_machine ids tags vols (t (Suc n)) (vm (Suc n))" by auto
  from advances_settles [OF a(1) s] a(2)
  show "(ok (w (Suc n)) \<and> deleting_machine ids tags vols (t (Suc n)) (vm (Suc n))) \<and> left (w (Suc n)) < left (w n)" by simp
qed (use assms(2,3) in simp)

end

end
