(* ===== verification/DeletionClients.thy ===== *)
theory DeletionClients
  imports DeletionProgress CloudFake CloudSDKProps
begin

text \<open>
  The two clients keep \<open>deletion_service\<close>: the contract is interpreted on the fake cloud, and derived
  for the production client from the corresponding promises of the API.
\<close>

section \<open>The fake cloud\<close>

text \<open>The fake deletes at once: one request is enough, and it is never busy.\<close>

definition fake_deletable :: "string set \<Rightarrow> (string \<times> string) set \<Rightarrow> string set \<Rightarrow> Fake \<Rightarrow> bool" where
  "fake_deletable ids tags vols f = (fake_ok f \<and>
     (\<forall>k i key val. fake_insts f k = Some i \<longrightarrow> (key, val) \<in> tags \<longrightarrow> go_get (i_Tags i) key = val \<longrightarrow> k \<in> ids) \<and>
     (\<forall>k\<in>ids. \<forall>i. fake_insts f k = Some i \<longrightarrow>
        go_get (i_Tags i) TagManagedBy = ManagedByValue \<and> i_Status i \<noteq> StatusDeleting \<and> CHR ''@'' \<notin> set (i_Status i)) \<and>
     (\<forall>v\<in>vols. \<forall>vol. map_of (f_Volumes f) v = Some vol \<longrightarrow> v_Managed vol))"

definition fake_left :: "string list \<Rightarrow> Fake \<Rightarrow> nat" where
  "fake_left ks f = length (filter (\<lambda>k. case fake_insts f k of Some i \<Rightarrow> \<not> instanceGone i | None \<Rightarrow> False) ks)"

lemma filter_no_more: "(\<And>x. x \<in> set xs \<Longrightarrow> Q x \<Longrightarrow> P x) \<Longrightarrow> length (filter Q xs) \<le> length (filter P xs)"
  by (induction xs) (auto simp: le_SucI)

lemma filter_fewer:
  assumes "\<And>x. x \<in> set xs \<Longrightarrow> Q x \<Longrightarrow> P x" "x \<in> set xs" "P x" "\<not> Q x"
  shows "length (filter Q xs) < length (filter P xs)"
  using assms(1,2)
proof (induction xs)
  case (Cons y ys)
  have "length (filter Q ys) \<le> length (filter P ys)" using Cons.prems(1) by (intro filter_no_more) auto
  then show ?case using Cons assms(3,4) by (cases "x = y") auto
qed simp

lemma fake_volumes_frame:
  assumes "fake_deletable ids tags vols f" "f_Instances f' = f_Instances f" "f_nextID f' = f_nextID f"
    and "\<And>v vol. map_of (f_Volumes f') v = Some vol \<Longrightarrow> map_of (f_Volumes f) v = Some vol"
  shows "fake_deletable ids tags vols f' \<and> fake_insts f' = fake_insts f \<and> fake_left ks f' = fake_left ks f"
proof -
  have "fake_insts f' = fake_insts f" using assms(2) by (simp add: fake_insts_def)
  with assms fake_ok_frame [of f' f] show ?thesis by (auto simp: fake_deletable_def fake_left_def)
qed

lemma fake_delete_advances:
  assumes "fake_deletable (set ks) tags vols f" "k \<in> set ks" "fake_insts f k = Some i" "\<not> instanceGone i"
    and "Fake_DeleteInstance k f = (u, f')"
  shows "u = Inr () \<and> fake_deletable (set ks) tags vols f' \<and> fake_left ks f' < fake_left ks f"
proof -
  define g where "g = (\<lambda>i::Instance. i\<lparr>i_Status := StatusDiscontinued\<rparr>)"
  have f': "u = Inr ()" "f' = f\<lparr>f_Volumes := AList.delete (i_OSVolumeID i) (f_Volumes f), f_Instances := AList.map_entry k g (f_Instances f)\<rparr>"
    using assms by (auto simp: Fake_DeleteInstance_def fake_insts_def fake_deletable_def g_def)
  have ins: "fake_insts f' = (fake_insts f)(k \<mapsto> g i)"
    using assms(3) by (auto simp: f'(2) fake_insts_def map_of_map_entry fun_eq_iff)
  have vol: "map_of (f_Volumes f') v = Some vol \<Longrightarrow> map_of (f_Volumes f) v = Some vol" for v vol
    by (simp add: f'(2) map_of_delete_apply split: if_splits)
  have "fake_ok f'" using fake_delete(1) [OF _ assms(5)] assms(1) by (simp add: fake_deletable_def)
  moreover have "fake_left ks f' < fake_left ks f"
    unfolding fake_left_def
    by (rule filter_fewer [OF _ assms(2)]) (use assms(3,4) in \<open>auto simp: ins g_def split: if_splits option.splits\<close>)
  ultimately show ?thesis
    using assms(1,2,3) f'(1) by (auto simp: fake_deletable_def ins g_def dest: vol)
qed

lemma Fake_GetInstance_insts:
  "Fake_GetInstance k f = (case fake_insts f k of Some i \<Rightarrow> Inr i | None \<Rightarrow> Inl ErrNotFound, f)"
  by (simp add: Fake_GetInstance_def lookup_or_NotFound_def fake_insts_def)

interpretation fd: deletion_service fake_client "set ks" tags vols "fake_deletable (set ks) tags vols" fake_insts
    "fake_left ks" "\<lambda>_. False"
  for ks tags vols
proof
  fix f key val r f'
  assume f: "fake_deletable (set ks) tags vols f" "(key, val) \<in> tags" "FindInstanceByTag fake_client key val f = (r, f')"
  from f(3) have run: "Fake_FindInstanceByTag key val f = (r, f')" by simp
  from f(1) have ok: "fake_ok f" by (simp add: fake_deletable_def)
  have "f' = f" using run by (simp add: Fake_FindInstanceByTag_def)
  moreover have "i_ID i \<in> set ks \<and> fake_insts f (i_ID i) = Some i" if "r = Inr i" for i
  proof -
    from fake_FindInstanceByTag(1) [OF ok run that] obtain k where "fake_insts f k = Some i" "go_get (i_Tags i) key = val"
      by (auto simp: ran_def)
    with f(1,2) fake_insts_ID [OF ok] show ?thesis unfolding fake_deletable_def by blast
  qed
  moreover have "errors_Is e ErrNotFound" if "r = Inl e" for e
    using that run by (auto simp: Fake_FindInstanceByTag_def dest!: find_loop_Inl)
  ultimately show "fake_deletable (set ks) tags vols f' \<and> fake_insts f' = fake_insts f \<and> fake_left ks f' \<le> fake_left ks f \<and>
      (case r of Inr i \<Rightarrow> i_ID i \<in> set ks \<and> fake_insts f (i_ID i) = Some i | Inl e \<Rightarrow> errors_Is e ErrNotFound)"
    using f(1) by (cases r) simp_all
next
  fix f k i u f'
  assume "fake_deletable (set ks) tags vols f" "k \<in> set ks" "fake_insts f k = Some i" "\<not> instanceGone i"
    "DeleteInstance fake_client k f = (u, f')"
  then show "u = Inr () \<and> fake_deletable (set ks) tags vols f' \<and> (fake_left ks f' < fake_left ks f \<or> fake_left ks f' \<le> fake_left ks f \<and> False)"
    using fake_delete_advances by simp
next
  fix f k i p f'
  assume "fake_deletable (set ks) tags vols f" "k \<in> set ks" "fake_insts f k = Some i" "PurgeInstanceVolumes fake_client k f = (p, f')"
  then have "p = Inr 0" "f_Instances f' = f_Instances f" "f_nextID f' = f_nextID f"
    "\<And>v vol. map_of (f_Volumes f') v = Some vol \<Longrightarrow> map_of (f_Volumes f) v = Some vol"
    by (auto simp: Fake_PurgeInstanceVolumes_def fake_insts_def map_of_delete_apply split: if_splits)
  with fake_volumes_frame [of "set ks" tags vols f f' ks] \<open>fake_deletable (set ks) tags vols f\<close>
  show "\<exists>n. p = Inr n \<and> fake_deletable (set ks) tags vols f' \<and> fake_left ks f' \<le> fake_left ks f \<and> (0 < n \<longrightarrow> False)"
    by simp
next
  fix f s u f'
  assume "fake_deletable (set ks) tags vols f" "DeleteStartupScriptByName fake_client s f = (u, f')"
  then show "u = Inr () \<and> fake_deletable (set ks) tags vols f' \<and> fake_left ks f' \<le> fake_left ks f"
    using fake_volumes_frame [of "set ks" tags vols f f' ks] by (auto simp: Fake_DeleteStartupScriptByName_def)
next
  fix f s u f'
  assume "fake_deletable (set ks) tags vols f" "DeleteStartupScript fake_client s f = (u, f')"
  then show "u = Inr () \<and> fake_deletable (set ks) tags vols f' \<and> fake_left ks f' \<le> fake_left ks f"
    using fake_volumes_frame [of "set ks" tags vols f f' ks] by (auto simp: Fake_DeleteStartupScript_def)
qed (auto simp: fake_deletable_def Fake_GetInstance_insts Fake_GetVolume_def Fake_DeleteVolume_def
    lookup_or_NotFound_def dest: fake_insts_ID split: option.splits if_splits)

section \<open>The production client\<close>

text \<open>
  What the API promises of a deletion. \<open>ac_ok\<close> are the states of the account in question, \<open>ac_trash\<close>
  the volumes in the trash, \<open>ac_left\<close> and \<open>ac_waiting\<close> as above: how much is left to do, and whether
  the service is busy with a shutdown, a deletion or a volume on its way to the trash.
\<close>

record 'a account =
  ac_ok :: "'a \<Rightarrow> bool"
  ac_view :: "'a \<Rightarrow> string \<rightharpoonup> verda_Instance"
  ac_trash :: "'a \<Rightarrow> string set"
  ac_left :: "'a \<Rightarrow> nat"
  ac_waiting :: "'a \<Rightarrow> bool"

definition calm :: "'a account \<Rightarrow> 'a \<Rightarrow> 'a \<Rightarrow> bool" where
  "calm a w w' = (ac_ok a w' \<and> ac_view a w' = ac_view a w \<and> ac_trash a w' \<subseteq> ac_trash a w \<and>
     ac_left a w' \<le> ac_left a w \<and> (ac_waiting a w \<longrightarrow> ac_waiting a w'))"

lemma calm_trans: "calm a w w' \<Longrightarrow> calm a w' w'' \<Longrightarrow> calm a w w''"
  by (auto simp: calm_def)

lemma calm_refl: "ac_ok a w \<Longrightarrow> calm a w w"
  by (simp add: calm_def)

definition accepted :: "(go_error + 'b) \<Rightarrow> bool" where
  "accepted r = (case r of Inl e \<Rightarrow> isNotFound e | Inr _ \<Rightarrow> True)"

definition account_volume :: "'a account \<Rightarrow> string set \<Rightarrow> 'a \<Rightarrow> string \<Rightarrow> bool" where
  "account_volume a ids w v = (\<exists>k\<in>ids. \<exists>i. ac_view a w k = Some i \<and> instanceGone (toInstance i) \<and> v \<in> set (instanceVolumeIDs i))"

definition prompt_list :: "'a verda_api \<Rightarrow> string set \<Rightarrow> (string \<times> string) set \<Rightarrow> 'a account \<Rightarrow> bool" where
  "prompt_list api ids tags a =
     (\<forall>w. ac_ok a w \<longrightarrow>
       (\<forall>r w'. Instances_Get api '''' w = (r, w') \<longrightarrow> calm a w w' \<and> (\<exists>xs. r = Inr xs \<and> set xs \<subseteq> ran (ac_view a w))) \<and>
       (\<forall>k i. ac_view a w k = Some i \<longrightarrow> vi_ID i = k \<and>
          (\<forall>key val. (key, val) \<in> tags \<longrightarrow> go_get (tag_map (vi_Tags i)) key = val \<longrightarrow> k \<in> ids)))"

definition prompt_instances :: "'a verda_api \<Rightarrow> string set \<Rightarrow> 'a account \<Rightarrow> bool" where
  "prompt_instances api ids a =
     (\<forall>w k. ac_ok a w \<longrightarrow> k \<in> ids \<longrightarrow>
       (\<forall>r w'. Instances_GetByID api k w = (r, w') \<longrightarrow> calm a w w' \<and>
          (case ac_view a w k of Some i \<Rightarrow> r = Inr i | None \<Rightarrow> (\<exists>e. r = Inl e \<and> isNotFound e))) \<and>
       (\<forall>i. ac_view a w k = Some i \<longrightarrow> CHR ''@'' \<notin> set (vi_Status i) \<and>
          go_get (tag_map (vi_Tags i)) TagManagedBy = ManagedByValue \<and> (vi_Status i = StatusDeleting \<longrightarrow> ac_waiting a w) \<and>
          (\<not> instanceGone (toInstance i) \<longrightarrow> vi_Status i \<noteq> StatusDeleting \<longrightarrow>
             (\<forall>r w'. (if vi_Status i = StatusOffline then Instances_Delete api [k] (instanceVolumeIDs i) False w
                      else Instances_Shutdown api k w) = (r, w') \<longrightarrow>
                accepted r \<and> ac_ok a w' \<and> advances (ac_left a) (ac_waiting a) w w'))))"

definition prompt_trash :: "'a verda_api \<Rightarrow> 'a account \<Rightarrow> bool" where
  "prompt_trash api a =
     (\<forall>w r w'. ac_ok a w \<longrightarrow> Volumes_GetVolumesInTrash api w = (r, w') \<longrightarrow>
        calm a w w' \<and> (\<exists>vs. r = Inr vs \<and> vv_ID ` set vs = ac_trash a w))"

definition prompt_volumes :: "'a verda_api \<Rightarrow> string set \<Rightarrow> string set \<Rightarrow> 'a account \<Rightarrow> bool" where
  "prompt_volumes api ids vols a =
     (\<forall>w v r w'. ac_ok a w \<longrightarrow> account_volume a ids w v \<or> v \<in> vols \<longrightarrow>
       (Volumes_GetVolume api v w = (Inl r, w') \<longrightarrow> calm a w w' \<and> isNotFound r) \<and>
       (\<forall>vol. Volumes_GetVolume api v w = (Inr vol, w') \<longrightarrow> calm a w w' \<and>
          (v \<in> vols \<longrightarrow> hasTag (vv_Tags vol) TagManagedBy ManagedByValue) \<and>
          (account_volume a ids w v \<longrightarrow> v \<notin> ac_trash a w \<longrightarrow> vv_Status vol \<noteq> VolumeStatusDeleted \<longrightarrow> ac_waiting a w)) \<and>
       (\<forall>u. Volumes_DeleteVolume api v True w = (u, w') \<longrightarrow> accepted u \<and> calm a w w'))"

definition prompt_scripts :: "'a verda_api \<Rightarrow> 'a account \<Rightarrow> bool" where
  "prompt_scripts api a =
     (\<forall>w w'. ac_ok a w \<longrightarrow>
       (\<forall>r. StartupScripts_GetAllStartupScripts api w = (r, w') \<longrightarrow> calm a w w' \<and> (\<exists>ss. r = Inr ss)) \<and>
       (\<forall>s u. StartupScripts_DeleteStartupScript api s w = (u, w') \<longrightarrow> accepted u \<and> calm a w w'))"

definition prompt_api :: "'a verda_api \<Rightarrow> string set \<Rightarrow> (string \<times> string) set \<Rightarrow> string set \<Rightarrow> 'a account \<Rightarrow> bool" where
  "prompt_api api ids tags vols a =
     (prompt_instances api ids a \<and> prompt_trash api a \<and> prompt_volumes api ids vols a \<and> prompt_scripts api a \<and>
      prompt_list api ids tags a)"

lemma prompt_listD:
  assumes "prompt_api api ids tags vols a" "ac_ok a w"
  shows "Instances_Get api '''' w = (r, w') \<Longrightarrow> calm a w w' \<and> (\<exists>xs. r = Inr xs \<and> set xs \<subseteq> ran (ac_view a w))"
    and "ac_view a w k = Some i \<Longrightarrow> vi_ID i = k"
    and "ac_view a w k = Some i \<Longrightarrow> (key, val) \<in> tags \<Longrightarrow> go_get (tag_map (vi_Tags i)) key = val \<Longrightarrow> k \<in> ids"
  using assms(1) [unfolded prompt_api_def prompt_list_def, THEN conjunct2, THEN conjunct2, THEN conjunct2, THEN conjunct2,
      rule_format, OF assms(2)]
  by blast+

lemma prompt_instancesD:
  assumes "prompt_api api ids tags vols a" "ac_ok a w" "k \<in> ids"
  shows "Instances_GetByID api k w = (r, w') \<Longrightarrow> calm a w w' \<and>
      (case ac_view a w k of Some i \<Rightarrow> r = Inr i | None \<Rightarrow> (\<exists>e. r = Inl e \<and> isNotFound e))"
    and "ac_view a w k = Some i \<Longrightarrow> CHR ''@'' \<notin> set (vi_Status i) \<and>
      go_get (tag_map (vi_Tags i)) TagManagedBy = ManagedByValue \<and> (vi_Status i = StatusDeleting \<longrightarrow> ac_waiting a w)"
    and "ac_view a w k = Some i \<Longrightarrow> \<not> instanceGone (toInstance i) \<Longrightarrow> vi_Status i \<noteq> StatusDeleting \<Longrightarrow>
      (if vi_Status i = StatusOffline then Instances_Delete api [k] (instanceVolumeIDs i) False w
       else Instances_Shutdown api k w) = (u, w') \<Longrightarrow>
      accepted u \<and> ac_ok a w' \<and> advances (ac_left a) (ac_waiting a) w w'"
proof -
  note all = assms(1) [unfolded prompt_api_def prompt_instances_def, THEN conjunct1, rule_format, OF assms(2,3)]
  note view = all [THEN conjunct2, rule_format]
  show "Instances_GetByID api k w = (r, w') \<Longrightarrow> calm a w w' \<and>
      (case ac_view a w k of Some i \<Rightarrow> r = Inr i | None \<Rightarrow> (\<exists>e. r = Inl e \<and> isNotFound e))"
    by (rule all [THEN conjunct1, rule_format])
  show "ac_view a w k = Some i \<Longrightarrow> CHR ''@'' \<notin> set (vi_Status i) \<and>
      go_get (tag_map (vi_Tags i)) TagManagedBy = ManagedByValue \<and> (vi_Status i = StatusDeleting \<longrightarrow> ac_waiting a w)"
    using view by blast
  show "ac_view a w k = Some i \<Longrightarrow> \<not> instanceGone (toInstance i) \<Longrightarrow> vi_Status i \<noteq> StatusDeleting \<Longrightarrow>
      (if vi_Status i = StatusOffline then Instances_Delete api [k] (instanceVolumeIDs i) False w
       else Instances_Shutdown api k w) = (u, w') \<Longrightarrow>
      accepted u \<and> ac_ok a w' \<and> advances (ac_left a) (ac_waiting a) w w'"
    using view by blast
qed

lemma prompt_volumesD:
  assumes "prompt_api api ids tags vols a" "ac_ok a w" "account_volume a ids w v \<or> v \<in> vols"
  shows "Volumes_GetVolume api v w = (Inl e, w') \<Longrightarrow> calm a w w' \<and> isNotFound e"
    and "Volumes_GetVolume api v w = (Inr vol, w') \<Longrightarrow> calm a w w' \<and>
      (v \<in> vols \<longrightarrow> hasTag (vv_Tags vol) TagManagedBy ManagedByValue) \<and>
      (account_volume a ids w v \<longrightarrow> v \<notin> ac_trash a w \<longrightarrow> vv_Status vol \<noteq> VolumeStatusDeleted \<longrightarrow> ac_waiting a w)"
    and "Volumes_DeleteVolume api v True w = (u, w') \<Longrightarrow> accepted u \<and> calm a w w'"
  using assms(1) [unfolded prompt_api_def prompt_volumes_def, THEN conjunct2, THEN conjunct2, THEN conjunct1, rule_format, OF assms(2,3)]
  by blast+

lemma prompt_trashD:
  "prompt_api api ids tags vols a \<Longrightarrow> ac_ok a w \<Longrightarrow> Volumes_GetVolumesInTrash api w = (r, w') \<Longrightarrow>
     calm a w w' \<and> (\<exists>vs. r = Inr vs \<and> vv_ID ` set vs = ac_trash a w)"
  unfolding prompt_api_def prompt_trash_def by blast

lemma prompt_scriptsD:
  assumes "prompt_api api ids tags vols a" "ac_ok a w"
  shows "StartupScripts_GetAllStartupScripts api w = (r, w') \<Longrightarrow> calm a w w' \<and> (\<exists>ss. r = Inr ss)"
    and "StartupScripts_DeleteStartupScript api s w = (u, w') \<Longrightarrow> accepted u \<and> calm a w w'"
  using assms(1) [unfolded prompt_api_def prompt_scripts_def, THEN conjunct2, THEN conjunct2, THEN conjunct2, THEN conjunct1, rule_format, OF assms(2)]
  by blast+

lemma sdk_FindInstanceByTag_prompt:
  assumes "prompt_api api ids tags vols a" "ac_ok a w" "(key, val) \<in> tags" "sdkClient_FindInstanceByTag api key val w = (r, w')"
  shows "calm a w w' \<and> (case r of Inl e \<Rightarrow> errors_Is e ErrNotFound
     | Inr i \<Rightarrow> i_ID i \<in> ids \<and> (\<exists>j. ac_view a w (i_ID i) = Some j \<and> i = toInstance j))"
proof -
  obtain q w1 where q: "Instances_Get api '''' w = (q, w1)" by fastforce
  from prompt_listD(1) [OF assms(1,2) q] obtain xs where xs: "calm a w w1" "q = Inr xs" "set xs \<subseteq> ran (ac_view a w)" by blast
  with q assms(4) have r: "r = find_loop (\<lambda>inst. go_get (i_Tags inst) key = val) None (map toInstance xs)" "w' = w1"
    by (simp_all add: sdkClient_FindInstanceByTag_def)
  show ?thesis
  proof (cases r)
    case (Inl e)
    with find_loop_Inl [OF r(1) [unfolded Inl, symmetric]] r(2) xs(1) show ?thesis by simp
  next
    case (Inr i)
    from find_loop_None_Inr(1,2) [OF r(1) [unfolded Inr, symmetric]] xs(3) obtain j k where
      "i = toInstance j" "ac_view a w k = Some j" "go_get (tag_map (vi_Tags j)) key = val" by (auto simp: ran_def)
    moreover from this prompt_listD(2,3) [OF assms(1,2)] assms(3) have "vi_ID j = k" "k \<in> ids" by blast+
    ultimately show ?thesis using Inr r xs(1) by simp
  qed
qed

lemma sdk_GetInstance_prompt:
  assumes "prompt_api api ids tags vols a" "ac_ok a w" "k \<in> ids" "sdkClient_GetInstance api k w = (r, w')"
  shows "calm a w w' \<and> (case ac_view a w k of Some i \<Rightarrow> r = Inr (toInstance i) | None \<Rightarrow> (\<exists>e. r = Inl e \<and> errors_Is e ErrNotFound))"
proof -
  obtain q w1 where q: "Instances_GetByID api k w = (q, w1)" by fastforce
  from prompt_instancesD(1) [OF assms(1-3) q] assms(4) q show ?thesis
    by (auto simp: sdkClient_GetInstance_def split: option.splits)
qed

lemma sdk_DeleteInstance_prompt:
  assumes "prompt_api api ids tags vols a" "ac_ok a w" "k \<in> ids" "ac_view a w k = Some i"
    and "\<not> instanceGone (toInstance i)" "vi_Status i \<noteq> StatusDeleting" "sdkClient_DeleteInstance api k w = (u, w')"
  shows "u = Inr () \<and> ac_ok a w' \<and> advances (ac_left a) (ac_waiting a) w w'"
proof -
  obtain q w1 where q: "Instances_GetByID api k w = (q, w1)" by fastforce
  from prompt_instancesD(1) [OF assms(1-3) q] assms(4) have q1: "q = Inr i" and c: "calm a w w1" by auto
  from c assms(4) have w1: "ac_ok a w1" "ac_view a w1 k = Some i" by (auto simp: calm_def)
  obtain d w2 where d: "(if vi_Status i = StatusOffline then Instances_Delete api [k] (instanceVolumeIDs i) False w1
       else Instances_Shutdown api k w1) = (d, w2)" by fastforce
  note adv = prompt_instancesD(3) [OF assms(1) w1(1) assms(3) w1(2) assms(5,6) d]
  have "go_get (tag_map (vi_Tags i)) TagManagedBy = ManagedByValue"
    using prompt_instancesD(2) [OF assms(1,2,3,4)] by simp
  moreover have "vi_Status i \<noteq> StatusDiscontinued" "vi_Status i \<noteq> StatusDeleted" using assms(5) by auto
  ultimately have "u = Inr () \<and> w' = w2"
    using assms(6,7) q q1 d adv
    by (cases d) (simp_all add: sdkClient_DeleteInstance_def accepted_def split: if_splits)
  with adv c show ?thesis by (auto simp: calm_def advances_def)
qed

lemma account_volume_calm: "calm a w w' \<Longrightarrow> account_volume a ids w' v = account_volume a ids w v"
  by (simp add: account_volume_def calm_def)

lemma purge_loop_prompt:
  assumes "prompt_api api ids tags vols a" "ac_ok a w" "ac_trash a w \<subseteq> set inTrash"
    and "\<And>v. v \<in> set vs \<Longrightarrow> account_volume a ids w v" "purge_loop api inTrash vs n w = (r, w')"
  shows "\<exists>m. r = Inr m \<and> calm a w w' \<and> (m > n \<longrightarrow> ac_waiting a w')"
  using assms(2-5)
proof (induction vs arbitrary: n w)
  case Nil
  then show ?case by (auto simp: calm_refl)
next
  case (Cons v vs)
  from Cons.prems(3) have v: "account_volume a ids w v \<or> v \<in> vols" "account_volume a ids w v" by simp_all
  obtain u w1 where u: "Volumes_DeleteVolume api v True w = (u, w1)" by fastforce
  obtain q w2 where q: "Volumes_GetVolume api v w = (q, w2)" by fastforce
  note del = prompt_volumesD(3) [OF assms(1) Cons.prems(1) v(1) u]
  have "calm a w w2 \<and> (\<exists>m. purge_loop api inTrash vs m w2 = (r, w') \<and> n \<le> m \<and> (m > n \<longrightarrow> ac_waiting a w2))
      \<or> calm a w w1 \<and> purge_loop api inTrash vs n w1 = (r, w')"
  proof (cases "v \<in> set inTrash")
    case True
    with Cons.prems(4) u del show ?thesis by (cases u) (auto simp: accepted_def)
  next
    case False
    then have "v \<notin> ac_trash a w" using Cons.prems(2) by blast
    show ?thesis
    proof (cases q)
      case (Inl e)
      from prompt_volumesD(1) [OF assms(1) Cons.prems(1) v(1) q [unfolded Inl]] Inl False Cons.prems(4) q
      show ?thesis by auto
    next
      case (Inr vol)
      from prompt_volumesD(2) [OF assms(1) Cons.prems(1) v(1) q [unfolded Inr]] v(2) \<open>v \<notin> ac_trash a w\<close>
      have "calm a w w2" "vv_Status vol \<noteq> VolumeStatusDeleted \<Longrightarrow> ac_waiting a w2" by (auto simp: calm_def)
      with Inr False Cons.prems(4) q show ?thesis by (auto split: if_splits)
    qed
  qed
  then obtain m w0 where m: "calm a w w0" "purge_loop api inTrash vs m w0 = (r, w')" "n \<le> m" "m > n \<longrightarrow> ac_waiting a w0"
    by blast
  have "ac_ok a w0" "ac_trash a w0 \<subseteq> set inTrash" "\<And>x. x \<in> set vs \<Longrightarrow> account_volume a ids w0 x"
    using m(1) Cons.prems(2,3) by (auto simp: calm_def account_volume_calm [OF m(1)])
  from Cons.IH [OF this m(2)] m show ?case by (auto simp: calm_def)
qed

lemma sdk_PurgeInstanceVolumes_prompt:
  assumes "prompt_api api ids tags vols a" "ac_ok a w" "k \<in> ids" "ac_view a w k = Some i"
    and "instanceGone (toInstance i)" "sdkClient_PurgeInstanceVolumes api k w = (p, w')"
  shows "\<exists>n. p = Inr n \<and> calm a w w' \<and> (n > 0 \<longrightarrow> ac_waiting a w')"
proof -
  obtain q w1 where q: "Instances_GetByID api k w = (q, w1)" by fastforce
  from prompt_instancesD(1) [OF assms(1-3) q] assms(4) have q1: "q = Inr i" and c: "calm a w w1" by auto
  then have w1: "ac_ok a w1" "ac_view a w1 k = Some i" using assms(4) by (auto simp: calm_def)
  obtain t w2 where t: "Volumes_GetVolumesInTrash api w1 = (t, w2)" by fastforce
  from prompt_trashD [OF assms(1) w1(1) t] obtain vs where
    vs: "calm a w1 w2" "t = Inr vs" "vv_ID ` set vs = ac_trash a w1" by blast
  have "go_get (tag_map (vi_Tags i)) TagManagedBy = ManagedByValue"
    using prompt_instancesD(2) [OF assms(1,2,3,4)] by simp
  with assms(6) q q1 t vs(2) have loop: "purge_loop api (map vv_ID vs) (instanceVolumeIDs i) 0 w2 = (p, w')"
    by (simp add: sdkClient_PurgeInstanceVolumes_def)
  have "ac_ok a w2" "ac_trash a w2 \<subseteq> set (map vv_ID vs)"
    "\<And>v. v \<in> set (instanceVolumeIDs i) \<Longrightarrow> account_volume a ids w2 v"
    using vs w1 assms(3,5) by (auto simp: calm_def account_volume_def)
  from purge_loop_prompt [OF assms(1) this loop] c vs(1) show ?thesis by (blast intro: calm_trans)
qed

lemma sdk_DeleteStartupScript_prompt:
  assumes "prompt_api api ids tags vols a" "ac_ok a w" "sdkClient_DeleteStartupScript api s w = (u, w')"
  shows "u = Inr () \<and> calm a w w'"
proof -
  obtain q w1 where q: "StartupScripts_DeleteStartupScript api s w = (q, w1)" by fastforce
  from prompt_scriptsD(2) [OF assms(1,2) q] q assms(3) show ?thesis
    by (cases q) (auto simp: sdkClient_DeleteStartupScript_def accepted_def)
qed

lemma delete_scripts_loop_prompt:
  assumes "prompt_api api ids tags vols a" "ac_ok a w" "delete_scripts_loop api name ss w = (u, w')"
  shows "u = Inr () \<and> calm a w w'"
  using assms(2,3)
proof (induction ss arbitrary: w)
  case (Cons s ss)
  obtain q w1 where q: "sdkClient_DeleteStartupScript api (vs_ID s) w = (q, w1)" by fastforce
  note d = sdk_DeleteStartupScript_prompt [OF assms(1) Cons.prems(1) q]
  show ?case
  proof (cases "vs_Name s = name")
    case True
    with Cons.prems(2) q d have "delete_scripts_loop api name ss w1 = (u, w')" by simp
    from Cons.IH [OF _ this] d show ?thesis by (auto simp: calm_def)
  qed (use Cons in simp)
qed (simp add: calm_refl)

lemma sdk_DeleteStartupScriptByName_prompt:
  assumes "prompt_api api ids tags vols a" "ac_ok a w" "sdkClient_DeleteStartupScriptByName api name w = (u, w')"
  shows "u = Inr () \<and> calm a w w'"
proof -
  obtain q w1 where q: "StartupScripts_GetAllStartupScripts api w = (q, w1)" by fastforce
  from prompt_scriptsD(1) [OF assms(1,2) q] obtain ss where c: "calm a w w1" "q = Inr ss" by blast
  with q assms(3) have "delete_scripts_loop api name ss w1 = (u, w')"
    by (simp add: sdkClient_DeleteStartupScriptByName_def)
  from delete_scripts_loop_prompt [OF assms(1) _ this] c(1) show ?thesis by (auto simp: calm_def)
qed

lemma sdk_volume_prompt:
  assumes "prompt_api api ids tags vols a" "ac_ok a w" "v \<in> vols"
  shows "sdkClient_GetVolume api v w = (q, w') \<Longrightarrow> ac_ok a w' \<and> (\<forall>e. q = Inl e \<longrightarrow> errors_Is e ErrNotFound)"
    and "sdkClient_DeleteVolume api v w = (u, w') \<Longrightarrow> u = Inr ()"
proof -
  obtain p w1 where p: "Volumes_GetVolume api v w = (p, w1)" by fastforce
  from assms(3) have v: "account_volume a ids w' v \<or> v \<in> vols" for w' by simp
  obtain d w2 where d: "Volumes_DeleteVolume api v True w1 = (d, w2)" by fastforce
  have both: "(sdkClient_GetVolume api v w = (q, w') \<longrightarrow> ac_ok a w' \<and> (\<forall>e. q = Inl e \<longrightarrow> errors_Is e ErrNotFound)) \<and>
    (sdkClient_DeleteVolume api v w = (u, w') \<longrightarrow> u = Inr ())"
  proof (cases p)
    case (Inl e)
    from prompt_volumesD(1) [OF assms(1,2) v p [unfolded Inl]] p Inl show ?thesis
      by (auto simp: sdkClient_GetVolume_def sdkClient_DeleteVolume_def calm_def)
  next
    case (Inr vol)
    from prompt_volumesD(2) [OF assms(1,2) v p [unfolded Inr]] assms(3)
    have w1: "ac_ok a w1" "hasTag (vv_Tags vol) TagManagedBy ManagedByValue" by (simp_all add: calm_def)
    from prompt_volumesD(3) [OF assms(1) w1(1) v d] p d Inr w1 show ?thesis
      by (cases d) (auto simp: sdkClient_GetVolume_def sdkClient_DeleteVolume_def accepted_def)
  qed
  from both show "sdkClient_GetVolume api v w = (q, w') \<Longrightarrow> ac_ok a w' \<and> (\<forall>e. q = Inl e \<longrightarrow> errors_Is e ErrNotFound)"
    "sdkClient_DeleteVolume api v w = (u, w') \<Longrightarrow> u = Inr ()" by simp_all
qed

lemma sdkClient_deletion_service:
  assumes "prompt_api api ids tags vols a"
  shows "deletion_service (sdkClient api) ids tags vols (ac_ok a) (\<lambda>w k. map_option toInstance (ac_view a w k)) (ac_left a) (ac_waiting a)"
proof
  fix w k r w' assume w: "ac_ok a w" "k \<in> ids" "GetInstance (sdkClient api) k w = (r, w')"
  from w(3) have "sdkClient_GetInstance api k w = (r, w')" by simp
  from sdk_GetInstance_prompt [OF assms w(1,2) this]
  show "ac_ok a w' \<and> (\<lambda>k. map_option toInstance (ac_view a w' k)) = (\<lambda>k. map_option toInstance (ac_view a w k)) \<and>
      ac_left a w' \<le> ac_left a w \<and>
      (case map_option toInstance (ac_view a w k) of Some i \<Rightarrow> r = Inr i | None \<Rightarrow> (\<exists>e. r = Inl e \<and> errors_Is e ErrNotFound))"
    by (cases "ac_view a w k") (simp_all add: calm_def)
next
  fix w key val r w' assume w: "ac_ok a w" "(key, val) \<in> tags" "FindInstanceByTag (sdkClient api) key val w = (r, w')"
  from w(3) have "sdkClient_FindInstanceByTag api key val w = (r, w')" by simp
  from sdk_FindInstanceByTag_prompt [OF assms w(1,2) this]
  show "ac_ok a w' \<and> (\<lambda>k. map_option toInstance (ac_view a w' k)) = (\<lambda>k. map_option toInstance (ac_view a w k)) \<and>
      ac_left a w' \<le> ac_left a w \<and>
      (case r of Inr i \<Rightarrow> i_ID i \<in> ids \<and> map_option toInstance (ac_view a w (i_ID i)) = Some i | Inl e \<Rightarrow> errors_Is e ErrNotFound)"
    by (cases r) (auto simp: calm_def)
next
  fix w k i u w' assume w: "ac_ok a w" "k \<in> ids" "DeleteInstance (sdkClient api) k w = (u, w')"
    and "map_option toInstance (ac_view a w k) = Some i" "\<not> instanceGone i" "i_Status i \<noteq> StatusDeleting"
  then obtain j where j: "ac_view a w k = Some j" "\<not> instanceGone (toInstance j)" "vi_Status j \<noteq> StatusDeleting" by auto
  from w(3) have "sdkClient_DeleteInstance api k w = (u, w')" by simp
  from sdk_DeleteInstance_prompt [OF assms w(1,2) j this]
  show "u = Inr () \<and> ac_ok a w' \<and> (ac_left a w' < ac_left a w \<or> ac_left a w' \<le> ac_left a w \<and> ac_waiting a w')"
    by (simp add: advances_def)
next
  fix w k i p w' assume w: "ac_ok a w" "k \<in> ids" "PurgeInstanceVolumes (sdkClient api) k w = (p, w')"
    and "map_option toInstance (ac_view a w k) = Some i" "instanceGone i"
  then obtain j where j: "ac_view a w k = Some j" "instanceGone (toInstance j)" by auto
  from w(3) have "sdkClient_PurgeInstanceVolumes api k w = (p, w')" by simp
  from sdk_PurgeInstanceVolumes_prompt [OF assms w(1,2) j this]
  show "\<exists>n. p = Inr n \<and> ac_ok a w' \<and> ac_left a w' \<le> ac_left a w \<and> (0 < n \<longrightarrow> ac_waiting a w')"
    by (auto simp: calm_def)
next
  fix w s u w' assume w: "ac_ok a w" "DeleteStartupScript (sdkClient api) s w = (u, w')"
  from w(2) have "sdkClient_DeleteStartupScript api s w = (u, w')" by simp
  from sdk_DeleteStartupScript_prompt [OF assms w(1) this] show "u = Inr () \<and> ac_ok a w' \<and> ac_left a w' \<le> ac_left a w"
    by (simp add: calm_def)
next
  fix w s u w' assume w: "ac_ok a w" "DeleteStartupScriptByName (sdkClient api) s w = (u, w')"
  from w(2) have "sdkClient_DeleteStartupScriptByName api s w = (u, w')" by simp
  from sdk_DeleteStartupScriptByName_prompt [OF assms w(1) this] show "u = Inr () \<and> ac_ok a w' \<and> ac_left a w' \<le> ac_left a w"
    by (simp add: calm_def)
next
  fix w v q w' assume w: "ac_ok a w" "v \<in> vols" "GetVolume (sdkClient api) v w = (q, w')"
  from w(3) have "sdkClient_GetVolume api v w = (q, w')" by simp
  from sdk_volume_prompt(1) [OF assms w(1,2) this] show "ac_ok a w' \<and> (\<forall>e. q = Inl e \<longrightarrow> errors_Is e ErrNotFound)" .
next
  fix w v u w' assume w: "ac_ok a w" "v \<in> vols" "DeleteVolume (sdkClient api) v w = (u, w')"
  from w(3) have "sdkClient_DeleteVolume api v w = (u, w')" by simp
  from sdk_volume_prompt(2) [OF assms w(1,2) this] show "u = Inr ()" .
qed (use prompt_instancesD(2) [OF assms] prompt_listD(2) [OF assms] in auto)

end
