(* ===== verification/ClusterController.thy ===== *)
theory ClusterController
  imports ControllerCommon CloudTypes LoadBalancerConfig
begin

text \<open>
  The cluster reconciler: \<^verbatim>\<open>verdacluster_controller.go\<close> and \<^verbatim>\<open>verdacluster_servicelb.go\<close>. The
  state \<open>'w\<close> of the world holds the cloud account, the secrets of the management cluster, the
  load balancer instances and the workload cluster; the record \<open>cluster_env\<close> has the calls of the
  Kubernetes clients, the Cluster API helpers, the client factory and the updater.
\<close>

section \<open>Environment\<close>

abbreviation verdaClusterKind :: string where "verdaClusterKind \<equiv> ''VerdaCluster''"

text \<open>A Kubernetes secret; of its controller reference the kind and the name.\<close>

record Secret =
  sec_Name :: string
  sec_Namespace :: string
  sec_Labels :: gomap
  sec_Owner :: "(string \<times> string) option"
  sec_Type :: string
  sec_Data :: gomap

text \<open>A client of the workload cluster, used for one secret.\<close>

record 'w workload =
  wl_Get :: "string \<Rightarrow> string \<Rightarrow> ('w, Secret) call"
  wl_Create :: "Secret \<Rightarrow> ('w, unit) call"
  wl_Update :: "Secret \<Rightarrow> ('w, unit) call"
  wl_Delete :: "string \<Rightarrow> string \<Rightarrow> ('w, unit) call"

record 'w cluster_env =
  ce_lib :: klib
  ce_now :: nat
  ce_GetVerdaCluster :: "go_error + VerdaCluster"
  ce_EnsureFinalizer :: "VerdaCluster \<Rightarrow> go_error + bool"
  ce_GetOwnerCluster :: "ObjectMeta \<Rightarrow> go_error + Cluster option"
  ce_EnsurePausedCondition :: "Cluster \<Rightarrow> VerdaCluster \<Rightarrow> (go_error + bool \<times> bool) \<times> VerdaCluster"
  ce_NewHelper :: "VerdaCluster \<Rightarrow> go_error + unit"
  ce_Patch :: "VerdaCluster \<Rightarrow> go_error option"
  ce_ClientFor :: "Identity \<Rightarrow> go_error + 'w cloud_client"
  ce_LoadBalancer :: "'w updater"
  ce_GetSecret :: "string \<Rightarrow> string \<Rightarrow> ('w, Secret) call"
  ce_CreateSecret :: "Secret \<Rightarrow> ('w, unit) call"
  ce_generateKeyPair :: "string \<Rightarrow> ('w, string \<times> string) call"
  ce_ListVerdaMachines :: "string \<Rightarrow> string \<Rightarrow> go_error + VerdaMachine list"
  ce_GetOwnerMachine :: "ObjectMeta \<Rightarrow> go_error + Machine option"
  ce_IsControlPlaneMachine :: "Machine \<Rightarrow> bool"
  ce_GetCluster :: "string \<Rightarrow> string \<Rightarrow> go_error + Cluster"
  ce_kubeconfig :: "string \<Rightarrow> string \<Rightarrow> ('w, string) call"
  ce_WorkloadClient :: "(string \<Rightarrow> go_error + 'w workload) option"
  ce_RESTConfigFromKubeConfig :: "string \<Rightarrow> go_error + string"
  ce_client_New :: "string \<Rightarrow> int \<Rightarrow> go_error + 'w workload"

abbreviation vc_Name :: "VerdaCluster \<Rightarrow> string" where "vc_Name vc \<equiv> om_Name (vc_Meta vc)"
abbreviation vc_Namespace :: "VerdaCluster \<Rightarrow> string" where "vc_Namespace vc \<equiv> om_Namespace (vc_Meta vc)"
abbreviation cl_Name :: "Cluster \<Rightarrow> string" where "cl_Name cl \<equiv> om_Name (cl_Meta cl)"
abbreviation cl_Namespace :: "Cluster \<Rightarrow> string" where "cl_Namespace cl \<equiv> om_Namespace (cl_Meta cl)"

abbreviation upd_cstatus :: "(VerdaClusterStatus \<Rightarrow> VerdaClusterStatus) \<Rightarrow> VerdaCluster \<Rightarrow> VerdaCluster" where
  "upd_cstatus f vc \<equiv> vc\<lparr>vc_Status := f (vc_Status vc)\<rparr>"

abbreviation upd_lb :: "(LoadBalancerStatus \<Rightarrow> LoadBalancerStatus) \<Rightarrow> VerdaCluster \<Rightarrow> VerdaCluster" where
  "upd_lb f vc \<equiv> upd_cstatus (\<lambda>s. s\<lparr>cst_LoadBalancer := f (cst_LoadBalancer s)\<rparr>) vc"

abbreviation upd_slb :: "(LoadBalancerStatus \<Rightarrow> LoadBalancerStatus) \<Rightarrow> VerdaCluster \<Rightarrow> VerdaCluster" where
  "upd_slb f vc \<equiv> upd_cstatus (\<lambda>s. s\<lparr>cst_ServiceLoadBalancer := f (cst_ServiceLoadBalancer s)\<rparr>) vc"

abbreviation lb_status :: "VerdaCluster \<Rightarrow> LoadBalancerStatus" where
  "lb_status vc \<equiv> cst_LoadBalancer (vc_Status vc)"

abbreviation slb_status :: "VerdaCluster \<Rightarrow> LoadBalancerStatus" where
  "slb_status vc \<equiv> cst_ServiceLoadBalancer (vc_Status vc)"

definition lbPollInterval :: int where "lbPollInterval = 15 * time_Second"
definition lbResyncInterval :: int where "lbResyncInterval = 5 * time_Minute"

section \<open>Names and conditions\<close>

definition clusterTagValue :: "VerdaCluster \<Rightarrow> string" where
  "clusterTagValue vc = truncateTag (vc_Namespace vc @ ''/'' @ vc_Name vc)"

definition loadBalancerHostname :: "VerdaCluster \<Rightarrow> string" where
  "loadBalancerHostname vc = vc_Name vc @ ''-lb''"

definition loadBalancerSecretName :: "VerdaCluster \<Rightarrow> string" where
  "loadBalancerSecretName vc = vc_Name vc @ ''-lb-ssh''"

definition serviceLoadBalancerHostname :: "VerdaCluster \<Rightarrow> string" where
  "serviceLoadBalancerHostname vc = vc_Name vc @ ''-service-lb''"

definition serviceLoadBalancerSecretName :: "VerdaCluster \<Rightarrow> string" where
  "serviceLoadBalancerSecretName vc = vc_Name vc @ ''-service-lb-ssh''"

definition orDefault :: "string \<Rightarrow> string \<Rightarrow> string" where
  "orDefault v def = (if v = '''' then def else v)"

definition set_ccondition :: "klib \<Rightarrow> VerdaCluster \<Rightarrow> Condition \<Rightarrow> VerdaCluster" where
  "set_ccondition K vc c = upd_cstatus (\<lambda>s. s\<lparr>cst_Conditions := conditions_Set K (cst_Conditions s) c\<rparr>) vc"

definition delete_ccondition :: "klib \<Rightarrow> VerdaCluster \<Rightarrow> string \<Rightarrow> VerdaCluster" where
  "delete_ccondition K vc t = upd_cstatus (\<lambda>s. s\<lparr>cst_Conditions := conditions_Delete K (cst_Conditions s) t\<rparr>) vc"

definition set_ctrue :: "klib \<Rightarrow> VerdaCluster \<Rightarrow> string \<Rightarrow> VerdaCluster" where
  "set_ctrue K vc t = set_ccondition K vc
     \<lparr>cond_Type = t, cond_Status = ConditionTrue, cond_Reason = ReadyReason K, cond_Message = Text ''''\<rparr>"

definition setEndpointReady :: "klib \<Rightarrow> VerdaCluster \<Rightarrow> VerdaCluster" where
  "setEndpointReady K vc = set_ctrue K vc ControlPlaneEndpointReadyCondition"

definition setLBNotReady :: "klib \<Rightarrow> VerdaCluster \<Rightarrow> string \<Rightarrow> message \<Rightarrow> VerdaCluster" where
  "setLBNotReady K vc reason message =
     (let vc = set_ccondition K vc
        \<lparr>cond_Type = LoadBalancerReadyCondition, cond_Status = ConditionFalse, cond_Reason = reason, cond_Message = message\<rparr>
      in if reason = ''InstanceProvisioning'' \<or> reason = ''InstanceCreateFailed'' \<or> reason = ''InstanceFailed''
         then set_ccondition K vc
           \<lparr>cond_Type = ControlPlaneEndpointReadyCondition, cond_Status = ConditionFalse,
            cond_Reason = ''WaitingForLoadBalancer'', cond_Message = message\<rparr>
         else vc)"

definition setServiceLBNotReady :: "klib \<Rightarrow> VerdaCluster \<Rightarrow> string \<Rightarrow> message \<Rightarrow> VerdaCluster" where
  "setServiceLBNotReady K vc reason message = set_ccondition K vc
     \<lparr>cond_Type = ServiceLoadBalancerReadyCondition, cond_Status = ConditionFalse, cond_Reason = reason, cond_Message = message\<rparr>"

definition setFailureDomains :: "VerdaCluster \<Rightarrow> VerdaCluster" where
  "setFailureDomains vc = upd_cstatus (\<lambda>s. s\<lparr>cst_FailureDomains := [(cs_Location (vc_Spec vc), Some True)]\<rparr>) vc"

section \<open>SSH keys of a load balancer\<close>

definition keysFromSecret :: "Secret \<Rightarrow> go_error + Keys" where
  "keysFromSecret secret =
     (let keys = \<lparr>ky_ClientPrivateKey = go_get (sec_Data secret) ''ssh-privatekey'',
                  ky_ClientPublicKey = go_get (sec_Data secret) ''ssh-publickey'',
                  ky_HostPrivateKey = go_get (sec_Data secret) ''host-privatekey'',
                  ky_HostPublicKey = go_get (sec_Data secret) ''host-publickey''\<rparr>
      in if ky_ClientPrivateKey keys = '''' \<or> ky_ClientPublicKey keys = '''' \<or> ky_HostPrivateKey keys = '''' \<or>
            ky_HostPublicKey keys = ''''
         then Inl (Errorf ''load balancer secret %s/%s is missing keys'' [sec_Namespace secret, sec_Name secret])
         else Inr keys)"

definition key_secret :: "Cluster \<Rightarrow> VerdaCluster \<Rightarrow> string \<Rightarrow> Keys \<Rightarrow> Secret" where
  "key_secret cluster vc name keys =
     \<lparr>sec_Name = name, sec_Namespace = vc_Namespace vc,
      sec_Labels = [(''cluster.x-k8s.io/cluster-name'', cl_Name cluster)], sec_Owner = Some (verdaClusterKind, vc_Name vc),
      sec_Type = ''kubernetes.io/ssh-auth'',
      sec_Data = [(''ssh-privatekey'', ky_ClientPrivateKey keys), (''ssh-publickey'', ky_ClientPublicKey keys),
                  (''host-privatekey'', ky_HostPrivateKey keys), (''host-publickey'', ky_HostPublicKey keys)]\<rparr>"

definition ensureKeys :: "'w cluster_env \<Rightarrow> Cluster \<Rightarrow> VerdaCluster \<Rightarrow> string \<Rightarrow> ('w, Keys) call" where
  "ensureKeys env cluster vc name w =
     (case ce_GetSecret env (vc_Namespace vc) name w of
        (Inr secret, w) \<Rightarrow> (keysFromSecret secret, w)
      | (Inl err, w) \<Rightarrow>
          if \<not> apierrors_IsNotFound err
          then (Inl (Wrapf ''getting load balancer secret %s: %w'' [vc_Namespace vc @ ''/'' @ name] err), w)
          else
            (case GenerateKeys (ce_generateKeyPair env) w of
               (Inl err, w) \<Rightarrow> (Inl err, w)
             | (Inr keys, w) \<Rightarrow>
                 (case ce_CreateSecret env (key_secret cluster vc name keys) w of
                    (Inl err, w) \<Rightarrow>
                      if apierrors_IsAlreadyExists err then
                        (case ce_GetSecret env (vc_Namespace vc) name w of
                           (Inl err, w) \<Rightarrow> (Inl err, w)
                         | (Inr secret, w) \<Rightarrow> (keysFromSecret secret, w))
                      else (Inl (Wrapf ''creating load balancer secret %s: %w'' [vc_Namespace vc @ ''/'' @ name] err), w)
                  | (Inr _, w) \<Rightarrow> (Inr keys, w))))"

section \<open>Control plane addresses\<close>

definition isControlPlane :: "'w cluster_env \<Rightarrow> VerdaMachine \<Rightarrow> go_error + bool" where
  "isControlPlane env vm =
     (if ''cluster.x-k8s.io/control-plane'' \<in> set (map fst (om_Labels (vm_Meta vm))) then Inr True
      else case ce_GetOwnerMachine env (vm_Meta vm) of
        Inl err \<Rightarrow> Inl err
      | Inr machine \<Rightarrow> Inr (case machine of None \<Rightarrow> False | Some m \<Rightarrow> ce_IsControlPlaneMachine env m))"

text \<open>The first external address of a machine that has one.\<close>

definition external_address :: "VerdaMachine \<Rightarrow> string list" where
  "external_address vm =
     take 1 (map snd (filter (\<lambda>(t, a). t = MachineExternalIP \<and> a \<noteq> '''') (mst_Addresses (vm_Status vm))))"

fun addresses_loop :: "'w cluster_env \<Rightarrow> VerdaMachine list \<Rightarrow> string list \<Rightarrow> go_error + string list" where
  "addresses_loop env [] addresses = Inr addresses"
| "addresses_loop env (vm # vms) addresses =
     (if om_DeletionTimestamp (vm_Meta vm) \<noteq> None then addresses_loop env vms addresses
      else case isControlPlane env vm of
        Inl err \<Rightarrow> Inl err
      | Inr cp \<Rightarrow>
          if \<not> cp then addresses_loop env vms addresses
          else addresses_loop env vms (addresses @ external_address vm))"

definition controlPlaneAddresses :: "'w cluster_env \<Rightarrow> Cluster \<Rightarrow> go_error + string list" where
  "controlPlaneAddresses env cluster =
     (case ce_ListVerdaMachines env (cl_Namespace cluster) (cl_Name cluster) of
        Inl err \<Rightarrow> Inl (Wrapf ''listing VerdaMachines: %w'' [] err)
      | Inr items \<Rightarrow>
          (case addresses_loop env items [] of
             Inl err \<Rightarrow> Inl err
           | Inr addresses \<Rightarrow> Inr (sort addresses)))"

section \<open>Control plane load balancer\<close>

text \<open>The lookup by recorded id that both load balancers share.\<close>

definition by_status :: "'w cloud_client \<Rightarrow> string \<Rightarrow> ('w, Instance option) call" where
  "by_status c ident w =
     (case GetInstance c ident w of
        (Inr inst, w) \<Rightarrow> (Inr (Some inst), w)
      | (Inl err, w) \<Rightarrow>
          if \<not> errors_Is err ErrNotFound then (Inl err, w)
          else (Inr (Some (bare_Instance ident StatusNotFound)), w))"

definition findLoadBalancer :: "'w cloud_client \<Rightarrow> VerdaCluster \<Rightarrow> ('w, Instance option) call" where
  "findLoadBalancer c vc w =
     (if ls_InstanceID (lb_status vc) \<noteq> '''' then by_status c (ls_InstanceID (lb_status vc)) w
      else case FindInstanceByTag c TagLoadBalancer (clusterTagValue vc) w of
        (Inl err, w) \<Rightarrow> if errors_Is err ErrNotFound then (Inr None, w) else (Inl err, w)
      | (Inr inst, w) \<Rightarrow> (Inr (Some inst), w))"

definition lb_spec :: "Cluster \<Rightarrow> VerdaCluster \<Rightarrow> Keys \<Rightarrow> InstanceSpec" where
  "lb_spec cluster vc keys =
     (let lb = cs_ControlPlaneLoadBalancer (vc_Spec vc) in
      \<lparr>is_Hostname = loadBalancerHostname vc,
       is_Description = Sprintf ''Cluster API control plane load balancer for cluster %s/%s'' [cl_Namespace cluster, cl_Name cluster],
       is_InstanceType = (if lb_InstanceType lb = '''' then DefaultLoadBalancerInstanceType else lb_InstanceType lb),
       is_Image = (if lb_Image lb = '''' then DefaultLoadBalancerImage else lb_Image lb),
       is_Location = cs_Location (vc_Spec vc),
       is_SSHKeyIDs = elems (lb_SSHKeyIDs lb),
       is_OSVolumeSizeGB = 0, is_Contract = '''', is_Spot = False, is_SpotDiscontinuePolicy = '''', is_DataVolumes = [],
       is_StartupScript = StartupScript keys [],
       is_Tags = [(TagManagedBy, ManagedByValue), (TagCluster, cl_Namespace cluster @ ''/'' @ cl_Name cluster),
                  (TagLoadBalancer, clusterTagValue vc), (TagRole, ''load-balancer'')]\<rparr>)"

definition createLoadBalancer :: "'w cloud_client \<Rightarrow> Cluster \<Rightarrow> VerdaCluster \<Rightarrow> Keys \<Rightarrow> ('w, Instance) call" where
  "createLoadBalancer c cluster vc keys = CreateInstance c (lb_spec cluster vc keys)"

definition record_lb :: "Instance \<Rightarrow> LoadBalancerStatus \<Rightarrow> LoadBalancerStatus" where
  "record_lb inst st =
     (let st = st\<lparr>ls_InstanceID := i_ID inst\<rparr> in
      if i_StartupScriptID inst \<noteq> '''' then st\<lparr>ls_StartupScriptID := i_StartupScriptID inst\<rparr> else st)"

text \<open>The case distinction both load balancers make on their instance.\<close>

datatype lb_state = LB_up | LB_failed | LB_provisioning

definition lb_state_of :: "Instance \<Rightarrow> lb_state" where
  "lb_state_of inst =
     (if i_Status inst = StatusRunning \<and> i_IP inst \<noteq> '''' then LB_up
      else if instanceGone inst \<or> i_Status inst = StatusError' \<or> i_Status inst = StatusNoCapacity then LB_failed
      else LB_provisioning)"

text \<open>\<^verbatim>\<open>reconcileLoadBalancer\<close> once the instance runs: publish the endpoint, then the backends.\<close>

definition push_backends :: "'w cluster_env \<Rightarrow> Cluster \<Rightarrow> VerdaCluster \<Rightarrow> Keys \<Rightarrow> Instance \<Rightarrow> 'w \<Rightarrow>
    (go_error + Result) \<times> VerdaCluster \<times> 'w" where
  "push_backends env cluster vc keys inst w =
     (let K = ce_lib env;
          vc = upd_lb (\<lambda>s. s\<lparr>ls_Address := i_IP inst\<rparr>) vc;
          vc = vc\<lparr>vc_Spec := (vc_Spec vc)\<lparr>cs_ControlPlaneEndpoint := \<lparr>ep_Host = i_IP inst, ep_Port = lb_Port\<rparr>\<rparr>\<rparr>;
          vc = setFailureDomains (setEndpointReady K vc);
          ready = (\<lambda>vc. upd_cstatus (\<lambda>s. s\<lparr>cst_Provisioned := Some True\<rparr>) (set_ctrue K vc LoadBalancerReadyCondition))
      in case controlPlaneAddresses env cluster of
           Inl err \<Rightarrow> (Inl err, vc, w)
         | Inr backends \<Rightarrow>
             if backends = ls_Backends (lb_status vc) then (Inr (requeue_after lbResyncInterval), ready vc, w)
             else case UpdateBackends (ce_LoadBalancer env) (i_IP inst) keys backends w of
               (Inl err, w) \<Rightarrow>
                 (Inr (requeue_after lbPollInterval),
                  upd_cstatus (\<lambda>s. s\<lparr>cst_Provisioned := Some True\<rparr>)
                    (setLBNotReady K vc ''BackendUpdateFailed'' (ErrorText err)), w)
             | (Inr _, w) \<Rightarrow>
                 (Inr (requeue_after lbResyncInterval), ready (upd_lb (\<lambda>s. s\<lparr>ls_Backends := backends\<rparr>) vc), w))"

definition use_lb :: "'w cluster_env \<Rightarrow> Cluster \<Rightarrow> VerdaCluster \<Rightarrow> Keys \<Rightarrow> Instance \<Rightarrow> 'w \<Rightarrow>
    (go_error + Result) \<times> VerdaCluster \<times> 'w" where
  "use_lb env cluster vc keys inst w =
     (let K = ce_lib env; vc = upd_lb (record_lb inst) vc;
          state = Sprintf ''load balancer instance %s is in state %q'' [i_ID inst, i_Status inst]
      in case lb_state_of inst of
           LB_up \<Rightarrow> push_backends env cluster vc keys inst w
         | LB_failed \<Rightarrow> (Inr no_requeue, setLBNotReady K vc ''InstanceFailed'' state, w)
         | LB_provisioning \<Rightarrow>
             (Inr (requeue_after lbPollInterval), setLBNotReady K vc ''InstanceProvisioning'' state, w))"

definition reconcileLoadBalancer :: "'w cluster_env \<Rightarrow> 'w cloud_client \<Rightarrow> Cluster \<Rightarrow> VerdaCluster \<Rightarrow> 'w \<Rightarrow>
    (go_error + Result) \<times> VerdaCluster \<times> 'w" where
  "reconcileLoadBalancer env c cluster vc w =
     (case ensureKeys env cluster vc (loadBalancerSecretName vc) w of
        (Inl err, w) \<Rightarrow> (Inl err, vc, w)
      | (Inr keys, w) \<Rightarrow>
          (case findLoadBalancer c vc w of
             (Inl err, w) \<Rightarrow> (Inl err, vc, w)
           | (Inr (Some inst), w) \<Rightarrow> use_lb env cluster vc keys inst w
           | (Inr None, w) \<Rightarrow>
               (case createLoadBalancer c cluster vc keys w of
                  (Inl err, w) \<Rightarrow> (Inl err, setLBNotReady (ce_lib env) vc ''InstanceCreateFailed'' (ErrorText err), w)
                | (Inr inst, w) \<Rightarrow> use_lb env cluster vc keys inst w)))"

definition reconcileEndpoint :: "'w cluster_env \<Rightarrow> 'w cloud_client \<Rightarrow> Cluster \<Rightarrow> VerdaCluster \<Rightarrow> 'w \<Rightarrow>
    (go_error + Result) \<times> VerdaCluster \<times> 'w" where
  "reconcileEndpoint env c cluster vc w =
     (if LoadBalancerEnabled vc then reconcileLoadBalancer env c cluster vc w
      else
        let K = ce_lib env;
            vc = delete_ccondition K vc LoadBalancerReadyCondition;
            endpoint = cs_ControlPlaneEndpoint (vc_Spec vc);
            endpoint = (if ep_Host endpoint = '''' then cl_ControlPlaneEndpoint cluster else endpoint)
        in if ep_Host endpoint = '''' then
             (Inr no_requeue,
              set_ccondition K vc \<lparr>cond_Type = ControlPlaneEndpointReadyCondition, cond_Status = ConditionFalse,
                cond_Reason = ''EndpointNotSet'',
                cond_Message = Text ''spec.controlPlaneEndpoint must be set or spec.controlPlaneLoadBalancer.enabled must be true''\<rparr>, w)
           else
             let endpoint = (if ep_Port endpoint = 0 then endpoint\<lparr>ep_Port := lb_Port\<rparr> else endpoint);
                 vc = vc\<lparr>vc_Spec := (vc_Spec vc)\<lparr>cs_ControlPlaneEndpoint := endpoint\<rparr>\<rparr>;
                 vc = setFailureDomains (setEndpointReady K vc)
             in (Inr no_requeue, upd_cstatus (\<lambda>s. s\<lparr>cst_Provisioned := Some True\<rparr>) vc, w))"

section \<open>Service load balancer\<close>

definition DefaultWorkloadClient :: "'w cluster_env \<Rightarrow> string \<Rightarrow> go_error + 'w workload" where
  "DefaultWorkloadClient env kubeconfigBytes =
     (case ce_RESTConfigFromKubeConfig env kubeconfigBytes of
        Inl err \<Rightarrow> Inl err
      | Inr restConfig \<Rightarrow> ce_client_New env restConfig lbPollInterval)"

definition workloadClient :: "'w cluster_env \<Rightarrow> string \<Rightarrow> go_error + 'w workload" where
  "workloadClient env kubeconfigBytes =
     (case ce_WorkloadClient env of
        Some f \<Rightarrow> f kubeconfigBytes
      | None \<Rightarrow> DefaultWorkloadClient env kubeconfigBytes)"

definition desired_secret :: "Cluster \<Rightarrow> string \<Rightarrow> Keys \<Rightarrow> Secret" where
  "desired_secret cluster address keys =
     \<lparr>sec_Name = ServiceLoadBalancerSecretName, sec_Namespace = ''kube-system'', sec_Labels = [], sec_Owner = None,
      sec_Type = '''',
      sec_Data = [(''address'', address), (''ssh-privatekey'', ky_ClientPrivateKey keys),
                  (''host-publickey'', ky_HostPublicKey keys),
                  (''instance-cluster'', cl_Namespace cluster @ ''/'' @ cl_Name cluster)]\<rparr>"

definition publishServiceLoadBalancerSecret :: "'w cluster_env \<Rightarrow> Cluster \<Rightarrow> string \<Rightarrow> Keys \<Rightarrow> ('w, unit) call" where
  "publishServiceLoadBalancerSecret env cluster address keys w =
     (case ce_kubeconfig env (cl_Namespace cluster) (cl_Name cluster) w of
        (Inl err, w) \<Rightarrow> (Inl (Wrapf ''workload cluster kubeconfig not available: %w'' [] err), w)
      | (Inr kubeconfigBytes, w) \<Rightarrow>
          (case workloadClient env kubeconfigBytes of
             Inl err \<Rightarrow> (Inl (Wrapf ''building workload cluster client: %w'' [] err), w)
           | Inr wl \<Rightarrow>
               let desired = desired_secret cluster address keys in
               (case wl_Get wl (sec_Namespace desired) (sec_Name desired) w of
                  (Inl err, w) \<Rightarrow>
                    if apierrors_IsNotFound err then wl_Create wl desired w
                    else (Inl (Wrapf ''reading %s in the workload cluster: %w''
                                 [sec_Namespace desired @ ''/'' @ sec_Name desired] err), w)
                | (Inr existing, w) \<Rightarrow>
                    if go_get (sec_Data existing) ''address'' = address \<and>
                       go_get (sec_Data existing) ''ssh-privatekey'' = ky_ClientPrivateKey keys
                    then (Inr (), w)
                    else wl_Update wl (existing\<lparr>sec_Data := sec_Data desired\<rparr>) w)))"

definition removeServiceLoadBalancerSecret :: "'w cluster_env \<Rightarrow> Cluster \<Rightarrow> 'w \<Rightarrow> 'w" where
  "removeServiceLoadBalancerSecret env cluster w =
     (case ce_kubeconfig env (cl_Namespace cluster) (cl_Name cluster) w of
        (Inl _, w) \<Rightarrow> w
      | (Inr kubeconfigBytes, w) \<Rightarrow>
          (case workloadClient env kubeconfigBytes of
             Inl _ \<Rightarrow> w
           | Inr wl \<Rightarrow> snd (wl_Delete wl ''kube-system'' ServiceLoadBalancerSecretName w)))"

definition findInstanceByStatusOrTag :: "'w cloud_client \<Rightarrow> string \<Rightarrow> string \<Rightarrow> string \<Rightarrow> ('w, Instance option) call" where
  "findInstanceByStatusOrTag c ident tagKey tagValue w =
     (if ident \<noteq> '''' then by_status c ident w
      else case FindInstanceByTag c tagKey tagValue w of
        (Inl err, w) \<Rightarrow> if errors_Is err ErrNotFound then (Inr None, w) else (Inl err, w)
      | (Inr inst, w) \<Rightarrow> (Inr (if instanceGone inst then None else Some inst), w))"

definition service_lb_spec :: "Cluster \<Rightarrow> VerdaCluster \<Rightarrow> Keys \<Rightarrow> InstanceSpec" where
  "service_lb_spec cluster vc keys =
     (let lb = cs_ServiceLoadBalancer (vc_Spec vc) in
      \<lparr>is_Hostname = serviceLoadBalancerHostname vc,
       is_Description = Sprintf ''Cluster API service load balancer for cluster %s/%s'' [cl_Namespace cluster, cl_Name cluster],
       is_InstanceType = orDefault (lb_InstanceType lb) DefaultLoadBalancerInstanceType,
       is_Image = orDefault (lb_Image lb) DefaultLoadBalancerImage,
       is_Location = cs_Location (vc_Spec vc),
       is_SSHKeyIDs = elems (lb_SSHKeyIDs lb),
       is_OSVolumeSizeGB = 0, is_Contract = '''', is_Spot = False, is_SpotDiscontinuePolicy = '''', is_DataVolumes = [],
       is_StartupScript = EnvoyStartupScript keys,
       is_Tags = [(TagManagedBy, ManagedByValue), (TagCluster, cl_Namespace cluster @ ''/'' @ cl_Name cluster),
                  (TagServiceLoadBalancer, clusterTagValue vc), (TagRole, ''service-load-balancer'')]\<rparr>)"

definition use_service_lb :: "'w cluster_env \<Rightarrow> Cluster \<Rightarrow> VerdaCluster \<Rightarrow> Keys \<Rightarrow> Instance \<Rightarrow> 'w \<Rightarrow>
    (go_error + bool) \<times> VerdaCluster \<times> 'w" where
  "use_service_lb env cluster vc keys inst w =
     (let K = ce_lib env; vc = upd_slb (record_lb inst) vc;
          state = Sprintf ''service load balancer instance %s is in state %q'' [i_ID inst, i_Status inst]
      in case lb_state_of inst of
           LB_failed \<Rightarrow> (Inr False, setServiceLBNotReady K vc ''InstanceFailed'' state, w)
         | LB_provisioning \<Rightarrow> (Inr True, setServiceLBNotReady K vc ''InstanceProvisioning'' state, w)
         | LB_up \<Rightarrow>
             let vc = upd_slb (\<lambda>s. s\<lparr>ls_Address := i_IP inst\<rparr>) vc in
             (case publishServiceLoadBalancerSecret env cluster (i_IP inst) keys w of
                (Inl err, w) \<Rightarrow> (Inr True, setServiceLBNotReady K vc ''WaitingForWorkloadCluster'' (ErrorText err), w)
              | (Inr _, w) \<Rightarrow>
                  (Inr False,
                   set_ctrue K (upd_slb (\<lambda>s. s\<lparr>ls_SecretPublished := Some True\<rparr>) vc) ServiceLoadBalancerReadyCondition, w)))"

definition reconcileServiceLoadBalancer :: "'w cluster_env \<Rightarrow> 'w cloud_client \<Rightarrow> Cluster \<Rightarrow> VerdaCluster \<Rightarrow> 'w \<Rightarrow>
    (go_error + bool) \<times> VerdaCluster \<times> 'w" where
  "reconcileServiceLoadBalancer env c cluster vc w =
     (case ensureKeys env cluster vc (serviceLoadBalancerSecretName vc) w of
        (Inl err, w) \<Rightarrow> (Inl err, vc, w)
      | (Inr keys, w) \<Rightarrow>
          (case findInstanceByStatusOrTag c (ls_InstanceID (slb_status vc)) TagServiceLoadBalancer (clusterTagValue vc) w of
             (Inl err, w) \<Rightarrow> (Inl err, vc, w)
           | (Inr (Some inst), w) \<Rightarrow> use_service_lb env cluster vc keys inst w
           | (Inr None, w) \<Rightarrow>
               (case CreateInstance c (service_lb_spec cluster vc keys) w of
                  (Inl err, w) \<Rightarrow>
                    (Inl err, setServiceLBNotReady (ce_lib env) vc ''InstanceCreateFailed'' (ErrorText err), w)
                | (Inr inst, w) \<Rightarrow> use_service_lb env cluster vc keys inst w)))"

definition finish_service_lb :: "'w cloud_client \<Rightarrow> VerdaCluster \<Rightarrow> 'w \<Rightarrow> (go_error + bool) \<times> VerdaCluster \<times> 'w" where
  "finish_service_lb c vc w =
     (let script = ls_StartupScriptID (slb_status vc) in
      if script \<noteq> '''' then
        (case DeleteStartupScript c script w of
           (Inl err, w) \<Rightarrow> (Inl err, vc, w)
         | (Inr _, w) \<Rightarrow> (Inr False, upd_slb (\<lambda>s. s\<lparr>ls_StartupScriptID := ''''\<rparr>) vc, w))
      else
        (case DeleteStartupScriptByName c (serviceLoadBalancerHostname vc) w of
           (Inl err, w) \<Rightarrow> (Inl err, vc, w)
         | (Inr _, w) \<Rightarrow> (Inr False, vc, w)))"

definition deleteServiceLoadBalancer :: "'w cluster_env \<Rightarrow> 'w cloud_client \<Rightarrow> VerdaCluster \<Rightarrow> 'w \<Rightarrow>
    (go_error + bool) \<times> VerdaCluster \<times> 'w" where
  "deleteServiceLoadBalancer env c vc w =
     (case findInstanceByStatusOrTag c (ls_InstanceID (slb_status vc)) TagServiceLoadBalancer (clusterTagValue vc) w of
        (Inl err, w) \<Rightarrow> (Inl err, vc, w)
      | (Inr None, w) \<Rightarrow> finish_service_lb c vc w
      | (Inr (Some inst), w) \<Rightarrow>
          if \<not> instanceGone inst then
            (if i_Status inst = StatusDeleting then (Inr True, vc, w)
             else
               let (due, meta) = deleteRequestDue (ce_now env) (vc_Meta vc) ''servicelb'' (i_Status inst);
                   vc = vc\<lparr>vc_Meta := meta\<rparr>
               in if \<not> due then (Inr True, vc, w)
                  else case DeleteInstance c (i_ID inst) w of
                    (Inl err, w) \<Rightarrow> (Inl err, vc, w)
                  | (Inr _, w) \<Rightarrow>
                      (Inr True, setServiceLBNotReady (ce_lib env) vc InstanceDeleteRequestedReason
                         (Sprintf ''Delete requested for service load balancer instance %s'' [i_ID inst]), w))
          else if i_Status inst \<noteq> StatusNotFound then
            (case PurgeInstanceVolumes c (i_ID inst) w of
               (Inl err, w) \<Rightarrow> (Inl err, vc, w)
             | (Inr pending, w) \<Rightarrow> if pending > 0 then (Inr True, vc, w) else finish_service_lb c vc w)
          else finish_service_lb c vc w)"

section \<open>Reconciling a cluster\<close>

definition zero_lb_status :: LoadBalancerStatus where
  "zero_lb_status = \<lparr>ls_InstanceID = '''', ls_StartupScriptID = '''', ls_Address = '''', ls_Backends = [],
     ls_SecretPublished = None\<rparr>"

definition cluster_reconcileNormal :: "'w cluster_env \<Rightarrow> 'w cloud_client \<Rightarrow> Cluster \<Rightarrow> VerdaCluster \<Rightarrow> 'w \<Rightarrow>
    (go_error + Result) \<times> VerdaCluster \<times> 'w" where
  "cluster_reconcileNormal env c cluster vc w =
     (case reconcileEndpoint env c cluster vc w of
        (Inl err, vc, w) \<Rightarrow> (Inl err, vc, w)
      | (Inr result, vc, w) \<Rightarrow>
          if \<not> ServiceLoadBalancerEnabled vc then
            let done' = (\<lambda>vc w. (Inr result, delete_ccondition (ce_lib env) vc ServiceLoadBalancerReadyCondition, w)) in
            (if ls_InstanceID (slb_status vc) \<noteq> '''' \<or> ls_Address (slb_status vc) \<noteq> '''' then
               (case deleteServiceLoadBalancer env c vc w of
                  (Inl err, vc, w) \<Rightarrow> (Inl err, vc, w)
                | (Inr requeue, vc, w) \<Rightarrow>
                    if requeue then (Inr (result\<lparr>RequeueAfter := deletePollInterval\<rparr>), vc, w)
                    else done' (upd_slb (\<lambda>_. zero_lb_status) vc) (removeServiceLoadBalancerSecret env cluster w))
             else done' vc w)
          else
            (case reconcileServiceLoadBalancer env c cluster vc w of
               (Inl err, vc, w) \<Rightarrow> (Inl err, vc, w)
             | (Inr requeue, vc, w) \<Rightarrow>
                 (Inr (if requeue \<and> (RequeueAfter result = 0 \<or> RequeueAfter result > lbPollInterval)
                       then result\<lparr>RequeueAfter := lbPollInterval\<rparr> else result), vc, w)))"

text \<open>The end of \<^verbatim>\<open>reconcileDelete\<close>: the startup script and the finalizer.\<close>

definition finish_cluster :: "klib \<Rightarrow> 'w cloud_client \<Rightarrow> VerdaCluster \<Rightarrow> 'w \<Rightarrow> (go_error + Result) \<times> VerdaCluster \<times> 'w" where
  "finish_cluster K c vc w =
     (let script = ls_StartupScriptID (lb_status vc);
          release = (\<lambda>vc. vc\<lparr>vc_Meta := (vc_Meta vc)\<lparr>om_Finalizers :=
            controllerutil_RemoveFinalizer K (om_Finalizers (vc_Meta vc)) ClusterFinalizer\<rparr>\<rparr>)
      in if script \<noteq> '''' then
           (case DeleteStartupScript c script w of
              (Inl err, w) \<Rightarrow> (Inl err, vc, w)
            | (Inr _, w) \<Rightarrow> (Inr no_requeue, release (upd_lb (\<lambda>s. s\<lparr>ls_StartupScriptID := ''''\<rparr>) vc), w))
         else if LoadBalancerEnabled vc then
           (case DeleteStartupScriptByName c (loadBalancerHostname vc) w of
              (Inl err, w) \<Rightarrow> (Inl err, vc, w)
            | (Inr _, w) \<Rightarrow> (Inr no_requeue, release vc, w))
         else (Inr no_requeue, release vc, w))"

definition delete_lb :: "'w cluster_env \<Rightarrow> 'w cloud_client \<Rightarrow> VerdaCluster \<Rightarrow> 'w \<Rightarrow>
    (go_error + Result) \<times> VerdaCluster \<times> 'w" where
  "delete_lb env c vc w =
     (case findLoadBalancer c vc w of
        (Inl err, w) \<Rightarrow> (Inl err, vc, w)
      | (Inr None, w) \<Rightarrow> finish_cluster (ce_lib env) c vc w
      | (Inr (Some inst), w) \<Rightarrow>
          if \<not> instanceGone inst then
            (if i_Status inst = StatusDeleting then (Inr (requeue_after deletePollInterval), vc, w)
             else
               let (due, meta) = deleteRequestDue (ce_now env) (vc_Meta vc) ''lb'' (i_Status inst);
                   vc = vc\<lparr>vc_Meta := meta\<rparr>
               in if \<not> due then (Inr (requeue_after deletePollInterval), vc, w)
                  else case DeleteInstance c (i_ID inst) w of
                    (Inl err, w) \<Rightarrow> (Inl err, vc, w)
                  | (Inr _, w) \<Rightarrow>
                      (Inr (requeue_after deletePollInterval),
                       setLBNotReady (ce_lib env) vc InstanceDeleteRequestedReason
                         (Sprintf ''Delete requested for load balancer instance %s'' [i_ID inst]), w))
          else if i_Status inst \<noteq> StatusNotFound then
            (case PurgeInstanceVolumes c (i_ID inst) w of
               (Inl err, w) \<Rightarrow> (Inl err, vc, w)
             | (Inr pending, w) \<Rightarrow>
                 if pending > 0 then (Inr (requeue_after deletePollInterval), vc, w)
                 else finish_cluster (ce_lib env) c vc w)
          else finish_cluster (ce_lib env) c vc w)"

definition cluster_reconcileDelete :: "'w cluster_env \<Rightarrow> 'w cloud_client \<Rightarrow> VerdaCluster \<Rightarrow> 'w \<Rightarrow>
    (go_error + Result) \<times> VerdaCluster \<times> 'w" where
  "cluster_reconcileDelete env c vc w =
     (case deleteServiceLoadBalancer env c vc w of
        (Inl err, vc, w) \<Rightarrow> (Inl err, vc, w)
      | (Inr requeue, vc, w) \<Rightarrow>
          if requeue then (Inr (requeue_after deletePollInterval), vc, w) else delete_lb env c vc w)"

section \<open>The entry point\<close>

definition cluster_ready_condition :: "klib \<Rightarrow> VerdaCluster \<Rightarrow> Condition" where
  "cluster_ready_condition K vc =
     (let conds = cst_Conditions (vc_Status vc);
          ready = \<lparr>cond_Type = ReadyCondition, cond_Status = ConditionTrue, cond_Reason = ReadyReason K, cond_Message = Text ''''\<rparr>
      in if om_DeletionTimestamp (vc_Meta vc) \<noteq> None then
           ready\<lparr>cond_Status := ConditionFalse, cond_Reason := DeletingReason K\<rparr>
         else if \<not> conditions_IsTrue K conds ControlPlaneEndpointReadyCondition then
           ready\<lparr>cond_Status := ConditionFalse, cond_Reason := NotReadyReason K,
             cond_Message := conditions_GetMessage K conds ControlPlaneEndpointReadyCondition\<rparr>
         else if LoadBalancerEnabled vc \<and> \<not> conditions_IsTrue K conds LoadBalancerReadyCondition then
           ready\<lparr>cond_Status := ConditionFalse, cond_Reason := NotReadyReason K,
             cond_Message := conditions_GetMessage K conds LoadBalancerReadyCondition\<rparr>
         else ready)"

definition patchVerdaCluster :: "'w cluster_env \<Rightarrow> VerdaCluster \<Rightarrow> go_error option \<times> VerdaCluster" where
  "patchVerdaCluster env vc =
     (let vc = set_ccondition (ce_lib env) vc (cluster_ready_condition (ce_lib env) vc) in (ce_Patch env vc, vc))"

type_synonym 'w cluster_outcome = "(go_error + Result) \<times> VerdaCluster option \<times> 'w"

definition with_cluster_patch :: "'w cluster_env \<Rightarrow> (go_error + Result) \<times> VerdaCluster \<times> 'w \<Rightarrow> 'w cluster_outcome" where
  "with_cluster_patch env r =
     (case r of (res, vc, w) \<Rightarrow>
        let (err, vc) = patchVerdaCluster env vc in (with_patch_error err res, Some vc, w))"

definition cluster_identity :: "VerdaCluster \<Rightarrow> Identity" where
  "cluster_identity vc = \<lparr>id_Namespace = vc_Namespace vc, id_SecretName = IdentitySecretName vc\<rparr>"

definition cluster_reconcileOrphanDelete :: "'w cluster_env \<Rightarrow> VerdaCluster \<Rightarrow> 'w \<Rightarrow> 'w cluster_outcome" where
  "cluster_reconcileOrphanDelete env vc w =
     (case ce_NewHelper env vc of
        Inl err \<Rightarrow> (Inl err, None, w)
      | Inr _ \<Rightarrow> with_cluster_patch env
          (case ce_ClientFor env (cluster_identity vc) of
             Inl err \<Rightarrow> (Inl err, vc, w)
           | Inr c \<Rightarrow> cluster_reconcileDelete env c vc w))"

definition cluster_scope :: "'w cluster_env \<Rightarrow> Cluster \<Rightarrow> VerdaCluster \<Rightarrow> 'w \<Rightarrow>
    (go_error + Result) \<times> VerdaCluster \<times> 'w" where
  "cluster_scope env cluster vc w =
     (case ce_ClientFor env (cluster_identity vc) of
        Inl err \<Rightarrow>
          (Inl err, set_ccondition (ce_lib env) vc \<lparr>cond_Type = ControlPlaneEndpointReadyCondition,
             cond_Status = ConditionFalse, cond_Reason = ''CredentialsUnavailable'', cond_Message = ErrorText err\<rparr>, w)
      | Inr c \<Rightarrow>
          if om_DeletionTimestamp (vc_Meta vc) \<noteq> None then cluster_reconcileDelete env c vc w
          else cluster_reconcileNormal env c cluster vc w)"

definition cluster_Reconcile :: "'w cluster_env \<Rightarrow> 'w \<Rightarrow> 'w cluster_outcome" where
  "cluster_Reconcile env w =
     (case ce_GetVerdaCluster env of
        Inl err \<Rightarrow> if apierrors_IsNotFound err then (Inr no_requeue, None, w) else (Inl err, None, w)
      | Inr vc \<Rightarrow>
     (case ce_EnsureFinalizer env vc of
        Inl err \<Rightarrow> (Inl err, None, w)
      | Inr finalizerAdded \<Rightarrow>
          if finalizerAdded then (Inr no_requeue, None, w) else
     (case ce_GetOwnerCluster env (vc_Meta vc) of
        Inl err \<Rightarrow> (Inl err, None, w)
      | Inr None \<Rightarrow>
          if om_DeletionTimestamp (vc_Meta vc) \<noteq> None then cluster_reconcileOrphanDelete env vc w
          else (Inr no_requeue, None, w)
      | Inr (Some cluster) \<Rightarrow>
     (case ce_EnsurePausedCondition env cluster vc of
        (Inl err, vc) \<Rightarrow> (Inl err, None, w)
      | (Inr (isPaused, requeue), vc) \<Rightarrow>
          if isPaused \<or> requeue then (Inr no_requeue, None, w) else
     (case ce_NewHelper env vc of
        Inl err \<Rightarrow> (Inl err, None, w)
      | Inr _ \<Rightarrow> with_cluster_patch env (cluster_scope env cluster vc w))))))"

definition verdaMachineToVerdaCluster :: "'w cluster_env \<Rightarrow> ObjectMeta \<Rightarrow> (string \<times> string) list" where
  "verdaMachineToVerdaCluster env obj =
     (case map_of (om_Labels obj) ''cluster.x-k8s.io/cluster-name'' of
        None \<Rightarrow> []
      | Some clusterName \<Rightarrow>
          (case ce_GetCluster env (om_Namespace obj) clusterName of
             Inl _ \<Rightarrow> []
           | Inr cluster \<Rightarrow>
               if \<not> cl_InfrastructureRefDefined cluster \<or> cl_InfrastructureRefKind cluster \<noteq> verdaClusterKind then []
               else [(cl_Namespace cluster, cl_InfrastructureRefName cluster)]))"

end
