(* ===== verification/ClusterProps.thy ===== *)
theory ClusterProps
  imports ClusterController LiveInstances
begin

text \<open>
  The two load balancers of a cluster under the contract of the cloud client: a cluster has at
  most one live control plane load balancer and one live service load balancer, and neither is
  left behind when the finalizer goes. The proofs follow the structure of the reconciler: the
  lookups, the two load balancers, the deletion, one call of \<^verbatim>\<open>Reconcile\<close>, and all
  sequences of calls.
\<close>

section \<open>What a call keeps of a cluster\<close>

abbreviation lb_id :: "VerdaCluster \<Rightarrow> string" where "lb_id vc \<equiv> ls_InstanceID (lb_status vc)"
abbreviation slb_id :: "VerdaCluster \<Rightarrow> string" where "slb_id vc \<equiv> ls_InstanceID (slb_status vc)"

definition same_cluster :: "VerdaCluster \<Rightarrow> VerdaCluster \<Rightarrow> bool" where
  "same_cluster vc vc' = (vc_Name vc' = vc_Name vc \<and> vc_Namespace vc' = vc_Namespace vc)"

definition keeps_cluster :: "VerdaCluster \<Rightarrow> VerdaCluster \<Rightarrow> bool" where
  "keeps_cluster vc vc' = (same_cluster vc vc' \<and> om_Finalizers (vc_Meta vc') = om_Finalizers (vc_Meta vc) \<and>
     lb_id vc' = lb_id vc \<and> slb_id vc' = slb_id vc)"

lemma same_cluster_refl [simp]: "same_cluster vc vc"
  by (simp add: same_cluster_def)

lemma keeps_cluster_refl [simp]: "keeps_cluster vc vc"
  by (simp add: keeps_cluster_def)

lemma keeps_cluster_same: "keeps_cluster vc vc' \<Longrightarrow> same_cluster vc vc'"
  by (simp add: keeps_cluster_def)

lemma clusterTagValue_same: "same_cluster vc vc' \<Longrightarrow> clusterTagValue vc' = clusterTagValue vc"
  by (simp add: same_cluster_def clusterTagValue_def)

lemma clusterTagValue_nonempty [simp]: "clusterTagValue vc \<noteq> ''''"
  by (simp add: clusterTagValue_def truncateTag_def ToLower_def)

lemma csetters_fields [simp]:
  "vc_Meta (set_ccondition K vc cnd) = vc_Meta vc" "vc_Spec (set_ccondition K vc cnd) = vc_Spec vc"
  "lb_status (set_ccondition K vc cnd) = lb_status vc" "slb_status (set_ccondition K vc cnd) = slb_status vc"
  "cst_Provisioned (vc_Status (set_ccondition K vc cnd)) = cst_Provisioned (vc_Status vc)"
  "vc_Meta (delete_ccondition K vc t) = vc_Meta vc" "vc_Spec (delete_ccondition K vc t) = vc_Spec vc"
  "lb_status (delete_ccondition K vc t) = lb_status vc" "slb_status (delete_ccondition K vc t) = slb_status vc"
  "cst_Provisioned (vc_Status (delete_ccondition K vc t)) = cst_Provisioned (vc_Status vc)"
  by (simp_all add: set_ccondition_def delete_ccondition_def)

lemma cnotready_fields [simp]:
  "vc_Meta (setLBNotReady K vc reason m) = vc_Meta vc" "vc_Spec (setLBNotReady K vc reason m) = vc_Spec vc"
  "lb_status (setLBNotReady K vc reason m) = lb_status vc" "slb_status (setLBNotReady K vc reason m) = slb_status vc"
  "cst_Provisioned (vc_Status (setLBNotReady K vc reason m)) = cst_Provisioned (vc_Status vc)"
  "vc_Meta (setServiceLBNotReady K vc reason m) = vc_Meta vc"
  "vc_Spec (setServiceLBNotReady K vc reason m) = vc_Spec vc"
  "lb_status (setServiceLBNotReady K vc reason m) = lb_status vc"
  "slb_status (setServiceLBNotReady K vc reason m) = slb_status vc"
  "cst_Provisioned (vc_Status (setServiceLBNotReady K vc reason m)) = cst_Provisioned (vc_Status vc)"
  by (simp_all add: setLBNotReady_def setServiceLBNotReady_def Let_def)

lemma cready_fields [simp]:
  "vc_Meta (set_ctrue K vc t) = vc_Meta vc" "vc_Spec (set_ctrue K vc t) = vc_Spec vc"
  "lb_status (set_ctrue K vc t) = lb_status vc" "slb_status (set_ctrue K vc t) = slb_status vc"
  "cst_Provisioned (vc_Status (set_ctrue K vc t)) = cst_Provisioned (vc_Status vc)"
  "vc_Meta (setEndpointReady K vc) = vc_Meta vc" "vc_Spec (setEndpointReady K vc) = vc_Spec vc"
  "lb_status (setEndpointReady K vc) = lb_status vc" "slb_status (setEndpointReady K vc) = slb_status vc"
  "cst_Provisioned (vc_Status (setEndpointReady K vc)) = cst_Provisioned (vc_Status vc)"
  "vc_Meta (setFailureDomains vc) = vc_Meta vc" "vc_Spec (setFailureDomains vc) = vc_Spec vc"
  "lb_status (setFailureDomains vc) = lb_status vc" "slb_status (setFailureDomains vc) = slb_status vc"
  "cst_Provisioned (vc_Status (setFailureDomains vc)) = cst_Provisioned (vc_Status vc)"
  by (simp_all add: set_ctrue_def setEndpointReady_def setFailureDomains_def)

lemma record_lb_ID [simp]: "ls_InstanceID (record_lb inst st) = i_ID inst"
  by (simp add: record_lb_def Let_def)

lemma lb_spec_tags [simp]:
  "distinct (map fst (is_Tags (lb_spec cluster vc keys)))"
  "go_get (is_Tags (lb_spec cluster vc keys)) TagServiceLoadBalancer = ''''"
  "go_get (is_Tags (lb_spec cluster vc keys)) TagLoadBalancer = clusterTagValue vc"
  by (simp_all add: lb_spec_def Let_def)

lemma service_lb_spec_tags [simp]:
  "distinct (map fst (is_Tags (service_lb_spec cluster vc keys)))"
  "go_get (is_Tags (service_lb_spec cluster vc keys)) TagLoadBalancer = ''''"
  "go_get (is_Tags (service_lb_spec cluster vc keys)) TagServiceLoadBalancer = clusterTagValue vc"
  by (simp_all add: service_lb_spec_def Let_def)

section \<open>Environments and reachable states\<close>

text \<open>
  The calls that do not go to the cloud leave the account alone: secrets, key generation, the
  updater and the workload cluster.
\<close>

definition keeps_account :: "('w \<Rightarrow> string \<rightharpoonup> Instance) \<Rightarrow> ('w \<Rightarrow> bool) \<Rightarrow> ('w, 'a) call \<Rightarrow> bool" where
  "keeps_account insts invar f = (\<forall>w. invar w \<longrightarrow> invar (snd (f w)) \<and> insts (snd (f w)) = insts w)"

definition other_calls_ok :: "'w cluster_env \<Rightarrow> ('w \<Rightarrow> string \<rightharpoonup> Instance) \<Rightarrow> ('w \<Rightarrow> bool) \<Rightarrow> bool" where
  "other_calls_ok env insts invar =
     ((\<forall>ns n. keeps_account insts invar (ce_GetSecret env ns n)) \<and>
      (\<forall>s. keeps_account insts invar (ce_CreateSecret env s)) \<and>
      (\<forall>n. keeps_account insts invar (ce_generateKeyPair env n)) \<and>
      (\<forall>a k b. keeps_account insts invar (UpdateBackends (ce_LoadBalancer env) a k b)) \<and>
      (\<forall>ns n. keeps_account insts invar (ce_kubeconfig env ns n)) \<and>
      (\<forall>kc wl. workloadClient env kc = Inr wl \<longrightarrow>
         (\<forall>ns n. keeps_account insts invar (wl_Get wl ns n)) \<and>
         (\<forall>s. keeps_account insts invar (wl_Create wl s)) \<and>
         (\<forall>s. keeps_account insts invar (wl_Update wl s)) \<and>
         (\<forall>ns n. keeps_account insts invar (wl_Delete wl ns n))))"

text \<open>
  The environment of one call of \<^verbatim>\<open>Reconcile\<close> for \<open>vc\<close>, as \<open>env_for\<close> for a machine.
\<close>

definition cluster_env_for :: "'w cluster_env \<Rightarrow> VerdaCluster \<Rightarrow> 'w cloud_client \<Rightarrow> bool" where
  "cluster_env_for env vc c = (ce_GetVerdaCluster env = Inr vc \<and>
     (\<forall>ident c'. ce_ClientFor env ident = Inr c' \<longrightarrow> c' = c) \<and>
     (\<forall>cl vc0. keeps_cluster vc0 (snd (ce_EnsurePausedCondition env cl vc0))))"

text \<open>Both load balancers of a cluster, listed properly and safe.\<close>

definition lbs_listed :: "VerdaCluster \<Rightarrow> (string \<rightharpoonup> Instance) \<Rightarrow> bool" where
  "lbs_listed vc m = (listed_ok TagLoadBalancer (clusterTagValue vc) m \<and>
     listed_ok TagServiceLoadBalancer (clusterTagValue vc) m)"

definition lbs_safe :: "VerdaCluster \<Rightarrow> (string \<rightharpoonup> Instance) \<Rightarrow> bool" where
  "lbs_safe vc m = (safe TagLoadBalancer (clusterTagValue vc) (lb_id vc) m \<and>
     safe TagServiceLoadBalancer (clusterTagValue vc) (slb_id vc) m)"

definition no_lbs :: "VerdaCluster \<Rightarrow> (string \<rightharpoonup> Instance) \<Rightarrow> bool" where
  "no_lbs vc m = (live_ids TagLoadBalancer (clusterTagValue vc) m = {} \<and>
     live_ids TagServiceLoadBalancer (clusterTagValue vc) m = {})"

inductive cluster_step :: "'w cloud_client \<Rightarrow> ('w \<Rightarrow> string \<rightharpoonup> Instance) \<Rightarrow> ('w \<Rightarrow> bool) \<Rightarrow>
    VerdaCluster \<times> 'w \<Rightarrow> VerdaCluster \<times> 'w \<Rightarrow> bool"
  for c insts invar where
  reconciled: "cluster_env_for env vc c \<Longrightarrow> other_calls_ok env insts invar \<Longrightarrow> cluster_Reconcile env w = (r, out, w') \<Longrightarrow>
     vc' = vc \<or> out = Some vc' \<Longrightarrow> cluster_step c insts invar (vc, w) (vc', w')"
| edited: "same_cluster vc vc' \<Longrightarrow> lb_id vc' = lb_id vc \<Longrightarrow> slb_id vc' = slb_id vc \<Longrightarrow>
     cluster_step c insts invar (vc, w) (vc', w)"
| evolved: "cloud_evolves TagLoadBalancer (clusterTagValue vc) (insts w) (insts w') \<Longrightarrow>
     cloud_evolves TagServiceLoadBalancer (clusterTagValue vc) (insts w) (insts w') \<Longrightarrow> invar w' \<Longrightarrow>
     cluster_step c insts invar (vc, w) (vc, w')"

inductive cluster_reach :: "'w cloud_client \<Rightarrow> ('w \<Rightarrow> string \<rightharpoonup> Instance) \<Rightarrow> ('w \<Rightarrow> bool) \<Rightarrow>
    VerdaCluster \<Rightarrow> 'w \<Rightarrow> bool"
  for c insts invar where
  new_cluster: "invar w \<Longrightarrow> lb_id vc = '''' \<Longrightarrow> slb_id vc = '''' \<Longrightarrow> no_lbs vc (insts w) \<Longrightarrow> lbs_listed vc (insts w) \<Longrightarrow>
     cluster_reach c insts invar vc w"
| next_cluster: "cluster_reach c insts invar vc w \<Longrightarrow> cluster_step c insts invar (vc, w) (vc', w') \<Longrightarrow>
     lbs_listed vc' (insts w') \<Longrightarrow> cluster_reach c insts invar vc' w'"

section \<open>Calls under the contract\<close>

context cloud_contract
begin

lemma keeps_accountD:
  assumes "keeps_account insts invar f" "frame w0 w" "f w = (r, w')"
  shows "frame w0 w'"
  using assms unfolding keeps_account_def frame_def by (metis snd_conv)

lemma other_frames:
  assumes "other_calls_ok env insts invar" "frame w0 w"
  shows "ce_GetSecret env ns n w = (r1, w') \<Longrightarrow> frame w0 w'"
    and "ce_CreateSecret env s w = (r2, w') \<Longrightarrow> frame w0 w'"
    and "ce_generateKeyPair env n w = (r3, w') \<Longrightarrow> frame w0 w'"
    and "UpdateBackends (ce_LoadBalancer env) a k b w = (r2, w') \<Longrightarrow> frame w0 w'"
    and "ce_kubeconfig env ns n w = (r4, w') \<Longrightarrow> frame w0 w'"
    and "workloadClient env kc = Inr wl \<Longrightarrow> wl_Get wl ns n w = (r1, w') \<Longrightarrow> frame w0 w'"
    and "workloadClient env kc = Inr wl \<Longrightarrow> wl_Create wl s w = (r2, w') \<Longrightarrow> frame w0 w'"
    and "workloadClient env kc = Inr wl \<Longrightarrow> wl_Update wl s w = (r2, w') \<Longrightarrow> frame w0 w'"
    and "workloadClient env kc = Inr wl \<Longrightarrow> wl_Delete wl ns n w = (r2, w') \<Longrightarrow> frame w0 w'"
  using assms(1) unfolding other_calls_ok_def by (blast intro: keeps_accountD [OF _ assms(2)])+

lemma GenerateKeys_frame:
  assumes "other_calls_ok env insts invar" "frame w0 w" "GenerateKeys (ce_generateKeyPair env) w = (r, w')"
  shows "frame w0 w'"
proof -
  obtain q1 w1 where q1: "ce_generateKeyPair env ManagedByValue w = (q1, w1)" by fastforce
  obtain q2 w2 where q2: "ce_generateKeyPair env '''' w1 = (q2, w2)" by fastforce
  note f1 = other_frames(3) [OF assms(1,2) q1]
  note f2 = other_frames(3) [OF assms(1) f1 q2]
  from assms(3) q1 q2 f1 f2 show ?thesis
    by (cases q1; cases q2) (auto simp: GenerateKeys_def)
qed

lemma ensureKeys_frame:
  assumes "other_calls_ok env insts invar" "frame w0 w" "ensureKeys env cluster vc name w = (r, w')"
  shows "frame w0 w'"
proof -
  obtain q1 w1 where q1: "ce_GetSecret env (vc_Namespace vc) name w = (q1, w1)" by fastforce
  obtain q2 w2 where q2: "GenerateKeys (ce_generateKeyPair env) w1 = (q2, w2)" by fastforce
  obtain q3 w3 where q3: "ce_CreateSecret env (key_secret cluster vc name (projr q2)) w2 = (q3, w3)" by fastforce
  obtain q4 w4 where q4: "ce_GetSecret env (vc_Namespace vc) name w3 = (q4, w4)" by fastforce
  note f1 = other_frames(1) [OF assms(1,2) q1]
  note f2 = GenerateKeys_frame [OF assms(1) f1 q2]
  note f3 = other_frames(2) [OF assms(1) f2 q3]
  note f4 = other_frames(1) [OF assms(1) f3 q4]
  from assms(3) q1 q2 q3 q4 f1 f2 f3 f4 show ?thesis
    by (cases q1; cases q2; cases q3; cases q4) (auto simp: ensureKeys_def split: if_splits)
qed

lemma publish_frame:
  assumes "other_calls_ok env insts invar" "frame w0 w"
    and "publishServiceLoadBalancerSecret env cluster a keys w = (r, w')"
  shows "frame w0 w'"
proof -
  obtain q1 w1 where q1: "ce_kubeconfig env (cl_Namespace cluster) (cl_Name cluster) w = (q1, w1)" by fastforce
  note f1 = other_frames(5) [OF assms(1,2) q1]
  show ?thesis
  proof (cases "workloadClient env (projr q1)")
    case (Inl e)
    with assms(3) q1 f1 show ?thesis by (cases q1) (auto simp: publishServiceLoadBalancerSecret_def)
  next
    case (Inr wl)
    let ?d = "desired_secret cluster a keys"
    obtain q2 w2 where q2: "wl_Get wl (sec_Namespace ?d) (sec_Name ?d) w1 = (q2, w2)" by fastforce
    note f2 = other_frames(6) [OF assms(1) f1 Inr q2]
    from assms(3) q1 q2 f1 f2 Inr other_frames(7,8) [OF assms(1) f2 Inr] show ?thesis
      by (cases q1; cases q2) (auto simp: publishServiceLoadBalancerSecret_def Let_def split: if_splits)
  qed
qed

lemma removeSecret_frame:
  assumes "other_calls_ok env insts invar" "frame w0 w"
  shows "frame w0 (removeServiceLoadBalancerSecret env cluster w)"
proof -
  obtain q1 w1 where q1: "ce_kubeconfig env (cl_Namespace cluster) (cl_Name cluster) w = (q1, w1)" by fastforce
  note f1 = other_frames(5) [OF assms(1,2) q1]
  show ?thesis
  proof (cases "workloadClient env (projr q1)")
    case (Inl e)
    with q1 f1 show ?thesis by (cases q1) (auto simp: removeServiceLoadBalancerSecret_def)
  next
    case (Inr wl)
    obtain q2 w2 where q2: "wl_Delete wl ''kube-system'' ServiceLoadBalancerSecretName w1 = (q2, w2)" by fastforce
    from q1 f1 Inr q2 other_frames(9) [OF assms(1) f1 Inr q2] show ?thesis
      by (cases q1) (auto simp: removeServiceLoadBalancerSecret_def)
  qed
qed

text \<open>What a lookup by id or tag tells about the live instances.\<close>

definition lookup_ok :: "string \<Rightarrow> string \<Rightarrow> string \<Rightarrow> 'w \<Rightarrow> go_error + Instance option \<Rightarrow> 'w \<Rightarrow> bool" where
  "lookup_ok key v ident w q w' = (frame w w' \<and>
     (q = Inr None \<longrightarrow> ident = '''' \<and> live_ids key v (insts w) = {}) \<and>
     (\<forall>i. q = Inr (Some i) \<longrightarrow> safe key v (i_ID i) (insts w) \<and> (ident \<noteq> '''' \<longrightarrow> i_ID i = ident) \<and>
        (instanceGone i \<longrightarrow> live_ids key v (insts w) = {}) \<and>
        (\<not> instanceGone i \<longrightarrow> insts w (i_ID i) = Some i)))"

lemma by_status_ok:
  assumes "invar w" "by_status c ident w = (q, w')" "ident \<noteq> ''''" "safe key v ident (insts w)"
  shows "lookup_ok key v ident w q w'"
proof -
  obtain r w1 where r: "GetInstance c ident w = (r, w1)" by fastforce
  note f = frames(1) [OF assms(1) r]
  from assms(3,4) have only: "live_ids key v (insts w) \<subseteq> {ident}" by (simp add: safe_def)
  show ?thesis
  proof (cases r)
    case (Inl e)
    with r assms(1-3) f GetInstance_NotFound [OF assms(1)] only assms(4) show ?thesis
      by (auto simp: by_status_def lookup_ok_def live_ids_def split: if_splits)
  next
    case (Inr i)
    with GetInstance_Inr [OF assms(1)] r have "insts w ident = Some i" by blast
    moreover from this insts_ID [OF assms(1)] have "i_ID i = ident" by blast
    ultimately show ?thesis using Inr r assms(2-4) f only
      by (auto simp: by_status_def lookup_ok_def live_ids_def)
  qed
qed

lemma tag_lookup:
  assumes "invar w" "FindInstanceByTag c key v w = (Inr i, w')" "listed_ok key v (insts w)" "safe key v ident (insts w)"
  shows "insts w (i_ID i) = Some i" "instanceGone i \<Longrightarrow> live_ids key v (insts w) = {}"
    "\<not> instanceGone i \<Longrightarrow> safe key v (i_ID i) (insts w)"
proof -
  from FindInstanceByTag_Inr [OF assms(1,2)] have i: "i \<in> ran (insts w)" "tagged key v i" by (simp_all add: tagged_def)
  with insts_ID [OF assms(1)] show at: "insts w (i_ID i) = Some i" by (auto simp: ran_def)
  show "live_ids key v (insts w) = {}" if "instanceGone i"
  proof -
    from that i assms(3) have "i_Status i = StatusDiscontinued" by (simp add: listed_ok_def)
    with FindInstanceByTag_gone [OF assms(1,2)] show ?thesis by (force simp: live_ids_def tagged_def ran_def)
  qed
  show "safe key v (i_ID i) (insts w)" if "\<not> instanceGone i"
    by (rule safe_adopt [OF assms(4)]) (use that at i in \<open>auto simp: live_ids_def\<close>)
qed

lemma lookups_ok:
  assumes "invar w" "listed_ok key v (insts w)" "safe key v ident (insts w)"
  shows "findInstanceByStatusOrTag c ident key v w = (q, w') \<Longrightarrow> lookup_ok key v ident w q w'"
    and "key = TagLoadBalancer \<Longrightarrow> v = clusterTagValue vc \<Longrightarrow> ident = lb_id vc \<Longrightarrow>
      findLoadBalancer c vc w = (q, w') \<Longrightarrow> lookup_ok key v ident w q w'"
proof -
  obtain r w1 where r: "FindInstanceByTag c key v w = (r, w1)" by fastforce
  note f = frames(2) [OF assms(1) r]
  have none: "live_ids key v (insts w) = {}" if "r = Inl e" "errors_Is e ErrNotFound" for e
    using FindInstanceByTag_NotFound [OF assms(1)] r that by (force simp: live_ids_def tagged_def ran_def)
  note some = tag_lookup [OF assms(1) _ assms(2,3)]
  have gone: "live_ids key v (insts w) = {} \<Longrightarrow> safe key v k (insts w)" for k by (rule safe_single) simp
  show "lookup_ok key v ident w q w'" if run: "findInstanceByStatusOrTag c ident key v w = (q, w')"
  proof (cases "ident = ''''")
    case False
    with by_status_ok [OF assms(1) _ False assms(3)] run show ?thesis by (simp add: findInstanceByStatusOrTag_def)
  next
    case True
    with run r f none some show ?thesis
      by (cases r) (auto simp: findInstanceByStatusOrTag_def lookup_ok_def simp del: instanceGone.simps split: if_splits)
  qed
  show "lookup_ok key v ident w q w'" if "key = TagLoadBalancer" "v = clusterTagValue vc" "ident = lb_id vc"
    "findLoadBalancer c vc w = (q, w')"
  proof (cases "ident = ''''")
    case False
    with by_status_ok [OF assms(1) _ False assms(3)] that show ?thesis by (simp add: findLoadBalancer_def)
  next
    case True
    with that r f none some gone show ?thesis
      by (cases r) (auto simp: findLoadBalancer_def lookup_ok_def simp del: instanceGone.simps split: if_splits)
  qed
qed

text \<open>Deleting an instance that is not gone brings none back.\<close>

lemma DeleteInstance_known:
  assumes "invar w" "DeleteInstance c k w = (r, w')" "insts w k = Some i" "\<not> instanceGone i"
  shows "invar w'" "live_ids key v (insts w') \<subseteq> live_ids key v (insts w)"
proof -
  show "invar w'" using DeleteInstance_invar assms(1,2) by blast
  show "live_ids key v (insts w') \<subseteq> live_ids key v (insts w)"
  proof
    fix k' assume "k' \<in> live_ids key v (insts w')"
    then show "k' \<in> live_ids key v (insts w)"
      using DeleteInstance_others [OF assms(1,2), of k'] DeleteInstance_ages [OF assms(1,2)] assms(3,4)
      by (cases "k' = k") (auto simp: live_ids_def ages_tagged simp del: instanceGone.simps)
  qed
qed

text \<open>Creating the first live instance with a tag leaves the instances with another tag alone.\<close>

lemma create_first:
  assumes "invar w" "CreateInstance c s w = (q, w')" "distinct (map fst (is_Tags s))" "live_ids key v (insts w) = {}"
  shows "invar w'" "safe key v '''' (insts w')" "q = Inr i \<Longrightarrow> safe key v (i_ID i) (insts w')"
    and "go_get (is_Tags s) key' \<noteq> v' \<Longrightarrow> live_ids key' v' (insts w') = live_ids key' v' (insts w)"
    and "go_get (is_Tags s) key' \<noteq> v' \<Longrightarrow> listed_ok key' v' (insts w) \<Longrightarrow> listed_ok key' v' (insts w')"
proof -
  show "invar w'" using CreateInstance_invar assms(1,2) by blast
  have effect: "insts w' = insts w \<or> (\<exists>j. added (insts w) s j (insts w') \<and> (\<forall>i. q = Inr i \<longrightarrow> i = j))"
    using CreateInstance_Inr [OF assms(1,3)] CreateInstance_Inl [OF assms(1,3)] assms(2) by (cases q) blast+
  then show "safe key v '''' (insts w')"
  proof (elim disjE exE conjE)
    fix j assume "added (insts w) s j (insts w')"
    from live_ids_added(1) [OF this, of key v] assms(4) show ?thesis by (auto simp: safe_def at_most_one_def)
  qed (simp add: safe_def at_most_one_def assms(4))
  show "safe key v (i_ID i) (insts w')" if "q = Inr i"
  proof (rule safe_single)
    from CreateInstance_Inr [OF assms(1,3)] assms(2) that have "added (insts w) s i (insts w')" by blast
    from live_ids_added(1) [OF this, of key v] assms(4) show "live_ids key v (insts w') \<subseteq> {i_ID i}" by simp
  qed
  from effect live_ids_added(2) show "go_get (is_Tags s) key' \<noteq> v' \<Longrightarrow> live_ids key' v' (insts w') = live_ids key' v' (insts w)"
    by metis
  from effect show "listed_ok key' v' (insts w')" if "go_get (is_Tags s) key' \<noteq> v'" "listed_ok key' v' (insts w)"
    using that by (auto simp: added_def listed_ok_def tagged_def ran_map_upd)
qed

section \<open>The control plane load balancer\<close>

text \<open>What every operation on a cluster in safe state does.\<close>

definition step_ok :: "VerdaCluster \<Rightarrow> VerdaCluster \<Rightarrow> 'w \<Rightarrow> bool" where
  "step_ok vc vc' w' = (invar w' \<and> same_cluster vc vc' \<and> lbs_safe vc (insts w') \<and> lbs_safe vc' (insts w') \<and>
     om_Finalizers (vc_Meta vc') = om_Finalizers (vc_Meta vc))"

lemma step_ok_frame: "frame w w' \<Longrightarrow> lbs_safe vc (insts w) \<Longrightarrow> keeps_cluster vc vc' \<Longrightarrow> step_ok vc vc' w'"
  using clusterTagValue_same [of vc vc'] by (simp add: step_ok_def frame_def keeps_cluster_def lbs_safe_def)

lemma push_backends_frame:
  assumes "other_calls_ok env insts invar" "frame w0 w" "push_backends env cluster vc keys inst w = (r, vc', w')"
  shows "frame w0 w' \<and> keeps_cluster vc vc'"
proof (cases "controlPlaneAddresses env cluster")
  case (Inl e)
  with assms show ?thesis by (auto simp: push_backends_def Let_def keeps_cluster_def same_cluster_def)
next
  case (Inr backends)
  obtain q1 w1 where q1: "UpdateBackends (ce_LoadBalancer env) (i_IP inst) keys backends w = (q1, w1)" by fastforce
  note f1 = other_frames(4) [OF assms(1,2) q1]
  from assms(2,3) Inr q1 f1 show ?thesis
    by (cases q1) (auto simp: push_backends_def Let_def keeps_cluster_def same_cluster_def split: if_splits)
qed

lemma use_lb_frame:
  assumes "other_calls_ok env insts invar" "frame w0 w" "use_lb env cluster vc keys inst w = (r, vc', w')"
  shows "frame w0 w' \<and> same_cluster vc vc' \<and> om_Finalizers (vc_Meta vc') = om_Finalizers (vc_Meta vc) \<and>
     lb_id vc' = i_ID inst \<and> slb_id vc' = slb_id vc"
  using assms(2,3) push_backends_frame [OF assms(1,2), of cluster "upd_lb (record_lb inst) vc" keys inst r vc' w']
  by (cases "lb_state_of inst") (auto simp: use_lb_def Let_def keeps_cluster_def same_cluster_def)

text \<open>Both load balancers look for their instance, create one when there is none, and use it.\<close>

definition others_kept :: "InstanceSpec \<Rightarrow> 'w \<Rightarrow> 'w \<Rightarrow> bool" where
  "others_kept s w w' = (invar w' \<and> (\<forall>key v. go_get (is_Tags s) key \<noteq> v \<longrightarrow>
     live_ids key v (insts w') = live_ids key v (insts w) \<and> (listed_ok key v (insts w) \<longrightarrow> listed_ok key v (insts w'))))"

lemma find_or_create:
  assumes "lookup_ok key v ident w q w1" "safe key v ident (insts w)" "distinct (map fst (is_Tags s))"
    and "(case q of Inl e \<Rightarrow> (Inl e, vc, w1) | Inr (Some i) \<Rightarrow> U i w1
          | Inr None \<Rightarrow> (case CreateInstance c s w1 of (Inl e, w) \<Rightarrow> (Inl e, vcE e, w) | (Inr i, w) \<Rightarrow> U i w)) = (r, vc', w')"
  obtains (failed) "frame w w'" "vc' = vc"
    | (not_created) e where "vc' = vcE e" "safe key v ident (insts w')" "others_kept s w w'"
    | (used) i w2 where "U i w2 = (r, vc', w')" "safe key v ident (insts w2)" "safe key v (i_ID i) (insts w2)"
        "others_kept s w w2" "ident \<noteq> '''' \<longrightarrow> i_ID i = ident"
proof -
  from assms(1) have f: "invar w1" "insts w1 = insts w" "frame w w1" by (simp_all add: lookup_ok_def frame_def)
  consider (err) e where "q = Inl e" | (none) "q = Inr None" | (some) i where "q = Inr (Some i)"
    by (metis sum.exhaust option.exhaust)
  then show ?thesis
  proof cases
    case err
    with assms(4) f show ?thesis by (intro failed) simp_all
  next
    case (some i)
    with assms(1,2,4) f show ?thesis by (intro used [of i w1]) (simp_all add: lookup_ok_def others_kept_def)
  next
    case none
    with assms(1) f have id: "ident = ''''" and empty: "live_ids key v (insts w1) = {}" by (simp_all add: lookup_ok_def)
    obtain q2 w2 where q2: "CreateInstance c s w1 = (q2, w2)" by fastforce
    note made = create_first [OF f(1) q2 assms(3) empty]
    have kept: "others_kept s w w2" using made(1,4,5) f(2) by (simp add: others_kept_def)
    show ?thesis
    proof (cases q2)
      case (Inl e)
      with none q2 assms(4) made(2) id kept show ?thesis by (intro not_created [of e]) simp_all
    next
      case (Inr i)
      with none q2 assms(4) made(2,3) id kept show ?thesis by (intro used [of i w2]) simp_all
    qed
  qed
qed

lemma reconcileLoadBalancer_ok:
  assumes "other_calls_ok env insts invar" "invar w" "lbs_listed vc (insts w)" "lbs_safe vc (insts w)"
    and "reconcileLoadBalancer env c cluster vc w = (r, vc', w')"
  shows "step_ok vc vc' w' \<and> slb_id vc' = slb_id vc \<and> (lb_id vc \<noteq> '''' \<longrightarrow> lb_id vc' = lb_id vc) \<and>
     listed_ok TagServiceLoadBalancer (clusterTagValue vc) (insts w')"
proof -
  let ?v = "clusterTagValue vc"
  obtain q1 w1 where q1: "ensureKeys env cluster vc (loadBalancerSecretName vc) w = (q1, w1)" by fastforce
  note f1 = ensureKeys_frame [OF assms(1) frame_refl [OF assms(2)] q1]
  obtain q2 w2 where q2: "findLoadBalancer c vc w1 = (q2, w2)" by fastforce
  have quiet: ?thesis if "frame w w'" "vc' = vc"
    using step_ok_frame [OF that(1) assms(4), of vc'] that assms(3) by (simp add: frame_def lbs_listed_def)
  have at: "safe TagLoadBalancer ?v (lb_id vc) (insts w1)" "listed_ok TagLoadBalancer ?v (insts w1)"
    "safe TagServiceLoadBalancer ?v (slb_id vc) (insts w1)" "listed_ok TagServiceLoadBalancer ?v (insts w1)"
    using frameD(2) [OF f1] assms(3,4) by (simp_all add: lbs_listed_def lbs_safe_def)
  show ?thesis
  proof (cases q1)
    case (Inl e)
    with assms(5) q1 f1 show ?thesis by (intro quiet) (auto simp: reconcileLoadBalancer_def)
  next
    case (Inr keys)
    let ?s = "lb_spec cluster vc keys"
    have kept: "safe TagServiceLoadBalancer ?v (slb_id vc) (insts w3) \<and> listed_ok TagServiceLoadBalancer ?v (insts w3) \<and> invar w3"
      if "others_kept ?s w1 w3" for w3
      using that at(3,4) clusterTagValue_nonempty [of vc, symmetric] by (simp add: others_kept_def safe_def)
    show ?thesis
    proof (rule find_or_create [OF lookups_ok(2) [OF frameD(1) [OF f1] at(2,1) refl refl refl q2] at(1) lb_spec_tags(1)])
      show "(case q2 of Inl e \<Rightarrow> (Inl e, vc, w2) | Inr (Some i) \<Rightarrow> use_lb env cluster vc keys i w2
          | Inr None \<Rightarrow> (case CreateInstance c ?s w2 of
              (Inl e, w) \<Rightarrow> (Inl e, setLBNotReady (ce_lib env) vc ''InstanceCreateFailed'' (ErrorText e), w)
            | (Inr i, w) \<Rightarrow> use_lb env cluster vc keys i w)) = (r, vc', w')"
        using assms(5) q1 q2 Inr
        by (simp add: reconcileLoadBalancer_def createLoadBalancer_def split: sum.splits option.splits)
    next
      assume "frame w1 w'" "vc' = vc"
      with frame_trans [OF f1] show ?thesis by (intro quiet)
    next
      fix e assume "vc' = setLBNotReady (ce_lib env) vc ''InstanceCreateFailed'' (ErrorText e)"
        "safe TagLoadBalancer ?v (lb_id vc) (insts w')" "others_kept ?s w1 w'"
      with kept show ?thesis by (auto simp: step_ok_def lbs_safe_def same_cluster_def clusterTagValue_def)
    next
      fix i w3 assume use: "use_lb env cluster vc keys i w3 = (r, vc', w')" and "others_kept ?s w1 w3"
        "safe TagLoadBalancer ?v (lb_id vc) (insts w3)" "safe TagLoadBalancer ?v (i_ID i) (insts w3)"
        "lb_id vc \<noteq> '''' \<longrightarrow> i_ID i = lb_id vc"
      with kept use_lb_frame [OF assms(1) frame_refl use] clusterTagValue_same [of vc vc'] show ?thesis
        by (simp add: step_ok_def frame_def lbs_safe_def)
    qed
  qed
qed

lemma reconcileEndpoint_ok:
  assumes "other_calls_ok env insts invar" "invar w" "lbs_listed vc (insts w)" "lbs_safe vc (insts w)"
    and "reconcileEndpoint env c cluster vc w = (r, vc', w')"
  shows "step_ok vc vc' w' \<and> slb_id vc' = slb_id vc \<and> (lb_id vc \<noteq> '''' \<longrightarrow> lb_id vc' = lb_id vc) \<and>
     listed_ok TagServiceLoadBalancer (clusterTagValue vc) (insts w')"
proof (cases "LoadBalancerEnabled vc")
  case True
  with reconcileLoadBalancer_ok [OF assms(1-4)] assms(5) show ?thesis by (simp add: reconcileEndpoint_def)
next
  case False
  with assms(5) have "w' = w" "keeps_cluster vc vc'"
    by (auto simp: reconcileEndpoint_def Let_def keeps_cluster_def same_cluster_def split: if_splits)
  with step_ok_frame [OF frame_refl [OF assms(2)] assms(4)] assms(3) show ?thesis
    by (simp add: keeps_cluster_def lbs_listed_def)
qed

section \<open>The service load balancer\<close>

lemma use_service_lb_frame:
  assumes "other_calls_ok env insts invar" "frame w0 w" "use_service_lb env cluster vc keys inst w = (r, vc', w')"
  shows "frame w0 w' \<and> same_cluster vc vc' \<and> om_Finalizers (vc_Meta vc') = om_Finalizers (vc_Meta vc) \<and>
     slb_id vc' = i_ID inst \<and> lb_id vc' = lb_id vc"
proof -
  obtain q1 w1 where q1: "publishServiceLoadBalancerSecret env cluster (i_IP inst) keys w = (q1, w1)" by fastforce
  note f1 = publish_frame [OF assms(1,2) q1]
  from assms(2,3) q1 f1 show ?thesis
    by (cases "lb_state_of inst"; cases q1) (auto simp: use_service_lb_def Let_def same_cluster_def)
qed

lemma reconcileServiceLoadBalancer_ok:
  assumes "other_calls_ok env insts invar" "invar w" "listed_ok TagServiceLoadBalancer (clusterTagValue vc) (insts w)"
    and "lbs_safe vc (insts w)" "reconcileServiceLoadBalancer env c cluster vc w = (r, vc', w')"
  shows "step_ok vc vc' w' \<and> lb_id vc' = lb_id vc"
proof -
  let ?v = "clusterTagValue vc"
  obtain q1 w1 where q1: "ensureKeys env cluster vc (serviceLoadBalancerSecretName vc) w = (q1, w1)" by fastforce
  note f1 = ensureKeys_frame [OF assms(1) frame_refl [OF assms(2)] q1]
  obtain q2 w2 where q2: "findInstanceByStatusOrTag c (slb_id vc) TagServiceLoadBalancer ?v w1 = (q2, w2)" by fastforce
  have quiet: ?thesis if "frame w w'" "vc' = vc"
    using step_ok_frame [OF that(1) assms(4), of vc'] that by simp
  have at: "safe TagServiceLoadBalancer ?v (slb_id vc) (insts w1)" "listed_ok TagServiceLoadBalancer ?v (insts w1)"
    "safe TagLoadBalancer ?v (lb_id vc) (insts w1)"
    using frameD(2) [OF f1] assms(3,4) by (simp_all add: lbs_safe_def)
  show ?thesis
  proof (cases q1)
    case (Inl e)
    with assms(5) q1 f1 show ?thesis by (intro quiet) (auto simp: reconcileServiceLoadBalancer_def)
  next
    case (Inr keys)
    let ?s = "service_lb_spec cluster vc keys"
    have kept: "safe TagLoadBalancer ?v (lb_id vc) (insts w3) \<and> invar w3" if "others_kept ?s w1 w3" for w3
      using that at(3) clusterTagValue_nonempty [of vc, symmetric] by (simp add: others_kept_def safe_def)
    show ?thesis
    proof (rule find_or_create [OF lookups_ok(1) [OF frameD(1) [OF f1] at(2,1) q2] at(1) service_lb_spec_tags(1)])
      show "(case q2 of Inl e \<Rightarrow> (Inl e, vc, w2) | Inr (Some i) \<Rightarrow> use_service_lb env cluster vc keys i w2
          | Inr None \<Rightarrow> (case CreateInstance c ?s w2 of
              (Inl e, w) \<Rightarrow> (Inl e, setServiceLBNotReady (ce_lib env) vc ''InstanceCreateFailed'' (ErrorText e), w)
            | (Inr i, w) \<Rightarrow> use_service_lb env cluster vc keys i w)) = (r, vc', w')"
        using assms(5) q1 q2 Inr by (simp add: reconcileServiceLoadBalancer_def split: sum.splits option.splits)
    next
      assume "frame w1 w'" "vc' = vc"
      with frame_trans [OF f1] show ?thesis by (intro quiet)
    next
      fix e assume "vc' = setServiceLBNotReady (ce_lib env) vc ''InstanceCreateFailed'' (ErrorText e)"
        "safe TagServiceLoadBalancer ?v (slb_id vc) (insts w')" "others_kept ?s w1 w'"
      with kept show ?thesis by (auto simp: step_ok_def lbs_safe_def same_cluster_def clusterTagValue_def)
    next
      fix i w3 assume use: "use_service_lb env cluster vc keys i w3 = (r, vc', w')" and "others_kept ?s w1 w3"
        "safe TagServiceLoadBalancer ?v (slb_id vc) (insts w3)" "safe TagServiceLoadBalancer ?v (i_ID i) (insts w3)"
      with kept use_service_lb_frame [OF assms(1) frame_refl use] clusterTagValue_same [of vc vc'] show ?thesis
        by (simp add: step_ok_def frame_def lbs_safe_def)
    qed
  qed
qed

section \<open>Deletion\<close>

text \<open>A delete request for the instance a lookup found keeps both load balancers safe.\<close>

lemma delete_found:
  assumes "lookup_ok key v ident w (Inr (Some inst)) w1" "\<not> instanceGone inst" "lbs_safe vc (insts w)"
    and "DeleteInstance c (i_ID inst) w1 = (q, w')"
  shows "invar w'" "lbs_safe vc (insts w')"
proof -
  from assms(1,2) have at: "invar w1" "insts w1 = insts w" "insts w1 (i_ID inst) = Some inst"
    by (simp_all add: lookup_ok_def frame_def)
  note del = DeleteInstance_known [OF at(1) assms(4) at(3) assms(2)]
  show "invar w'" by (rule del(1))
  have "safe key v ident (insts w) \<Longrightarrow> safe key v ident (insts w')" for key v ident
    by (rule safe_mono [OF _ del(2) [unfolded at(2)]])
  with assms(3) show "lbs_safe vc (insts w')" by (simp add: lbs_safe_def)
qed

lemma finish_service_lb_frame:
  assumes "frame w0 w" "finish_service_lb c vc w = (r, vc', w')"
  shows "frame w0 w' \<and> keeps_cluster vc vc'"
  using assms by (auto simp: finish_service_lb_def Let_def keeps_cluster_def same_cluster_def
      dest: framed split: if_splits prod.splits sum.splits)

lemma deleteServiceLoadBalancer_ok:
  assumes "invar w" "listed_ok TagServiceLoadBalancer (clusterTagValue vc) (insts w)"
    and "lbs_safe vc (insts w)" "deleteServiceLoadBalancer env c vc w = (r, vc', w')"
  shows "step_ok vc vc' w' \<and> keeps_cluster vc vc' \<and>
     (r = Inr False \<longrightarrow> frame w w' \<and> live_ids TagServiceLoadBalancer (clusterTagValue vc) (insts w) = {})"
proof -
  let ?v = "clusterTagValue vc"
  obtain q w1 where q: "findInstanceByStatusOrTag c (slb_id vc) TagServiceLoadBalancer ?v w = (q, w1)" by fastforce
  have look: "lookup_ok TagServiceLoadBalancer ?v (slb_id vc) w q w1"
    by (rule lookups_ok(1) [OF assms(1,2) _ q]) (use assms(3) in \<open>simp add: lbs_safe_def\<close>)
  then have f: "frame w w1" by (simp add: lookup_ok_def)
  have quiet: ?thesis if "frame w w'" "keeps_cluster vc vc'" "r = Inr False \<Longrightarrow> live_ids TagServiceLoadBalancer ?v (insts w) = {}"
    using step_ok_frame [OF that(1) assms(3) that(2)] that by simp
  have finish: ?thesis if "finish_service_lb c vc w2 = (r, vc', w')" "frame w w2"
    "live_ids TagServiceLoadBalancer ?v (insts w) = {}" for w2
    using finish_service_lb_frame [OF that(2,1)] that(3) by (intro quiet) simp_all
  consider (err) e where "q = Inl e" | (none) "q = Inr None" | (gone) inst where "q = Inr (Some inst)" "instanceGone inst"
    | (live) inst where "q = Inr (Some inst)" "\<not> instanceGone inst"
    by (metis sum.exhaust option.exhaust)
  then show ?thesis
  proof cases
    case err
    with assms(4) q f show ?thesis by (intro quiet) (auto simp: deleteServiceLoadBalancer_def)
  next
    case none
    with assms(4) q f look show ?thesis
      by (intro finish [of w1]) (auto simp: deleteServiceLoadBalancer_def lookup_ok_def)
  next
    case (gone inst)
    then have empty: "live_ids TagServiceLoadBalancer ?v (insts w) = {}" using look
      by (simp add: lookup_ok_def del: instanceGone.simps)
    obtain p w2 where p: "PurgeInstanceVolumes c (i_ID inst) w1 = (p, w2)" by fastforce
    note f2 = framed(3) [OF f p]
    have "(vc' = vc \<and> (w' = w1 \<or> w' = w2)) \<or> finish_service_lb c vc w1 = (r, vc', w') \<or> finish_service_lb c vc w2 = (r, vc', w')"
      using assms(4) q gone p
      by (cases p) (auto simp: deleteServiceLoadBalancer_def simp del: instanceGone.simps split: if_splits)
    with quiet finish [of w1] finish [of w2] f f2 empty show ?thesis by auto
  next
    case (live inst)
    obtain due meta where due: "deleteRequestDue (ce_now env) (vc_Meta vc) ''servicelb'' (i_Status inst) = (due, meta)"
      by fastforce
    obtain p w2 where p: "DeleteInstance c (i_ID inst) w1 = (p, w2)" by fastforce
    have ran: "r \<noteq> Inr False" "keeps_cluster vc vc'" "w' = w1 \<or> w' = w2"
      using assms(4) q live p due deleteRequestDue_state [OF due]
      by (cases p; auto simp: deleteServiceLoadBalancer_def Let_def keeps_cluster_def same_cluster_def
          simp del: instanceGone.simps split: if_splits)+
    have "invar w'" "lbs_safe vc (insts w')"
      using ran(3) f delete_found [OF look [unfolded live(1)] live(2) assms(3) p] assms(3) by (auto simp: frame_def)
    with ran(1,2) clusterTagValue_same [of vc vc'] show ?thesis
      by (simp add: step_ok_def keeps_cluster_def lbs_safe_def)
  qed
qed

lemma finish_cluster_frame:
  assumes "frame w0 w" "finish_cluster K c vc w = (r, vc', w')"
  shows "frame w0 w' \<and> same_cluster vc vc' \<and> lb_id vc' = lb_id vc \<and> slb_id vc' = slb_id vc"
  using assms by (auto simp: finish_cluster_def Let_def same_cluster_def
      dest: framed split: if_splits prod.splits sum.splits)

lemma delete_lb_ok:
  assumes "invar w" "listed_ok TagLoadBalancer (clusterTagValue vc) (insts w)"
    and "lbs_safe vc (insts w)" "delete_lb env c vc w = (r, vc', w')"
  shows "invar w' \<and> same_cluster vc vc' \<and> lb_id vc' = lb_id vc \<and> slb_id vc' = slb_id vc \<and> lbs_safe vc (insts w') \<and>
     (om_Finalizers (vc_Meta vc') \<noteq> om_Finalizers (vc_Meta vc) \<longrightarrow>
        frame w w' \<and> live_ids TagLoadBalancer (clusterTagValue vc) (insts w) = {})"
proof -
  let ?v = "clusterTagValue vc"
  obtain q w1 where q: "findLoadBalancer c vc w = (q, w1)" by fastforce
  have look: "lookup_ok TagLoadBalancer ?v (lb_id vc) w q w1"
    by (rule lookups_ok(2) [OF assms(1,2) _ refl refl refl q]) (use assms(3) in \<open>simp add: lbs_safe_def\<close>)
  then have f: "frame w w1" by (simp add: lookup_ok_def)
  have quiet: ?thesis if "frame w w'" "keeps_cluster vc vc'"
    using that assms(3) by (simp add: frame_def keeps_cluster_def)
  have finish: ?thesis if "finish_cluster (ce_lib env) c vc w2 = (r, vc', w')" "frame w w2"
    "live_ids TagLoadBalancer ?v (insts w) = {}" for w2
    using finish_cluster_frame [OF that(2,1)] that(3) assms(3) by (simp add: frame_def)
  consider (err) e where "q = Inl e" | (none) "q = Inr None" | (gone) inst where "q = Inr (Some inst)" "instanceGone inst"
    | (live) inst where "q = Inr (Some inst)" "\<not> instanceGone inst"
    by (metis sum.exhaust option.exhaust)
  then show ?thesis
  proof cases
    case err
    with assms(4) q f show ?thesis by (intro quiet) (auto simp: delete_lb_def)
  next
    case none
    with assms(4) q f look show ?thesis by (intro finish [of w1]) (auto simp: delete_lb_def lookup_ok_def)
  next
    case (gone inst)
    then have empty: "live_ids TagLoadBalancer ?v (insts w) = {}" using look
      by (simp add: lookup_ok_def del: instanceGone.simps)
    obtain p w2 where p: "PurgeInstanceVolumes c (i_ID inst) w1 = (p, w2)" by fastforce
    note f2 = framed(3) [OF f p]
    have "(vc' = vc \<and> (w' = w1 \<or> w' = w2)) \<or> finish_cluster (ce_lib env) c vc w1 = (r, vc', w') \<or>
        finish_cluster (ce_lib env) c vc w2 = (r, vc', w')"
      using assms(4) q gone p by (cases p) (auto simp: delete_lb_def simp del: instanceGone.simps split: if_splits)
    with quiet finish [of w1] finish [of w2] f f2 empty show ?thesis by auto
  next
    case (live inst)
    obtain due meta where due: "deleteRequestDue (ce_now env) (vc_Meta vc) ''lb'' (i_Status inst) = (due, meta)" by fastforce
    obtain p w2 where p: "DeleteInstance c (i_ID inst) w1 = (p, w2)" by fastforce
    have ran: "keeps_cluster vc vc'" "w' = w1 \<or> w' = w2"
      using assms(4) q live p due deleteRequestDue_state [OF due]
      by (cases p; auto simp: delete_lb_def Let_def keeps_cluster_def same_cluster_def
          simp del: instanceGone.simps split: if_splits)+
    have "invar w'" "lbs_safe vc (insts w')"
      using ran(2) f delete_found [OF look [unfolded live(1)] live(2) assms(3) p] assms(3) by (auto simp: frame_def)
    with ran(1) show ?thesis by (simp add: keeps_cluster_def)
  qed
qed

section \<open>One call of Reconcile\<close>

lemma cluster_reconcileNormal_ok:
  assumes "other_calls_ok env insts invar" "invar w" "lbs_listed vc (insts w)" "lbs_safe vc (insts w)"
    and "cluster_reconcileNormal env c cluster vc w = (r, vc', w')"
  shows "step_ok vc vc' w'"
proof -
  obtain q1 vc1 w1 where q1: "reconcileEndpoint env c cluster vc w = (q1, vc1, w1)" by (metis prod_cases3)
  note ep = reconcileEndpoint_ok [OF assms(1-4) q1]
  then have at: "invar w1" "lbs_safe vc1 (insts w1)" "clusterTagValue vc1 = clusterTagValue vc"
    "listed_ok TagServiceLoadBalancer (clusterTagValue vc1) (insts w1)"
    using clusterTagValue_same [of vc vc1] by (auto simp: step_ok_def)
  have chain: "step_ok vc vc' w'" if "step_ok vc1 vc' w'"
    using that ep at(3) by (auto simp: step_ok_def same_cluster_def lbs_safe_def intro: safe_none)
  have slb: "step_ok vc1 vc' w'" if "reconcileServiceLoadBalancer env c cluster vc1 w1 = (q, vc', w')" for q
    using reconcileServiceLoadBalancer_ok [OF assms(1) at(1,4,2) that] by simp
  obtain q2 vc2 w2 where q2: "deleteServiceLoadBalancer env c vc1 w1 = (q2, vc2, w2)" by (metis prod_cases3)
  note del = deleteServiceLoadBalancer_ok [OF at(1,4,2) q2]
  have gone: "step_ok vc1 (delete_ccondition K (upd_slb (\<lambda>_. zero_lb_status) vc2) t) (removeServiceLoadBalancerSecret env cluster w2)"
    for K t
    using del removeSecret_frame [OF assms(1) frame_refl, of w2 cluster]
    by (auto simp: step_ok_def same_cluster_def lbs_safe_def zero_lb_status_def frame_def clusterTagValue_def
        delete_ccondition_def intro: safe_none)
  have unused: "step_ok vc1 (delete_ccondition K vc1 t) w1" for K t
    by (rule step_ok_frame [OF frame_refl [OF at(1)] at(2)]) (simp add: keeps_cluster_def same_cluster_def)
  consider (err) e where "q1 = Inl e" | (on) res where "q1 = Inr res" "ServiceLoadBalancerEnabled vc1"
    | (off) res where "q1 = Inr res" "\<not> ServiceLoadBalancerEnabled vc1" by (metis sum.exhaust)
  then show ?thesis
  proof cases
    case err
    with assms(5) q1 ep show ?thesis by (auto simp: cluster_reconcileNormal_def)
  next
    case on
    obtain q3 vc3 w3 where q3: "reconcileServiceLoadBalancer env c cluster vc1 w1 = (q3, vc3, w3)" by (metis prod_cases3)
    with on assms(5) q1 have "vc' = vc3" "w' = w3" by (cases q3; simp add: cluster_reconcileNormal_def)+
    with q3 show ?thesis by (intro chain slb) simp
  next
    case off
    with assms(5) q1 q2 del gone unused show ?thesis
      by (cases q2) (auto simp: cluster_reconcileNormal_def Let_def intro!: chain split: if_splits)
  qed
qed

text \<open>The outcome for a cluster object; the finalizer goes only when no load balancer is live.\<close>

definition outcome_ok :: "VerdaCluster \<Rightarrow> VerdaCluster \<Rightarrow> 'w \<Rightarrow> bool" where
  "outcome_ok vc vc' w' = (invar w' \<and> same_cluster vc vc' \<and> lbs_safe vc (insts w') \<and> lbs_safe vc' (insts w') \<and>
     (om_Finalizers (vc_Meta vc') \<noteq> om_Finalizers (vc_Meta vc) \<longrightarrow> no_lbs vc (insts w')))"

lemma step_outcome: "step_ok vc vc' w' \<Longrightarrow> outcome_ok vc vc' w'"
  by (simp add: step_ok_def outcome_ok_def)

lemma cluster_reconcileDelete_ok:
  assumes "invar w" "lbs_listed vc (insts w)" "lbs_safe vc (insts w)"
    and "cluster_reconcileDelete env c vc w = (r, vc', w')"
  shows "outcome_ok vc vc' w'"
proof -
  obtain q1 vc1 w1 where q1: "deleteServiceLoadBalancer env c vc w = (q1, vc1, w1)" by (metis prod_cases3)
  note del = deleteServiceLoadBalancer_ok [OF assms(1) _ assms(3) q1]
  show ?thesis
  proof (cases "q1 = Inr False")
    case False
    with assms(4) q1 have "vc' = vc1" "w' = w1" by (cases q1; auto simp: cluster_reconcileDelete_def split: if_splits)+
    with del assms(2) show ?thesis by (auto simp: lbs_listed_def intro: step_outcome)
  next
    case True
    with del assms(2) have one: "step_ok vc vc1 w1" "keeps_cluster vc vc1" "frame w w1"
      "live_ids TagServiceLoadBalancer (clusterTagValue vc) (insts w) = {}" by (simp_all add: lbs_listed_def)
    have tag: "clusterTagValue vc1 = clusterTagValue vc" by (rule clusterTagValue_same [OF keeps_cluster_same [OF one(2)]])
    from True assms(4) q1 have run: "delete_lb env c vc1 w1 = (r, vc', w')" by (simp add: cluster_reconcileDelete_def)
    have "listed_ok TagLoadBalancer (clusterTagValue vc1) (insts w1)" "lbs_safe vc1 (insts w1)"
      using one assms(2) tag by (simp_all add: lbs_listed_def frame_def step_ok_def)
    from delete_lb_ok [OF frameD(1) [OF one(3)] this run] one tag clusterTagValue_same [of vc1 vc'] show ?thesis
      by (auto simp: outcome_ok_def step_ok_def keeps_cluster_def same_cluster_def lbs_safe_def no_lbs_def frame_def)
  qed
qed

lemma patch_keeps_cluster: "keeps_cluster vc (snd (patchVerdaCluster env vc))"
  by (simp add: patchVerdaCluster_def Let_def keeps_cluster_def same_cluster_def)

lemma outcome_keeps:
  assumes "outcome_ok vc vc1 w'" "keeps_cluster vc1 vc'"
  shows "outcome_ok vc vc' w'"
  using assms clusterTagValue_same [of vc1 vc'] by (auto simp: outcome_ok_def keeps_cluster_def same_cluster_def lbs_safe_def)

lemma keeps_outcome:
  assumes "keeps_cluster vc vc1" "outcome_ok vc1 vc' w'"
  shows "outcome_ok vc vc' w'"
  using assms clusterTagValue_same [of vc vc1]
  by (auto simp: outcome_ok_def keeps_cluster_def same_cluster_def lbs_safe_def no_lbs_def)

lemma quiet_outcome: "invar w \<Longrightarrow> lbs_safe vc (insts w) \<Longrightarrow> keeps_cluster vc vc' \<Longrightarrow> outcome_ok vc vc' w"
  by (rule step_outcome) (rule step_ok_frame [OF frame_refl])

lemma cluster_scope_ok:
  assumes "cluster_env_for env vc0 c" "other_calls_ok env insts invar" "invar w"
    and "lbs_listed vc (insts w)" "lbs_safe vc (insts w)" "cluster_scope env cluster vc w = (r, vc', w')"
  shows "outcome_ok vc vc' w'"
proof (cases "ce_ClientFor env (cluster_identity vc)")
  case (Inl e)
  with assms(3,5,6) show ?thesis
    by (auto simp: cluster_scope_def keeps_cluster_def same_cluster_def intro!: quiet_outcome)
next
  case (Inr c')
  with assms(1) have "c' = c" by (simp add: cluster_env_for_def)
  with Inr assms(6) step_outcome [OF cluster_reconcileNormal_ok [OF assms(2-5)]]
    cluster_reconcileDelete_ok [OF assms(3-5)] show ?thesis
    by (auto simp: cluster_scope_def split: if_splits)
qed

lemma cluster_Reconcile_cases:
  assumes "cluster_env_for env vc c" "cluster_Reconcile env w = (r, out, w')"
  obtains (idle) "out = None" "w' = w"
    | (scope) cluster vc1 res vc2 where "keeps_cluster vc vc1" "cluster_scope env cluster vc1 w = (res, vc2, w')"
        "out = Some (snd (patchVerdaCluster env vc2))"
    | (orphan) res vc2 where "cluster_reconcileDelete env c vc w = (res, vc2, w')"
        "out = Some (snd (patchVerdaCluster env vc2))"
    | (no_client) "out = Some (snd (patchVerdaCluster env vc))" "w' = w"
proof -
  have patch: "with_cluster_patch env p = (r, out, w') \<Longrightarrow>
      \<exists>res vc2. p = (res, vc2, w') \<and> out = Some (snd (patchVerdaCluster env vc2))" for p
    by (cases p) (auto simp: with_cluster_patch_def split: prod.splits)
  have vc: "ce_GetVerdaCluster env = Inr vc" and client: "\<And>ident c'. ce_ClientFor env ident = Inr c' \<Longrightarrow> c' = c"
    using assms(1) by (auto simp: cluster_env_for_def)
  have paused: "keeps_cluster vc vc1" if "ce_EnsurePausedCondition env cl vc = (q, vc1)" for cl q vc1
    using assms(1) that unfolding cluster_env_for_def by (metis snd_conv)
  consider (a) "out = None" "w' = w" | (b) "cluster_reconcileOrphanDelete env vc w = (r, out, w')"
    | (d) cluster q vc1 where "ce_EnsurePausedCondition env cluster vc = (q, vc1)"
        "with_cluster_patch env (cluster_scope env cluster vc1 w) = (r, out, w')"
    using assms(2) vc unfolding cluster_Reconcile_def
    by (auto split: sum.splits option.splits prod.splits if_splits)
  then show ?thesis
  proof cases
    case a
    then show ?thesis by (rule idle)
  next
    case b
    show ?thesis
    proof (cases "ce_ClientFor env (cluster_identity vc)")
      case (Inl e)
      with b show ?thesis using idle no_client
        by (auto simp: cluster_reconcileOrphanDelete_def split: sum.splits dest!: patch)
    next
      case (Inr c')
      with b client [OF Inr] show ?thesis using idle orphan
        by (auto simp: cluster_reconcileOrphanDelete_def split: sum.splits dest!: patch)
    qed
  next
    case d
    from patch [OF d(2)] scope [OF paused [OF d(1)]] show ?thesis by blast
  qed
qed

lemma cluster_Reconcile_ok:
  assumes "cluster_env_for env vc c" "other_calls_ok env insts invar" "invar w"
    and "lbs_listed vc (insts w)" "lbs_safe vc (insts w)" "cluster_Reconcile env w = (r, out, w')"
  shows "invar w' \<and> lbs_safe vc (insts w') \<and> (\<forall>vc'. out = Some vc' \<longrightarrow> outcome_ok vc vc' w')"
  using assms(1,6)
proof (cases rule: cluster_Reconcile_cases)
  case idle
  with assms(3,5) show ?thesis by simp
next
  case (scope cluster vc1 res vc2)
  have "lbs_listed vc1 (insts w)" "lbs_safe vc1 (insts w)"
    using assms(4,5) scope(1) clusterTagValue_same [OF keeps_cluster_same [OF scope(1)]]
    by (simp_all add: lbs_listed_def lbs_safe_def keeps_cluster_def)
  note keeps_outcome [OF scope(1) cluster_scope_ok [OF assms(1-3) this scope(2)]]
  from this outcome_keeps [OF this patch_keeps_cluster] scope(3) show ?thesis by (auto simp: outcome_ok_def)
next
  case (orphan res vc2)
  note cluster_reconcileDelete_ok [OF assms(3-5) orphan(1)]
  from this outcome_keeps [OF this patch_keeps_cluster] orphan(2) show ?thesis by (auto simp: outcome_ok_def)
next
  case no_client
  with quiet_outcome [OF assms(3,5) patch_keeps_cluster] assms(3,5) show ?thesis by simp
qed

section \<open>All sequences of calls\<close>

lemma cluster_reach_safe:
  "cluster_reach c insts invar vc w \<Longrightarrow> invar w \<and> lbs_listed vc (insts w) \<and> lbs_safe vc (insts w)"
proof (induction rule: cluster_reach.induct)
  case (new_cluster w vc)
  then show ?case by (simp add: lbs_safe_def no_lbs_def safe_def at_most_one_def)
next
  case (next_cluster vc w vc' w')
  from next_cluster.hyps(2) show ?case
  proof cases
    case (reconciled env r out)
    from cluster_Reconcile_ok [OF reconciled(1,2) _ _ _ reconciled(3)] next_cluster.IH reconciled(4) next_cluster.hyps(3)
    show ?thesis by (auto simp: outcome_ok_def)
  next
    case edited
    with clusterTagValue_same [of vc vc'] next_cluster.IH next_cluster.hyps(3) show ?thesis by (simp add: lbs_safe_def)
  next
    case evolved
    have "live_ids key (clusterTagValue vc) (insts w') \<subseteq> live_ids key (clusterTagValue vc) (insts w)"
      if "key \<in> {TagLoadBalancer, TagServiceLoadBalancer}" for key
      by (rule live_ids_aged) (use that next_cluster.IH evolved(2,3) in \<open>auto simp: cloud_evolves_def lbs_listed_def\<close>)
    with evolved next_cluster.IH next_cluster.hyps(3) show ?thesis by (auto simp: lbs_safe_def intro: safe_mono)
  qed
qed

lemma cluster_reach_one:
  assumes "cluster_reach c insts invar vc w" "key \<in> {TagLoadBalancer, TagServiceLoadBalancer}"
    and "insts w k = Some i" "tagged key (clusterTagValue vc) i" "\<not> instanceGone i"
    and "insts w k' = Some j" "tagged key (clusterTagValue vc) j" "\<not> instanceGone j"
  shows "k = k'"
proof -
  have "k \<in> live_ids key (clusterTagValue vc) (insts w)" "k' \<in> live_ids key (clusterTagValue vc) (insts w)"
    using assms(3-) by (auto simp: live_ids_def)
  then show ?thesis using cluster_reach_safe [OF assms(1)] assms(2) by (auto simp: lbs_safe_def safe_def at_most_one_def)
qed

lemma cluster_reach_no_leak:
  assumes "cluster_reach c insts invar vc w" "cluster_env_for env vc c" "other_calls_ok env insts invar"
    and "cluster_Reconcile env w = (r, Some vc', w')"
    and "ClusterFinalizer \<in> set (om_Finalizers (vc_Meta vc))" "ClusterFinalizer \<notin> set (om_Finalizers (vc_Meta vc'))"
    and "key \<in> {TagLoadBalancer, TagServiceLoadBalancer}"
    and "insts w' k = Some i" "tagged key (clusterTagValue vc) i"
  shows "instanceGone i"
proof -
  from assms(5,6) have "om_Finalizers (vc_Meta vc') \<noteq> om_Finalizers (vc_Meta vc)" by auto
  with cluster_Reconcile_ok [OF assms(2,3) _ _ _ assms(4)] cluster_reach_safe [OF assms(1)]
  have "live_ids key (clusterTagValue vc) (insts w') = {}" using assms(7) by (auto simp: outcome_ok_def no_lbs_def)
  with assms(8,9) show ?thesis unfolding live_ids_def by blast
qed

end

end
