(* ===== verification/ClusterDeletion.thy ===== *)
theory ClusterDeletion
  imports DeletionProgress ClusterProps
begin

text \<open>
  The deletion of a cluster under \<open>deletion_service\<close>: first its service load balancer goes, then its
  control plane load balancer, then the finalizer.
\<close>

section \<open>A cluster that is being deleted\<close>

abbreviation has_cluster_finalizer :: "VerdaCluster \<Rightarrow> bool" where
  "has_cluster_finalizer vc \<equiv> ClusterFinalizer \<in> set (om_Finalizers (vc_Meta vc))"

definition lb_known :: "string set \<Rightarrow> (string \<times> string) set \<Rightarrow> string \<Rightarrow> string \<Rightarrow> string \<Rightarrow> bool" where
  "lb_known ids tags ident key val = (if ident = '''' then (key, val) \<in> tags else ident \<in> ids)"

definition deleting_cluster :: "string set \<Rightarrow> (string \<times> string) set \<Rightarrow> nat \<Rightarrow> VerdaCluster \<Rightarrow> bool" where
  "deleting_cluster ids tags now vc =
     (lb_known ids tags (lb_id vc) TagLoadBalancer (clusterTagValue vc) \<and>
      lb_known ids tags (slb_id vc) TagServiceLoadBalancer (clusterTagValue vc) \<and>
      om_DeletionTimestamp (vc_Meta vc) \<noteq> None \<and>
      throttle_open now ''lb'' (vc_Meta vc) \<and> throttle_open now ''servicelb'' (vc_Meta vc))"

text \<open>Between two rounds only the throttle of the one or the other load balancer may change.\<close>

lemma deleting_cluster_cong:
  assumes "deleting_cluster ids tags now vc"
    and "throttle_open now ''lb'' (vc_Meta vc')" "throttle_open now ''servicelb'' (vc_Meta vc')"
    and "vc_Name vc' = vc_Name vc" "vc_Namespace vc' = vc_Namespace vc" "lb_id vc' = lb_id vc" "slb_id vc' = slb_id vc"
    and "om_DeletionTimestamp (vc_Meta vc') = om_DeletionTimestamp (vc_Meta vc)"
  shows "deleting_cluster ids tags now vc'"
proof -
  have "clusterTagValue vc' = clusterTagValue vc" using assms(4,5) by (simp add: clusterTagValue_def)
  with assms show ?thesis by (simp add: deleting_cluster_def)
qed

lemma deleting_cluster_fields:
  assumes "deleting_cluster ids tags now vc" "vc_Meta vc' = vc_Meta vc" "lb_id vc' = lb_id vc" "slb_id vc' = slb_id vc"
  shows "deleting_cluster ids tags now vc'"
  by (rule deleting_cluster_cong [OF assms(1)]) (use assms in \<open>simp_all add: deleting_cluster_def\<close>)

lemma deleting_cluster_later:
  "deleting_cluster ids tags now vc \<Longrightarrow> now \<le> later \<Longrightarrow> deleting_cluster ids tags later vc"
  by (auto simp: deleting_cluster_def intro: throttle_open_mono)

lemma annotation_keys_differ: "annotation_key ''lb'' \<noteq> annotation_key ''servicelb''"
  by (simp add: annotation_key_def)

text \<open>A request for one load balancer leaves both throttles open for the next round.\<close>

lemma deleting_cluster_requested:
  assumes "deleting_cluster ids tags now vc" "suffix \<in> {''lb'', ''servicelb''}"
    and "CHR ''@'' \<notin> set state" "year_of now < 10000" "int now + deleteRetryInterval \<le> int later"
    and "vc_Meta vc' = (vc_Meta vc)\<lparr>om_Annotations :=
      AList.update (annotation_key suffix) (state @ ''@'' @ Format_RFC3339 now) (om_Annotations (vc_Meta vc))\<rparr>"
    and "lb_id vc' = lb_id vc" "slb_id vc' = slb_id vc"
  shows "deleting_cluster ids tags later vc'"
proof -
  note late = deleting_cluster_later [OF assms(1) later_after [OF assms(5)]]
  have ann: "om_Annotations (vc_Meta vc') =
      AList.update (annotation_key suffix) (state @ ''@'' @ Format_RFC3339 now) (om_Annotations (vc_Meta vc))"
    by (simp add: assms(6))
  have "throttle_open later s (vc_Meta vc')" if "s \<in> {''lb'', ''servicelb''}" for s
  proof (cases "s = suffix")
    case True
    show ?thesis unfolding True by (rule throttle_open_again [OF ann assms(3-5)])
  next
    case False
    then have "annotation_key suffix \<noteq> annotation_key s" using that assms(2) annotation_keys_differ by force
    moreover have "throttle_open later s (vc_Meta vc)" using late that by (auto simp: deleting_cluster_def)
    ultimately show ?thesis using throttle_open_other ann by blast
  qed
  then show ?thesis by (intro deleting_cluster_cong [OF late]) (simp_all add: assms(6-8))
qed

section \<open>Under the contract\<close>

context deletion_service
begin

lemma by_status_answers:
  assumes "ok w" "k \<in> ids" "by_status c k w = (r, w')"
  shows "ok w' \<and> st w' = st w \<and> left w' \<le> left w \<and> (\<exists>i. r = Inr (Some i) \<and>
     (i_Status i = StatusNotFound \<or> i_ID i \<in> ids \<and> st w (i_ID i) = Some i))"
proof -
  obtain q w1 where q: "GetInstance c k w = (q, w1)" by fastforce
  from GetInstance_answers [OF assms(1,2) q] st_ID [OF assms(1,2)] assms(2,3) q show ?thesis
    by (cases "st w k") (auto simp: by_status_def bare_Instance_def)
qed

lemma lb_lookup_answers:
  assumes "ok w" "lb_known ids tags ident key val"
    and "(if ident \<noteq> '''' then by_status c ident w
      else case FindInstanceByTag c key val w of
        (Inl err, w) \<Rightarrow> if errors_Is err ErrNotFound then (Inr None, w) else (Inl err, w)
      | (Inr inst, w) \<Rightarrow> (Inr (f inst), w)) = (r, w')"
    and "\<And>i j. f i = Some j \<Longrightarrow> j = i"
  shows "ok w' \<and> st w' = st w \<and> left w' \<le> left w \<and> (\<exists>found. r = Inr found \<and>
     (\<forall>i. found = Some i \<longrightarrow> i_Status i = StatusNotFound \<or> i_ID i \<in> ids \<and> st w (i_ID i) = Some i))"
proof (cases "ident = ''''")
  case True
  obtain q w1 where q: "FindInstanceByTag c key val w = (q, w1)" by fastforce
  from True assms(2) have k: "(key, val) \<in> tags" by (simp add: lb_known_def)
  note found = FindInstanceByTag_answers [OF assms(1) k q]
  show ?thesis
  proof (cases q)
    case (Inl e)
    with found True assms(3) q show ?thesis by auto
  next
    case (Inr i)
    with True assms(3) q have "r = Inr (f i)" "w' = w1" by auto
    with found Inr assms(4) [of i] show ?thesis by auto
  qed
next
  case False
  with assms(2) have "ident \<in> ids" by (simp add: lb_known_def)
  from by_status_answers [OF assms(1) this] False assms(3) show ?thesis by (auto split: if_splits)
qed

lemma findLoadBalancer_answers:
  assumes "ok w" "deleting_cluster ids tags now vc" "findLoadBalancer c vc w = (r, w')"
  shows "ok w' \<and> st w' = st w \<and> left w' \<le> left w \<and> (\<exists>found. r = Inr found \<and>
     (\<forall>i. found = Some i \<longrightarrow> i_Status i = StatusNotFound \<or> i_ID i \<in> ids \<and> st w (i_ID i) = Some i))"
  by (rule lb_lookup_answers [OF assms(1), where f = Some])
    (use assms(2,3) in \<open>auto simp: deleting_cluster_def findLoadBalancer_def\<close>)

lemma findInstanceByStatusOrTag_answers:
  assumes "ok w" "deleting_cluster ids tags now vc"
    and "findInstanceByStatusOrTag c (slb_id vc) TagServiceLoadBalancer (clusterTagValue vc) w = (r, w')"
  shows "ok w' \<and> st w' = st w \<and> left w' \<le> left w \<and> (\<exists>found. r = Inr found \<and>
     (\<forall>i. found = Some i \<longrightarrow> i_Status i = StatusNotFound \<or> i_ID i \<in> ids \<and> st w (i_ID i) = Some i))"
  by (rule lb_lookup_answers [OF assms(1), where f = "\<lambda>i. if instanceGone i then None else Some i"])
    (use assms(2,3) in \<open>auto simp: deleting_cluster_def findInstanceByStatusOrTag_def split: if_splits\<close>)

lemma finish_service_lb_answers:
  assumes "ok w" "deleting_cluster ids tags now vc" "finish_service_lb c vc w = (r, vc', w')"
  shows "r = Inr False \<and> ok w' \<and> left w' \<le> left w \<and> deleting_cluster ids tags now vc'"
proof -
  obtain u1 w1 where 1: "DeleteStartupScript c (ls_StartupScriptID (slb_status vc)) w = (u1, w1)" by fastforce
  obtain u2 w2 where 2: "DeleteStartupScriptByName c (serviceLoadBalancerHostname vc) w = (u2, w2)" by fastforce
  from DeleteStartupScript_answers [OF assms(1) 1] DeleteStartupScriptByName_answers [OF assms(1) 2] assms(3) 1 2
  have "r = Inr False \<and> ok w' \<and> left w' \<le> left w \<and> vc_Meta vc' = vc_Meta vc \<and> lb_id vc' = lb_id vc \<and> slb_id vc' = slb_id vc"
    by (auto simp: finish_service_lb_def Let_def split: if_splits)
  with deleting_cluster_fields [OF assms(2), of vc'] show ?thesis by simp
qed

lemma finish_cluster_releases:
  assumes "klib_ok K" "ok w" "finish_cluster K c vc w = (r, vc', w')"
  shows "\<not> has_cluster_finalizer vc'"
proof -
  obtain u1 w1 where 1: "DeleteStartupScript c (ls_StartupScriptID (lb_status vc)) w = (u1, w1)" by fastforce
  obtain u2 w2 where 2: "DeleteStartupScriptByName c (loadBalancerHostname vc) w = (u2, w2)" by fastforce
  from DeleteStartupScript_answers [OF assms(2) 1] DeleteStartupScriptByName_answers [OF assms(2) 2] assms(3) 1 2
  show ?thesis by (auto simp: finish_cluster_def Let_def klib_simps [OF assms(1)] split: if_splits)
qed

end


section \<open>One reconcile of a cluster that is being deleted\<close>

context deletion_service
begin

text \<open>The request for one of the load balancers, which both deletions share.\<close>

lemma lb_request_advances:
  assumes "ok w" "deleting_cluster ids tags now vc" "suffix \<in> {''lb'', ''servicelb''}"
    and "i_ID i \<in> ids" "st w (i_ID i) = Some i" "\<not> instanceGone i"
    and "year_of now < 10000" "int now + deleteRetryInterval \<le> int later"
    and run: "(if i_Status i = StatusDeleting then (wait, vc, w)
      else let (due, meta) = deleteRequestDue now (vc_Meta vc) suffix (i_Status i); vc = vc\<lparr>vc_Meta := meta\<rparr>
           in if \<not> due then (wait, vc, w)
              else case DeleteInstance c (i_ID i) w of
                (Inl err, w) \<Rightarrow> (Inl err, vc, w)
              | (Inr _, w) \<Rightarrow> (wait, mark vc, w)) = (r, vc', w')"
    and keep: "\<And>vc. vc_Meta (mark vc) = vc_Meta vc \<and> lb_id (mark vc) = lb_id vc \<and> slb_id (mark vc) = slb_id vc"
  shows "r = wait \<and> advances left waiting w w' \<and> ok w' \<and> deleting_cluster ids tags later vc'"
proof (cases "i_Status i = StatusDeleting")
  case True
  with run st_deleting [OF assms(1,4,5) True] assms(1) deleting_cluster_later [OF assms(2) later_after [OF assms(8)]]
  show ?thesis by (auto simp: advances_def)
next
  case False
  obtain u w1 where u: "DeleteInstance c (i_ID i) w = (u, w1)" by fastforce
  note d = DeleteInstance_accepted [OF assms(1,4,5,6) False u]
  note i = st_ID [OF assms(1,4,5)]
  have open_: "throttle_open now suffix (vc_Meta vc)" using assms(2,3) by (auto simp: deleting_cluster_def)
  define meta where "meta = (vc_Meta vc)\<lparr>om_Annotations :=
      AList.update (annotation_key suffix) (i_Status i @ ''@'' @ Format_RFC3339 now) (om_Annotations (vc_Meta vc))\<rparr>"
  have "r = wait" "vc' = mark (vc\<lparr>vc_Meta := meta\<rparr>)" "w' = w1"
    using run False u d throttle_open_due [OF open_] by (auto simp: Let_def meta_def)
  moreover have "deleting_cluster ids tags later (mark (vc\<lparr>vc_Meta := meta\<rparr>))"
    by (rule deleting_cluster_requested [OF assms(2,3) _ assms(7,8)]) (use i keep in \<open>simp_all add: meta_def\<close>)
  ultimately show ?thesis using d by (auto simp: advances_def)
qed

lemma deleteServiceLoadBalancer_advances:
  assumes "ok w" "deleting_cluster ids tags now vc" "ce_now env = now"
    and "year_of now < 10000" "int now + deleteRetryInterval \<le> int later"
    and "deleteServiceLoadBalancer env c vc w = (r, vc', w')"
  shows "r = Inr True \<and> advances left waiting w w' \<and> ok w' \<and> deleting_cluster ids tags later vc' \<or>
     r = Inr False \<and> ok w' \<and> left w' \<le> left w \<and> deleting_cluster ids tags now vc'"
proof -
  obtain q w1 where q: "findInstanceByStatusOrTag c (slb_id vc) TagServiceLoadBalancer (clusterTagValue vc) w = (q, w1)"
    by fastforce
  from findInstanceByStatusOrTag_answers [OF assms(1,2) q] obtain found where
    w1: "ok w1" "st w1 = st w" "left w1 \<le> left w" and found: "q = Inr found"
      "\<And>i. found = Some i \<Longrightarrow> i_Status i = StatusNotFound \<or> i_ID i \<in> ids \<and> st w (i_ID i) = Some i" by blast
  note run = assms(6) [unfolded deleteServiceLoadBalancer_def assms(3) q found(1) prod.case sum.case]
  have finish: "?thesis" if "finish_service_lb c vc w2 = (r, vc', w')" "ok w2" "left w2 \<le> left w1" for w2
    using finish_service_lb_answers [OF that(2) assms(2) that(1)] that(3) w1(3) by auto
  show ?thesis
  proof (cases found)
    case None
    with run have "finish_service_lb c vc w1 = (r, vc', w')" by simp
    from finish [OF this w1(1)] show ?thesis by simp
  next
    case (Some i)
    obtain p w2 where p: "PurgeInstanceVolumes c (i_ID i) w1 = (p, w2)" by fastforce
    consider (gone) "i_Status i = StatusNotFound"
      | (there) "i_Status i \<noteq> StatusNotFound" "i_ID i \<in> ids" "st w1 (i_ID i) = Some i"
      using found(2) [OF Some] w1(2) by auto
    then show ?thesis
    proof cases
      case gone
      with run Some have "finish_service_lb c vc w1 = (r, vc', w')" by simp
      from finish [OF this w1(1)] show ?thesis by simp
    next
      case there
      show ?thesis
      proof (cases "instanceGone i")
        case False
        have "r = Inr True \<and> advances left waiting w1 w' \<and> ok w' \<and> deleting_cluster ids tags later vc'"
          by (rule lb_request_advances [OF w1(1) assms(2) _ there(2,3) False assms(4,5), where suffix = "''servicelb''"
              and wait = "Inr True" and mark = "\<lambda>vc. setServiceLBNotReady (ce_lib env) vc InstanceDeleteRequestedReason
                (Sprintf ''Delete requested for service load balancer instance %s'' [i_ID i])"])
            (use run Some False in \<open>simp_all only: option.case if_True not_False_eq_True insertI1 insertI2 cnotready_fields simp_thms\<close>)
        with w1(3) show ?thesis by (auto simp: advances_def)
      next
        case True
        from PurgeInstanceVolumes_answers [OF w1(1) there(2,3) True p] obtain n where
          n: "p = Inr n" "ok w2" "left w2 \<le> left w1" "n > 0 \<longrightarrow> waiting w2" by blast
        show ?thesis
        proof (cases "n > 0")
          case True
          with run Some \<open>instanceGone i\<close> there(1) p n(1) have "r = Inr True" "vc' = vc" "w' = w2" by auto
          with True n w1(3) deleting_cluster_later [OF assms(2) later_after [OF assms(5)]] show ?thesis
            by (auto simp: advances_def)
        next
          case False
          with run Some \<open>instanceGone i\<close> there(1) p n(1) have "finish_service_lb c vc w2 = (r, vc', w')" by auto
          from finish [OF this n(2,3)] show ?thesis .
        qed
      qed
    qed
  qed
qed

end


context deletion_service
begin

lemma delete_lb_advances:
  assumes "klib_ok (ce_lib env)" "ok w" "deleting_cluster ids tags now vc" "ce_now env = now"
    and "year_of now < 10000" "int now + deleteRetryInterval \<le> int later"
    and "delete_lb env c vc w = (r, vc', w')"
  shows "\<not> has_cluster_finalizer vc' \<or> advances left waiting w w' \<and> ok w' \<and> deleting_cluster ids tags later vc'"
proof -
  obtain q w1 where q: "findLoadBalancer c vc w = (q, w1)" by fastforce
  from findLoadBalancer_answers [OF assms(2,3) q] obtain found where
    w1: "ok w1" "st w1 = st w" "left w1 \<le> left w" and found: "q = Inr found"
      "\<And>i. found = Some i \<Longrightarrow> i_Status i = StatusNotFound \<or> i_ID i \<in> ids \<and> st w (i_ID i) = Some i" by blast
  note run = assms(7) [unfolded delete_lb_def assms(4) q found(1) prod.case sum.case]
  note finish = finish_cluster_releases [OF assms(1)]
  show ?thesis
  proof (cases found)
    case None
    with run have "finish_cluster (ce_lib env) c vc w1 = (r, vc', w')" by simp
    from finish [OF w1(1) this] show ?thesis ..
  next
    case (Some i)
    obtain p w2 where p: "PurgeInstanceVolumes c (i_ID i) w1 = (p, w2)" by fastforce
    consider (gone) "i_Status i = StatusNotFound"
      | (there) "i_Status i \<noteq> StatusNotFound" "i_ID i \<in> ids" "st w1 (i_ID i) = Some i"
      using found(2) [OF Some] w1(2) by auto
    then show ?thesis
    proof cases
      case gone
      with run Some have "finish_cluster (ce_lib env) c vc w1 = (r, vc', w')" by simp
      from finish [OF w1(1) this] show ?thesis ..
    next
      case there
      show ?thesis
      proof (cases "instanceGone i")
        case False
        have "r = Inr (requeue_after deletePollInterval) \<and> advances left waiting w1 w' \<and> ok w' \<and> deleting_cluster ids tags later vc'"
          by (rule lb_request_advances [OF w1(1) assms(3) _ there(2,3) False assms(5,6), where suffix = "''lb''"
              and wait = "Inr (requeue_after deletePollInterval)"
              and mark = "\<lambda>vc. setLBNotReady (ce_lib env) vc InstanceDeleteRequestedReason
                (Sprintf ''Delete requested for load balancer instance %s'' [i_ID i])"])
            (use run Some False in \<open>simp_all only: option.case if_True not_False_eq_True insertI1 insertI2 cnotready_fields simp_thms\<close>)
        with w1(3) show ?thesis by (auto simp: advances_def)
      next
        case True
        from PurgeInstanceVolumes_answers [OF w1(1) there(2,3) True p] obtain n where
          n: "p = Inr n" "ok w2" "left w2 \<le> left w1" "n > 0 \<longrightarrow> waiting w2" by blast
        show ?thesis
        proof (cases "n > 0")
          case True
          with run Some \<open>instanceGone i\<close> there(1) p n(1) have "vc' = vc" "w' = w2" by auto
          with True n w1(3) deleting_cluster_later [OF assms(3) later_after [OF assms(6)]] show ?thesis
            by (auto simp: advances_def)
        next
          case False
          with run Some \<open>instanceGone i\<close> there(1) p n(1) have "finish_cluster (ce_lib env) c vc w2 = (r, vc', w')" by auto
          from finish [OF n(2) this] show ?thesis ..
        qed
      qed
    qed
  qed
qed

lemma cluster_reconcileDelete_advances:
  assumes "klib_ok (ce_lib env)" "ok w" "deleting_cluster ids tags now vc" "ce_now env = now"
    and "year_of now < 10000" "int now + deleteRetryInterval \<le> int later"
    and "cluster_reconcileDelete env c vc w = (r, vc', w')"
  shows "\<not> has_cluster_finalizer vc' \<or> advances left waiting w w' \<and> ok w' \<and> deleting_cluster ids tags later vc'"
proof -
  obtain q vc1 w1 where q: "deleteServiceLoadBalancer env c vc w = (q, vc1, w1)" by (metis prod_cases3)
  from deleteServiceLoadBalancer_advances [OF assms(2-6) q] show ?thesis
  proof
    assume s: "q = Inr True \<and> advances left waiting w w1 \<and> ok w1 \<and> deleting_cluster ids tags later vc1"
    with assms(7) q have "vc' = vc1" "w' = w1" by (simp_all add: cluster_reconcileDelete_def)
    with s show ?thesis by simp
  next
    assume s: "q = Inr False \<and> ok w1 \<and> left w1 \<le> left w \<and> deleting_cluster ids tags now vc1"
    then have w1: "ok w1" "deleting_cluster ids tags now vc1" "left w1 \<le> left w" by simp_all
    from s assms(7) q have "delete_lb env c vc1 w1 = (r, vc', w')" by (simp add: cluster_reconcileDelete_def)
    from delete_lb_advances [OF assms(1) w1(1,2) assms(4-6) this] w1(3) show ?thesis by (auto simp: advances_def)
  qed
qed

end

section \<open>Rounds\<close>

text \<open>As for machines: an undisturbed deletion, reconciled again and again.\<close>

definition cluster_undisturbed :: "'w cluster_env \<Rightarrow> 'w cloud_client \<Rightarrow> nat \<Rightarrow> VerdaCluster \<Rightarrow> bool" where
  "cluster_undisturbed env c now vc =
     (klib_ok (ce_lib env) \<and> ce_now env = now \<and> ce_GetVerdaCluster env = Inr vc \<and> ce_EnsureFinalizer env vc = Inr False \<and>
      (\<exists>cl. ce_GetOwnerCluster env (vc_Meta vc) = Inr (Some cl) \<and> ce_EnsurePausedCondition env cl vc = (Inr (False, False), vc)) \<and>
      ce_NewHelper env vc = Inr () \<and> (\<forall>ident. ce_ClientFor env ident = Inr c) \<and> (\<forall>vc. ce_Patch env vc = None))"

definition cluster_delete_rounds :: "(nat \<Rightarrow> 'w cluster_env) \<Rightarrow> 'w cloud_client \<Rightarrow> ('w \<Rightarrow> 'w \<Rightarrow> bool) \<Rightarrow> (nat \<Rightarrow> nat) \<Rightarrow>
    (nat \<Rightarrow> VerdaCluster) \<Rightarrow> (nat \<Rightarrow> 'w) \<Rightarrow> bool" where
  "cluster_delete_rounds env c settled t vc w =
     (\<forall>n. has_cluster_finalizer (vc n) \<longrightarrow>
        cluster_undisturbed (env n) c (t n) (vc n) \<and> int (t n) + deleteRetryInterval \<le> int (t (Suc n)) \<and>
        (\<exists>r w'. cluster_Reconcile (env n) (w n) = (r, Some (vc (Suc n)), w') \<and>
           (has_cluster_finalizer (vc (Suc n)) \<longrightarrow> settled w' (w (Suc n)))))"

lemma cluster_Reconcile_undisturbed:
  assumes "cluster_undisturbed env c now vc" "om_DeletionTimestamp (vc_Meta vc) \<noteq> None"
  shows "cluster_Reconcile env w = with_cluster_patch env (cluster_reconcileDelete env c vc w)"
  using assms by (auto simp: cluster_undisturbed_def cluster_Reconcile_def cluster_scope_def Let_def)

lemma with_cluster_patch_fields:
  assumes "with_cluster_patch env (r0, vc0, w0) = (r, Some vc, w)"
  shows "w = w0 \<and> vc_Meta vc = vc_Meta vc0 \<and> lb_id vc = lb_id vc0 \<and> slb_id vc = slb_id vc0"
  using assms by (auto simp: with_cluster_patch_def patchVerdaCluster_def Let_def)

context deletion_service
begin

lemma cluster_round_advances:
  assumes "cluster_undisturbed env c now vc" "ok w" "deleting_cluster ids tags now vc"
    and "year_of now < 10000" "int now + deleteRetryInterval \<le> int later"
    and "cluster_Reconcile env w = (r, Some vc', w')"
  shows "\<not> has_cluster_finalizer vc' \<or> advances left waiting w w' \<and> ok w' \<and> deleting_cluster ids tags later vc'"
proof -
  from assms(1) have K: "klib_ok (ce_lib env)" "ce_now env = now" by (simp_all add: cluster_undisturbed_def)
  from assms(3) have "om_DeletionTimestamp (vc_Meta vc) \<noteq> None" by (simp add: deleting_cluster_def)
  note run = assms(6) [unfolded cluster_Reconcile_undisturbed [OF assms(1) this]]
  obtain r0 vc0 w0 where d: "cluster_reconcileDelete env c vc w = (r0, vc0, w0)" by (metis prod_cases3)
  from with_cluster_patch_fields [OF run [unfolded d]] cluster_reconcileDelete_advances [OF K(1) assms(2,3) K(2) assms(4,5) d]
  show ?thesis by (auto intro: deleting_cluster_fields)
qed

lemma cluster_deletion_bounded:
  assumes run: "cluster_delete_rounds env c (settles ok left waiting) t vc w"
    and "ok (w 0)" "deleting_cluster ids tags (t 0) (vc 0)"
    and year: "\<And>n. n \<le> left (w 0) \<Longrightarrow> year_of (t n) < 10000"
  shows "\<exists>n \<le> Suc (left (w 0)). \<not> has_cluster_finalizer (vc n)"
proof (rule bounded_rounds [where good = "\<lambda>n. ok (w n) \<and> deleting_cluster ids tags (t n) (vc n)"])
  fix n assume good: "ok (w n) \<and> deleting_cluster ids tags (t n) (vc n)"
    and there: "has_cluster_finalizer (vc n)" "has_cluster_finalizer (vc (Suc n))" and n: "n \<le> left (w 0)"
  from run there obtain r w' where
    u: "cluster_undisturbed (env n) c (t n) (vc n)" "int (t n) + deleteRetryInterval \<le> int (t (Suc n))"
    and rec: "cluster_Reconcile (env n) (w n) = (r, Some (vc (Suc n)), w')" and s: "settles ok left waiting w' (w (Suc n))"
    unfolding cluster_delete_rounds_def by metis
  from cluster_round_advances [OF u(1) _ _ year [OF n] u(2) rec] good there(2)
  have a: "advances left waiting (w n) w'" "deleting_cluster ids tags (t (Suc n)) (vc (Suc n))" by auto
  from advances_settles [OF a(1) s] a(2)
  show "(ok (w (Suc n)) \<and> deleting_cluster ids tags (t (Suc n)) (vc (Suc n))) \<and> left (w (Suc n)) < left (w n)" by simp
qed (use assms(2,3) in simp)

end

end
