(* ===== verification/ClusterClaims.thy ===== *)
theory ClusterClaims
  imports ClusterProps MachineSafety WebhookProps CloudProvider
begin

text \<open>
  The guarantees of the cluster reconciler: the load balancers it owns, the endpoint it publishes,
  the keys and secrets that connect it to its load balancers and to the cloud provider of the
  workload cluster; with runs on a concrete account.
\<close>

section \<open>Load balancer instances\<close>

text \<open>
  C3. A cluster never has two live control plane load balancers and never two live service load
  balancers. In every state that reconciles (with their patch stored or lost), edits of the object
  and changes in the cloud can lead to, from a cluster that has none, two live instances with the
  cluster's value of either tag are the same. Assumed: the API keeps its laws, the calls to the
  management and workload clusters leave the account alone, and an instance that is gone is listed
  as discontinued.
\<close>

theorem one_load_balancer:
  assumes "verda_api_ok api view ok"
    and "cluster_reach (sdkClient api) (\<lambda>w k. map_option toInstance (view w k)) ok vc w"
    and "key \<in> {TagLoadBalancer, TagServiceLoadBalancer}"
    and "view w k = Some i" "go_get (tag_map (vi_Tags i)) key = clusterTagValue vc" "\<not> instanceGone (toInstance i)"
    and "view w k' = Some j" "go_get (tag_map (vi_Tags j)) key = clusterTagValue vc" "\<not> instanceGone (toInstance j)"
  shows "k = k'"
  by (rule cloud_contract.cluster_reach_one [OF sdkClient_contract [OF assms(1)], of vc w key k "toInstance i" k' "toInstance j"])
    (use assms(2-) in \<open>simp_all add: tagged_def o_def\<close>)

text \<open>
  C4. No load balancer is leaked: when a reconcile takes the finalizer off a cluster in such a
  state, every instance with either load balancer tag of the cluster is gone.
\<close>

theorem no_leaked_load_balancer:
  assumes "verda_api_ok api view ok"
    and "cluster_reach (sdkClient api) (\<lambda>w k. map_option toInstance (view w k)) ok vc w"
    and "cluster_env_for env vc (sdkClient api)"
    and "other_calls_ok env (\<lambda>w k. map_option toInstance (view w k)) ok"
    and "cluster_Reconcile env w = (r, Some vc', w')"
    and "ClusterFinalizer \<in> set (om_Finalizers (vc_Meta vc))" "ClusterFinalizer \<notin> set (om_Finalizers (vc_Meta vc'))"
    and "key \<in> {TagLoadBalancer, TagServiceLoadBalancer}"
    and "view w' k = Some i" "go_get (tag_map (vi_Tags i)) key = clusterTagValue vc"
  shows "instanceGone (toInstance i)"
  by (rule cloud_contract.cluster_reach_no_leak [OF sdkClient_contract [OF assms(1)], of vc w env r vc' w' key k])
    (use assms(2-) in \<open>simp_all add: tagged_def o_def\<close>)

subsection \<open>An example\<close>

definition lb_meta :: "nat option \<Rightarrow> ObjectMeta" where
  "lb_meta deleted = \<lparr>om_Name = ''c'', om_Namespace = ''default'', om_Annotations = [], om_Labels = [],
     om_Finalizers = [ClusterFinalizer], om_DeletionTimestamp = deleted\<rparr>"

definition lb_on :: ControlPlaneLoadBalancer where
  "lb_on = \<lparr>lb_Enabled = Some True, lb_InstanceType = '''', lb_Image = '''', lb_SSHKeyIDs = None\<rparr>"

definition lb_vc :: "nat option \<Rightarrow> string \<Rightarrow> VerdaCluster" where
  "lb_vc deleted host =
     \<lparr>vc_Kind = ''VerdaCluster'', vc_Meta = lb_meta deleted,
      vc_Spec = \<lparr>cs_Location = ''FIN-01'', cs_ControlPlaneEndpoint = \<lparr>ep_Host = host, ep_Port = 6443\<rparr>, cs_IdentityRef = None,
        cs_ControlPlaneLoadBalancer = lb_on, cs_ServiceLoadBalancer = no_lb\<rparr>,
      vc_Status = \<lparr>cst_Provisioned = None, cst_Conditions = [], cst_LoadBalancer = no_lb_status,
        cst_ServiceLoadBalancer = no_lb_status, cst_FailureDomains = []\<rparr>\<rparr>"

definition lb_keys :: Keys where
  "lb_keys = \<lparr>ky_ClientPrivateKey = ''a'', ky_ClientPublicKey = ''b'', ky_HostPrivateKey = ''c'', ky_HostPublicKey = ''d''\<rparr>"

text \<open>An environment whose secrets are there and whose updater does nothing.\<close>

definition lb_env :: "'w cloud_client \<Rightarrow> VerdaCluster \<Rightarrow> 'w cluster_env" where
  "lb_env c vc =
     \<lparr>ce_lib = plain_klib, ce_now = 0, ce_GetVerdaCluster = Inr vc, ce_EnsureFinalizer = (\<lambda>_. Inr False),
      ce_GetOwnerCluster = (\<lambda>_. Inr (Some demo_cluster)), ce_EnsurePausedCondition = (\<lambda>_ vc. (Inr (False, False), vc)),
      ce_NewHelper = (\<lambda>_. Inr ()), ce_Patch = (\<lambda>_. None), ce_ClientFor = (\<lambda>_. Inr c),
      ce_LoadBalancer = \<lparr>UpdateBackends = (\<lambda>_ _ _ w. (Inr (), w)), UpdateFiles = (\<lambda>_ _ _ _ w. (Inr (), w))\<rparr>,
      ce_GetSecret = (\<lambda>_ name w. (Inr (key_secret demo_cluster vc name lb_keys), w)),
      ce_CreateSecret = (\<lambda>_ w. (Inr (), w)), ce_generateKeyPair = (\<lambda>_ w. (Inr (''a'', ''b''), w)),
      ce_ListVerdaMachines = (\<lambda>_ _. Inr []), ce_GetOwnerMachine = (\<lambda>_. Inr None), ce_IsControlPlaneMachine = (\<lambda>_. True),
      ce_GetCluster = (\<lambda>_ _. Inr demo_cluster), ce_kubeconfig = (\<lambda>_ _ w. (Inl (Opaque ''none''), w)),
      ce_WorkloadClient = Some (\<lambda>_. Inl (Opaque ''none'')), ce_RESTConfigFromKubeConfig = (\<lambda>_. Inl (Opaque ''none'')),
      ce_client_New = (\<lambda>_ _. Inl (Opaque ''none''))\<rparr>"

lemma lb_env_simps:
  "ce_lib (lb_env c vc) = plain_klib" "ce_now (lb_env c vc) = 0" "ce_GetVerdaCluster (lb_env c vc) = Inr vc"
  "ce_EnsureFinalizer (lb_env c vc) = (\<lambda>_. Inr False)" "ce_GetOwnerCluster (lb_env c vc) = (\<lambda>_. Inr (Some demo_cluster))"
  "ce_EnsurePausedCondition (lb_env c vc) = (\<lambda>_ vc. (Inr (False, False), vc))" "ce_NewHelper (lb_env c vc) = (\<lambda>_. Inr ())"
  "ce_ClientFor (lb_env c vc) = (\<lambda>_. Inr c)" "ce_Patch (lb_env c vc) = (\<lambda>_. None)"
  by (simp_all add: lb_env_def)

lemma lb_env_for: "cluster_env_for (lb_env c vc) vc c" "other_calls_ok (lb_env c vc) insts invar"
  by (simp_all add: cluster_env_for_def other_calls_ok_def keeps_account_def workloadClient_def lb_env_def)

lemma lb_vc_simps:
  "vc_Meta (lb_vc d h) = lb_meta d" "lb_status (lb_vc d h) = no_lb_status" "slb_status (lb_vc d h) = no_lb_status"
  "om_DeletionTimestamp (lb_meta d) = d" "om_Name (lb_meta d) = ''c''" "om_Finalizers (lb_meta d) = [ClusterFinalizer]"
  "ls_InstanceID no_lb_status = ''''" "ls_StartupScriptID no_lb_status = ''''" "ls_Address no_lb_status = ''''"
  "LoadBalancerEnabled (lb_vc d h)" "\<not> ServiceLoadBalancerEnabled (lb_vc d h)"
  by (simp_all add: lb_vc_def lb_meta_def no_lb_status_def LoadBalancerEnabled_def ServiceLoadBalancerEnabled_def lb_on_def no_lb_def)

lemma lb_tag: "clusterTagValue (lb_vc d h) = ''default/c''"
proof -
  have "ToLower ''default/c'' = ''default/c''" by code_simp
  then show ?thesis by (simp add: clusterTagValue_def lb_vc_def lb_meta_def truncateTag_def)
qed

lemma lb_ensured: "ensureKeys (lb_env c vc) cl vc name w = (Inr lb_keys, w)"
  by (simp add: ensureKeys_def lb_env_def keysFromSecret_def key_secret_def lb_keys_def)

lemma StartupScript_nonempty: "StartupScript keys b \<noteq> ''''"
proof -
  have "ls \<noteq> [] \<Longrightarrow> unlines ls \<noteq> ''''" for ls by (cases ls) (auto simp: unlines_def)
  then show ?thesis by (simp add: StartupScript_def)
qed

lemma lb_created:
  "\<exists>i. createLoadBalancer (sdkClient mem_api) demo_cluster (lb_vc None h) lb_keys empty_mem =
     (Inr (toInstance i), \<lparr>mm_Instances = [i], mm_Scripts = [\<lparr>vs_ID = ''script-c-lb'', vs_Name = ''c-lb''\<rparr>],
        mm_Volumes = [], mm_Trash = []\<rparr>) \<and>
     vi_ID i = ''i'' \<and> vi_Status i = ''provisioning'' \<and> go_get (tag_map (vi_Tags i)) TagLoadBalancer = ''default/c'' \<and>
     go_get (tag_map (vi_Tags i)) TagServiceLoadBalancer = '''' \<and> vi_OSVolumeID i = None \<and> vi_VolumeIDs i = [] \<and>
     go_get (tag_map (vi_Tags i)) TagManagedBy = ManagedByValue"
  by (simp add: createLoadBalancer_def lb_spec_def loadBalancerHostname_def lb_vc_simps StartupScript_nonempty
      sdkClient_CreateInstance_def sdkClient_DeleteStartupScriptByName_def send_create_def mem_create_def Let_def
      empty_mem_def create_request_def lb_tag mem_fresh_def toInstance_def str_of_def tag_map_def)

lemma lb_reconciled:
  "\<exists>r vc' i. cluster_Reconcile (lb_env (sdkClient mem_api) (lb_vc None h)) empty_mem =
     (r, Some vc', \<lparr>mm_Instances = [i], mm_Scripts = [\<lparr>vs_ID = ''script-c-lb'', vs_Name = ''c-lb''\<rparr>],
        mm_Volumes = [], mm_Trash = []\<rparr>) \<and>
     vi_ID i = ''i'' \<and> vi_Status i = ''provisioning'' \<and> go_get (tag_map (vi_Tags i)) TagLoadBalancer = ''default/c'' \<and>
     go_get (tag_map (vi_Tags i)) TagServiceLoadBalancer = '''' \<and> vi_OSVolumeID i = None \<and> vi_VolumeIDs i = [] \<and>
     go_get (tag_map (vi_Tags i)) TagManagedBy = ManagedByValue"
proof -
  let ?c = "sdkClient mem_api" and ?vc = "lb_vc None h"
  obtain i where i: "createLoadBalancer ?c demo_cluster ?vc lb_keys empty_mem =
      (Inr (toInstance i), \<lparr>mm_Instances = [i], mm_Scripts = [\<lparr>vs_ID = ''script-c-lb'', vs_Name = ''c-lb''\<rparr>],
        mm_Volumes = [], mm_Trash = []\<rparr>)"
    "vi_ID i = ''i''" "vi_Status i = ''provisioning''" "go_get (tag_map (vi_Tags i)) TagLoadBalancer = ''default/c''"
    "go_get (tag_map (vi_Tags i)) TagServiceLoadBalancer = ''''" "vi_OSVolumeID i = None" "vi_VolumeIDs i = []"
    "go_get (tag_map (vi_Tags i)) TagManagedBy = ManagedByValue"
    using lb_created by fastforce
  have find: "findLoadBalancer ?c ?vc empty_mem = (Inr None, empty_mem)"
    by (simp add: findLoadBalancer_def lb_vc_simps sdkClient_FindInstanceByTag_def empty_mem_def)
  have "lb_state_of (toInstance i) = LB_provisioning" by (simp add: lb_state_of_def i(3))
  then have "\<exists>r vc'. cluster_Reconcile (lb_env ?c ?vc) empty_mem = (r, Some vc', \<lparr>mm_Instances = [i],
      mm_Scripts = [\<lparr>vs_ID = ''script-c-lb'', vs_Name = ''c-lb''\<rparr>], mm_Volumes = [], mm_Trash = []\<rparr>)"
    by (simp add: cluster_Reconcile_def lb_env_simps lb_vc_simps with_cluster_patch_def cluster_scope_def
        cluster_reconcileNormal_def reconcileEndpoint_def reconcileLoadBalancer_def lb_ensured find i(1) use_lb_def Let_def
        ServiceLoadBalancerEnabled_def patchVerdaCluster_def) (simp add: lb_vc_def no_lb_def)
  with i show ?thesis by blast
qed

lemma lb_reach_new:
  "cluster_reach (sdkClient mem_api) (\<lambda>w k. map_option toInstance (mem_view w k)) mem_ok (lb_vc d h) empty_mem"
  by (rule cluster_reach.new_cluster)
    (simp_all add: empty_mem_def mem_ok_def lb_vc_simps no_lbs_def lbs_listed_def live_ids_def listed_ok_def)

theorem one_load_balancer_witness:
  "\<exists>vc w k i. cluster_reach (sdkClient mem_api) (\<lambda>w k. map_option toInstance (mem_view w k)) mem_ok vc w \<and>
     mem_view w k = Some i \<and> go_get (tag_map (vi_Tags i)) TagLoadBalancer = clusterTagValue vc \<and>
     \<not> instanceGone (toInstance i) \<and> (\<forall>k' j. mem_view w k' = Some j \<longrightarrow>
       go_get (tag_map (vi_Tags j)) TagLoadBalancer = clusterTagValue vc \<longrightarrow> \<not> instanceGone (toInstance j) \<longrightarrow> k = k')"
proof -
  let ?ins = "\<lambda>w k. map_option toInstance (mem_view w k)" and ?vc = "lb_vc None ''''"
  obtain r vc' i w where run: "cluster_Reconcile (lb_env (sdkClient mem_api) ?vc) empty_mem = (r, Some vc', w)"
    and w: "mm_Instances w = [i]" and i: "vi_ID i = ''i''" "vi_Status i = ''provisioning''"
      "go_get (tag_map (vi_Tags i)) TagLoadBalancer = ''default/c''"
    using lb_reconciled [of "''''"] by fastforce
  have gone: "\<not> instanceGone (toInstance i)" by (simp add: i(2))
  have "cluster_step (sdkClient mem_api) ?ins mem_ok (?vc, empty_mem) (?vc, w)"
    by (rule cluster_step.reconciled [OF lb_env_for run]) simp
  then have reach: "cluster_reach (sdkClient mem_api) ?ins mem_ok ?vc w"
    by (rule cluster_reach.next_cluster [OF lb_reach_new])
      (use gone in \<open>simp add: lbs_listed_def listed_ok_def w i ran_def\<close>)
  show ?thesis
    by (rule exI [of _ ?vc], rule exI [of _ w], rule exI [of _ "''i''"], rule exI [of _ i])
      (use reach gone one_load_balancer [OF mem_api_ok reach, of TagLoadBalancer "''i''" i] in \<open>auto simp: w i lb_tag\<close>)
qed

text \<open>A cluster under deletion whose control plane load balancer is listed as discontinued.\<close>

definition old_lb :: verda_Instance where
  "old_lb = \<lparr>vi_ID = ''i'', vi_Hostname = ''c-lb'', vi_Status = StatusDiscontinued, vi_IP = None,
     vi_Location = ''FIN-01'', vi_InstanceType = ''CPU.4V.16G'', vi_StartupScriptID = None, vi_OSVolumeID = None,
     vi_VolumeIDs = [], vi_Tags = [\<lparr>t_Key = TagLoadBalancer, t_Value = ''default/c''\<rparr>,
       \<lparr>t_Key = TagManagedBy, t_Value = ManagedByValue\<rparr>]\<rparr>"

definition old_lb_mem :: mem where
  "old_lb_mem = empty_mem\<lparr>mm_Instances := [old_lb]\<rparr>"

lemma lb_deleted:
  "\<exists>r vc'. cluster_Reconcile (lb_env (sdkClient mem_api) (lb_vc (Some 0) ''cp'')) old_lb_mem = (r, Some vc', old_lb_mem) \<and>
     ClusterFinalizer \<notin> set (om_Finalizers (vc_Meta vc'))"
proof -
  let ?c = "sdkClient mem_api" and ?vc = "lb_vc (Some 0) ''cp''"
  have slb: "deleteServiceLoadBalancer (lb_env ?c ?vc) ?c ?vc old_lb_mem = (Inr False, ?vc, old_lb_mem)"
    by (simp add: deleteServiceLoadBalancer_def findInstanceByStatusOrTag_def lb_vc_simps lb_tag sdkClient_FindInstanceByTag_def
        old_lb_mem_def old_lb_def toInstance_def tag_map_def finish_service_lb_def Let_def
        sdkClient_DeleteStartupScriptByName_def empty_mem_def)
  have find: "findLoadBalancer ?c ?vc old_lb_mem = (Inr (Some (toInstance old_lb)), old_lb_mem)"
    by (simp add: findLoadBalancer_def lb_vc_simps lb_tag sdkClient_FindInstanceByTag_def old_lb_mem_def old_lb_def
        toInstance_def tag_map_def)
  have purge: "sdkClient_PurgeInstanceVolumes mem_api ''i'' old_lb_mem = (Inr 0, old_lb_mem)"
    by (simp add: sdkClient_PurgeInstanceVolumes_def old_lb_mem_def old_lb_def empty_mem_def mem_lookup_def
        instanceVolumeIDs_def tag_map_def)
  have scripts: "sdkClient_DeleteStartupScriptByName mem_api h old_lb_mem = (Inr (), old_lb_mem)" for h
    by (simp add: sdkClient_DeleteStartupScriptByName_def old_lb_mem_def empty_mem_def)
  have old: "vi_ID old_lb = ''i''" "vi_Status old_lb = StatusDiscontinued"
    by (simp_all add: old_lb_def)
  show ?thesis
    by (simp add: cluster_Reconcile_def lb_env_simps lb_vc_simps with_cluster_patch_def cluster_scope_def
        cluster_reconcileDelete_def slb delete_lb_def find old purge finish_cluster_def scripts Let_def
        patchVerdaCluster_def) (simp add: plain_klib_def)
qed

theorem no_leaked_load_balancer_witness:
  "\<exists>r vc'. cluster_Reconcile (lb_env (sdkClient mem_api) (lb_vc (Some 0) ''cp'')) old_lb_mem = (r, Some vc', old_lb_mem) \<and>
     ClusterFinalizer \<notin> set (om_Finalizers (vc_Meta vc')) \<and> instanceGone (toInstance old_lb)"
proof -
  let ?ins = "\<lambda>w k. map_option toInstance (mem_view w k)" and ?vc = "lb_vc (Some 0) ''cp''"
  obtain r vc' where run: "cluster_Reconcile (lb_env (sdkClient mem_api) ?vc) old_lb_mem = (r, Some vc', old_lb_mem)"
    and fin: "ClusterFinalizer \<notin> set (om_Finalizers (vc_Meta vc'))"
    using lb_deleted by blast
  have "cluster_reach (sdkClient mem_api) ?ins mem_ok ?vc old_lb_mem"
    by (rule cluster_reach.new_cluster)
      (simp_all add: old_lb_mem_def old_lb_def empty_mem_def mem_ok_def lb_vc_simps no_lbs_def lbs_listed_def live_ids_def
        listed_ok_def ran_def)
  with run fin show ?thesis
    using no_leaked_load_balancer [OF mem_api_ok _ lb_env_for run, of TagLoadBalancer "''i''" old_lb]
    by (auto simp: lb_vc_simps lb_tag old_lb_mem_def old_lb_def tag_map_def)
qed

section \<open>The control plane endpoint\<close>

text \<open>What the handling of the service load balancer leaves alone.\<close>

definition same_endpoint :: "klib \<Rightarrow> VerdaCluster \<Rightarrow> VerdaCluster \<Rightarrow> bool" where
  "same_endpoint K vc vc' = (vc_Spec vc' = vc_Spec vc \<and> lb_status vc' = lb_status vc \<and>
     cst_Provisioned (vc_Status vc') = cst_Provisioned (vc_Status vc) \<and>
     cst_FailureDomains (vc_Status vc') = cst_FailureDomains (vc_Status vc) \<and>
     conditions_IsTrue K (cst_Conditions (vc_Status vc')) ControlPlaneEndpointReadyCondition =
       conditions_IsTrue K (cst_Conditions (vc_Status vc)) ControlPlaneEndpointReadyCondition)"

lemma same_endpoint_refl [simp]: "same_endpoint K vc vc"
  by (simp add: same_endpoint_def)

lemma same_endpoint_trans: "same_endpoint K a b \<Longrightarrow> same_endpoint K b d \<Longrightarrow> same_endpoint K a d"
  by (simp add: same_endpoint_def)

lemma same_endpoint_setters:
  assumes "klib_ok K"
  shows "same_endpoint K vc (setServiceLBNotReady K vc reason m)" "same_endpoint K vc (upd_slb f vc)"
    "same_endpoint K vc (set_ctrue K vc ServiceLoadBalancerReadyCondition)"
    "same_endpoint K vc (delete_ccondition K vc ServiceLoadBalancerReadyCondition)"
    "same_endpoint K vc (vc\<lparr>vc_Meta := m'\<rparr>)"
  by (simp_all add: same_endpoint_def setServiceLBNotReady_def set_ctrue_def set_ccondition_def delete_ccondition_def
      klib_simps [OF assms])

lemma use_service_lb_endpoint:
  assumes "klib_ok (ce_lib env)" "use_service_lb env cluster vc keys inst w = (r, vc', w')"
  shows "same_endpoint (ce_lib env) vc vc'"
proof -
  obtain q w1 where q: "publishServiceLoadBalancerSecret env cluster (i_IP inst) keys w = (q, w1)" by fastforce
  from assms(2) q show ?thesis
    by (cases "lb_state_of inst"; cases q)
      (auto simp: use_service_lb_def Let_def same_endpoint_def setServiceLBNotReady_def set_ctrue_def set_ccondition_def
        klib_simps [OF assms(1)])
qed

lemma reconcileServiceLoadBalancer_endpoint:
  assumes "klib_ok (ce_lib env)" "reconcileServiceLoadBalancer env c cluster vc w = (r, vc', w')"
  shows "same_endpoint (ce_lib env) vc vc'"
  using assms(2) same_endpoint_setters(1) [OF assms(1)] use_service_lb_endpoint [OF assms(1)]
  unfolding reconcileServiceLoadBalancer_def by (fastforce split: prod.splits sum.splits option.splits)

lemma deleteServiceLoadBalancer_endpoint:
  assumes "klib_ok (ce_lib env)" "deleteServiceLoadBalancer env c vc w = (r, vc', w')"
  shows "same_endpoint (ce_lib env) vc vc'"
proof -
  note st = same_endpoint_setters [OF assms(1)]
  have finish: "same_endpoint (ce_lib env) vc vc2" if "finish_service_lb c vc w1 = (r', vc2, w2)" for w1 r' vc2 w2
    using that st(2) by (auto simp: finish_service_lb_def Let_def split: if_splits prod.splits sum.splits)
  show ?thesis
    using assms(2) st(5) same_endpoint_trans [OF st(5) st(1)] finish
    unfolding deleteServiceLoadBalancer_def Let_def by (fastforce split: prod.splits sum.splits option.splits if_splits)
qed

text \<open>An endpoint that clients can use.\<close>

definition endpoint_published :: "klib \<Rightarrow> VerdaCluster \<Rightarrow> bool" where
  "endpoint_published K vc =
     (let e = cs_ControlPlaneEndpoint (vc_Spec vc) in
      ep_Host e \<noteq> '''' \<and> ep_Port e \<noteq> 0 \<and>
      conditions_IsTrue K (cst_Conditions (vc_Status vc)) ControlPlaneEndpointReadyCondition \<and>
      cst_FailureDomains (vc_Status vc) = [(cs_Location (vc_Spec vc), Some True)] \<and>
      (LoadBalancerEnabled vc \<longrightarrow> e = \<lparr>ep_Host = ls_Address (lb_status vc), ep_Port = 6443\<rparr>))"

lemma same_endpoint_published:
  "same_endpoint K vc vc' \<Longrightarrow> endpoint_published K vc' = endpoint_published K vc"
  by (simp add: same_endpoint_def endpoint_published_def Let_def LoadBalancerEnabled_def)

lemma push_backends_endpoint:
  assumes "klib_ok (ce_lib env)" "push_backends env cluster vc keys inst w = (r, vc', w')" "i_IP inst \<noteq> ''''"
    and "cst_Provisioned (vc_Status vc) \<noteq> Some True" "cst_Provisioned (vc_Status vc') = Some True"
  shows "endpoint_published (ce_lib env) vc'"
proof (cases "controlPlaneAddresses env cluster")
  case (Inl e)
  with assms(2,4,5) show ?thesis by (auto simp: push_backends_def Let_def)
next
  case (Inr backends)
  obtain q w1 where q: "UpdateBackends (ce_LoadBalancer env) (i_IP inst) keys backends w = (q, w1)" by fastforce
  from assms(2,3) Inr q show ?thesis
    by (cases q) (auto simp: push_backends_def Let_def endpoint_published_def set_ctrue_def set_ccondition_def
        setEndpointReady_def setFailureDomains_def setLBNotReady_def klib_simps [OF assms(1)] lb_Port_def split: if_splits)
qed

lemma reconcileEndpoint_published:
  assumes "klib_ok (ce_lib env)" "reconcileEndpoint env c cluster vc w = (r, vc', w')"
    and "cst_Provisioned (vc_Status vc) \<noteq> Some True" "cst_Provisioned (vc_Status vc') = Some True"
  shows "endpoint_published (ce_lib env) vc'"
proof (cases "LoadBalancerEnabled vc")
  case True
  have use: "endpoint_published (ce_lib env) vc'" if run: "use_lb env cluster vc keys inst w1 = (r, vc', w')" for keys inst w1
  proof (cases "lb_state_of inst")
    case LB_up
    then have "i_IP inst \<noteq> ''''" by (auto simp: lb_state_of_def split: if_splits)
    with push_backends_endpoint [OF assms(1), of cluster "upd_lb (record_lb inst) vc" keys inst w1 r vc' w']
      run LB_up assms(3,4) show ?thesis by (simp add: use_lb_def Let_def)
  qed (use run assms(3,4) in \<open>auto simp: use_lb_def Let_def\<close>)
  from True assms(2-4) use show ?thesis
    unfolding reconcileEndpoint_def reconcileLoadBalancer_def
    by (fastforce split: prod.splits sum.splits option.splits)
next
  case False
  with assms(2-4) show ?thesis
    by (auto simp: reconcileEndpoint_def Let_def endpoint_published_def LoadBalancerEnabled_def setFailureDomains_def
        setEndpointReady_def set_ctrue_def set_ccondition_def delete_ccondition_def klib_simps [OF assms(1)] lb_Port_def
        split: if_splits)
qed

text \<open>
  C11. A cluster is reported as provisioned only with an endpoint that can be used: when a reconcile
  turns the flag on, the endpoint has a host and a port, its condition is true, the location is the
  failure domain, and with a load balancer the endpoint is the load balancer's address and port
  6443. This holds whatever the service load balancer does in the same reconcile, and also when the
  update of the backends failed.
\<close>

theorem provisioned_with_endpoint:
  assumes "klib_ok (ce_lib env)" "cluster_reconcileNormal env c cluster vc w = (r, vc', w')"
    and "cst_Provisioned (vc_Status vc) \<noteq> Some True" "cst_Provisioned (vc_Status vc') = Some True"
  shows "let e = cs_ControlPlaneEndpoint (vc_Spec vc') in
     ep_Host e \<noteq> '''' \<and> ep_Port e \<noteq> 0 \<and>
     conditions_IsTrue (ce_lib env) (cst_Conditions (vc_Status vc')) ControlPlaneEndpointReadyCondition \<and>
     cst_FailureDomains (vc_Status vc') = [(cs_Location (vc_Spec vc'), Some True)] \<and>
     (LoadBalancerEnabled vc' \<longrightarrow> e = \<lparr>ep_Host = ls_Address (lb_status vc'), ep_Port = 6443\<rparr>)"
proof -
  let ?K = "ce_lib env"
  obtain q1 vc1 w1 where q1: "reconcileEndpoint env c cluster vc w = (q1, vc1, w1)" by (metis prod_cases3)
  obtain q2 vc2 w2 where q2: "deleteServiceLoadBalancer env c vc1 w1 = (q2, vc2, w2)" by (metis prod_cases3)
  obtain q3 vc3 w3 where q3: "reconcileServiceLoadBalancer env c cluster vc1 w1 = (q3, vc3, w3)" by (metis prod_cases3)
  note st = same_endpoint_setters [OF assms(1)] and tr = same_endpoint_trans
  note del = deleteServiceLoadBalancer_endpoint [OF assms(1) q2]
  have "same_endpoint ?K vc1 vc'"
    using assms(2) q1 q2 q3 reconcileServiceLoadBalancer_endpoint [OF assms(1) q3] del st(4) [of vc1]
      tr [OF del tr [OF st(2) st(4)]]
    by (cases q1; cases q2; cases q3) (auto simp: cluster_reconcileNormal_def Let_def split: if_splits)
  moreover from this assms(4) have "cst_Provisioned (vc_Status vc1) = Some True" by (simp add: same_endpoint_def)
  ultimately have "endpoint_published ?K vc'"
    using reconcileEndpoint_published [OF assms(1) q1 assms(3)] same_endpoint_published [of ?K vc1 vc'] by simp
  then show ?thesis unfolding endpoint_published_def .
qed

theorem provisioned_with_endpoint_witness:
  "\<exists>r vc' w'. cluster_reconcileNormal (lb_env fake_client demo_vc) fake_client demo_cluster
       (demo_vc\<lparr>vc_Status := (vc_Status demo_vc)\<lparr>cst_Provisioned := None\<rparr>\<rparr>) NewFake = (r, vc', w') \<and>
     ep_Host (cs_ControlPlaneEndpoint (vc_Spec vc')) \<noteq> ''''"
proof -
  let ?env = "lb_env fake_client demo_vc" and ?vc = "demo_vc\<lparr>vc_Status := (vc_Status demo_vc)\<lparr>cst_Provisioned := None\<rparr>\<rparr>"
  obtain r vc' w' where run: "cluster_reconcileNormal ?env fake_client demo_cluster ?vc NewFake = (r, vc', w')"
    by (metis prod_cases3)
  then have "cst_Provisioned (vc_Status vc') = Some True"
    by (auto simp: cluster_reconcileNormal_def reconcileEndpoint_def Let_def lb_env_simps LoadBalancerEnabled_def
        ServiceLoadBalancerEnabled_def demo_vc_def no_lb_def no_lb_status_def delete_ccondition_def setFailureDomains_def
        setEndpointReady_def set_ctrue_def set_ccondition_def)
  with provisioned_with_endpoint [OF _ run] run show ?thesis by (simp add: lb_env_simps Let_def)
qed

section \<open>The backends of the control plane load balancer\<close>

definition backend_machines :: "'w cluster_env \<Rightarrow> VerdaMachine list \<Rightarrow> VerdaMachine list" where
  "backend_machines env = filter (\<lambda>vm. om_DeletionTimestamp (vm_Meta vm) = None \<and> isControlPlane env vm = Inr True)"

lemma addresses_loop_result:
  "addresses_loop env vms acc = Inr xs \<Longrightarrow> xs = acc @ concat (map external_address (backend_machines env vms))"
proof (induction env vms acc rule: addresses_loop.induct)
  case (1 env acc)
  then show ?case by (simp add: backend_machines_def)
next
  case (2 env vm vms acc)
  then show ?case by (auto simp: backend_machines_def split: if_splits sum.splits)
qed

lemma Config_sort: "Config (sort xs) = Config xs"
  by (simp add: Config_def sorted_sort_id)

text \<open>
  What is assumed of SSH and of the load balancer's shell: a connection leads to the machine it was
  dialled for, \<open>peer\<close>, closing it does nothing there, and when the update command reports success,
  HAProxy on that machine runs the configuration from the command's input. Nothing is assumed of a
  command that fails: it may have installed the configuration or not.
\<close>

definition ssh_serves :: "('k, 'c, 'w) ssh_lib \<Rightarrow> ('c \<Rightarrow> string) \<Rightarrow> ('w \<Rightarrow> string \<Rightarrow> string) \<Rightarrow> bool" where
  "ssh_serves L peer served =
     ((\<forall>a t v c v'. DialContext L a t v = (Inr c, v') \<longrightarrow> peer c = a) \<and>
      (\<forall>c a cfg k h v c' v'. NewClientConn L c a cfg k h v = (Inr c', v') \<longrightarrow> peer c' = peer c) \<and>
      (\<forall>c v s v'. NewSession L c v = (Inr s, v') \<longrightarrow> peer s = peer c) \<and>
      (\<forall>s inp v e v'. session_Run L s inp UpdateCommand v = (Inr (), e, v') \<longrightarrow> served v' (peer s) = inp) \<and>
      (\<forall>c v. served (conn_Close L c v) = served v))"

lemma SSHUpdater_serves:
  assumes "ssh_serves L peer served" "UpdateBackends (SSHUpdater L t) addr keys b w = (Inr (), w')"
  shows "served w' (JoinHostPort addr ''22'') = Config b"
proof -
  let ?t = "if t = 0 then 20 * time_Second else t"
  from assms(2) obtain c1 v1 c2 v2 s v3 e v4 k h where
    steps: "DialContext L (JoinHostPort addr ''22'') ?t w = (Inr c1, v1)"
      "NewClientConn L c1 addr \<lparr>sc_User = ''root'', sc_HostKeyAlgorithms = [''ssh-ed25519''], sc_Timeout = ?t\<rparr> k h v1 = (Inr c2, v2)"
      "NewSession L c2 v2 = (Inr s, v3)" "session_Run L s (Config b) UpdateCommand v3 = (Inr (), e, v4)"
      "w' = conn_Close L c2 (conn_Close L s v4)"
    by (auto simp: SSHUpdater_def SSHUpdater_run_def Let_def split: sum.splits prod.splits)
  from assms(1) steps(1-3) have "peer s = JoinHostPort addr ''22''" unfolding ssh_serves_def by metis
  with assms(1) steps(4,5) show ?thesis unfolding ssh_serves_def by metis
qed

text \<open>
  The reconciles of one running load balancer with the address \<open>ip\<close>, in any number and with anything
  else happening in between that touches neither the recorded backends nor HAProxy. The last argument
  says that the backends are in step: that they were from the start, or that the last push succeeded.
\<close>

definition push_result :: "'w cluster_env \<Rightarrow> Cluster \<Rightarrow> VerdaCluster \<Rightarrow> Keys \<Rightarrow> string \<Rightarrow> 'w \<Rightarrow> (go_error + unit) option" where
  "push_result env cluster vc keys ip w =
     (case controlPlaneAddresses env cluster of
        Inl _ \<Rightarrow> None
      | Inr backends \<Rightarrow> if backends = ls_Backends (lb_status vc) then None
          else Some (fst (UpdateBackends (ce_LoadBalancer env) ip keys backends w)))"

abbreviation in_step :: "bool \<Rightarrow> (go_error + unit) option \<Rightarrow> bool" where
  "in_step b q \<equiv> (case q of None \<Rightarrow> b | Some e \<Rightarrow> \<not> isl e)"

inductive lb_run :: "('k, 'c, 'w) ssh_lib \<Rightarrow> ('w \<Rightarrow> string \<Rightarrow> string) \<Rightarrow> string \<Rightarrow> VerdaCluster \<Rightarrow> 'w \<Rightarrow> bool \<Rightarrow> bool"
  for L served ip where
  start: "lb_run L served ip vc w (served w (JoinHostPort ip ''22'') = Config (ls_Backends (lb_status vc)))"
| reconciled: "lb_run L served ip vc w b \<Longrightarrow> ce_LoadBalancer env = SSHUpdater L t \<Longrightarrow> i_Status inst = StatusRunning \<Longrightarrow>
     i_IP inst = ip \<Longrightarrow> use_lb env cluster vc keys inst w = (r, vc', w') \<Longrightarrow>
     lb_run L served ip vc' w' (in_step b (push_result env cluster vc keys ip w))"
| other: "lb_run L served ip vc w b \<Longrightarrow> ls_Backends (lb_status vc') = ls_Backends (lb_status vc) \<Longrightarrow>
     served w' (JoinHostPort ip ''22'') = served w (JoinHostPort ip ''22'') \<Longrightarrow> lb_run L served ip vc' w' b"

lemma use_lb_backends:
  assumes "ssh_serves L peer served" "ce_LoadBalancer env = SSHUpdater L t" "ip \<noteq> ''''"
    and "use_lb env cluster vc keys inst w = (r, vc', w')" "i_Status inst = StatusRunning" "i_IP inst = ip"
  shows "push_result env cluster vc keys ip w = None \<and> w' = w \<and> ls_Backends (lb_status vc') = ls_Backends (lb_status vc) \<or>
     (\<exists>e. push_result env cluster vc keys ip w = Some (Inl e)) \<or>
     push_result env cluster vc keys ip w = Some (Inr ()) \<and>
       served w' (JoinHostPort ip ''22'') = Config (ls_Backends (lb_status vc')) \<and>
       controlPlaneAddresses env cluster = Inr (ls_Backends (lb_status vc'))"
proof -
  let ?vc = "upd_lb (record_lb inst) vc"
  have "lb_state_of inst = LB_up" using assms(3,5,6) by (simp add: lb_state_of_def)
  with assms(4) have run: "push_backends env cluster ?vc keys inst w = (r, vc', w')" by (simp add: use_lb_def Let_def)
  have rec: "ls_Backends (record_lb inst st) = ls_Backends st" for st by (simp add: record_lb_def Let_def)
  show ?thesis
  proof (cases "controlPlaneAddresses env cluster")
    case (Inl e)
    with run rec show ?thesis by (auto simp: push_backends_def push_result_def Let_def)
  next
    case (Inr backends)
    obtain q w1 where q: "UpdateBackends (ce_LoadBalancer env) ip keys backends w = (q, w1)" by fastforce
    have "served w1 (JoinHostPort ip ''22'') = Config backends" if "q = Inr ()"
      using SSHUpdater_serves [OF assms(1)] q that assms(2) by simp
    with run Inr q assms(6) rec show ?thesis
      by (cases q) (auto simp: push_backends_def push_result_def Let_def split: if_splits)
  qed
qed

lemma lb_run_in_step:
  assumes "lb_run L served ip vc w b" "ssh_serves L peer served" "ip \<noteq> ''''" b
  shows "served w (JoinHostPort ip ''22'') = Config (ls_Backends (lb_status vc))"
  using assms(1,4)
proof induction
  case (reconciled vc w b env t inst cluster keys r vc' w')
  from use_lb_backends [OF assms(2) reconciled(2) assms(3) reconciled(5,3,4)] reconciled.IH reconciled.prems show ?case
    by (auto split: option.splits)
qed simp_all


text \<open>
  The exception: when the addresses are the recorded ones, the load balancer is reported ready and
  nothing is sent to it, whatever it serves since a push that failed.
\<close>

theorem unpushed_reported_ready:
  assumes "klib_ok (ce_lib env)" "controlPlaneAddresses env cluster = Inr (ls_Backends (lb_status vc))"
    and "i_Status inst = StatusRunning" "i_IP inst \<noteq> ''''"
  shows "\<exists>vc'. use_lb env cluster vc keys inst w = (Inr (requeue_after lbResyncInterval), vc', w) \<and>
     conditions_IsTrue (ce_lib env) (cst_Conditions (vc_Status vc')) LoadBalancerReadyCondition"
proof -
  have "ls_Backends (record_lb inst st) = ls_Backends st" for st by (simp add: record_lb_def Let_def)
  with assms(2-4) show ?thesis
    by (simp add: use_lb_def lb_state_of_def push_backends_def Let_def set_ctrue_def set_ccondition_def klib_simps [OF assms(1)])
qed

definition offline_client :: "'w cloud_client" where
  "offline_client = (\<lparr>GetInstanceType = (\<lambda>_ w. (Inl (Opaque ''offline''), w)), GetInstance = (\<lambda>_ w. (Inl (Opaque ''offline''), w)), FindInstanceByHostname = (\<lambda>_ w. (Inl (Opaque ''offline''), w)),
      FindInstanceByTag = (\<lambda>_ _ w. (Inl (Opaque ''offline''), w)), CreateInstance = (\<lambda>_ w. (Inl (Opaque ''offline''), w)), DeleteStartupScriptByName = (\<lambda>_ w. (Inl (Opaque ''offline''), w)),
      DeleteInstance = (\<lambda>_ w. (Inl (Opaque ''offline''), w)), PurgeInstanceVolumes = (\<lambda>_ w. (Inl (Opaque ''offline''), w)), DeleteStartupScript = (\<lambda>_ w. (Inl (Opaque ''offline''), w)),
      GetVolume = (\<lambda>_ w. (Inl (Opaque ''offline''), w)), FindVolumeByName = (\<lambda>_ w. (Inl (Opaque ''offline''), w)), CloneVolume = (\<lambda>_ _ _ w. (Inl (Opaque ''offline''), w)),
      DeleteVolume = (\<lambda>_ w. (Inl (Opaque ''offline''), w)), EnsureVolumeTag = (\<lambda>_ w. (Inl (Opaque ''offline''), w))\<rparr>)"

text \<open>The state of the world is the configuration HAProxy runs on each machine.\<close>

definition haproxy_ssh :: "(unit, string, string \<Rightarrow> string) ssh_lib" where
  "haproxy_ssh = \<lparr>ParsePrivateKey = (\<lambda>_. Inr ()), ParseAuthorizedKey = (\<lambda>_. Inr ()), DialContext = (\<lambda>a _ w. (Inr a, w)),
     NewClientConn = (\<lambda>c _ _ _ _ w. (Inr c, w)), conn_Close = (\<lambda>_ w. w), NewSession = (\<lambda>c w. (Inr c, w)),
     session_Run = (\<lambda>s inp _ w. (Inr (), '''', w(s := inp)))\<rparr>"

definition control_plane_vm :: VerdaMachine where
  "control_plane_vm = (demo_vm None)\<lparr>vm_Meta := (demo_meta None)\<lparr>om_Labels := [(''cluster.x-k8s.io/control-plane'', '''')]\<rparr>,
     vm_Status := (vm_Status (demo_vm None))\<lparr>mst_Addresses := [(MachineExternalIP, ''10.0.0.9'')]\<rparr>\<rparr>"

definition haproxy_env :: "(string \<Rightarrow> string) cluster_env" where
  "haproxy_env = (lb_env offline_client demo_vc)\<lparr>ce_LoadBalancer := SSHUpdater haproxy_ssh 0,
     ce_ListVerdaMachines := (\<lambda>_ _. Inr [control_plane_vm])\<rparr>"

definition running_lb :: Instance where
  "running_lb = (bare_Instance ''i'' StatusRunning)\<lparr>i_IP := ''10.0.0.1''\<rparr>"

lemma haproxy_backends:
  "isControlPlane haproxy_env control_plane_vm = Inr True" "external_address control_plane_vm = [''10.0.0.9'']"
  "om_DeletionTimestamp (vm_Meta control_plane_vm) = None"
  "controlPlaneAddresses haproxy_env demo_cluster = Inr [''10.0.0.9'']"
proof -
  show 1: "isControlPlane haproxy_env control_plane_vm = Inr True" "external_address control_plane_vm = [''10.0.0.9'']"
    "om_DeletionTimestamp (vm_Meta control_plane_vm) = None"
    by (simp_all add: isControlPlane_def control_plane_vm_def external_address_def demo_meta_def)
  then show "controlPlaneAddresses haproxy_env demo_cluster = Inr [''10.0.0.9'']"
    by (simp add: controlPlaneAddresses_def haproxy_env_def isControlPlane_def)
qed


section \<open>SSH keys\<close>

text \<open>
  The secrets of the management cluster. A read may miss a secret that exists, because it goes
  through a cache; a create that reports an error may have happened.
\<close>

definition secret_store_ok :: "'w cluster_env \<Rightarrow> ('w \<Rightarrow> string \<times> string \<rightharpoonup> Secret) \<Rightarrow> bool" where
  "secret_store_ok env sec =
     ((\<forall>ns n w. sec (snd (ce_GetSecret env ns n w)) = sec w \<and>
        (\<forall>s. fst (ce_GetSecret env ns n w) = Inr s \<longrightarrow> sec w (ns, n) = Some s)) \<and>
      (\<forall>n w. sec (snd (ce_generateKeyPair env n w)) = sec w) \<and>
      (\<forall>s w. let k = (sec_Namespace s, sec_Name s); w' = snd (ce_CreateSecret env s w) in
         (sec w k = None \<and> sec w' = (sec w)(k \<mapsto> s)) \<or> (sec w' = sec w \<and> isl (fst (ce_CreateSecret env s w)))))"

definition keys_of :: "Secret \<Rightarrow> Keys" where
  "keys_of s = \<lparr>ky_ClientPrivateKey = go_get (sec_Data s) ''ssh-privatekey'', ky_ClientPublicKey = go_get (sec_Data s) ''ssh-publickey'',
     ky_HostPrivateKey = go_get (sec_Data s) ''host-privatekey'', ky_HostPublicKey = go_get (sec_Data s) ''host-publickey''\<rparr>"

lemma keysFromSecret_keys: "keysFromSecret s = Inr keys \<Longrightarrow> keys = keys_of s"
  by (auto simp: keysFromSecret_def keys_of_def Let_def split: if_splits)

lemma keys_of_key_secret: "keys_of (key_secret cluster vc name keys) = keys"
  by (simp add: keys_of_def key_secret_def)

lemma ensureKeys_stored:
  assumes "secret_store_ok env sec" "ensureKeys env cluster vc name w = (Inr keys, w')"
  shows "\<exists>s. sec w' (vc_Namespace vc, name) = Some s \<and> keys_of s = keys \<and>
     (\<forall>t. sec w (vc_Namespace vc, name) = Some t \<longrightarrow> t = s)"
proof -
  let ?k = "(vc_Namespace vc, name)"
  obtain q1 w1 where q1: "ce_GetSecret env (vc_Namespace vc) name w = (q1, w1)" by fastforce
  obtain q2 w2 where q2: "ce_generateKeyPair env ManagedByValue w1 = (q2, w2)" by fastforce
  obtain q3 w3 where q3: "ce_generateKeyPair env '''' w2 = (q3, w3)" by fastforce
  obtain q4 w4 where q4: "GenerateKeys (ce_generateKeyPair env) w1 = (q4, w4)" by fastforce
  let ?s = "key_secret cluster vc name (projr q4)"
  obtain q5 w5 where q5: "ce_CreateSecret env ?s w4 = (q5, w5)" by fastforce
  obtain q6 w6 where q6: "ce_GetSecret env (vc_Namespace vc) name w5 = (q6, w6)" by fastforce
  have get: "sec w1 = sec w" "\<And>s. q1 = Inr s \<Longrightarrow> sec w ?k = Some s" "sec w6 = sec w5"
    "\<And>s. q6 = Inr s \<Longrightarrow> sec w5 ?k = Some s" "sec w2 = sec w1" "sec w3 = sec w2"
    using assms(1) q1 q2 q3 q6 unfolding secret_store_ok_def by (metis fst_conv snd_conv)+
  have gen: "sec w4 = sec w1"
    using q4 q2 q3 get(5,6) by (cases q2; cases q3) (auto simp: GenerateKeys_def)
  have create: "(sec w4 ?k = None \<and> sec w5 = (sec w4)(?k \<mapsto> ?s)) \<or> (sec w5 = sec w4 \<and> isl q5)"
    using assms(1) q5 by (auto simp: secret_store_ok_def Let_def key_secret_def dest!: spec [of _ ?s] spec [of _ w4])
  show ?thesis
  proof (cases q1)
    case (Inr s)
    with assms(2) q1 get(1,2) show ?thesis by (auto simp: ensureKeys_def dest: keysFromSecret_keys)
  next
    case (Inl e)
    with assms(2) q1 q4 obtain k where k: "q4 = Inr k" by (cases q4) (auto simp: ensureKeys_def split: if_splits)
    show ?thesis
    proof (cases q5)
      case (Inr u)
      with assms(2) q1 Inl q4 k q5 create get(1) gen show ?thesis
        by (auto simp: ensureKeys_def keys_of_key_secret split: if_splits)
    next
      case again: (Inl e')
      with assms(2) q1 Inl q4 k q5 q6 obtain s where "q6 = Inr s" "keysFromSecret s = Inr keys" "w' = w6"
        by (cases q6) (auto simp: ensureKeys_def split: if_splits)
      with get create gen show ?thesis by (auto dest: keysFromSecret_keys)
    qed
  qed
qed

text \<open>
  C21. The SSH keys of a load balancer are made once: whenever two reconciles get keys for the same
  secret and the secret was not changed in between, they get the same keys, even if reads miss an
  existing secret and creates that report an error have happened. So the keys a load balancer
  instance was started with stay those it is reached with.
\<close>

theorem load_balancer_keys_stable:
  assumes "secret_store_ok env sec" "secret_store_ok env' sec" "vc_Namespace vc' = vc_Namespace vc"
    and "ensureKeys env cluster vc name w = (Inr keys, w1)"
    and "sec w2 (vc_Namespace vc, name) = sec w1 (vc_Namespace vc, name)"
    and "ensureKeys env' cluster' vc' name w2 = (Inr keys', w3)"
  shows "keys' = keys"
  using ensureKeys_stored [OF assms(1,4)] ensureKeys_stored [OF assms(2,6)] assms(3,5) by auto

text \<open>A store in the state of the world.\<close>

definition store_env :: "(string \<times> string \<rightharpoonup> Secret) cluster_env" where
  "store_env = (lb_env offline_client demo_vc)\<lparr>
     ce_GetSecret := (\<lambda>ns n w. (case w (ns, n) of Some s \<Rightarrow> Inr s | None \<Rightarrow> Inl (StatusError ''NotFound''), w)),
     ce_CreateSecret := (\<lambda>s w. let k = (sec_Namespace s, sec_Name s) in
       if w k = None then (Inr (), w(k \<mapsto> s)) else (Inl (StatusError ''AlreadyExists''), w))\<rparr>"

lemma store_env_ok: "secret_store_ok store_env (\<lambda>w. w)"
  by (auto simp: secret_store_ok_def store_env_def lb_env_def Let_def split: option.splits)

theorem load_balancer_keys_stable_witness:
  "\<exists>keys w1. ensureKeys store_env demo_cluster (lb_vc None '''') ''c-lb-ssh'' Map.empty = (Inr keys, w1) \<and>
     ensureKeys store_env demo_cluster (lb_vc None '''') ''c-lb-ssh'' w1 = (Inr keys, w1)"
proof -
  let ?ensure = "ensureKeys store_env demo_cluster (lb_vc None '''') ''c-lb-ssh''"
  obtain keys w1 where one: "?ensure Map.empty = (Inr keys, w1)"
    by (simp add: ensureKeys_def store_env_def lb_env_def GenerateKeys_def apierrors_IsNotFound_def Let_def)
  then have "\<exists>keys'. ?ensure w1 = (Inr keys', w1)"
    by (auto simp: ensureKeys_def store_env_def lb_env_def GenerateKeys_def apierrors_IsNotFound_def Let_def
        key_secret_def keysFromSecret_def lb_vc_def lb_meta_def)
  then obtain keys' where two: "?ensure w1 = (Inr keys', w1)" by blast
  from load_balancer_keys_stable [OF store_env_ok store_env_ok refl one _ two] have "keys' = keys" by simp
  with one two show ?thesis by blast
qed

section \<open>The secret for the cloud provider\<close>

text \<open>A client of the workload cluster: what it reads and writes are the secrets \<open>sec\<close>.\<close>

definition workload_ok :: "'w workload \<Rightarrow> ('w \<Rightarrow> string \<times> string \<rightharpoonup> Secret) \<Rightarrow> bool" where
  "workload_ok wl sec =
     ((\<forall>ns n w. sec (snd (wl_Get wl ns n w)) = sec w \<and>
        (\<forall>s. fst (wl_Get wl ns n w) = Inr s \<longrightarrow> sec w (ns, n) = Some s \<and> sec_Namespace s = ns \<and> sec_Name s = n)) \<and>
      (\<forall>s w. \<not> isl (fst (wl_Create wl s w)) \<longrightarrow>
         sec (snd (wl_Create wl s w)) (sec_Namespace s, sec_Name s) = Some s) \<and>
      (\<forall>s w. \<not> isl (fst (wl_Update wl s w)) \<longrightarrow>
         sec (snd (wl_Update wl s w)) (sec_Namespace s, sec_Name s) = Some s))"

text \<open>
  C22. The cloud provider of the workload cluster finds the load balancer: once the reconciler has
  published the secret, \<^verbatim>\<open>config\<close> of the cloud provider reads the address and the client key it
  was published with. It also reads the host key it was published with, unless there already was a
  secret with this address and client key: that one is left as it is, and its host key is read.
  Assumed: the two programs see the same secrets.
\<close>

theorem published_secret_configures:
  assumes "publishServiceLoadBalancerSecret env cluster address keys w = (Inr (), w')"
    and "\<And>kc wl. workloadClient env kc = Inr wl \<Longrightarrow> workload_ok wl sec"
    and "\<And>ns n v. sec (snd (ce_kubeconfig env ns n v)) = sec v"
    and "\<And>v. Secrets_Get k ''kube-system'' ''verda-service-lb'' v =
      (case sec v (''kube-system'', ''verda-service-lb'') of Some s \<Rightarrow> Inr (sec_Data s) | None \<Rightarrow> Inl (StatusError ''NotFound''), v)"
    and "address \<noteq> ''''" "ky_ClientPrivateKey keys \<noteq> ''''"
  shows "\<exists>h. (h = ky_HostPublicKey keys \<or>
        (\<exists>s. sec w (''kube-system'', ''verda-service-lb'') = Some s \<and> sec w' (''kube-system'', ''verda-service-lb'') = Some s \<and>
           go_get (sec_Data s) ''address'' = address \<and> go_get (sec_Data s) ''ssh-privatekey'' = ky_ClientPrivateKey keys \<and>
           go_get (sec_Data s) ''host-publickey'' = h)) \<and>
     (h \<noteq> '''' \<longrightarrow> config k w' = (Inr \<lparr>lc_address = address, lc_keys = \<lparr>ky_ClientPrivateKey = ky_ClientPrivateKey keys,
        ky_ClientPublicKey = '''', ky_HostPrivateKey = '''', ky_HostPublicKey = h\<rparr>\<rparr>, w'))"
proof -
  let ?key = "(''kube-system'', ''verda-service-lb'')" and ?d = "desired_secret cluster address keys"
  have d: "sec_Namespace ?d = ''kube-system''" "sec_Name ?d = ''verda-service-lb''"
    "go_get (sec_Data ?d) ''address'' = address" "go_get (sec_Data ?d) ''ssh-privatekey'' = ky_ClientPrivateKey keys"
    "go_get (sec_Data ?d) ''host-publickey'' = ky_HostPublicKey keys"
    by (simp_all add: desired_secret_def)
  obtain q1 w1 where q1: "ce_kubeconfig env (cl_Namespace cluster) (cl_Name cluster) w = (q1, w1)" by fastforce
  from assms(1) q1 obtain kc wl where wl: "q1 = Inr kc" "workloadClient env kc = Inr wl"
    by (auto simp: publishServiceLoadBalancerSecret_def split: sum.splits prod.splits)
  note ok = assms(2) [OF wl(2), unfolded workload_ok_def]
  obtain q2 w2 where q2: "wl_Get wl ''kube-system'' ''verda-service-lb'' w1 = (q2, w2)" by fastforce
  have same: "sec w1 = sec w" "sec w2 = sec w1" using assms(3) q1 ok q2 by (metis snd_conv)+
  have "\<exists>s. sec w' ?key = Some s \<and> go_get (sec_Data s) ''address'' = address \<and>
      go_get (sec_Data s) ''ssh-privatekey'' = ky_ClientPrivateKey keys \<and>
      (go_get (sec_Data s) ''host-publickey'' = ky_HostPublicKey keys \<or> sec w ?key = Some s)"
  proof (cases q2)
    case (Inl e)
    with assms(1) q1 wl q2 have "wl_Create wl ?d w2 = (Inr (), w')"
      by (auto simp: publishServiceLoadBalancerSecret_def d Let_def split: if_splits)
    moreover from ok have "\<not> isl (fst (wl_Create wl ?d w2)) \<Longrightarrow> sec (snd (wl_Create wl ?d w2)) ?key = Some ?d"
      using d by metis
    ultimately show ?thesis using d by simp
  next
    case (Inr old)
    from ok q2 Inr have at: "sec w1 ?key = Some old" "sec_Namespace old = ''kube-system''" "sec_Name old = ''verda-service-lb''"
      by (metis fst_conv)+
    let ?n = "old\<lparr>sec_Data := sec_Data ?d\<rparr>"
    show ?thesis
    proof (cases "go_get (sec_Data old) ''address'' = address \<and> go_get (sec_Data old) ''ssh-privatekey'' = ky_ClientPrivateKey keys")
      case True
      with assms(1) q1 wl q2 Inr have "w' = w2"
        by (auto simp: publishServiceLoadBalancerSecret_def d Let_def)
      with True at(1) same show ?thesis by auto
    next
      case False
      with assms(1) q1 wl q2 Inr have "wl_Update wl ?n w2 = (Inr (), w')"
        by (auto simp: publishServiceLoadBalancerSecret_def d Let_def split: if_splits)
      moreover from ok have "\<not> isl (fst (wl_Update wl ?n w2)) \<Longrightarrow>
          sec (snd (wl_Update wl ?n w2)) (sec_Namespace ?n, sec_Name ?n) = Some ?n" by blast
      ultimately show ?thesis using d at(2,3) by auto
    qed
  qed
  then obtain s where s: "sec w' ?key = Some s" "go_get (sec_Data s) ''address'' = address"
      "go_get (sec_Data s) ''ssh-privatekey'' = ky_ClientPrivateKey keys"
      "go_get (sec_Data s) ''host-publickey'' = ky_HostPublicKey keys \<or> sec w ?key = Some s" by blast
  then show ?thesis
    using assms(4-6) by (intro exI [of _ "go_get (sec_Data s) ''host-publickey''"]) (auto simp: config_def)
qed

definition map_workload :: "(string \<times> string \<rightharpoonup> Secret) workload" where
  "map_workload =
     \<lparr>wl_Get = (\<lambda>ns n w. (case w (ns, n) of
          Some s \<Rightarrow> if sec_Namespace s = ns \<and> sec_Name s = n then Inr s else Inl (Opaque ''corrupt'')
        | None \<Rightarrow> Inl (StatusError ''NotFound''), w)),
      wl_Create = (\<lambda>s w. (Inr (), w((sec_Namespace s, sec_Name s) \<mapsto> s))),
      wl_Update = (\<lambda>s w. (Inr (), w((sec_Namespace s, sec_Name s) \<mapsto> s))),
      wl_Delete = (\<lambda>ns n w. (Inr (), w((ns, n) := None)))\<rparr>"

lemma map_workload_ok: "workload_ok map_workload (\<lambda>w. w)"
  by (auto simp: workload_ok_def map_workload_def split: option.splits if_splits)

theorem published_secret_configures_witness:
  "\<exists>w'. publishServiceLoadBalancerSecret (store_env\<lparr>ce_kubeconfig := \<lambda>_ _ w. (Inr ''kc'', w), ce_WorkloadClient := Some (\<lambda>_. Inr map_workload)\<rparr>)
       demo_cluster ''10.0.0.2'' lb_keys Map.empty = (Inr (), w') \<and>
     config \<lparr>Secrets_Get = (\<lambda>ns n v. (case v (ns, n) of Some s \<Rightarrow> Inr (sec_Data s) | None \<Rightarrow> Inl (StatusError ''NotFound''), v)),
         Services_List = (\<lambda>w. (Inr [], w)), Nodes_List = (\<lambda>w. (Inr [], w)), kube_updater = ce_LoadBalancer store_env\<rparr> w' =
       (Inr \<lparr>lc_address = ''10.0.0.2'', lc_keys = \<lparr>ky_ClientPrivateKey = ''a'', ky_ClientPublicKey = '''',
          ky_HostPrivateKey = '''', ky_HostPublicKey = ''d''\<rparr>\<rparr>, w')"
proof -
  let ?env = "store_env\<lparr>ce_kubeconfig := \<lambda>_ _ w. (Inr ''kc'', w), ce_WorkloadClient := Some (\<lambda>_. Inr map_workload)\<rparr>"
  obtain w' where run: "publishServiceLoadBalancerSecret ?env demo_cluster ''10.0.0.2'' lb_keys Map.empty = (Inr (), w')"
    by (simp add: publishServiceLoadBalancerSecret_def workloadClient_def map_workload_def Let_def apierrors_IsNotFound_def)
  from published_secret_configures [where sec = "\<lambda>w. w", OF run] run show ?thesis
    by (force simp: workloadClient_def map_workload_ok lb_keys_def)
qed

section \<open>A limit: an endpoint set by the user\<close>

text \<open>
  C40. A load balancer cannot be combined with an endpoint that was set on creation: as soon as the
  load balancer runs, the reconciler writes its address into the endpoint, and the webhook rejects
  the patched object because the endpoint is immutable once set.
\<close>

theorem lb_endpoint_patch_rejected:
  assumes "use_lb env cluster vc keys inst w = (r, vc', w')" "i_Status inst = StatusRunning" "i_IP inst \<noteq> ''''"
    and "ep_Host (cs_ControlPlaneEndpoint (vc_Spec vc)) \<noteq> ''''"
    and "ep_Host (cs_ControlPlaneEndpoint (vc_Spec vc)) \<noteq> i_IP inst"
  shows "VerdaCluster_ValidateUpdate NewInvalid vc vc' \<noteq> Inr ()"
proof -
  have run: "push_backends env cluster (upd_lb (record_lb inst) vc) keys inst w = (r, vc', w')"
    using assms(1-3) by (simp add: use_lb_def lb_state_of_def Let_def)
  have "ep_Host (cs_ControlPlaneEndpoint (vc_Spec vc')) = i_IP inst"
  proof (cases "controlPlaneAddresses env cluster")
    case (Inl e)
    with run show ?thesis by (auto simp: push_backends_def Let_def)
  next
    case (Inr backends)
    obtain q w1 where q: "UpdateBackends (ce_LoadBalancer env) (i_IP inst) keys backends w = (q, w1)" by fastforce
    with run Inr show ?thesis by (cases q) (auto simp: push_backends_def Let_def split: if_splits)
  qed
  with assms(4,5) show ?thesis
    by (auto simp: VerdaCluster_ValidateUpdate_def validateClusterSpecUpdate_def)
qed

theorem lb_endpoint_patch_rejected_witness:
  "cluster_created (\<lambda>_ _ _. ErrNotFound) (VerdaCluster_Default (lb_vc None ''cp'')) \<and>
   (\<exists>r vc' w'. use_lb haproxy_env demo_cluster (VerdaCluster_Default (lb_vc None ''cp'')) lb_keys running_lb (\<lambda>_. '''') = (r, vc', w') \<and>
      VerdaCluster_ValidateUpdate (\<lambda>_ _ _. ErrNotFound) (VerdaCluster_Default (lb_vc None ''cp'')) vc' \<noteq> Inr ())"
proof -
  have "locationCodeRe ''FIN-01''" by code_simp
  then have "cluster_created (\<lambda>_ _ _. ErrNotFound) (VerdaCluster_Default (lb_vc None ''cp''))"
    by (intro admitted) (simp add: VerdaCluster_Default_def defaultClusterSpec_def Let_def lb_vc_def
        defaultLoadBalancer_def cluster_valid_def lb_on_def no_lb_def)
  moreover have "ep_Host (cs_ControlPlaneEndpoint (vc_Spec (VerdaCluster_Default (lb_vc None ''cp'')))) = ''cp''"
    by (simp add: VerdaCluster_Default_def defaultClusterSpec_def Let_def lb_vc_def)
  moreover have "i_Status running_lb = StatusRunning" "i_IP running_lb = ''10.0.0.1''" by (simp_all add: running_lb_def)
  moreover obtain r vc' w' where
    "use_lb haproxy_env demo_cluster (VerdaCluster_Default (lb_vc None ''cp'')) lb_keys running_lb (\<lambda>_. '''') = (r, vc', w')"
    by (metis prod_cases3)
  ultimately show ?thesis using lb_endpoint_patch_rejected [where NewInvalid = "\<lambda>_ _ _. ErrNotFound"] by fastforce
qed

section \<open>Nodes of the workload cluster\<close>

text \<open>
  C32. The cloud provider gives a node up only when its instance is gone: when \<^verbatim>\<open>InstanceExists\<close>
  answers no for a node that carries the provider ID the machine reconciler writes (or none yet, and
  then the name of the instance), every instance with that host name is gone. Assumed: an
  instance that is gone is listed as discontinued.
\<close>

theorem node_removed_only_when_gone:
  assumes "verda_api_ok api view ok" "ok w" "InstanceExists (sdkClient api) node w = (Inr False, w')"
    and "nd_ProviderID node = ProviderID h \<or> nd_ProviderID node = '''' \<and> om_Name (nd_Meta node) = h"
    and "\<And>k i. view w k = Some i \<Longrightarrow> vi_Hostname i = h \<Longrightarrow> instanceGone (toInstance i) \<Longrightarrow> vi_Status i = StatusDiscontinued"
    and "view w k = Some i" "vi_Hostname i = h"
  shows "instanceGone (toInstance i)"
proof -
  let ?c = "sdkClient api" and ?ins = "map_option toInstance \<circ> view w"
  note contract = sdkClient_contract [OF assms(1)]
  have i: "toInstance i \<in> ran ?ins" "i_Hostname (toInstance i) = h" using assms(6,7) by (auto simp: ran_def)
  obtain q w1 where q: "FindInstanceByHostname ?c h w = (q, w1)" by fastforce
  have "lookup ?c node w = (q, w1)"
    using assms(4) q by (cases q) (auto simp: lookup_def ProviderID_def providerIDPrefix_def HasPrefix_def TrimPrefix_def Let_def)
  with assms(3) have ans: "case q of Inl e \<Rightarrow> errors_Is e ErrNotFound | Inr j \<Rightarrow> instanceGone j"
    by (cases q) (auto simp: InstanceExists_def split: if_splits)
  show ?thesis
  proof (cases q)
    case (Inl e)
    with ans cloud_contract.FindInstanceByHostname_NotFound [OF contract assms(2), of h e w1 "toInstance i"] q i show ?thesis
      by (simp add: o_def)
  next
    case (Inr j)
    with cloud_contract.FindInstanceByHostname_Inr [OF contract assms(2), of h j w1] q
    obtain k' i' where "view w k' = Some i'" "j = toInstance i'" "i_Hostname j = h" by (auto simp: ran_def o_def)
    with assms(5) ans Inr have "i_Status j = StatusDiscontinued" by simp
    with cloud_contract.FindInstanceByHostname_gone [OF contract assms(2), of h j w1 "toInstance i"] q Inr i show ?thesis
      by (simp add: o_def)
  qed
qed

theorem node_removed_only_when_gone_witness:
  "InstanceExists (sdkClient mem_api) \<lparr>nd_Meta = demo_meta None, nd_ProviderID = ''verda://node-1'', nd_Addresses = []\<rparr> old_mem =
     (Inr False, old_mem) \<and> instanceGone (toInstance old_instance)"
proof -
  let ?node = "\<lparr>nd_Meta = demo_meta None, nd_ProviderID = ''verda://node-1'', nd_Addresses = []\<rparr>"
  have run: "InstanceExists (sdkClient mem_api) ?node old_mem = (Inr False, old_mem)"
    by (simp add: InstanceExists_def lookup_def providerIDPrefix_def HasPrefix_def TrimPrefix_def
        sdkClient_FindInstanceByHostname_def old_mem_def old_instance_def Let_def)
  have "mem_ok old_mem" "mem_view old_mem ''i'' = Some old_instance" "vi_Hostname old_instance = ''node-1''"
    by (simp_all add: mem_ok_def old_mem_def old_instance_def)
  with node_removed_only_when_gone [OF mem_api_ok _ run, of "''node-1''" "''i''" old_instance] run show ?thesis
    by (simp add: ProviderID_def old_mem_def old_instance_def split: if_splits)
qed

end
