(* ===== verification/DeletionClaims.thy ===== *)
theory DeletionClaims
  imports DeletionClients ClusterDeletion MachineClaims ClusterClaims
begin

text \<open>
  Machines and clusters that are being deleted go away; with runs of both deletions against a
  concrete account.
\<close>

section \<open>Claims\<close>

text \<open>
  C9. A machine that is being deleted goes away: reconciled at least twenty seconds apart against an
  API that accepts what it is asked for and carries it out in the end, the machine loses its
  finalizer after at most one round more than the API needs to settle. The rounds include repeated
  requests and the waiting for the shutdown, the deletion and the volumes. Assumed: no earlier
  request holds the throttle, and the year has four digits.
\<close>

theorem machine_deletion_ends:
  assumes "prompt_api api ids {(TagMachine, machineTagValue (vm 0))} vols a" "ac_ok a (w 0)"
    and "delete_rounds env (sdkClient api) (settles (ac_ok a) (ac_left a) (ac_waiting a)) t vm w"
    and "InstanceID (vm 0) \<in> insert '''' ids" "mst_OSVolumeID (vm_Status (vm 0)) \<in> insert '''' vols"
    and "om_DeletionTimestamp (vm_Meta (vm 0)) \<noteq> None" "throttle_open (t 0) '''' (vm_Meta (vm 0))"
    and "\<And>n. n \<le> ac_left a (w 0) \<Longrightarrow> year_of (t n) < 10000"
  shows "\<exists>n \<le> Suc (ac_left a (w 0)). MachineFinalizer \<notin> set (om_Finalizers (vm_Meta (vm n)))"
proof -
  have "deleting_machine ids {(TagMachine, machineTagValue (vm 0))} vols (t 0) (vm 0)"
    using assms(4-7) by (auto simp: deleting_machine_def machine_known_def)
  from deletion_service.deletion_ends [OF sdkClient_deletion_service [OF assms(1)] assms(3,2) this assms(8)]
  show ?thesis .
qed

text \<open>
  Between two rounds the instances of the load balancers only age, no new one appears, and those that
  are gone are listed as discontinued.
\<close>

definition lbs_age :: "('w \<Rightarrow> string \<rightharpoonup> Instance) \<Rightarrow> ('w \<Rightarrow> bool) \<Rightarrow> VerdaCluster \<Rightarrow> 'w \<Rightarrow> 'w \<Rightarrow> bool" where
  "lbs_age insts invar vc w w' =
     (lbs_listed vc (insts w) \<and> cloud_evolves TagLoadBalancer (clusterTagValue vc) (insts w) (insts w') \<and>
      cloud_evolves TagServiceLoadBalancer (clusterTagValue vc) (insts w) (insts w') \<and> invar w' \<and> lbs_listed vc (insts w'))"

lemma lbs_age_cong: "clusterTagValue vc' = clusterTagValue vc \<Longrightarrow> lbs_age insts invar vc' = lbs_age insts invar vc"
  by (simp add: lbs_age_def [abs_def] lbs_listed_def)

lemma cluster_delete_rounds_mono:
  assumes "cluster_delete_rounds env c settled t vc w" "\<And>x y. settled x y \<Longrightarrow> settled' x y"
  shows "cluster_delete_rounds env c settled' t vc w"
  using assms unfolding cluster_delete_rounds_def by meson

context cloud_contract
begin

lemma cluster_rounds_reach:
  assumes "cluster_delete_rounds env c (lbs_age insts invar (vc 0)) t vc w" "cluster_reach c insts invar (vc 0) (w 0)"
    and envs: "\<And>m. has_cluster_finalizer (vc m) \<Longrightarrow> cluster_env_for (env m) (vc m) c \<and> other_calls_ok (env m) insts invar"
    and "\<And>m. m \<le> n \<Longrightarrow> has_cluster_finalizer (vc m)"
  shows "cluster_reach c insts invar (vc n) (w n) \<and> clusterTagValue (vc n) = clusterTagValue (vc 0)"
  using assms(4)
proof (induction n)
  case (Suc n)
  then have fin: "has_cluster_finalizer (vc n)" "has_cluster_finalizer (vc (Suc n))" by simp_all
  from Suc have IH: "cluster_reach c insts invar (vc n) (w n)" "clusterTagValue (vc n) = clusterTagValue (vc 0)" by simp_all
  from assms(1) fin obtain r w' where rec: "cluster_Reconcile (env n) (w n) = (r, Some (vc (Suc n)), w')"
    and age: "lbs_age insts invar (vc 0) w' (w (Suc n))"
    unfolding cluster_delete_rounds_def by metis
  from envs [OF fin(1)] have env: "cluster_env_for (env n) (vc n) c" "other_calls_ok (env n) insts invar" by simp_all
  from cluster_Reconcile_ok [OF env _ _ _ rec] cluster_reach_safe [OF IH(1)] have "same_cluster (vc n) (vc (Suc n))"
    by (auto simp: outcome_ok_def)
  from clusterTagValue_same [OF this] IH(2) have tag: "clusterTagValue (vc (Suc n)) = clusterTagValue (vc 0)" by simp
  note age = age [folded lbs_age_cong [OF tag], unfolded lbs_age_def]
  have "cluster_step c insts invar (vc n, w n) (vc (Suc n), w')" by (rule cluster_step.reconciled [OF env rec]) simp
  from cluster_reach.next_cluster [OF IH(1) this] age have "cluster_reach c insts invar (vc (Suc n)) w'" by simp
  from cluster_reach.next_cluster [OF this cluster_step.evolved] age tag show ?case by simp
qed (simp add: assms(2))

end

text \<open>
  C10. A cluster that is being deleted goes away with its load balancers: after no more rounds than
  the API needs for both, a round takes the finalizer off, and then every instance with either load
  balancer tag of the cluster is gone. Assumed, as for a machine: the rounds are at least twenty
  seconds apart, the API accepts what it is asked for and carries it out in the end, no earlier
  request holds the throttle, and the year has four digits; and, as for the safety of load balancers:
  the cluster was only reconciled before, the calls to the clusters leave the account alone, and
  between rounds the instances of the load balancers only age and are listed as discontinued when
  they are gone.
\<close>

theorem cluster_deletion_ends:
  fixes view :: "'a \<Rightarrow> string \<rightharpoonup> verda_Instance"
  defines "insts \<equiv> \<lambda>w k. map_option toInstance (view w k)"
  assumes "prompt_api api ids {(TagLoadBalancer, clusterTagValue (vc 0)), (TagServiceLoadBalancer, clusterTagValue (vc 0))} vols a"
    and "ac_ok a (w 0)" "verda_api_ok api view ok" "cluster_reach (sdkClient api) insts ok (vc 0) (w 0)"
    and "cluster_delete_rounds env (sdkClient api)
      (\<lambda>x y. settles (ac_ok a) (ac_left a) (ac_waiting a) x y \<and> lbs_age insts ok (vc 0) x y) t vc w"
    and "\<And>n. ClusterFinalizer \<in> set (om_Finalizers (vc_Meta (vc n))) \<Longrightarrow>
      cluster_env_for (env n) (vc n) (sdkClient api) \<and> other_calls_ok (env n) insts ok"
    and "lb_id (vc 0) \<in> insert '''' ids" "slb_id (vc 0) \<in> insert '''' ids" "om_DeletionTimestamp (vc_Meta (vc 0)) \<noteq> None"
    and "throttle_open (t 0) ''lb'' (vc_Meta (vc 0))" "throttle_open (t 0) ''servicelb'' (vc_Meta (vc 0))"
    and "ClusterFinalizer \<in> set (om_Finalizers (vc_Meta (vc 0)))" "\<And>n. n \<le> ac_left a (w 0) \<Longrightarrow> year_of (t n) < 10000"
  shows "\<exists>n \<le> ac_left a (w 0). ClusterFinalizer \<notin> set (om_Finalizers (vc_Meta (vc (Suc n)))) \<and>
     (\<exists>r w'. cluster_Reconcile (env n) (w n) = (r, Some (vc (Suc n)), w') \<and>
        (\<forall>k i. view w' k = Some i \<longrightarrow> (\<exists>key \<in> {TagLoadBalancer, TagServiceLoadBalancer}.
           go_get (tag_map (vi_Tags i)) key = clusterTagValue (vc 0)) \<longrightarrow> instanceGone (toInstance i)))"
proof -
  let ?c = "sdkClient api" and ?fin = "\<lambda>n. has_cluster_finalizer (vc n)"
  have contract: "cloud_contract ?c insts ok" using sdkClient_contract [OF assms(4)] by (simp add: insts_def o_def)
  have rounds: "cluster_delete_rounds env ?c (settles (ac_ok a) (ac_left a) (ac_waiting a)) t vc w"
    "cluster_delete_rounds env ?c (lbs_age insts ok (vc 0)) t vc w"
    by (rule cluster_delete_rounds_mono [OF assms(6)], simp)+
  have "deleting_cluster ids {(TagLoadBalancer, clusterTagValue (vc 0)), (TagServiceLoadBalancer, clusterTagValue (vc 0))}
      (t 0) (vc 0)"
    using assms(8-12) by (auto simp: deleting_cluster_def lb_known_def)
  from deletion_service.cluster_deletion_bounded [OF sdkClient_deletion_service [OF assms(2)] rounds(1) assms(3) this assms(14)]
  obtain l where l: "l \<le> Suc (ac_left a (w 0))" "\<not> ?fin l" by blast
  define n where "n = (LEAST n. \<not> ?fin n) - 1"
  have least: "\<not> ?fin (LEAST n. \<not> ?fin n)" "(LEAST n. \<not> ?fin n) \<le> l"
    using LeastI [of "\<lambda>n. \<not> ?fin n" l] Least_le [of "\<lambda>n. \<not> ?fin n" l] l(2) by simp_all
  with assms(13) have n: "(LEAST n. \<not> ?fin n) = Suc n" unfolding n_def by (cases "LEAST n. \<not> ?fin n") auto
  have fin: "?fin m" if "m \<le> n" for m using not_less_Least [of m "\<lambda>n. \<not> ?fin n"] that n by auto
  have "cluster_reach ?c insts ok (vc n) (w n) \<and> clusterTagValue (vc n) = clusterTagValue (vc 0)"
    by (rule cloud_contract.cluster_rounds_reach [OF contract rounds(2) assms(5)]) (fact assms(7) fin)+
  then have reach: "cluster_reach ?c insts ok (vc n) (w n)" "clusterTagValue (vc n) = clusterTagValue (vc 0)" by simp_all
  from assms(6) fin [of n] obtain r w' where rec: "cluster_Reconcile (env n) (w n) = (r, Some (vc (Suc n)), w')"
    unfolding cluster_delete_rounds_def by blast
  note leak = cloud_contract.cluster_reach_no_leak [OF contract reach(1) _ _ rec fin [OF order_refl]]
  have gone: "instanceGone (toInstance i)" if "view w' k = Some i" "key \<in> {TagLoadBalancer, TagServiceLoadBalancer}"
    "go_get (tag_map (vi_Tags i)) key = clusterTagValue (vc 0)" for k i key
    using that least(1) assms(7) [of n] fin [of n] reach(2)
    by (intro leak [of key k "toInstance i"]) (simp_all add: n insts_def tagged_def)
  show ?thesis
    by (intro exI [of _ n] conjI exI [of _ r] exI [of _ w'] rec) (use least l(1) n gone in auto)
qed

text \<open>On the fake cloud two rounds are enough for a machine.\<close>

lemma fake_deletion_ends:
  assumes "delete_rounds env fake_client (settles (fake_deletable {k} tags vols) (fake_left [k]) (\<lambda>_. False)) t vm w"
    and "fake_deletable {k} tags vols (w 0)" "deleting_machine {k} tags vols (t 0) (vm 0)"
    and "\<And>n. n \<le> 1 \<Longrightarrow> year_of (t n) < 10000"
  shows "\<exists>n \<le> 2. \<not> has_finalizer (vm n)"
proof -
  have left: "fake_left [k] (w 0) \<le> 1" by (simp add: fake_left_def)
  with fd.deletion_ends [of env "[k]" tags vols t vm w] assms obtain n where
    "n \<le> Suc (fake_left [k] (w 0))" "\<not> has_finalizer (vm n)" by auto
  with left show ?thesis by (intro exI [of _ n]) simp
qed

section \<open>An account that deletes promptly\<close>

definition phase :: "verda_Instance \<Rightarrow> nat" where
  "phase i = (if instanceGone (toInstance i) then 0 else if vi_Status i = StatusOffline then 1 else 2)"

definition mem_account :: "mem account" where
  "mem_account =
     \<lparr>ac_ok = (\<lambda>w. mem_ok w \<and> (\<forall>i\<in>set (mm_Instances w). vi_OSVolumeID i = None \<and> vi_VolumeIDs i = [] \<and>
        go_get (tag_map (vi_Tags i)) TagManagedBy = ManagedByValue \<and> CHR ''@'' \<notin> set (vi_Status i) \<and>
        vi_Status i \<notin> {StatusDeleting, StatusDeleted, StatusNotFound})),
      ac_view = mem_view, ac_trash = (\<lambda>w. vv_ID ` set (mm_Trash w)),
      ac_left = (\<lambda>w. sum_list (map phase (mm_Instances w))), ac_waiting = (\<lambda>_. False)\<rparr>"

lemma mem_account_simps [simp]:
  "ac_view mem_account = mem_view" "ac_trash mem_account w = vv_ID ` set (mm_Trash w)"
  "ac_left mem_account w = sum_list (map phase (mm_Instances w))" "ac_waiting mem_account w = False"
  by (simp_all add: mem_account_def)

lemma sum_list_less:
  fixes f g :: "'a \<Rightarrow> nat"
  shows "(\<And>x. x \<in> set xs \<Longrightarrow> f x \<le> g x) \<Longrightarrow> x \<in> set xs \<Longrightarrow> f x < g x \<Longrightarrow> sum_list (map f xs) < sum_list (map g xs)"
proof (induction xs)
  case (Cons y ys)
  have "sum_list (map f ys) \<le> sum_list (map g ys)" using Cons.prems(1) by (intro sum_list_mono) simp
  with Cons show ?case by (cases "x = y") (auto simp: add_le_less_mono add_less_le_mono)
qed simp

lemma mem_set_status_advances:
  assumes "ac_ok mem_account w" "mem_view w k = Some i" "s = StatusOffline \<and> phase i = 2 \<or> s = StatusDiscontinued \<and> phase i > 0"
  shows "ac_ok mem_account (mem_set_status k s w) \<and>
     advances (ac_left mem_account) (ac_waiting mem_account) w (mem_set_status k s w)"
proof -
  define g where "g = (\<lambda>i::verda_Instance. if vi_ID i = k \<and> vi_Status i \<noteq> StatusDiscontinued then i\<lparr>vi_Status := s\<rparr> else i)"
  have eq: "mm_Instances (mem_set_status k s w) = map g (mm_Instances w)" by (simp add: mem_set_status_def g_def)
  from assms(1) have ok: "mem_ok w" by (simp add: mem_account_def)
  from mem_view_ID [OF assms(2)] have i: "vi_ID i = k" "i \<in> set (mm_Instances w)" by simp_all
  have only: "x = i" if "x \<in> set (mm_Instances w)" "vi_ID x = k" for x
    using that i ok by (auto simp: mem_ok_def distinct_map inj_on_def)
  have less: "phase (g i) < phase i" using assms(3) i(1) by (auto simp: g_def phase_def split: if_splits)
  have "phase (g x) \<le> phase x" if "x \<in> set (mm_Instances w)" for x
    using less only [OF that] by (cases "vi_ID x = k") (auto simp: g_def)
  from sum_list_less [of "mm_Instances w" "phase \<circ> g" phase i] this i(2) less have "advances (ac_left mem_account) (ac_waiting mem_account) w (mem_set_status k s w)"
    by (simp add: advances_def eq o_def)
  moreover have "ac_ok mem_account (mem_set_status k s w)"
    using assms(1,3) mem_set_status_touches(1) [OF ok, of k s] by (auto simp: mem_account_def eq g_def)
  ultimately show ?thesis by simp
qed


lemma mem_delete_volume_calm:
  "ac_ok mem_account w \<Longrightarrow> calm mem_account w (w\<lparr>mm_Volumes := vs, mm_Trash := filter P (mm_Trash w)\<rparr>)"
  by (auto simp: calm_def mem_account_def mem_ok_def)

lemma mem_scripts_calm: "ac_ok mem_account w \<Longrightarrow> calm mem_account w (w\<lparr>mm_Scripts := ss\<rparr>)"
  by (auto simp: calm_def mem_account_def mem_ok_def)

lemma mem_account_volumes: "ac_ok mem_account w \<Longrightarrow> \<not> account_volume mem_account ids w v"
  by (auto simp: account_volume_def mem_account_def instanceVolumeIDs_def dest!: mem_view_ID)

lemma mem_prompt_instances: "prompt_instances mem_api UNIV mem_account"
  unfolding prompt_instances_def
proof (intro allI impI conjI)
  fix w k r w' assume ok: "ac_ok mem_account w" and run: "Instances_GetByID mem_api k w = (r, w')"
  then show "calm mem_account w w'" by (auto intro: calm_refl)
  from run show "case ac_view mem_account w k of Some i \<Rightarrow> r = Inr i | None \<Rightarrow> \<exists>e. r = Inl e \<and> isNotFound e"
    by (auto simp: mem_lookup_def find_map_of isNotFound_def split: option.splits)
next
  fix w k i assume ok: "ac_ok mem_account w" and view: "ac_view mem_account w k = Some i"
  then have "i \<in> set (mm_Instances w)" by (auto dest: mem_view_ID)
  with ok have i: "CHR ''@'' \<notin> set (vi_Status i)" "go_get (tag_map (vi_Tags i)) TagManagedBy = ManagedByValue"
    "vi_Status i \<noteq> StatusDeleting" by (auto simp: mem_account_def)
  then show "CHR ''@'' \<notin> set (vi_Status i)" "go_get (tag_map (vi_Tags i)) TagManagedBy = ManagedByValue" by simp_all
  show "vi_Status i = StatusDeleting \<Longrightarrow> ac_waiting mem_account w" using i(3) by simp
  fix r w' assume live: "\<not> instanceGone (toInstance i)"
    and run: "(if vi_Status i = StatusOffline then Instances_Delete mem_api [k] (instanceVolumeIDs i) False w
        else Instances_Shutdown mem_api k w) = (r, w')"
  define s where "s = (if vi_Status i = StatusOffline then StatusDiscontinued else StatusOffline)"
  have w': "r = Inr ()" "w' = mem_set_status k s w" using run by (auto simp: s_def split: if_splits)
  have "s = StatusOffline \<and> phase i = 2 \<or> s = StatusDiscontinued \<and> phase i > 0" using live by (simp add: s_def phase_def)
  from mem_set_status_advances [OF ok view [unfolded mem_account_simps] this] w'
  show "accepted r" "ac_ok mem_account w'" "advances (ac_left mem_account) (ac_waiting mem_account) w w'"
    by (simp_all add: accepted_def)
qed

lemma mem_prompt_api: "prompt_api mem_api UNIV tags {} mem_account"
proof -
  have "prompt_trash mem_api mem_account"
    by (auto simp: prompt_trash_def intro: calm_refl)
  moreover have "prompt_volumes mem_api UNIV {} mem_account"
    by (simp add: prompt_volumes_def mem_account_volumes)
  moreover have "prompt_scripts mem_api mem_account"
    by (auto simp: prompt_scripts_def accepted_def intro: calm_refl mem_scripts_calm)
  moreover have "prompt_list mem_api UNIV tags mem_account"
    unfolding prompt_list_def
  proof (intro allI impI conjI)
    fix w r w' assume ok: "ac_ok mem_account w" and run: "Instances_Get mem_api '''' w = (r, w')"
    then show "calm mem_account w w'" by (auto intro: calm_refl)
    from ok have "mem_ok w" by (simp add: mem_account_def)
    with run show "\<exists>xs. r = Inr xs \<and> set xs \<subseteq> ran (ac_view mem_account w)" by (auto simp: mem_ran)
  next
    fix w k i assume "ac_view mem_account w k = Some i"
    then show "vi_ID i = k" by (auto dest: mem_view_ID)
  qed simp
  ultimately show ?thesis using mem_prompt_instances by (simp add: prompt_api_def)
qed

section \<open>Runs\<close>

text \<open>
  A run in which nothing happens between the rounds, at times twenty seconds apart: \<open>f\<close> is a round,
  \<open>fin\<close> says that the object still has its finalizer.
\<close>

definition tick :: "nat \<Rightarrow> nat" where
  "tick n = n * 20000000000"

fun sync_run :: "('o \<Rightarrow> bool) \<Rightarrow> (nat \<Rightarrow> 'o \<Rightarrow> 'w \<Rightarrow> 'r \<times> 'o option \<times> 'w) \<Rightarrow> 'o \<Rightarrow> 'w \<Rightarrow> nat \<Rightarrow> 'o \<times> 'w" where
  "sync_run fin f x w 0 = (x, w)"
| "sync_run fin f x w (Suc n) =
     (case sync_run fin f x w n of
        (x, w) \<Rightarrow> if fin x then (case f n x w of (r, out, w') \<Rightarrow> (the out, w')) else (x, w))"

lemma tick_0 [simp]: "tick 0 = 0"
  by (simp add: tick_def)

lemma tick_spaced: "int (tick n) + deleteRetryInterval \<le> int (tick (Suc n))"
  by (simp add: tick_def deleteRetryInterval_def time_Second_def)

lemma tick_year: "n \<le> 100 \<Longrightarrow> year_of (tick n) < 10000"
proof -
  assume "n \<le> 100"
  then have "tick n div 1000000000 div 86400 = 0" by (simp add: tick_def div_mult2_eq [symmetric])
  then show ?thesis by (simp add: year_of_def split_year.simps days_in_year_def is_leap_def)
qed

lemma sync_run_step:
  assumes "\<And>n x w. \<exists>r y v. f n x w = (r, Some y, v)" "fin (fst (sync_run fin f xi wi n))"
  shows "\<exists>r. f n (fst (sync_run fin f xi wi n)) (snd (sync_run fin f xi wi n)) =
     (r, Some (fst (sync_run fin f xi wi (Suc n))), snd (sync_run fin f xi wi (Suc n)))"
proof -
  obtain x w where eq: "sync_run fin f xi wi n = (x, w)" by fastforce
  from assms(1) obtain r y v where "f n x w = (r, Some y, v)" by blast
  with eq assms(2) show ?thesis by simp
qed

lemma sync_run_good:
  fixes l :: "'w \<Rightarrow> nat"
  assumes some: "\<And>n x w. \<exists>r y v. f n x w = (r, Some y, v)" and "good 0 xi wi"
    and step: "\<And>n x w r y v. good n x w \<Longrightarrow> n \<le> l wi \<Longrightarrow> f n x w = (r, Some y, v) \<Longrightarrow> fin y \<Longrightarrow> good (Suc n) y v \<and> l v < l w"
    and "fin (fst (sync_run fin f xi wi n))"
  shows "good n (fst (sync_run fin f xi wi n)) (snd (sync_run fin f xi wi n)) \<and> l (snd (sync_run fin f xi wi n)) + n \<le> l wi"
  using assms(4)
proof (induction n)
  case (Suc n)
  let ?s = "sync_run fin f xi wi"
  have there: "fin (fst (?s n))" using Suc.prems by (auto split: prod.splits if_splits)
  from sync_run_step [of f fin, OF some there] obtain r where r: "f n (fst (?s n)) (snd (?s n)) = (r, Some (fst (?s (Suc n))), snd (?s (Suc n)))" ..
  from Suc.IH [OF there] have IH: "good n (fst (?s n)) (snd (?s n))" "l (snd (?s n)) + n \<le> l wi" by simp_all
  from step [OF IH(1) _ r Suc.prems] IH(2) show ?case by simp
qed (simp add: assms(2))

lemma Reconcile_patched: "undisturbed env c now vm \<Longrightarrow> \<exists>r v w'. Reconcile env w = (r, Some v, w')"
  by (auto simp: undisturbed_def Reconcile_def with_patch_def Let_def split: prod.splits)

lemma cluster_Reconcile_patched: "cluster_undisturbed env c now vc \<Longrightarrow> \<exists>r v w'. cluster_Reconcile env w = (r, Some v, w')"
  by (auto simp: cluster_undisturbed_def cluster_Reconcile_def with_cluster_patch_def Let_def split: prod.splits)

context deletion_service
begin

lemma sync_delete_rounds:
  assumes env: "\<And>n vm. undisturbed (env n vm) c (tick n) vm" and calm: "\<And>w. \<not> waiting w"
    and "ok w0" "deleting_machine ids tags vols 0 vm0" "left w0 \<le> 100"
  defines "s \<equiv> sync_run has_finalizer (\<lambda>n vm. Reconcile (env n vm)) vm0 w0"
  shows "delete_rounds (\<lambda>n. env n (fst (s n))) c (settles ok left waiting) tick (\<lambda>n. fst (s n)) (\<lambda>n. snd (s n))"
proof -
  have some: "\<exists>r v w'. Reconcile (env n vm) w = (r, Some v, w')" for n vm w by (rule Reconcile_patched [OF env])
  note step = sync_run_step [where fin = has_finalizer and xi = vm0 and wi = w0 and f = "\<lambda>n vm. Reconcile (env n vm)", OF some, folded s_def]
  have good: "ok (snd (s n))" if "has_finalizer (fst (s n))" for n
    using sync_run_good [where fin = has_finalizer and f = "\<lambda>n vm. Reconcile (env n vm)" and l = left and n = n and xi = vm0 and wi = w0
        and good = "\<lambda>n vm w. ok w \<and> deleting_machine ids tags vols (tick n) vm", OF some, folded s_def, OF _ _ that]
      assms(3-5) round_advances [OF env _ _ _ tick_spaced] calm
    by (fastforce simp: tick_def advances_def intro: tick_year)
  show ?thesis
    unfolding delete_rounds_def
  proof (intro allI impI conjI)
    fix n assume "has_finalizer (fst (s n))"
    from step [OF this] good [of "Suc n"] calm
    show "\<exists>r w'. Reconcile (env n (fst (s n))) (snd (s n)) = (r, Some (fst (s (Suc n))), w') \<and>
        (has_finalizer (fst (s (Suc n))) \<longrightarrow> settles ok left waiting w' (snd (s (Suc n))))"
      by (auto simp: settles_def)
  qed (rule env tick_spaced)+
qed

lemma sync_cluster_delete_rounds:
  assumes env: "\<And>n vc. cluster_undisturbed (env n vc) c (tick n) vc" and calm: "\<And>w. \<not> waiting w"
    and "ok w0" "deleting_cluster ids tags 0 vc0" "left w0 \<le> 100"
  defines "s \<equiv> sync_run has_cluster_finalizer (\<lambda>n vc. cluster_Reconcile (env n vc)) vc0 w0"
  shows "cluster_delete_rounds (\<lambda>n. env n (fst (s n))) c (\<lambda>x y. settles ok left waiting x y \<and> y = x) tick (\<lambda>n. fst (s n)) (\<lambda>n. snd (s n))"
proof -
  have some: "\<exists>r v w'. cluster_Reconcile (env n vc) w = (r, Some v, w')" for n vc w by (rule cluster_Reconcile_patched [OF env])
  note step = sync_run_step [where fin = has_cluster_finalizer and xi = vc0 and wi = w0 and f = "\<lambda>n vc. cluster_Reconcile (env n vc)", OF some, folded s_def]
  have good: "ok (snd (s n))" if "has_cluster_finalizer (fst (s n))" for n
    using sync_run_good [where fin = has_cluster_finalizer and f = "\<lambda>n vc. cluster_Reconcile (env n vc)" and l = left and n = n and xi = vc0
        and wi = w0 and good = "\<lambda>n vc w. ok w \<and> deleting_cluster ids tags (tick n) vc", OF some, folded s_def, OF _ _ that]
      assms(3-5) cluster_round_advances [OF env _ _ _ tick_spaced] calm
    by (fastforce simp: tick_def advances_def intro: tick_year)
  show ?thesis
    unfolding cluster_delete_rounds_def
  proof (intro allI impI conjI)
    fix n assume "has_cluster_finalizer (fst (s n))"
    from step [OF this] good [of "Suc n"] calm
    show "\<exists>r w'. cluster_Reconcile (env n (fst (s n))) (snd (s n)) = (r, Some (fst (s (Suc n))), w') \<and>
        (has_cluster_finalizer (fst (s (Suc n))) \<longrightarrow> settles ok left waiting w' (snd (s (Suc n))) \<and> snd (s (Suc n)) = w')"
      by (auto simp: settles_def)
  qed (rule env tick_spaced)+
qed

end

section \<open>Examples\<close>

definition demo_delete_run :: "nat \<Rightarrow> VerdaMachine \<times> mem" where
  "demo_delete_run = sync_run has_finalizer
     (\<lambda>n vm. Reconcile ((demo_env (sdkClient mem_api) vm)\<lparr>me_now := tick n\<rparr>)) (demo_vm (Some 0)) running_mem"

text \<open>The account after the load balancer of a new cluster has been created and the patch was lost.\<close>

definition lb_mem :: mem where
  "lb_mem = snd (snd (cluster_Reconcile (lb_env (sdkClient mem_api) (lb_vc None '''')) empty_mem))"

definition lb_delete_run :: "nat \<Rightarrow> VerdaCluster \<times> mem" where
  "lb_delete_run = sync_run has_cluster_finalizer
     (\<lambda>n vc. cluster_Reconcile ((lb_env (sdkClient mem_api) vc)\<lparr>ce_now := tick n\<rparr>)) (lb_vc (Some 0) '''') lb_mem"

lemma lb_mem_instance:
  obtains i where "mm_Instances lb_mem = [i]" "vi_ID i = ''i''" "vi_Status i = ''provisioning''" "vi_OSVolumeID i = None"
    "vi_VolumeIDs i = []" "go_get (tag_map (vi_Tags i)) TagManagedBy = ManagedByValue"
  using lb_reconciled [of "''''"] by (auto simp: lb_mem_def)

lemma demo_mems:
  "ac_ok mem_account running_mem" "ac_left mem_account running_mem = 2" "ac_ok mem_account lb_mem" "ac_left mem_account lb_mem = 2"
proof -
  show "ac_ok mem_account running_mem" "ac_left mem_account running_mem = 2"
    by (simp_all add: mem_account_def mem_ok_def running_mem_def empty_mem_def running_instance_def old_instance_def
        tag_map_def phase_def toInstance_def)
  show "ac_ok mem_account lb_mem" "ac_left mem_account lb_mem = 2"
    by (rule lb_mem_instance; simp add: mem_account_def mem_ok_def phase_def)+
qed

lemma mem_lbs_age:
  assumes "ac_ok mem_account w"
  shows "lbs_age (\<lambda>w k. map_option toInstance (mem_view w k)) mem_ok vc w w"
proof -
  have "listed_ok key v (\<lambda>k. map_option toInstance (mem_view w k))" for key v
    using assms by (auto simp: listed_ok_def ran_def mem_account_def dest!: mem_view_ID)
  moreover have "cloud_evolves key v m m" for key v and m :: "string \<rightharpoonup> Instance" by (auto simp: cloud_evolves_def ages_to_def)
  ultimately show ?thesis using assms by (simp add: lbs_age_def lbs_listed_def mem_account_def)
qed

lemma lb_mem_reach:
  "cluster_reach (sdkClient mem_api) (\<lambda>w k. map_option toInstance (mem_view w k)) mem_ok (lb_vc (Some 0) '''') lb_mem"
proof -
  let ?ins = "\<lambda>w k. map_option toInstance (mem_view w k)" and ?vc = "lb_vc None ''''"
  have listed: "lbs_listed vc (?ins lb_mem)" for vc using mem_lbs_age [OF demo_mems(3), of vc] by (simp add: lbs_age_def)
  obtain r out where run: "cluster_Reconcile (lb_env (sdkClient mem_api) ?vc) empty_mem = (r, out, lb_mem)"
    by (metis lb_mem_def prod.collapse)
  have "cluster_step (sdkClient mem_api) ?ins mem_ok (?vc, empty_mem) (?vc, lb_mem)"
    by (rule cluster_step.reconciled [OF lb_env_for run]) simp
  from cluster_reach.next_cluster [OF lb_reach_new this listed] have "cluster_reach (sdkClient mem_api) ?ins mem_ok ?vc lb_mem" .
  from cluster_reach.next_cluster [OF this cluster_step.edited listed, of "lb_vc (Some 0) ''''"] show ?thesis
    by (simp add: same_cluster_def lb_vc_simps lb_meta_def)
qed

lemma demo_throttle: "throttle_open 0 s (demo_meta d)" "throttle_open 0 s (lb_meta d)"
  by (simp_all add: throttle_open_fresh demo_meta_def lb_meta_def)

lemma demo_undisturbed: "undisturbed ((demo_env c vm)\<lparr>me_now := t\<rparr>) c t vm"
  by (simp add: undisturbed_def demo_env_def)

lemma lb_undisturbed: "cluster_undisturbed ((lb_env c vc)\<lparr>ce_now := t\<rparr>) c t vc"
  by (simp add: cluster_undisturbed_def lb_env_def)

theorem machine_deletion_ends_witness:
  "MachineFinalizer \<in> set (om_Finalizers (vm_Meta (fst (demo_delete_run 0)))) \<and> StatusRunning \<in> vi_Status ` set (mm_Instances (snd (demo_delete_run 0))) \<and>
   (\<exists>n \<le> 3. MachineFinalizer \<notin> set (om_Finalizers (vm_Meta (fst (demo_delete_run n)))))"
proof -
  let ?tags = "{(TagMachine, machineTagValue (fst (demo_delete_run 0)))}"
  have 0: "demo_delete_run 0 = (demo_vm (Some 0), running_mem)" by (simp add: demo_delete_run_def)
  have known: "deleting_machine UNIV ?tags {} 0 (demo_vm (Some 0))"
    by (simp add: deleting_machine_def machine_known_def 0 demo_vm_simps demo_throttle)
  have rounds: "delete_rounds (\<lambda>n. (demo_env (sdkClient mem_api) (fst (demo_delete_run n)))\<lparr>me_now := tick n\<rparr>) (sdkClient mem_api)
      (settles (ac_ok mem_account) (ac_left mem_account) (ac_waiting mem_account)) tick (\<lambda>n. fst (demo_delete_run n)) (\<lambda>n. snd (demo_delete_run n))"
    unfolding demo_delete_run_def
    by (rule deletion_service.sync_delete_rounds [OF sdkClient_deletion_service [OF mem_prompt_api] demo_undisturbed _ demo_mems(1) known])
      (simp_all add: demo_mems del: mem_account_simps(3))
  have "\<exists>n \<le> Suc (ac_left mem_account running_mem). MachineFinalizer \<notin> set (om_Finalizers (vm_Meta (fst (demo_delete_run n))))"
    using machine_deletion_ends [OF mem_prompt_api _ rounds]
    by (simp add: 0 demo_mems demo_vm_simps demo_throttle tick_year del: mem_account_simps(3))
  then show ?thesis
    unfolding demo_mems by (simp add: 0 demo_vm_simps running_mem_def running_simps eval_nat_numeral)
qed

theorem cluster_deletion_ends_witness:
  "ClusterFinalizer \<in> set (om_Finalizers (vc_Meta (fst (lb_delete_run 0)))) \<and> ''provisioning'' \<in> vi_Status ` set (mm_Instances (snd (lb_delete_run 0))) \<and>
   (\<exists>n \<le> 2. ClusterFinalizer \<notin> set (om_Finalizers (vc_Meta (fst (lb_delete_run (Suc n))))) \<and>
      (\<exists>r w'. cluster_Reconcile ((lb_env (sdkClient mem_api) (fst (lb_delete_run n)))\<lparr>ce_now := tick n\<rparr>) (snd (lb_delete_run n)) =
           (r, Some (fst (lb_delete_run (Suc n))), w') \<and>
         (\<forall>k i. mem_view w' k = Some i \<longrightarrow> (\<exists>key \<in> {TagLoadBalancer, TagServiceLoadBalancer}.
            go_get (tag_map (vi_Tags i)) key = ''default/c'') \<longrightarrow> instanceGone (toInstance i))))"
proof -
  let ?tags = "{(TagLoadBalancer, clusterTagValue (fst (lb_delete_run 0))), (TagServiceLoadBalancer, clusterTagValue (fst (lb_delete_run 0)))}"
  let ?ins = "\<lambda>w k. map_option toInstance (mem_view w k)"
  let ?env = "\<lambda>n. (lb_env (sdkClient mem_api) (fst (lb_delete_run n)))\<lparr>ce_now := tick n\<rparr>"
  have 0: "lb_delete_run 0 = (lb_vc (Some 0) '''', lb_mem)" by (simp add: lb_delete_run_def)
  have known: "deleting_cluster UNIV ?tags 0 (lb_vc (Some 0) '''')"
    by (simp add: deleting_cluster_def lb_known_def 0 lb_vc_simps demo_throttle)
  have rounds: "cluster_delete_rounds ?env (sdkClient mem_api)
      (\<lambda>x y. settles (ac_ok mem_account) (ac_left mem_account) (ac_waiting mem_account) x y \<and> y = x)
      tick (\<lambda>n. fst (lb_delete_run n)) (\<lambda>n. snd (lb_delete_run n))"
    unfolding lb_delete_run_def
    by (rule deletion_service.sync_cluster_delete_rounds [OF sdkClient_deletion_service [OF mem_prompt_api] lb_undisturbed _ demo_mems(3) known])
      (simp_all add: demo_mems del: mem_account_simps(3))
  have rounds': "cluster_delete_rounds ?env (sdkClient mem_api)
      (\<lambda>x y. settles (ac_ok mem_account) (ac_left mem_account) (ac_waiting mem_account) x y \<and> lbs_age ?ins mem_ok (fst (lb_delete_run 0)) x y)
      tick (\<lambda>n. fst (lb_delete_run n)) (\<lambda>n. snd (lb_delete_run n))"
    by (rule cluster_delete_rounds_mono [OF rounds]) (auto simp: settles_def intro: mem_lbs_age)
  have envs: "cluster_env_for (?env n) (fst (lb_delete_run n)) (sdkClient mem_api) \<and> other_calls_ok (?env n) ?ins mem_ok" for n
    by (simp add: cluster_env_for_def other_calls_ok_def keeps_account_def workloadClient_def lb_env_def)
  have "\<exists>n \<le> ac_left mem_account lb_mem. ClusterFinalizer \<notin> set (om_Finalizers (vc_Meta (fst (lb_delete_run (Suc n))))) \<and>
      (\<exists>r w'. cluster_Reconcile (?env n) (snd (lb_delete_run n)) = (r, Some (fst (lb_delete_run (Suc n))), w') \<and>
         (\<forall>k i. mem_view w' k = Some i \<longrightarrow> (\<exists>key \<in> {TagLoadBalancer, TagServiceLoadBalancer}.
            go_get (tag_map (vi_Tags i)) key = clusterTagValue (fst (lb_delete_run 0))) \<longrightarrow> instanceGone (toInstance i)))"
    using cluster_deletion_ends [OF mem_prompt_api _ mem_api_ok _ rounds' envs] lb_mem_reach
    by (simp add: 0 demo_mems lb_vc_simps demo_throttle tick_year del: mem_account_simps(3))
  moreover have "''provisioning'' \<in> vi_Status ` set (mm_Instances lb_mem)" by (rule lb_mem_instance) simp
  ultimately show ?thesis unfolding demo_mems 0 by (simp add: lb_vc_simps lb_tag)
qed

end
