(* ===== verification/Credentials.thy ===== *)
theory Credentials
  imports CloudSDK ControllerCommon
begin

text \<open>
  Where a client of the cloud comes from: \<^verbatim>\<open>internal/cloud/credentials.go\<close>,
  \<^verbatim>\<open>internal/cloud/factory.go\<close> and \<^verbatim>\<open>NewClient\<close>. The environment of the
  process, the file system, the reader of secrets and the constructor of the SDK are parameters.
  The mutex of the factory makes one call one step.
\<close>

section \<open>The credentials file\<close>

record Credentials =
  cr_BaseURL :: string
  cr_ClientID :: string
  cr_ClientSecret :: string

definition zero_Credentials :: Credentials where
  "zero_Credentials = \<lparr>cr_BaseURL = '''', cr_ClientID = '''', cr_ClientSecret = ''''\<rparr>"

abbreviation EnvBaseURL :: string where "EnvBaseURL \<equiv> ''VERDA_BASE_URL''"
abbreviation EnvClientID :: string where "EnvClientID \<equiv> ''VERDA_CLIENT_ID''"
abbreviation EnvClientSecret :: string where "EnvClientSecret \<equiv> ''VERDA_CLIENT_SECRET''"
abbreviation EnvProfile :: string where "EnvProfile \<equiv> ''VERDA_PROFILE''"

definition os_ErrNotExist :: go_error where "os_ErrNotExist = Opaque ''file does not exist''"

text \<open>
  \<^verbatim>\<open>bufio.Scanner\<close> with its default split function: lines without their end, up to the
  first one of 64 KiB or more. The input is what could be read and the error that ended reading,
  if it was not the end of the file.
\<close>

fun lines_of :: "string \<Rightarrow> string \<Rightarrow> string list" where
  "lines_of [] cur = (if cur = [] then [] else [rev cur])"
| "lines_of (c # cs) cur = (if c = CHR 0x0A then rev cur # lines_of cs [] else lines_of cs (c # cur))"

definition dropCR :: "string \<Rightarrow> string" where
  "dropCR l = (if l \<noteq> [] \<and> last l = CHR 0x0D then butlast l else l)"

definition Scanner :: "string \<times> go_error option \<Rightarrow> string list \<times> go_error option" where
  "Scanner input =
     (let ls = lines_of (fst input) []; ok = takeWhile (\<lambda>l. length l < 65536) ls
      in (map dropCR ok,
          if length ok < length ls then Some (Opaque ''bufio.Scanner: token too long'') else snd input))"

definition credentials_line :: "string \<Rightarrow> bool \<times> Credentials \<Rightarrow> string \<Rightarrow> bool \<times> Credentials" where
  "credentials_line profile st text =
     (case st of (inProfile, creds) \<Rightarrow>
      let line = TrimSpace text in
      if line = '''' \<or> HasPrefix line ''#'' \<or> HasPrefix line '';'' then (inProfile, creds)
      else if HasPrefix line ''['' \<and> HasSuffix line '']'' then
        (TrimSpace (take (length line - 2) (drop 1 line)) = profile, creds)
      else if \<not> inProfile then (inProfile, creds)
      else case Cut CHR ''='' line of
        None \<Rightarrow> (inProfile, creds)
      | Some (key, value) \<Rightarrow>
          let key = TrimSpace key; value = TrimSpace value in
          (inProfile,
           if key = ''verda_base_url'' then creds\<lparr>cr_BaseURL := value\<rparr>
           else if key = ''verda_client_id'' then creds\<lparr>cr_ClientID := value\<rparr>
           else if key = ''verda_client_secret'' then creds\<lparr>cr_ClientSecret := value\<rparr>
           else creds))"

definition readCredentialsFile :: "(string \<Rightarrow> go_error + string \<times> go_error option) \<Rightarrow> string \<Rightarrow> string \<Rightarrow>
    go_error + Credentials" where
  "readCredentialsFile os_Open path profile =
     (case os_Open path of
        Inl err \<Rightarrow>
          if errors_Is err os_ErrNotExist then Inr zero_Credentials
          else Inl (Wrapf ''opening credentials file: %w'' [] err)
      | Inr f \<Rightarrow>
          let (ls, err) = Scanner f;
              (_, creds) = foldl (credentials_line profile) (False, zero_Credentials) ls
          in (case err of
                Some e \<Rightarrow> Inl (Wrapf ''reading credentials file: %w'' [] e)
              | None \<Rightarrow> Inr creds))"

text \<open>\<^verbatim>\<open>filepath.Join\<close>: the elements that are not empty, joined and cleaned.\<close>

fun split_path :: "string \<Rightarrow> string \<Rightarrow> string list" where
  "split_path [] cur = [rev cur]"
| "split_path (c # cs) cur = (if c = CHR ''/'' then rev cur # split_path cs [] else split_path cs (c # cur))"

definition clean_elem :: "bool \<Rightarrow> string list \<Rightarrow> string \<Rightarrow> string list" where
  "clean_elem rooted out e =
     (if e = '''' \<or> e = ''.'' then out
      else if e = ''..'' then
        (if out \<noteq> [] \<and> last out \<noteq> ''..'' then butlast out else if rooted then out else out @ [e])
      else out @ [e])"

fun join_path :: "string list \<Rightarrow> string" where
  "join_path [] = ''''"
| "join_path [e] = e"
| "join_path (e # es) = e @ ''/'' @ join_path es"

definition filepath_Clean :: "string \<Rightarrow> string" where
  "filepath_Clean path =
     (let rooted = HasPrefix path ''/'';
          out = join_path (foldl (clean_elem rooted) [] (split_path path []))
      in if rooted then ''/'' @ out else if out = '''' then ''.'' else out)"

definition filepath_Join :: "string list \<Rightarrow> string" where
  "filepath_Join elem =
     (case filter (\<lambda>e. e \<noteq> '''') elem of [] \<Rightarrow> '''' | es \<Rightarrow> filepath_Clean (join_path es))"

text \<open>The credentials that come with an error are not used by the caller.\<close>

definition LoadCredentials :: "(string \<Rightarrow> string) \<Rightarrow> go_error + string \<Rightarrow>
    (string \<Rightarrow> go_error + string \<times> go_error option) \<Rightarrow> string \<Rightarrow> go_error + Credentials" where
  "LoadCredentials Getenv UserHomeDir os_Open path =
     (let creds = \<lparr>cr_BaseURL = Getenv EnvBaseURL, cr_ClientID = Getenv EnvClientID, cr_ClientSecret = Getenv EnvClientSecret\<rparr> in
      if cr_ClientID creds \<noteq> '''' \<and> cr_ClientSecret creds \<noteq> '''' then Inr creds
      else
        case (if path = '''' then
                (case UserHomeDir of
                   Inl err \<Rightarrow> Inl (Wrapf ''resolving home directory: %w'' [] err)
                 | Inr home \<Rightarrow> Inr (filepath_Join [home, ''.verda'', ''credentials'']))
              else Inr path) of
          Inl err \<Rightarrow> Inl err
        | Inr path \<Rightarrow>
            let profile = (if Getenv EnvProfile = '''' then ''default'' else Getenv EnvProfile) in
            (case readCredentialsFile os_Open path profile of
               Inl err \<Rightarrow> Inl err
             | Inr fileCreds \<Rightarrow>
                 let creds = (if cr_BaseURL creds = '''' then creds\<lparr>cr_BaseURL := cr_BaseURL fileCreds\<rparr> else creds);
                     creds = (if cr_ClientID creds = '''' then creds\<lparr>cr_ClientID := cr_ClientID fileCreds\<rparr> else creds);
                     creds = (if cr_ClientSecret creds = '''' then creds\<lparr>cr_ClientSecret := cr_ClientSecret fileCreds\<rparr> else creds)
                 in if cr_ClientID creds = '''' \<or> cr_ClientSecret creds = ''''
                    then Inl (Errorf ''no Verda credentials: set %s and %s or add them to profile %q in %s''
                           [EnvClientID, EnvClientSecret, profile, path])
                    else Inr creds))"

section \<open>The client\<close>

datatype client_option = WithClientID string | WithClientSecret string | WithUserAgent string | WithBaseURL string

definition NewClient :: "(client_option list \<Rightarrow> go_error + 'a verda_api) \<Rightarrow> Credentials \<Rightarrow> go_error + 'a cloud_client" where
  "NewClient verda_NewClient creds =
     (let opts = [WithClientID (cr_ClientID creds), WithClientSecret (cr_ClientSecret creds),
                  WithUserAgent ''cluster-api-provider-verda''] @
                 (if cr_BaseURL creds \<noteq> '''' then [WithBaseURL (cr_BaseURL creds)] else [])
      in case verda_NewClient opts of
           Inl err \<Rightarrow> Inl (Wrapf ''creating Verda client: %w'' [] err)
         | Inr api \<Rightarrow> Inr (sdkClient api))"

section \<open>The factories\<close>

text \<open>What the factory reads of a secret.\<close>

record identity_secret =
  ids_Data :: gomap
  ids_ResourceVersion :: string

record 'c cachedClient =
  cc_resourceVersion :: string
  cc_client :: 'c

record 'c SecretFactory =
  sf_Reader :: "string \<Rightarrow> string \<Rightarrow> go_error + identity_secret"
  sf_Global :: "'c option"
  sf_NewClient :: "(Credentials \<Rightarrow> go_error + 'c) option"
  sf_cache :: "(string \<times> 'c cachedClient) list"

definition secret_credentials :: "identity_secret \<Rightarrow> Credentials" where
  "secret_credentials secret =
     \<lparr>cr_BaseURL = go_get (ids_Data secret) ''base-url'', cr_ClientID = go_get (ids_Data secret) ''client-id'',
      cr_ClientSecret = go_get (ids_Data secret) ''client-secret''\<rparr>"

text \<open>\<open>dflt\<close> is \<^verbatim>\<open>NewClient\<close>, used when the field is nil.\<close>

definition build_client :: "(Credentials \<Rightarrow> go_error + 'c) \<Rightarrow> string \<Rightarrow> identity_secret \<Rightarrow> ('c SecretFactory, 'c) call" where
  "build_client dflt cacheKey secret f =
     (case (case sf_NewClient f of Some n \<Rightarrow> n | None \<Rightarrow> dflt) (secret_credentials secret) of
        Inl err \<Rightarrow> (Inl err, f)
      | Inr c \<Rightarrow> (Inr c, f\<lparr>sf_cache := AList.update cacheKey
          \<lparr>cc_resourceVersion = ids_ResourceVersion secret, cc_client = c\<rparr> (sf_cache f)\<rparr>))"

definition SecretFactory_ClientFor :: "(Credentials \<Rightarrow> go_error + 'c) \<Rightarrow> Identity \<Rightarrow> ('c SecretFactory, 'c) call" where
  "SecretFactory_ClientFor dflt identity f =
     (if id_SecretName identity = '''' then
        (case sf_Global f of
           None \<Rightarrow> (Inl (Errorf ''no identityRef set and the manager has no global Verda credentials'' []), f)
         | Some c \<Rightarrow> (Inr c, f))
      else
        let key = id_Namespace identity @ ''/'' @ id_SecretName identity in
        case sf_Reader f (id_Namespace identity) (id_SecretName identity) of
          Inl err \<Rightarrow> (Inl (Wrapf ''getting identity secret %s: %w'' [key] err), f)
        | Inr secret \<Rightarrow>
            let creds = secret_credentials secret in
            if cr_ClientID creds = '''' \<or> cr_ClientSecret creds = ''''
            then (Inl (Errorf ''identity secret %s must have %s and %s'' [key, ''client-id'', ''client-secret'']), f)
            else
              (case map_of (sf_cache f) key of
                 Some c \<Rightarrow>
                   if cc_resourceVersion c = ids_ResourceVersion secret then (Inr (cc_client c), f)
                   else build_client dflt key secret f
               | None \<Rightarrow> build_client dflt key secret f))"

definition StaticFactory_ClientFor :: "'c \<Rightarrow> Identity \<Rightarrow> go_error + 'c" where
  "StaticFactory_ClientFor Client identity = Inr Client"

end
