(* ===== verification/CredentialsProps.thy ===== *)
theory CredentialsProps
  imports Credentials
begin

text \<open>
  The credentials file reads back what was written into it, the environment takes precedence over
  it, and the factory never hands out a client for old credentials.
\<close>

section \<open>Reading the credentials file\<close>

text \<open>Text that survives the trimming of white space: printable ASCII at both ends.\<close>

definition graphic :: "char \<Rightarrow> bool" where
  "graphic c = (33 \<le> (of_char c :: nat) \<and> of_char c \<le> (126 :: nat))"

definition token :: "string \<Rightarrow> bool" where
  "token s = (CHR 0x0A \<notin> set s \<and> length s < 65000 \<and> (s = [] \<or> graphic (hd s) \<and> graphic (last s)))"

lemma white_space_ends:
  "\<forall>p\<in>set white_space. p \<noteq> [] \<and> \<not> graphic (hd p) \<and> \<not> graphic (last p)"
  by (simp add: white_space_def graphic_def)

lemma trim_left_graphic:
  assumes "s = [] \<or> graphic (hd s)" "\<forall>p\<in>set ps. p \<noteq> [] \<and> \<not> graphic (hd p)"
  shows "trim_left ps s = s"
proof -
  have "\<not> HasPrefix s p" if "p \<in> set ps" for p
    using assms that by (cases p; cases s) (auto simp: HasPrefix_def)
  then have "List.find (HasPrefix s) ps = None" by (auto simp: find_None_iff)
  then show ?thesis by (subst trim_left.simps) (simp add: strip_any_def)
qed

lemma TrimSpace_graphic:
  assumes "s = [] \<or> graphic (hd s) \<and> graphic (last s)"
  shows "TrimSpace s = s"
proof -
  have "trim_left white_space s = s"
    by (rule trim_left_graphic) (use assms white_space_ends in auto)
  moreover have "trim_left (map rev white_space) (rev s) = rev s"
    by (rule trim_left_graphic) (use assms white_space_ends in \<open>auto simp: hd_rev\<close>)
  ultimately show ?thesis by (simp add: TrimSpace_def)
qed

lemma token_TrimSpace [simp]: "token s \<Longrightarrow> TrimSpace s = s"
  by (rule TrimSpace_graphic) (simp add: token_def)

lemma lines_of_line:
  "CHR 0x0A \<notin> set l \<Longrightarrow> lines_of (l @ CHR 0x0A # rest) cur = (rev cur @ l) # lines_of rest []"
  by (induction l arbitrary: cur) auto

lemma lines_of_lines:
  "\<forall>l\<in>set ls. CHR 0x0A \<notin> set l \<Longrightarrow> lines_of (concat (map (\<lambda>l. l @ [CHR 0x0A]) ls)) [] = ls"
  by (induction ls) (simp_all add: lines_of_line)

text \<open>A credentials file as the CLI writes it: one section for each profile.\<close>

definition section_lines :: "string \<times> Credentials \<Rightarrow> string list" where
  "section_lines s = (case s of (p, c) \<Rightarrow>
     [''['' @ p @ '']'', ''verda_base_url='' @ cr_BaseURL c, ''verda_client_id='' @ cr_ClientID c,
      ''verda_client_secret='' @ cr_ClientSecret c])"

definition credentials_file :: "(string \<times> Credentials) list \<Rightarrow> string" where
  "credentials_file ss = concat (map (\<lambda>l. l @ [CHR 0x0A]) (concat (map section_lines ss)))"

definition section_ok :: "string \<times> Credentials \<Rightarrow> bool" where
  "section_ok s = (token (fst s) \<and> token (cr_BaseURL (snd s)) \<and> token (cr_ClientID (snd s)) \<and> token (cr_ClientSecret (snd s)))"

lemma header_line:
  assumes "token p"
  shows "credentials_line profile (b, c) (''['' @ p @ '']'') = (p = profile, c)"
proof -
  have t: "TrimSpace (''['' @ p @ '']'') = ''['' @ p @ '']''"
    by (rule TrimSpace_graphic) (simp add: graphic_def)
  show ?thesis unfolding credentials_line_def prod.case t Let_def
    using assms by (simp add: HasPrefix_def HasSuffix_def)
qed

text \<open>A line of a profile: the key decides which field changes.\<close>

lemma key_line:
  assumes "token v" "k \<in> {''verda_base_url'', ''verda_client_id'', ''verda_client_secret''}"
  shows "credentials_line profile (b, c) (k @ ''='' @ v) =
     (b, if \<not> b then c else if k = ''verda_base_url'' then c\<lparr>cr_BaseURL := v\<rparr>
         else if k = ''verda_client_id'' then c\<lparr>cr_ClientID := v\<rparr> else c\<lparr>cr_ClientSecret := v\<rparr>)"
proof -
  have t: "TrimSpace (k @ ''='' @ v) = k @ ''='' @ v"
    by (rule TrimSpace_graphic) (use assms in \<open>auto simp: token_def graphic_def\<close>)
  have tk: "TrimSpace k = k"
    by (rule TrimSpace_graphic) (use assms(2) in \<open>auto simp: graphic_def\<close>)
  have cut: "Cut CHR ''='' (k @ ''='' @ v) = Some (k, v)"
    using Cut_append [of "CHR ''=''" k v] assms(2) by auto
  have "\<not> HasPrefix (k @ ''='' @ v) ''#''" "\<not> HasPrefix (k @ ''='' @ v) '';''" "\<not> HasPrefix (k @ ''='' @ v) ''[''"
    using assms(2) by (auto simp: HasPrefix_def)
  with assms show ?thesis unfolding credentials_line_def t Let_def cut
    by (auto simp: tk)
qed

lemma section_read:
  assumes "section_ok (p, c)"
  shows "foldl (credentials_line profile) (b, cr) (section_lines (p, c)) = (p = profile, if p = profile then c else cr)"
proof -
  from assms have t: "token p" "token (cr_BaseURL c)" "token (cr_ClientID c)" "token (cr_ClientSecret c)"
    by (simp_all add: section_ok_def)
  show ?thesis
    using header_line [OF t(1), of profile b cr] key_line [OF t(2), of "''verda_base_url''" profile]
      key_line [OF t(3), of "''verda_client_id''" profile] key_line [OF t(4), of "''verda_client_secret''" profile]
    by (simp add: section_lines_def)
qed

lemma sections_read:
  "\<forall>s\<in>set ss. section_ok s \<Longrightarrow>
     snd (foldl (credentials_line profile) (b, cr) (concat (map section_lines ss))) =
     (case map_of (rev ss) profile of Some c \<Rightarrow> c | None \<Rightarrow> cr)"
proof (induction ss arbitrary: b cr)
  case (Cons s ss)
  obtain p c where s: "s = (p, c)" by fastforce
  with Cons.prems have "section_ok (p, c)" by simp
  from section_read [OF this] Cons s show ?case
    by (simp add: map_add_def split: option.splits)
qed simp

definition line_ok :: "string \<Rightarrow> bool" where
  "line_ok l = (CHR 0x0A \<notin> set l \<and> length l < 65536 \<and> dropCR l = l)"

lemma header_ok: "token p \<Longrightarrow> line_ok (''['' @ p @ '']'')"
  by (simp add: line_ok_def token_def dropCR_def)

lemma value_ok:
  assumes "token v" "CHR 0x0A \<notin> set k" "length k < 500" "k \<noteq> []" "last k \<noteq> CHR 0x0D"
  shows "line_ok (k @ v)"
proof -
  have "last v \<noteq> CHR 0x0D" if "v \<noteq> []" using assms(1) that by (auto simp: token_def graphic_def)
  with assms show ?thesis by (auto simp: line_ok_def token_def dropCR_def last_append)
qed

lemma Scanner_sections:
  assumes "\<forall>s\<in>set ss. section_ok s"
  shows "Scanner (credentials_file ss, None) = (concat (map section_lines ss), None)"
proof -
  define ls where "ls = concat (map section_lines ss)"
  have line: "CHR 0x0A \<notin> set l \<and> length l < 65536 \<and> dropCR l = l" if l: "l \<in> set ls" for l
  proof -
    from l obtain p c where s: "(p, c) \<in> set ss" "l \<in> set (section_lines (p, c))" by (auto simp: ls_def)
    with assms have "token p" "token (cr_BaseURL c)" "token (cr_ClientID c)" "token (cr_ClientSecret c)"
      by (auto simp: section_ok_def)
    then have "list_all line_ok (section_lines (p, c))"
      unfolding section_lines_def prod.case list.pred_inject by (intro conjI TrueI header_ok value_ok) simp_all
    with s(2) show ?thesis by (auto simp: list_all_iff line_ok_def)
  qed
  then have "lines_of (credentials_file ss) [] = ls"
    unfolding credentials_file_def ls_def [symmetric] by (intro lines_of_lines) blast
  moreover have "takeWhile (\<lambda>l. length l < 65536) ls = ls" using line by (simp add: takeWhile_eq_all_conv)
  moreover have "map dropCR ls = ls" using line by (intro map_idI) blast
  ultimately show ?thesis
    unfolding ls_def [symmetric] by (simp only: Scanner_def Let_def fst_conv snd_conv less_irrefl if_False)
qed

text \<open>
  C34. The credentials file is read back: from a file with a section for each profile, reading a
  profile gives the credentials of its last section, and none if it has no section. Profiles and
  values are at most 65000 bytes long, without line ends and without white space at their ends; a
  value may contain the separator.
\<close>

theorem credentials_file_roundtrip:
  assumes "\<forall>s\<in>set ss. section_ok s" "os_Open path = Inr (credentials_file ss, None)"
  shows "readCredentialsFile os_Open path profile =
     Inr (case map_of (rev ss) profile of Some c \<Rightarrow> c | None \<Rightarrow> zero_Credentials)"
  using assms(2) sections_read [OF assms(1), of profile False zero_Credentials]
  by (simp add: readCredentialsFile_def Scanner_sections [OF assms(1)] split_beta)

definition demo_sections :: "(string \<times> Credentials) list" where
  "demo_sections = [(''default'', \<lparr>cr_BaseURL = '''', cr_ClientID = ''id'', cr_ClientSecret = ''a=b''\<rparr>),
     (''other'', \<lparr>cr_BaseURL = ''https://x'', cr_ClientID = ''x'', cr_ClientSecret = ''y''\<rparr>)]"

lemma demo_sections_ok: "\<forall>s\<in>set demo_sections. section_ok s"
  by (simp add: demo_sections_def section_ok_def token_def graphic_def)

theorem credentials_file_roundtrip_witness:
  "readCredentialsFile (\<lambda>_. Inr (credentials_file demo_sections, None)) ''f'' ''default'' =
     Inr \<lparr>cr_BaseURL = '''', cr_ClientID = ''id'', cr_ClientSecret = ''a=b''\<rparr>"
  using credentials_file_roundtrip [OF demo_sections_ok, of "\<lambda>_. Inr (credentials_file demo_sections, None)" "''f''" "''default''"]
  by (simp add: demo_sections_def)

section \<open>Precedence\<close>

text \<open>
  C33. Credentials that load are complete, and the environment wins: id and secret are not empty,
  every variable that is set gives its field, the other fields come from the profile in the file,
  and with id and secret in the environment neither the home directory nor the file matter.
\<close>

theorem LoadCredentials_precedence:
  assumes "LoadCredentials Getenv home os_Open path = Inr creds"
  shows "cr_ClientID creds \<noteq> '''' \<and> cr_ClientSecret creds \<noteq> '''' \<and>
     (if Getenv EnvClientID \<noteq> '''' \<and> Getenv EnvClientSecret \<noteq> '''' then
        creds = \<lparr>cr_BaseURL = Getenv EnvBaseURL, cr_ClientID = Getenv EnvClientID, cr_ClientSecret = Getenv EnvClientSecret\<rparr>
      else
        (\<exists>loc fileCreds.
          readCredentialsFile os_Open loc (if Getenv EnvProfile = '''' then ''default'' else Getenv EnvProfile) = Inr fileCreds \<and>
          (path \<noteq> '''' \<longrightarrow> loc = path) \<and>
          cr_BaseURL creds = (if Getenv EnvBaseURL = '''' then cr_BaseURL fileCreds else Getenv EnvBaseURL) \<and>
          cr_ClientID creds = (if Getenv EnvClientID = '''' then cr_ClientID fileCreds else Getenv EnvClientID) \<and>
          cr_ClientSecret creds = (if Getenv EnvClientSecret = '''' then cr_ClientSecret fileCreds else Getenv EnvClientSecret)))"
proof -
  define b i t where "b = Getenv EnvBaseURL" and "i = Getenv EnvClientID" and "t = Getenv EnvClientSecret"
  define profile where "profile = (if Getenv EnvProfile = '''' then ''default'' else Getenv EnvProfile)"
  define locate where "locate = (if path = '''' then
      (case home of Inl err \<Rightarrow> Inl (Wrapf ''resolving home directory: %w'' [] err)
       | Inr h \<Rightarrow> Inr (filepath_Join [h, ''.verda'', ''credentials''])) else Inr path)"
  note run = assms [unfolded LoadCredentials_def b_def [symmetric] i_def [symmetric] t_def [symmetric]
      profile_def [symmetric] locate_def [symmetric]]
  show ?thesis
  proof (cases "i \<noteq> '''' \<and> t \<noteq> ''''")
    case True
    with run show ?thesis unfolding b_def [symmetric] i_def [symmetric] t_def [symmetric] by (auto simp: Let_def)
  next
    case False
    with run obtain loc where loc: "locate = Inr loc" by (cases locate) (auto simp: Let_def)
    with run False obtain c where c: "readCredentialsFile os_Open loc profile = Inr c"
      by (cases "readCredentialsFile os_Open loc profile") (auto simp: Let_def)
    have "path \<noteq> '''' \<longrightarrow> loc = path" using loc by (auto simp: locate_def)
    moreover
    define out where "out = \<lparr>cr_BaseURL = if b = '''' then cr_BaseURL c else b,
        cr_ClientID = if i = '''' then cr_ClientID c else i, cr_ClientSecret = if t = '''' then cr_ClientSecret c else t\<rparr>"
    from run False loc c have "creds = out \<and> cr_ClientID out \<noteq> '''' \<and> cr_ClientSecret out \<noteq> ''''"
      by (cases "b = ''''"; cases "i = ''''"; cases "t = ''''") (auto simp: Let_def out_def split: if_splits)
    ultimately show ?thesis
      unfolding b_def [symmetric] i_def [symmetric] t_def [symmetric] profile_def [symmetric]
      using False c by (auto simp: out_def intro!: exI [of _ loc] exI [of _ c])
  qed
qed

theorem LoadCredentials_precedence_witness:
  "\<exists>creds. LoadCredentials (\<lambda>v. if v = EnvClientID then ''me'' else '''') (Inr ''/root'')
       (\<lambda>_. Inr (credentials_file demo_sections, None)) '''' = Inr creds \<and> cr_ClientID creds = ''me''"
proof -
  let ?load = "LoadCredentials (\<lambda>v. if v = EnvClientID then ''me'' else '''') (Inr ''/root'')
       (\<lambda>_. Inr (credentials_file demo_sections, None)) ''''"
  have "readCredentialsFile (\<lambda>_. Inr (credentials_file demo_sections, None)) f ''default'' =
      Inr \<lparr>cr_BaseURL = '''', cr_ClientID = ''id'', cr_ClientSecret = ''a=b''\<rparr>" for f
    using sections_read [OF demo_sections_ok, of "''default''" False zero_Credentials]
    by (simp add: readCredentialsFile_def Scanner_sections [OF demo_sections_ok] split_beta)
      (simp add: demo_sections_def)
  then obtain creds where run: "?load = Inr creds" by (simp add: LoadCredentials_def Let_def)
  from LoadCredentials_precedence [OF run] run show ?thesis by auto
qed

section \<open>The factory\<close>

text \<open>The constructor a factory uses.\<close>

abbreviation constructor :: "(Credentials \<Rightarrow> go_error + 'c) \<Rightarrow> 'c SecretFactory \<Rightarrow> Credentials \<Rightarrow> go_error + 'c" where
  "constructor dflt f \<equiv> (case sf_NewClient f of Some n \<Rightarrow> n | None \<Rightarrow> dflt)"

text \<open>The version of a secret determines its data; \<open>data\<close> is the history of all secrets.\<close>

definition reader_ok :: "(string \<times> string \<Rightarrow> string \<Rightarrow> gomap) \<Rightarrow> (string \<Rightarrow> string \<Rightarrow> go_error + identity_secret) \<Rightarrow> bool" where
  "reader_ok data rd = (\<forall>ns n s. rd ns n = Inr s \<longrightarrow> ids_Data s = data (ns, n) (ids_ResourceVersion s))"

text \<open>The life of a factory: calls for namespaces, and changes of the secrets.\<close>

inductive factory_reach :: "(Credentials \<Rightarrow> go_error + 'c) \<Rightarrow> (string \<times> string \<Rightarrow> string \<Rightarrow> gomap) \<Rightarrow> 'c SecretFactory \<Rightarrow> bool"
  for dflt data where
  new_factory: "sf_cache f = [] \<Longrightarrow> reader_ok data (sf_Reader f) \<Longrightarrow> factory_reach dflt data f"
| called: "factory_reach dflt data f \<Longrightarrow> CHR ''/'' \<notin> set (id_Namespace ident) \<Longrightarrow>
     SecretFactory_ClientFor dflt ident f = (r, f') \<Longrightarrow> factory_reach dflt data f'"
| changed: "factory_reach dflt data f \<Longrightarrow> reader_ok data rd \<Longrightarrow> factory_reach dflt data (f\<lparr>sf_Reader := rd\<rparr>)"

definition cache_ok :: "(Credentials \<Rightarrow> go_error + 'c) \<Rightarrow> (string \<times> string \<Rightarrow> string \<Rightarrow> gomap) \<Rightarrow> 'c SecretFactory \<Rightarrow> bool" where
  "cache_ok dflt data f = (\<forall>ns n e. CHR ''/'' \<notin> set ns \<longrightarrow> map_of (sf_cache f) (ns @ ''/'' @ n) = Some e \<longrightarrow>
     constructor dflt f (secret_credentials \<lparr>ids_Data = data (ns, n) (cc_resourceVersion e),
       ids_ResourceVersion = cc_resourceVersion e\<rparr>) = Inr (cc_client e))"

lemma cache_okD:
  assumes "cache_ok dflt data f" "CHR ''/'' \<notin> set ns" "map_of (sf_cache f) (ns @ ''/'' @ n) = Some e"
  shows "constructor dflt f (secret_credentials \<lparr>ids_Data = data (ns, n) (cc_resourceVersion e),
     ids_ResourceVersion = cc_resourceVersion e\<rparr>) = Inr (cc_client e)"
  using assms unfolding cache_ok_def by blast

lemma secret_credentials_cong: "ids_Data s = ids_Data t \<Longrightarrow> secret_credentials s = secret_credentials t"
  by (simp add: secret_credentials_def)

text \<open>A new entry for the current version of a secret.\<close>

lemma build_cached:
  assumes "cache_ok dflt data f" "CHR ''/'' \<notin> set ns"
    and "secret_credentials \<lparr>ids_Data = data (ns, n) v, ids_ResourceVersion = v\<rparr> = creds"
    and "constructor dflt f creds = Inr c"
  shows "cache_ok dflt data (f\<lparr>sf_cache := AList.update (ns @ ''/'' @ n) \<lparr>cc_resourceVersion = v, cc_client = c\<rparr> (sf_cache f)\<rparr>)"
  unfolding cache_ok_def
proof (intro allI impI)
  fix ns' n' e
  let ?f = "f\<lparr>sf_cache := AList.update (ns @ ''/'' @ n) \<lparr>cc_resourceVersion = v, cc_client = c\<rparr> (sf_cache f)\<rparr>"
  assume ns': "CHR ''/'' \<notin> set ns'" and e: "map_of (sf_cache ?f) (ns' @ ''/'' @ n') = Some e"
  show "constructor dflt ?f (secret_credentials \<lparr>ids_Data = data (ns', n') (cc_resourceVersion e),
      ids_ResourceVersion = cc_resourceVersion e\<rparr>) = Inr (cc_client e)"
  proof (cases "ns' @ ''/'' @ n' = ns @ ''/'' @ n")
    case True
    then have "ns' = ns \<and> n' = n" using append_sep_inject [OF ns' assms(2)] by simp
    with e assms(3,4) True show ?thesis by (auto simp: update_conv')
  next
    case False
    with e have "map_of (sf_cache f) (ns' @ ''/'' @ n') = Some e" by (simp add: update_conv')
    with assms(1) ns' show ?thesis by (simp add: cache_ok_def)
  qed
qed

text \<open>One call: what it returns and what it leaves in the cache.\<close>

lemma ClientFor_ok:
  assumes "cache_ok dflt data f" "reader_ok data (sf_Reader f)" "CHR ''/'' \<notin> set (id_Namespace ident)"
    and "SecretFactory_ClientFor dflt ident f = (r, f')"
  shows "cache_ok dflt data f' \<and> sf_Reader f' = sf_Reader f \<and>
     (\<forall>c. r = Inr c \<longrightarrow> (if id_SecretName ident = '''' then sf_Global f = Some c
        else \<exists>s. sf_Reader f (id_Namespace ident) (id_SecretName ident) = Inr s \<and>
          constructor dflt f (secret_credentials s) = Inr c))"
proof (cases "id_SecretName ident = ''''")
  case True
  with assms(1,4) show ?thesis by (auto simp: SecretFactory_ClientFor_def split: option.splits)
next
  case False
  let ?key = "id_Namespace ident @ ''/'' @ id_SecretName ident"
  show ?thesis
  proof (cases "sf_Reader f (id_Namespace ident) (id_SecretName ident)")
    case (Inl e)
    with False assms(1,4) show ?thesis by (auto simp: SecretFactory_ClientFor_def)
  next
    case (Inr s)
    let ?creds = "secret_credentials s"
    from assms(2) Inr have data: "ids_Data s = data (id_Namespace ident, id_SecretName ident) (ids_ResourceVersion s)"
      by (simp add: reader_ok_def)
    have now: "secret_credentials \<lparr>ids_Data = data (id_Namespace ident, id_SecretName ident) (ids_ResourceVersion s),
        ids_ResourceVersion = v\<rparr> = ?creds" for v
      by (rule secret_credentials_cong) (simp add: data)
    show ?thesis
    proof (cases "cr_ClientID ?creds = '''' \<or> cr_ClientSecret ?creds = ''''")
      case True
      with assms(4) False Inr have "isl r" "f' = f" by (auto simp: SecretFactory_ClientFor_def Let_def)
      with assms(1) show ?thesis by auto
    next
      case complete: False
      show ?thesis
      proof (cases "\<exists>e. map_of (sf_cache f) ?key = Some e \<and> cc_resourceVersion e = ids_ResourceVersion s")
        case True
        then obtain e where e: "map_of (sf_cache f) ?key = Some e" "cc_resourceVersion e = ids_ResourceVersion s" by blast
        with assms(4) False Inr complete have "r = Inr (cc_client e)" "f' = f"
          by (simp_all add: SecretFactory_ClientFor_def Let_def)
        moreover have "constructor dflt f ?creds = Inr (cc_client e)"
          using cache_okD [OF assms(1,3) e(1)] e(2) now by simp
        ultimately show ?thesis using assms(1) False Inr by simp
      next
        case miss: False
        with assms(4) False Inr complete have call: "build_client dflt ?key s f = (r, f')"
          by (cases "map_of (sf_cache f) ?key") (simp_all add: SecretFactory_ClientFor_def Let_def)
        show ?thesis
        proof (cases "constructor dflt f ?creds")
          case (Inl e)
          with call assms(1) show ?thesis by (auto simp: build_client_def)
        next
          case built: (Inr c)
          with call False Inr build_cached [OF assms(1,3) now built] show ?thesis
            by (auto simp: build_client_def)
        qed
      qed
    qed
  qed
qed

lemma factory_reach_ok: "factory_reach dflt data f \<Longrightarrow> cache_ok dflt data f \<and> reader_ok data (sf_Reader f)"
proof (induction rule: factory_reach.induct)
  case (new_factory f)
  then show ?case by (simp add: cache_ok_def)
next
  case (called f ident r f')
  from ClientFor_ok [OF conjunct1 [OF called.IH] conjunct2 [OF called.IH] called.hyps(2,3)] called.IH show ?case by simp
next
  case (changed f rd)
  then show ?case by (simp add: cache_ok_def)
qed

text \<open>
  C17. The factory never hands out a client for old credentials: after any sequence of calls and
  changes of the secrets, the client it returns for an identity is one constructed from the
  credentials the secret has now, whether it came from the cache or not; without an identity it is
  the client of the manager.
\<close>

theorem factory_client_current:
  assumes "factory_reach dflt data f" "CHR ''/'' \<notin> set (id_Namespace ident)"
    and "SecretFactory_ClientFor dflt ident f = (Inr c, f')"
  shows "if id_SecretName ident = '''' then sf_Global f = Some c
     else \<exists>s. sf_Reader f (id_Namespace ident) (id_SecretName ident) = Inr s \<and>
       (case sf_NewClient f of Some new \<Rightarrow> new | None \<Rightarrow> dflt) (secret_credentials s) = Inr c"
  using ClientFor_ok [OF conjunct1 conjunct2 assms(2,3), OF factory_reach_ok factory_reach_ok, OF assms(1) assms(1)] by simp

text \<open>A secret that is changed between two calls.\<close>

definition rotated :: "string \<Rightarrow> string \<Rightarrow> string \<Rightarrow> go_error + identity_secret" where
  "rotated v ns n = Inr \<lparr>ids_Data = [(''client-id'', ''id''), (''client-secret'', v)], ids_ResourceVersion = v\<rparr>"

theorem factory_client_current_witness:
  "\<exists>f0 f1 f2. factory_reach (\<lambda>c. Inr (cr_ClientSecret c)) (\<lambda>_ v. [(''client-id'', ''id''), (''client-secret'', v)]) f0 \<and>
     SecretFactory_ClientFor (\<lambda>c. Inr (cr_ClientSecret c)) \<lparr>id_Namespace = ''ns'', id_SecretName = ''s''\<rparr> f0 = (Inr ''1'', f1) \<and>
     SecretFactory_ClientFor (\<lambda>c. Inr (cr_ClientSecret c)) \<lparr>id_Namespace = ''ns'', id_SecretName = ''s''\<rparr>
       (f1\<lparr>sf_Reader := rotated ''2''\<rparr>) = (Inr ''2'', f2)"
proof -
  let ?dflt = "\<lambda>c. Inr (cr_ClientSecret c) :: go_error + string" and ?id = "\<lparr>id_Namespace = ''ns'', id_SecretName = ''s''\<rparr>"
  let ?data = "\<lambda>_ v. [(''client-id'', ''id''), (''client-secret'', v)]"
  let ?f0 = "\<lparr>sf_Reader = rotated ''1'', sf_Global = None, sf_NewClient = None, sf_cache = []\<rparr>"
  have ok: "reader_ok ?data (rotated v)" for v by (simp add: reader_ok_def rotated_def)
  have zero: "factory_reach ?dflt ?data ?f0" by (rule factory_reach.new_factory) (simp_all add: ok)
  obtain f1 where one: "SecretFactory_ClientFor ?dflt ?id ?f0 = (Inr ''1'', f1)" and nc: "sf_NewClient f1 = None"
    by (simp add: SecretFactory_ClientFor_def build_client_def rotated_def secret_credentials_def Let_def)
  have "factory_reach ?dflt ?data f1" by (rule factory_reach.called [OF zero _ one]) simp
  then have r1: "factory_reach ?dflt ?data (f1\<lparr>sf_Reader := rotated ''2''\<rparr>)" by (rule factory_reach.changed) (rule ok)
  obtain r f2 where two: "SecretFactory_ClientFor ?dflt ?id (f1\<lparr>sf_Reader := rotated ''2''\<rparr>) = (r, f2)" by fastforce
  then obtain c where c: "r = Inr c"
    using nc by (auto simp: SecretFactory_ClientFor_def build_client_def rotated_def secret_credentials_def Let_def split: option.splits if_splits)
  from factory_client_current [OF r1 _ two [unfolded c]] nc have "c = ''2''"
    by (simp add: rotated_def secret_credentials_def)
  with zero one two c show ?thesis by blast
qed

end
