(* ===== verification/TemplateController.thy ===== *)
theory TemplateController
  imports ControllerCommon CloudFake
begin

text \<open>
  \<^verbatim>\<open>internal/controller/verdamachinetemplate_controller.go\<close>: the reconciler that fills in
  the capacity of a machine template from the catalog of instance types, so that an autoscaler can
  start from zero machines. \<^verbatim>\<open>int\<close> and \<^verbatim>\<open>int64\<close> are 64-bit words; the shift
  that turns gigabytes into bytes can wrap around.
\<close>

definition capacityResyncInterval :: int where "capacityResyncInterval = 12 * time_Hour"

abbreviation ResourceCPU :: string where "ResourceCPU \<equiv> ''cpu''"
abbreviation ResourceMemory :: string where "ResourceMemory \<equiv> ''memory''"

definition gpuResourceName :: string where "gpuResourceName = ''nvidia.com/gpu''"

record 'w template_env =
  te_lib :: klib
  te_GetTemplate :: "go_error + VerdaMachineTemplate"
  te_NewHelper :: "VerdaMachineTemplate \<Rightarrow> go_error + unit"
  te_Patch :: "VerdaMachineTemplate \<Rightarrow> go_error option"
  te_GetCluster :: "string \<Rightarrow> string \<Rightarrow> go_error + Cluster"
  te_GetVerdaCluster :: "string \<Rightarrow> string \<Rightarrow> go_error + VerdaCluster"
  te_ClientFor :: "Identity \<Rightarrow> go_error + 'w cloud_client"

definition capacityFor :: "InstanceTypeInfo \<Rightarrow> (string \<times> Quantity) list" where
  "capacityFor info =
     (let capacity =
        [(ResourceCPU, (word_of_int (it_CPUs info), DecimalSI)),
         (ResourceMemory, (push_bit 30 (word_of_int (it_MemoryGB info)), BinarySI))]
      in if it_GPUs info > 0
         then AList.update gpuResourceName (word_of_int (it_GPUs info), DecimalSI) capacity
         else capacity)"

definition set_tcondition :: "klib \<Rightarrow> VerdaMachineTemplate \<Rightarrow> Condition \<Rightarrow> VerdaMachineTemplate" where
  "set_tcondition K t c =
     t\<lparr>mt_Status := (mt_Status t)\<lparr>mtst_Conditions := conditions_Set K (mtst_Conditions (mt_Status t)) c\<rparr>\<rparr>"

definition setCapacityNotReady :: "klib \<Rightarrow> VerdaMachineTemplate \<Rightarrow> string \<Rightarrow> message \<Rightarrow> VerdaMachineTemplate" where
  "setCapacityNotReady K t reason message = set_tcondition K t
     \<lparr>cond_Type = CapacityReadyCondition, cond_Status = ConditionFalse, cond_Reason = reason, cond_Message = message\<rparr>"

text \<open>The identity of the cluster the template is labelled with, as far as it can be found.\<close>

definition template_identity :: "'w template_env \<Rightarrow> VerdaMachineTemplate \<Rightarrow> Identity" where
  "template_identity env t =
     (let ns = om_Namespace (mt_Meta t) in
      \<lparr>id_Namespace = ns,
       id_SecretName =
         (case map_of (om_Labels (mt_Meta t)) ''cluster.x-k8s.io/cluster-name'' of
            None \<Rightarrow> ''''
          | Some clusterName \<Rightarrow>
              (case te_GetCluster env ns clusterName of
                 Inl _ \<Rightarrow> ''''
               | Inr cluster \<Rightarrow>
                   if \<not> cl_InfrastructureRefDefined cluster then ''''
                   else (case te_GetVerdaCluster env ns (cl_InfrastructureRefName cluster) of
                           Inl _ \<Rightarrow> ''''
                         | Inr vc \<Rightarrow> IdentitySecretName vc)))\<rparr>)"

text \<open>The part of \<^verbatim>\<open>Reconcile\<close> under the deferred patch.\<close>

definition template_scope :: "'w template_env \<Rightarrow> VerdaMachineTemplate \<Rightarrow> 'w \<Rightarrow>
    (go_error + Result) \<times> VerdaMachineTemplate \<times> 'w" where
  "template_scope env t w =
     (let K = te_lib env in
      case te_ClientFor env (template_identity env t) of
        Inl err \<Rightarrow> (Inl err, setCapacityNotReady K t ''CredentialsUnavailable'' (ErrorText err), w)
      | Inr c \<Rightarrow>
          let instanceType = ms_InstanceType (mt_Spec t) in
          (case GetInstanceType c instanceType w of
             (Inl err, w) \<Rightarrow>
               if errors_Is err ErrNotFound then
                 (Inr (requeue_after capacityResyncInterval),
                  setCapacityNotReady K t ''UnknownInstanceType''
                    (Sprintf ''instance type %q is not in the Verda catalog'' [instanceType]), w)
               else (Inl err, setCapacityNotReady K t ''CatalogUnavailable'' (ErrorText err), w)
           | (Inr info, w) \<Rightarrow>
               let t = t\<lparr>mt_Status := (mt_Status t)\<lparr>mtst_Capacity := capacityFor info,
                     mtst_NodeInfo := \<lparr>ni_Architecture = ''amd64'', ni_OperatingSystem = ''linux''\<rparr>\<rparr>\<rparr>
               in (Inr (requeue_after capacityResyncInterval),
                   set_tcondition K t \<lparr>cond_Type = CapacityReadyCondition, cond_Status = ConditionTrue,
                     cond_Reason = ReadyReason K, cond_Message = Text ''''\<rparr>, w)))"

definition template_Reconcile :: "'w template_env \<Rightarrow> 'w \<Rightarrow> (go_error + Result) \<times> VerdaMachineTemplate option \<times> 'w" where
  "template_Reconcile env w =
     (case te_GetTemplate env of
        Inl err \<Rightarrow> if apierrors_IsNotFound err then (Inr no_requeue, None, w) else (Inl err, None, w)
      | Inr t \<Rightarrow>
          if om_DeletionTimestamp (mt_Meta t) \<noteq> None then (Inr no_requeue, None, w)
          else
            (case te_NewHelper env t of
               Inl err \<Rightarrow> (Inl err, None, w)
             | Inr _ \<Rightarrow>
                 (case template_scope env t w of
                    (res, t, w) \<Rightarrow> (with_patch_error (te_Patch env t) res, Some t, w))))"

section \<open>Capacity\<close>

text \<open>A shift by 30 multiplies, as long as the product fits.\<close>

lemma shifted_gigabytes:
  assumes "0 \<le> n" "n < 2 ^ 33"
  shows "sint (push_bit 30 (word_of_int n :: 64 word)) = n * 2 ^ 30"
proof -
  have "push_bit 30 (word_of_int n :: 64 word) = word_of_int n * word_of_int (2 ^ 30)"
    by (simp add: push_bit_eq_mult)
  also have "\<dots> = word_of_int (n * 2 ^ 30)" by (rule wi_hom_mult)
  finally have shifted: "push_bit 30 (word_of_int n :: 64 word) = word_of_int (n * 2 ^ 30)" .
  have "sint (word_of_int m :: 64 word) = m" if "0 \<le> m" "m < 2 ^ 63" for m
    using that by (simp add: signed_take_bit_int_eq_self_iff signed_of_int)
  from this [of "n * 2 ^ 30"] assms show ?thesis unfolding shifted by simp
qed

text \<open>
  C35. The capacity of a template is that of its instance type: when a reconcile leaves the condition
  true, the catalog of the account its cluster uses has the instance type, and the template has its
  numbers of processors and GPUs and its memory in bytes; the shift does not wrap around below
  \<open>2^33\<close> gigabytes. Otherwise the capacity is left alone, and the reconcile has failed or is
  repeated after 12 hours.
\<close>

theorem template_capacity:
  assumes "klib_ok (te_lib env)" "te_GetTemplate env = Inr t" "template_Reconcile env w = (r, Some t', w')"
  shows "if conditions_IsTrue (te_lib env) (mtst_Conditions (mt_Status t')) CapacityReadyCondition then
      \<exists>c info. te_ClientFor env (template_identity env t) = Inr c \<and>
        GetInstanceType c (ms_InstanceType (mt_Spec t)) w = (Inr info, w') \<and>
        (let capacity = mtst_Capacity (mt_Status t') in
         map_of capacity ''nvidia.com/gpu'' = (if it_GPUs info > 0 then Some (word_of_int (it_GPUs info), DecimalSI) else None) \<and>
         map_of capacity ''cpu'' = Some (word_of_int (it_CPUs info), DecimalSI) \<and>
         (0 \<le> it_MemoryGB info \<and> it_MemoryGB info < 2 ^ 33 \<longrightarrow>
            map_option (\<lambda>(q, f). (sint q, f)) (map_of capacity ''memory'') = Some (it_MemoryGB info * 2 ^ 30, BinarySI)))
    else
      mtst_Capacity (mt_Status t') = mtst_Capacity (mt_Status t) \<and> mtst_NodeInfo (mt_Status t') = mtst_NodeInfo (mt_Status t) \<and>
      (isl r \<or> r = Inr \<lparr>RequeueAfter = 12 * 60 * 60 * 1000000000\<rparr>)"
proof -
  let ?K = "te_lib env"
  note k = klib_simps [OF assms(1)]
  obtain res w1 where run: "template_scope env t w = (res, t', w')" "r = with_patch_error (te_Patch env t') res"
    using assms(2,3) by (auto simp: template_Reconcile_def split: if_splits sum.splits prod.splits)
  have fail: "isl r" if "res = Inl e" for e
    using run(2) that by (cases "te_Patch env t'") (simp_all add: with_patch_error_def)
  show ?thesis
  proof (cases "te_ClientFor env (template_identity env t)")
    case (Inl e)
    with run(1) fail show ?thesis by (auto simp: template_scope_def setCapacityNotReady_def set_tcondition_def k)
  next
    case (Inr c)
    obtain q w1 where q: "GetInstanceType c (ms_InstanceType (mt_Spec t)) w = (q, w1)" by fastforce
    show ?thesis
    proof (cases q)
      case (Inl e)
      have "isl r \<or> r = res" using run(2)
        by (cases "te_Patch env t'"; cases res) (simp_all add: with_patch_error_def)
      with Inr q Inl run(1) fail show ?thesis
        by (auto simp: template_scope_def setCapacityNotReady_def set_tcondition_def k Let_def requeue_after_def
            capacityResyncInterval_def time_Hour_def time_Minute_def time_Second_def split: if_splits)
    next
      case info: (Inr info)
      with Inr q run(1) have t': "t' = set_tcondition ?K (t\<lparr>mt_Status := (mt_Status t)\<lparr>mtst_Capacity := capacityFor info,
          mtst_NodeInfo := \<lparr>ni_Architecture = ''amd64'', ni_OperatingSystem = ''linux''\<rparr>\<rparr>\<rparr>)
          \<lparr>cond_Type = CapacityReadyCondition, cond_Status = ConditionTrue, cond_Reason = ReadyReason ?K, cond_Message = Text ''''\<rparr>"
        "w' = w1" by (auto simp: template_scope_def Let_def)
      then have "conditions_IsTrue ?K (mtst_Conditions (mt_Status t')) CapacityReadyCondition"
        and cap: "mtst_Capacity (mt_Status t') = capacityFor info" by (simp_all add: set_tcondition_def k)
      with Inr q info t'(2) show ?thesis
        by (auto simp: cap capacityFor_def gpuResourceName_def Let_def shifted_gigabytes update_conv')
    qed
  qed
qed

definition demo_template :: VerdaMachineTemplate where
  "demo_template =
     \<lparr>mt_Kind = ''VerdaMachineTemplate'',
      mt_Meta = \<lparr>om_Name = ''t'', om_Namespace = ''default'', om_Annotations = [], om_Labels = [], om_Finalizers = [],
        om_DeletionTimestamp = None\<rparr>,
      mt_Spec = \<lparr>ms_ProviderID = '''', ms_InstanceType = ''1H100.80S.30V'', ms_Image = '''', ms_OSVolumeID = '''',
        ms_SSHKeyIDs = None, ms_OSVolumeSizeGB = 0, ms_Contract = '''', ms_Spot = None, ms_SpotDiscontinuePolicy = '''',
        ms_AdditionalVolumes = None\<rparr>,
      mt_Status = \<lparr>mtst_Capacity = [], mtst_NodeInfo = \<lparr>ni_Architecture = '''', ni_OperatingSystem = ''''\<rparr>, mtst_Conditions = []\<rparr>\<rparr>"

definition demo_template_env :: "Fake template_env" where
  "demo_template_env =
     \<lparr>te_lib = plain_klib, te_GetTemplate = Inr demo_template, te_NewHelper = (\<lambda>_. Inr ()), te_Patch = (\<lambda>_. None),
      te_GetCluster = (\<lambda>_ _. Inl (StatusError ''NotFound'')), te_GetVerdaCluster = (\<lambda>_ _. Inl (StatusError ''NotFound'')),
      te_ClientFor = (\<lambda>_. Inr fake_client)\<rparr>"

theorem template_capacity_witness:
  "\<exists>r t' q. template_Reconcile demo_template_env NewFake = (r, Some t', NewFake) \<and>
     map_of (mtst_Capacity (mt_Status t')) ''memory'' = Some (q, BinarySI) \<and> sint q = 120 * 1024 * 1024 * 1024"
proof -
  obtain r t' where run: "template_Reconcile demo_template_env NewFake = (r, Some t', NewFake)"
    and true: "conditions_IsTrue plain_klib (mtst_Conditions (mt_Status t')) CapacityReadyCondition"
    by (simp add: template_Reconcile_def template_scope_def demo_template_env_def demo_template_def
        Fake_GetInstanceType_def lookup_or_NotFound_def NewFake_def Let_def set_tcondition_def plain_klib_def)
  from template_capacity [OF _ _ run, of demo_template] true run show ?thesis
    by (auto simp: demo_template_env_def demo_template_def Fake_GetInstanceType_def lookup_or_NotFound_def NewFake_def Let_def)
qed

end
