(* ===== verification/GoHeap.thy ===== *)
theory GoHeap
  imports Prelude "HOL-Library.Monad_Syntax"
begin

text \<open>
  Memory of a Go program as far as copying objects is concerned: cells that are allocated in
  order, pointers, slices and maps into them, and how each of the three is copied. A copier is
  right if it builds the same value out of memory that did not exist before; the rules at the end
  build right copiers from right copiers.
\<close>

section \<open>Memory\<close>

text \<open>
  Every variable whose address is taken, every element of an array and every map is a cell. The
  addresses below \<open>lim\<close> are allocated; a cell that was allocated and not yet written is missing
  from \<open>mem\<close>, no code reads one.
\<close>

record 'c heap =
  mem :: "nat \<rightharpoonup> 'c"
  lim :: nat

text \<open>How values of a type are put into cells.\<close>

record ('a, 'c) slot =
  wrap :: "'a \<Rightarrow> 'c"
  unwrap :: "'c \<Rightarrow> 'a option"

text \<open>A pointer is an address or nil, a slice the address of its first element and its length or nil.\<close>

type_synonym ptr = "nat option"
type_synonym slice = "(nat \<times> nat) option"

text \<open>A copier takes a value and the memory and returns the copy; it fails on a dangling pointer.\<close>

type_synonym ('a, 'c) copier = "'a \<Rightarrow> 'c heap \<Rightarrow> ('a \<times> 'c heap) option"

definition load :: "('a, 'c) slot \<Rightarrow> (nat \<rightharpoonup> 'c) \<Rightarrow> nat \<Rightarrow> 'a option" where
  "load s m p = Option.bind (m p) (unwrap s)"

definition store :: "('a, 'c) slot \<Rightarrow> nat \<Rightarrow> 'a \<Rightarrow> 'c heap \<Rightarrow> 'c heap" where
  "store s p x h = h\<lparr>mem := (mem h)(p \<mapsto> wrap s x)\<rparr>"

text \<open>\<^verbatim>\<open>new\<close> and \<^verbatim>\<open>make\<close>: the next \<open>n\<close> addresses.\<close>

definition reserve :: "nat \<Rightarrow> 'c heap \<Rightarrow> 'c heap" where
  "reserve n h = h\<lparr>lim := lim h + n\<rparr>"

section \<open>Copying\<close>

text \<open>An assignment \<^verbatim>\<open>*out = *in\<close>.\<close>

definition assign :: "('a, 'c) copier" where
  "assign x h = Some (x, h)"

text \<open>
  \<^verbatim>\<open>if in == nil { return nil }; out := new(T); in.DeepCopyInto(out); return out\<close>, and with
  \<open>assign\<close> the copy \<^verbatim>\<open>*out = new(T); **out = **in\<close> of a pointer to a flat value.
\<close>

fun copy_ptr :: "('a, 'c) slot \<Rightarrow> ('a, 'c) copier \<Rightarrow> (ptr, 'c) copier" where
  "copy_ptr s cp None h = Some (None, h)"
| "copy_ptr s cp (Some p) h = do {
     x \<leftarrow> load s (mem h) p;
     (y, h') \<leftarrow> cp x (reserve 1 h);
     Some (Some (lim h), store s (lim h) y h')
   }"

text \<open>
  The loop \<^verbatim>\<open>for i := range *in { (*in)[i].DeepCopyInto(&(*out)[i]) }\<close>, and with \<open>assign\<close>
  the built-in \<^verbatim>\<open>copy(*out, *in)\<close>.
\<close>

fun copy_elems :: "('a, 'c) slot \<Rightarrow> ('a, 'c) copier \<Rightarrow> nat \<Rightarrow> nat \<Rightarrow> nat \<Rightarrow> 'c heap \<Rightarrow> 'c heap option" where
  "copy_elems s cp p q 0 h = Some h"
| "copy_elems s cp p q (Suc n) h = do {
     x \<leftarrow> load s (mem h) p;
     (y, h') \<leftarrow> cp x h;
     copy_elems s cp (Suc p) (Suc q) n (store s q y h')
   }"

fun copy_slice :: "('a, 'c) slot \<Rightarrow> ('a, 'c) copier \<Rightarrow> (slice, 'c) copier" where
  "copy_slice s cp None h = Some (None, h)"
| "copy_slice s cp (Some (p, n)) h = do {
     h' \<leftarrow> copy_elems s cp p (lim h) n (reserve n h);
     Some (Some (lim h, n), h')
   }"

text \<open>
  The loop \<^verbatim>\<open>for key, val := range *in { (*out)[key] = val.DeepCopy() }\<close> into a new map. The
  order of the list is the order in which the loop visits the entries.
\<close>

fun copy_entries :: "(('k \<times> 'a) list, 'c) slot \<Rightarrow> ('a, 'c) copier \<Rightarrow> nat \<Rightarrow> ('k \<times> 'a) list \<Rightarrow> 'c heap \<Rightarrow> 'c heap option" where
  "copy_entries s cp q [] h = Some h"
| "copy_entries s cp q ((k, x) # kxs) h = do {
     (y, h') \<leftarrow> cp x h;
     out \<leftarrow> load s (mem h') q;
     copy_entries s cp q kxs (store s q (AList.update k y out) h')
   }"

fun copy_map :: "(('k \<times> 'a) list, 'c) slot \<Rightarrow> ('a, 'c) copier \<Rightarrow> (ptr, 'c) copier" where
  "copy_map s cp None h = Some (None, h)"
| "copy_map s cp (Some p) h = do {
     kxs \<leftarrow> load s (mem h) p;
     h' \<leftarrow> copy_entries s cp (lim h) kxs (store s (lim h) [] (reserve 1 h));
     Some (Some (lim h), h')
   }"

section \<open>What is in memory\<close>

text \<open>
  The value a pointer, slice or map stands for: everything it reaches is read, \<open>None\<close> if
  something is dangling. A value without pointers has a meaning \<open>f\<close> of its own. A map has no two entries for one key.
\<close>

type_synonym ('a, 'c, 'v) reader = "(nat \<rightharpoonup> 'c) \<Rightarrow> 'a \<Rightarrow> 'v option"

definition flat :: "('a \<Rightarrow> 'v) \<Rightarrow> ('a, 'c, 'v) reader" where
  "flat f m x = Some (f x)"

fun read_ptr :: "('a, 'c) slot \<Rightarrow> ('a, 'c, 'v) reader \<Rightarrow> (ptr, 'c, 'v option) reader" where
  "read_ptr s rd m None = Some None"
| "read_ptr s rd m (Some p) = do { x \<leftarrow> load s m p; v \<leftarrow> rd m x; Some (Some v) }"

fun read_elems :: "('a, 'c) slot \<Rightarrow> ('a, 'c, 'v) reader \<Rightarrow> (nat \<rightharpoonup> 'c) \<Rightarrow> nat \<Rightarrow> nat \<Rightarrow> 'v list option" where
  "read_elems s rd m p 0 = Some []"
| "read_elems s rd m p (Suc n) = do {
     x \<leftarrow> load s m p;
     v \<leftarrow> rd m x;
     vs \<leftarrow> read_elems s rd m (Suc p) n;
     Some (v # vs)
   }"

fun read_slice :: "('a, 'c) slot \<Rightarrow> ('a, 'c, 'v) reader \<Rightarrow> (slice, 'c, 'v list option) reader" where
  "read_slice s rd m None = Some None"
| "read_slice s rd m (Some (p, n)) = map_option Some (read_elems s rd m p n)"

fun read_entries :: "('a, 'c, 'v) reader \<Rightarrow> (nat \<rightharpoonup> 'c) \<Rightarrow> ('k \<times> 'a) list \<Rightarrow> ('k \<times> 'v) list option" where
  "read_entries rd m [] = Some []"
| "read_entries rd m ((k, x) # kxs) = do {
     v \<leftarrow> rd m x;
     kvs \<leftarrow> read_entries rd m kxs;
     Some ((k, v) # kvs)
   }"

fun read_map :: "(('k \<times> 'a) list, 'c) slot \<Rightarrow> ('a, 'c, 'v) reader \<Rightarrow> (ptr, 'c, ('k \<times> 'v) list option) reader" where
  "read_map s rd m None = Some None"
| "read_map s rd m (Some p) = do {
     kxs \<leftarrow> load s m p;
     if distinct (map fst kxs) then map_option Some (read_entries rd m kxs) else None
   }"

section \<open>Right copiers\<close>

definition heap_ok :: "'c heap \<Rightarrow> bool" where
  "heap_ok h = (\<forall>a c. mem h a = Some c \<longrightarrow> a < lim h)"

text \<open>\<open>h'\<close> has everything \<open>h\<close> has; cells below the limit of \<open>h\<close> are as they were.\<close>

definition grown :: "'c heap \<Rightarrow> 'c heap \<Rightarrow> bool" where
  "grown h h' = (heap_ok h' \<and> lim h \<le> lim h' \<and> (\<forall>a < lim h. mem h' a = mem h a))"

abbreviation from_lim :: "nat \<Rightarrow> 'c heap \<Rightarrow> nat \<rightharpoonup> 'c" where
  "from_lim b h \<equiv> mem h |` {b..}"

locale storable =
  fixes s :: "('a, 'c) slot"
  assumes unwrap_wrap [simp]: "unwrap s (wrap s x) = Some x"

text \<open>
  A deep copy: values do not change when memory grows, and the copy of a readable value exists,
  leaves what was there alone, and has the same value in the new memory alone.
\<close>

locale deep_copy =
  fixes cp :: "('a, 'c) copier" and rd :: "('a, 'c, 'v) reader"
  assumes rd_mono: "m \<subseteq>\<^sub>m m' \<Longrightarrow> rd m x = Some v \<Longrightarrow> rd m' x = Some v"
    and copied: "heap_ok h \<Longrightarrow> rd (mem h) x = Some v \<Longrightarrow>
      \<exists>y h'. cp x h = Some (y, h') \<and> grown h h' \<and> rd (from_lim (lim h) h') y = Some v"

lemma grown_refl: "heap_ok h \<Longrightarrow> grown h h"
  by (simp add: grown_def)

lemma grown_trans: "grown h h' \<Longrightarrow> grown h' h'' \<Longrightarrow> grown h h''"
  by (auto simp: grown_def)

lemma grown_ok: "grown h h' \<Longrightarrow> heap_ok h'"
  by (simp add: grown_def)

lemma grown_mem: "heap_ok h \<Longrightarrow> grown h h' \<Longrightarrow> mem h \<subseteq>\<^sub>m mem h'"
  by (auto simp: grown_def heap_ok_def map_le_def)

lemma grown_from: "grown h h' \<Longrightarrow> heap_ok h \<Longrightarrow> b \<le> lim h \<Longrightarrow> from_lim b h \<subseteq>\<^sub>m from_lim b h'"
  using grown_mem [of h h'] by (auto simp: map_le_def restrict_map_def dom_def)

lemma from_lim_mono: "b \<le> b' \<Longrightarrow> from_lim b' h \<subseteq>\<^sub>m from_lim b h"
  by (auto simp: map_le_def restrict_map_def)

lemma reserve_simps [simp]: "mem (reserve n h) = mem h" "lim (reserve n h) = lim h + n"
  by (simp_all add: reserve_def)

lemma store_simps [simp]: "mem (store s p x h) = (mem h)(p \<mapsto> wrap s x)" "lim (store s p x h) = lim h"
  by (simp_all add: store_def)

lemma heap_ok_reserve: "heap_ok h \<Longrightarrow> heap_ok (reserve n h)"
  by (auto simp: heap_ok_def)

lemma heap_ok_store: "heap_ok h \<Longrightarrow> p < lim h \<Longrightarrow> heap_ok (store s p x h)"
  by (auto simp: heap_ok_def)

lemma load_mono: "m \<subseteq>\<^sub>m m' \<Longrightarrow> load s m p = Some x \<Longrightarrow> load s m' p = Some x"
  by (auto simp: load_def map_le_def dom_def bind_eq_Some_conv)

lemma deep_copy_assign: "deep_copy assign (flat f)"
  by unfold_locales (auto simp: assign_def flat_def grown_refl)

lemma deep_copy_partial: "deep_copy assign (\<lambda>_. f)"
  by unfold_locales (auto simp: assign_def grown_refl)

text \<open>A struct is copied by copying some of its fields and assigning the others.\<close>

lemma deep_copy_struct:
  assumes cp: "deep_copy cp rd"
    and eq: "\<And>x h. cp' x h = map_option (\<lambda>(t, h'). (put x t, h')) (cp (get x) h)"
      "\<And>m x. rd' m x = map_option (g x) (rd m (get x))"
    and put: "\<And>x t. get (put x t) = t" "\<And>x t. g (put x t) = g x"
  shows "deep_copy cp' rd'"
proof
  fix m m' x v assume "m \<subseteq>\<^sub>m m'" "rd' m x = Some v"
  with deep_copy.rd_mono [OF cp, of m m' "get x"] show "rd' m' x = Some v" by (auto simp: eq)
next
  fix h x v assume h: "heap_ok h" and "rd' (mem h) x = Some v"
  then obtain u where u: "rd (mem h) (get x) = Some u" "v = g x u" by (auto simp: eq)
  from deep_copy.copied [OF cp h u(1)] obtain t h' where
    "cp (get x) h = Some (t, h')" "grown h h'" "rd (from_lim (lim h) h') t = Some u" by blast
  with u(2) show "\<exists>y h'. cp' x h = Some (y, h') \<and> grown h h' \<and> rd' (from_lim (lim h) h') y = Some v"
    by (intro exI [of _ "put x t"] exI [of _ h']) (simp add: eq put)
qed

definition copy_pair :: "('a, 'c) copier \<Rightarrow> ('b, 'c) copier \<Rightarrow> ('a \<times> 'b, 'c) copier" where
  "copy_pair c d z h = do { (x, h) \<leftarrow> c (fst z) h; (y, h) \<leftarrow> d (snd z) h; Some ((x, y), h) }"

definition read_pair :: "('a, 'c, 'v) reader \<Rightarrow> ('b, 'c, 'w) reader \<Rightarrow> ('a \<times> 'b, 'c, 'v \<times> 'w) reader" where
  "read_pair r q m z = do { v \<leftarrow> r m (fst z); w \<leftarrow> q m (snd z); Some (v, w) }"

lemma deep_copy_pair:
  assumes cp: "deep_copy c r" "deep_copy d q"
  shows "deep_copy (copy_pair c d) (read_pair r q)"
proof
  fix m m' z v assume "m \<subseteq>\<^sub>m m'" "read_pair r q m z = Some v"
  then show "read_pair r q m' z = Some v"
    by (auto simp: read_pair_def bind_eq_Some_conv intro: deep_copy.rd_mono [OF cp(1)] deep_copy.rd_mono [OF cp(2)])
next
  fix h z v assume h: "heap_ok h" and "read_pair r q (mem h) z = Some v"
  then obtain v1 v2 where v: "r (mem h) (fst z) = Some v1" "q (mem h) (snd z) = Some v2" "v = (v1, v2)"
    by (auto simp: read_pair_def bind_eq_Some_conv)
  from deep_copy.copied [OF cp(1) h v(1)] obtain x h1 where
    1: "c (fst z) h = Some (x, h1)" "grown h h1" "r (from_lim (lim h) h1) x = Some v1" by blast
  note ok = grown_ok [OF 1(2)]
  from deep_copy.rd_mono [OF cp(2) grown_mem [OF h 1(2)] v(2)] deep_copy.copied [OF cp(2) ok] obtain y h2 where
    2: "d (snd z) h1 = Some (y, h2)" "grown h1 h2" "q (from_lim (lim h1) h2) y = Some v2" by blast
  have le: "lim h \<le> lim h1" using 1(2) by (simp add: grown_def)
  from deep_copy.rd_mono [OF cp(1) grown_from [OF 2(2) ok le] 1(3)] deep_copy.rd_mono [OF cp(2) from_lim_mono [OF le] 2(3)]
    grown_trans [OF 1(2) 2(2)] 1(1) 2(1) v(3)
  show "\<exists>y h'. copy_pair c d z h = Some (y, h') \<and> grown h h' \<and> read_pair r q (from_lim (lim h) h') y = Some v"
    by (simp add: copy_pair_def read_pair_def)
qed

section \<open>Copying pointers, slices and maps\<close>

text \<open>
  While the elements of a new array or map are copied its cells are written one by one: \<open>q\<close> is
  where they are, \<open>m\<close> the memory before.
\<close>

definition filling :: "(nat \<rightharpoonup> 'c) \<Rightarrow> nat set \<Rightarrow> 'c heap \<Rightarrow> bool" where
  "filling m Q h = (heap_ok h \<and> m \<subseteq>\<^sub>m mem h \<and> dom m \<inter> Q = {} \<and> Q \<subseteq> {..<lim h})"

definition filled :: "nat set \<Rightarrow> 'c heap \<Rightarrow> 'c heap \<Rightarrow> bool" where
  "filled Q h h' = (heap_ok h' \<and> lim h \<le> lim h' \<and> (\<forall>a < lim h. a \<notin> Q \<longrightarrow> mem h' a = mem h a))"

lemma filling_step:
  assumes "filling m Q h" "grown h h'" "q \<in> Q"
  shows "filling m Q (store s q y h')"
proof -
  from assms(1,2) have m: "m \<subseteq>\<^sub>m mem h'" using map_le_trans [OF _ grown_mem] by (auto simp: filling_def)
  have "m \<subseteq>\<^sub>m (mem h')(q \<mapsto> wrap s y)" using m assms(1,3) by (auto simp: filling_def map_le_def)
  moreover have "q < lim h'" "Q \<subseteq> {..<lim h'}" using assms by (auto simp: filling_def grown_def)
  ultimately show ?thesis using assms(1,2) by (simp add: filling_def heap_ok_store grown_def)
qed

lemma filled_step:
  assumes "grown h h1" "filled Q (store s q y h1) h2" "q \<in> Q'" "Q \<subseteq> Q'"
  shows "filled Q' h h2"
proof -
  have "mem h2 a = mem h a" if "a < lim h" "a \<notin> Q'" for a
  proof -
    from that assms(3,4) have "a \<noteq> q" "a \<notin> Q" by auto
    with that assms(1,2) show ?thesis by (simp add: filled_def grown_def)
  qed
  with assms(1,2) show ?thesis by (simp add: filled_def grown_def)
qed

text \<open>What was copied for one element is not touched when the next ones are copied.\<close>

lemma filled_keeps:
  assumes "filled Q (store s q y h1) h2" "grown h h1" "insert q Q \<subseteq> {..<lim h}"
  shows "from_lim (lim h) h1 \<subseteq>\<^sub>m mem h2 |` ({lim h..} \<union> R)"
proof -
  have "mem h2 a = mem h1 a" if "lim h \<le> a" "a < lim h1" for a
  proof -
    from that assms(3) have "a \<noteq> q" "a \<notin> Q" by auto
    with that assms(1) show ?thesis by (simp add: filled_def)
  qed
  moreover have "a < lim h1" if "mem h1 a = Some c" for a c
    using that assms(2) by (auto simp: grown_def heap_ok_def)
  ultimately show ?thesis by (auto simp: map_le_def restrict_map_def split: if_splits)
qed

locale copied_slot = storable s + deep_copy cp rd
  for s :: "('a, 'c) slot" and cp :: "('a, 'c) copier" and rd :: "('a, 'c, 'v) reader"
begin

lemma read_ptr_mono: "m \<subseteq>\<^sub>m m' \<Longrightarrow> read_ptr s rd m p = Some v \<Longrightarrow> read_ptr s rd m' p = Some v"
  by (cases p) (auto simp: bind_eq_Some_conv dest: load_mono rd_mono)

lemma read_elems_mono: "m \<subseteq>\<^sub>m m' \<Longrightarrow> read_elems s rd m p n = Some vs \<Longrightarrow> read_elems s rd m' p n = Some vs"
  by (induction n arbitrary: p vs) (fastforce simp: bind_eq_Some_conv intro: load_mono rd_mono)+

lemma copy_ptr_copied:
  assumes h: "heap_ok h" and v: "read_ptr s rd (mem h) p = Some v"
  shows "\<exists>q h'. copy_ptr s cp p h = Some (q, h') \<and> grown h h' \<and> read_ptr s rd (from_lim (lim h) h') q = Some v"
proof (cases p)
  case None
  with h v show ?thesis by (simp add: grown_refl)
next
  case (Some a)
  with v obtain x u where x: "load s (mem h) a = Some x" "rd (mem h) x = Some u" "v = Some u"
    by (auto simp: bind_eq_Some_conv)
  from copied [OF heap_ok_reserve [OF h, of 1], of x u] x(2) obtain y h' where
    y: "cp x (reserve 1 h) = Some (y, h')" "grown (reserve 1 h) h'" "rd (from_lim (lim h + 1) h') y = Some u" by auto
  have "from_lim (lim h + 1) h' \<subseteq>\<^sub>m from_lim (lim h) (store s (lim h) y h')"
    by (auto simp: map_le_def restrict_map_def)
  from rd_mono [OF this y(3)] have "rd (from_lim (lim h) (store s (lim h) y h')) y = Some u" .
  moreover have "grown h (store s (lim h) y h')" using y(2) by (auto simp: grown_def heap_ok_store)
  ultimately show ?thesis using Some x y(1) by (simp add: load_def)
qed

lemma copy_elems_copied:
  assumes "filling m {q..<q + n} h" "read_elems s rd m p n = Some vs"
  shows "\<exists>h'. copy_elems s cp p q n h = Some h' \<and> filled {q..<q + n} h h' \<and>
     read_elems s rd (mem h' |` ({lim h..} \<union> {q..<q + n})) q n = Some vs"
  using assms
proof (induction n arbitrary: p q h vs)
  case 0
  then show ?case by (simp add: filling_def filled_def)
next
  case (Suc n)
  from Suc.prems(2) obtain x u us where x: "load s m p = Some x" "rd m x = Some u" "read_elems s rd m (Suc p) n = Some us" "vs = u # us"
    by (auto simp: bind_eq_Some_conv)
  from Suc.prems(1) have m: "m \<subseteq>\<^sub>m mem h" "heap_ok h" and Q: "insert q {Suc q..<Suc q + n} \<subseteq> {..<lim h}"
    by (auto simp: filling_def subset_iff)
  from copied [OF m(2) rd_mono [OF m(1) x(2)]] obtain y h1 where
    y: "cp x h = Some (y, h1)" "grown h h1" "rd (from_lim (lim h) h1) y = Some u" by blast
  let ?h = "store s q y h1"
  have "filling m {Suc q..<Suc q + n} ?h"
    using filling_step [OF Suc.prems(1) y(2), of q s y] by (auto simp: filling_def subset_iff)
  from Suc.IH [OF this x(3)] obtain h2 where
    h2: "copy_elems s cp (Suc p) (Suc q) n ?h = Some h2" "filled {Suc q..<Suc q + n} ?h h2"
      "read_elems s rd (mem h2 |` ({lim ?h..} \<union> {Suc q..<Suc q + n})) (Suc q) n = Some us" by blast
  let ?m = "mem h2 |` ({lim h..} \<union> {q..<q + Suc n})"
  have le: "lim h \<le> lim h1" using y(2) by (simp add: grown_def)
  have "mem h2 |` ({lim ?h..} \<union> {Suc q..<Suc q + n}) \<subseteq>\<^sub>m ?m"
    using le by (auto simp: map_le_def restrict_map_def split: if_splits)
  from read_elems_mono [OF this h2(3)] rd_mono [OF filled_keeps [OF h2(2) y(2) Q] y(3)]
  have "read_elems s rd ?m (Suc q) n = Some us" "rd ?m y = Some u" by blast+
  moreover have "load s ?m q = Some y" using h2(2) Q le by (simp add: load_def filled_def)
  moreover have "filled {q..<q + Suc n} h h2" by (rule filled_step [OF y(2) h2(2)]) auto
  ultimately show ?case using load_mono [OF m(1) x(1)] y(1) h2(1) x(4) by simp
qed

lemma copy_slice_copied:
  assumes h: "heap_ok h" and v: "read_slice s rd (mem h) x = Some v"
  shows "\<exists>y h'. copy_slice s cp x h = Some (y, h') \<and> grown h h' \<and> read_slice s rd (from_lim (lim h) h') y = Some v"
proof (cases x)
  case None
  with h v show ?thesis by (simp add: grown_refl)
next
  case (Some pn)
  obtain p n where x: "x = Some (p, n)" using Some by (cases pn) simp
  with v obtain vs where vs: "read_elems s rd (mem h) p n = Some vs" "v = Some vs" by auto
  let ?Q = "{lim h..<lim h + n}"
  have "filling (mem h) ?Q (reserve n h)" using h by (auto simp: filling_def heap_ok_reserve) (auto simp: heap_ok_def)
  from copy_elems_copied [OF this vs(1)] obtain h' where
    h': "copy_elems s cp p (lim h) n (reserve n h) = Some h'" "filled ?Q (reserve n h) h'"
      "read_elems s rd (mem h' |` ({lim h + n..} \<union> ?Q)) (lim h) n = Some vs" by auto
  have "{lim h + n..} \<union> ?Q = {lim h..}" by auto
  with h' x vs(2) show ?thesis by (auto simp: grown_def filled_def)
qed

end

sublocale copied_slot \<subseteq> ptrs: deep_copy "copy_ptr s cp" "read_ptr s rd"
  by (rule deep_copy.intro) (fact read_ptr_mono copy_ptr_copied)+

sublocale copied_slot \<subseteq> slices: deep_copy "copy_slice s cp" "read_slice s rd"
proof
  show "read_slice s rd m' x = Some v" if "m \<subseteq>\<^sub>m m'" "read_slice s rd m x = Some v" for m m' x v
    using that read_elems_mono by (cases x) auto
qed (fact copy_slice_copied)

lemma read_entries_keys: "read_entries rd m kxs = Some kvs \<Longrightarrow> map fst kvs = map fst kxs"
  by (induction kxs arbitrary: kvs) (auto simp: bind_eq_Some_conv)

lemma update_new: "k \<notin> set (map fst al) \<Longrightarrow> AList.update k v al = al @ [(k, v)]"
  by (induction al) auto

locale copied_map = storable s + deep_copy cp rd
  for s :: "(('k \<times> 'a) list, 'c) slot" and cp :: "('a, 'c) copier" and rd :: "('a, 'c, 'v) reader"
begin

lemma read_entries_mono: "m \<subseteq>\<^sub>m m' \<Longrightarrow> read_entries rd m kxs = Some kvs \<Longrightarrow> read_entries rd m' kxs = Some kvs"
  by (induction kxs arbitrary: kvs) (fastforce simp: bind_eq_Some_conv intro: rd_mono)+

lemma read_entries_append:
  "read_entries rd m (kxs @ kys) = do { vs \<leftarrow> read_entries rd m kxs; ws \<leftarrow> read_entries rd m kys; Some (vs @ ws) }"
  by (induction kxs) (auto simp: bind_assoc)

text \<open>\<open>out\<close> is the part of the new map that is there already.\<close>

lemma copy_entries_copied:
  assumes "filling m {q} h" "read_entries rd m kxs = Some kvs" "distinct (map fst out @ map fst kxs)"
    and "load s (mem h) q = Some out" "read_entries rd (mem h |` ({b..} - {q})) out = Some ovs" "q \<in> {b..<lim h}"
  shows "\<exists>h' new. copy_entries s cp q kxs h = Some h' \<and> filled {q} h h' \<and> load s (mem h') q = Some new \<and>
     map fst new = map fst out @ map fst kxs \<and> read_entries rd (mem h' |` ({b..} - {q})) new = Some (ovs @ kvs)"
  using assms
proof (induction kxs arbitrary: h out ovs kvs)
  case Nil
  then show ?case by (simp add: filling_def filled_def)
next
  case (Cons e kxs)
  obtain k x where e: "e = (k, x)" by fastforce
  from Cons.prems(2) e obtain u us where x: "rd m x = Some u" "read_entries rd m kxs = Some us" "kvs = (k, u) # us"
    by (auto simp: bind_eq_Some_conv)
  from Cons.prems(1) have m: "m \<subseteq>\<^sub>m mem h" "heap_ok h" by (auto simp: filling_def)
  from copied [OF m(2) rd_mono [OF m(1) x(1)]] obtain y h1 where
    y: "cp x h = Some (y, h1)" "grown h h1" "rd (from_lim (lim h) h1) y = Some u" by blast
  have q: "load s (mem h1) q = Some out" using load_mono [OF grown_mem [OF m(2) y(2)] Cons.prems(4)] .
  have upd: "AList.update k y out = out @ [(k, y)]" using Cons.prems(3) e by (intro update_new) auto
  let ?h = "store s q (out @ [(k, y)]) h1" and ?m = "mem h1 |` ({b..} - {q})"
  have m1: "mem h |` ({b..} - {q}) \<subseteq>\<^sub>m ?m" "from_lim (lim h) h1 \<subseteq>\<^sub>m ?m" "mem ?h |` ({b..} - {q}) = ?m"
    using grown_mem [OF m(2) y(2)] Cons.prems(6) by (auto simp: map_le_def restrict_map_def dom_def)
  have "read_entries rd (mem ?h |` ({b..} - {q})) (out @ [(k, y)]) = Some (ovs @ [(k, u)])"
    unfolding m1(3) by (simp add: read_entries_append read_entries_mono [OF m1(1) Cons.prems(5)] rd_mono [OF m1(2) y(3)])
  moreover have "filling m {q} ?h" by (rule filling_step [OF Cons.prems(1) y(2)]) simp
  moreover have "q \<in> {b..<lim ?h}" using Cons.prems(6) y(2) by (simp add: grown_def)
  moreover have "distinct (map fst (out @ [(k, y)]) @ map fst kxs)" "load s (mem ?h) q = Some (out @ [(k, y)])"
    using Cons.prems(3) e by (auto simp: load_def)
  ultimately obtain h' new where
    h': "copy_entries s cp q kxs ?h = Some h'" "filled {q} ?h h'" "load s (mem h') q = Some new"
      "map fst new = map fst (out @ [(k, y)]) @ map fst kxs" "read_entries rd (mem h' |` ({b..} - {q})) new = Some ((ovs @ [(k, u)]) @ us)"
    using Cons.IH [OF _ x(2)] by blast
  have "filled {q} h h'" by (rule filled_step [OF y(2) h'(2)]) simp_all
  with h' show ?case using y(1) q upd x(3) e by simp
qed

lemma read_map_mono: "m \<subseteq>\<^sub>m m' \<Longrightarrow> read_map s rd m x = Some v \<Longrightarrow> read_map s rd m' x = Some v"
  by (cases x) (auto simp: bind_eq_Some_conv split: if_splits dest: load_mono read_entries_mono)

lemma copy_map_copied:
  assumes h: "heap_ok h" and v: "read_map s rd (mem h) x = Some v"
  shows "\<exists>y h'. copy_map s cp x h = Some (y, h') \<and> grown h h' \<and> read_map s rd (from_lim (lim h) h') y = Some v"
proof (cases x)
  case None
  with h v show ?thesis by (simp add: grown_refl)
next
  case (Some p)
  with v obtain kxs kvs where kxs: "load s (mem h) p = Some kxs" "distinct (map fst kxs)" "read_entries rd (mem h) kxs = Some kvs" "v = Some kvs"
    by (auto simp: bind_eq_Some_conv split: if_splits)
  let ?h = "store s (lim h) [] (reserve 1 h)"
  have "mem h (lim h) = None" using h by (cases "mem h (lim h)") (auto simp: heap_ok_def)
  then have "filling (mem h) {lim h} ?h" using h by (auto simp: filling_def heap_ok_store heap_ok_reserve map_le_def)
  from copy_entries_copied [OF this kxs(3), of "[]" "lim h" "[]"] kxs(2) obtain h' new where
    h': "copy_entries s cp (lim h) kxs ?h = Some h'" "filled {lim h} ?h h'" "load s (mem h') (lim h) = Some new"
      "map fst new = map fst kxs" "read_entries rd (mem h' |` ({lim h..} - {lim h})) new = Some kvs"
    by (auto simp: load_def)
  have "mem h' |` ({lim h..} - {lim h}) \<subseteq>\<^sub>m from_lim (lim h) h'" by (auto simp: map_le_def restrict_map_def split: if_splits)
  from read_entries_mono [OF this h'(5)] h' kxs Some show ?thesis by (auto simp: grown_def filled_def load_def)
qed

end

sublocale copied_map \<subseteq> maps: deep_copy "copy_map s cp" "read_map s rd"
  by unfold_locales (fact read_map_mono copy_map_copied)+

context copied_slot
begin

lemma deep_ptr: "deep_copy (copy_ptr s cp) (read_ptr s rd)"
  by (fact ptrs.deep_copy_axioms)

lemma deep_slice: "deep_copy (copy_slice s cp) (read_slice s rd)"
  by (fact slices.deep_copy_axioms)

end

context copied_map
begin

lemma deep_map: "deep_copy (copy_map s cp) (read_map s rd)"
  by (fact maps.deep_copy_axioms)

end

lemmas deep_copy_ptr = copied_slot.deep_ptr [OF copied_slot.intro]
lemmas deep_copy_slice = copied_slot.deep_slice [OF copied_slot.intro]
lemmas deep_copy_map = copied_map.deep_map [OF copied_map.intro]

end
