(* ===== verification/DeepCopy.thy ===== *)
theory DeepCopy
  imports GoHeap ApiTypes
begin

text \<open>
  The deep copies of the API objects, \<^verbatim>\<open>api/v1beta1/zz_generated.deepcopy.go\<close>: the structs as
  they are in memory, with pointers, slices and maps, the copy of each, and the value in the sense
  of \<open>ApiTypes\<close> that each stands for.
\<close>

section \<open>Structs\<close>

text \<open>
  \<open>'x\<close> is the type of the structs other packages declare: the two kinds of \<^verbatim>\<open>ObjectMeta\<close>,
  \<^verbatim>\<open>ListMeta\<close>, \<^verbatim>\<open>Condition\<close>, \<^verbatim>\<open>FailureDomain\<close> and
  \<^verbatim>\<open>Quantity\<close>, each with a deep copy of its own.
\<close>

record TypeMeta =
  tm_Kind :: string
  tm_APIVersion :: string

record IdentityReference =
  ir_Name :: string

record ControlPlaneLoadBalancer_obj =
  lbo_Enabled :: ptr
  lbo_InstanceType :: string
  lbo_Image :: string
  lbo_SSHKeyIDs :: slice

record LoadBalancerStatus_obj =
  lso_InstanceID :: string
  lso_StartupScriptID :: string
  lso_Address :: string
  lso_Backends :: slice
  lso_SecretPublished :: ptr

record VerdaClusterInitializationStatus =
  cio_Provisioned :: ptr

record VerdaClusterSpec_obj =
  cso_Location :: string
  cso_ControlPlaneEndpoint :: APIEndpoint
  cso_IdentityRef :: ptr
  cso_ControlPlaneLoadBalancer :: ControlPlaneLoadBalancer_obj
  cso_ServiceLoadBalancer :: ControlPlaneLoadBalancer_obj

record VerdaClusterStatus_obj =
  csto_Initialization :: VerdaClusterInitializationStatus
  csto_Conditions :: slice
  csto_LoadBalancer :: LoadBalancerStatus_obj
  csto_ServiceLoadBalancer :: LoadBalancerStatus_obj
  csto_FailureDomains :: slice

record 'x VerdaCluster_obj =
  vco_TypeMeta :: TypeMeta
  vco_ObjectMeta :: 'x
  vco_Spec :: VerdaClusterSpec_obj
  vco_Status :: VerdaClusterStatus_obj

record 'x VerdaClusterList =
  vcl_TypeMeta :: TypeMeta
  vcl_ListMeta :: 'x
  vcl_Items :: slice

record 'x VerdaClusterTemplateResource =
  ctr_ObjectMeta :: 'x
  ctr_Spec :: VerdaClusterSpec_obj

record 'x VerdaClusterTemplateSpec =
  cts_Template :: "'x VerdaClusterTemplateResource"

record 'x VerdaClusterTemplate_obj =
  cto_TypeMeta :: TypeMeta
  cto_ObjectMeta :: 'x
  cto_Spec :: "'x VerdaClusterTemplateSpec"

record 'x VerdaClusterTemplateList =
  ctl_TypeMeta :: TypeMeta
  ctl_ListMeta :: 'x
  ctl_Items :: slice

record VerdaMachineInitializationStatus =
  mio_Provisioned :: ptr

record VerdaMachineSpec_obj =
  mso_ProviderID :: string
  mso_InstanceType :: string
  mso_Image :: string
  mso_OSVolumeID :: string
  mso_SSHKeyIDs :: slice
  mso_OSVolumeSizeGB :: int
  mso_Contract :: string
  mso_Spot :: ptr
  mso_SpotDiscontinuePolicy :: string
  mso_AdditionalVolumes :: slice

record VerdaMachineStatus_obj =
  msto_Initialization :: VerdaMachineInitializationStatus
  msto_Conditions :: slice
  msto_Addresses :: slice
  msto_FailureDomain :: string
  msto_InstanceID :: string
  msto_InstanceState :: string
  msto_OSVolumeID :: string
  msto_StartupScriptID :: string

record 'x VerdaMachine_obj =
  vmo_TypeMeta :: TypeMeta
  vmo_ObjectMeta :: 'x
  vmo_Spec :: VerdaMachineSpec_obj
  vmo_Status :: VerdaMachineStatus_obj

record 'x VerdaMachineList =
  vml_TypeMeta :: TypeMeta
  vml_ListMeta :: 'x
  vml_Items :: slice

record 'x VerdaMachineTemplateResource =
  mtr_ObjectMeta :: 'x
  mtr_Spec :: VerdaMachineSpec_obj

record 'x VerdaMachineTemplateSpec =
  mts_Template :: "'x VerdaMachineTemplateResource"

record VerdaMachineTemplateStatus_obj =
  mtso_Capacity :: ptr
  mtso_NodeInfo :: NodeInfo
  mtso_Conditions :: slice

record 'x VerdaMachineTemplate_obj =
  mto_TypeMeta :: TypeMeta
  mto_ObjectMeta :: 'x
  mto_Spec :: "'x VerdaMachineTemplateSpec"
  mto_Status :: VerdaMachineTemplateStatus_obj

record 'x VerdaMachineTemplateList =
  mtl_TypeMeta :: TypeMeta
  mtl_ListMeta :: 'x
  mtl_Items :: slice

section \<open>Cells\<close>

datatype 'x cell =
    BoolCell "bool"
  | StringCell "string"
  | MachineAddressCell "MachineAddress"
  | ResourceListCell "(string \<times> 'x) list"
  | ForeignCell "'x"
  | IdentityReferenceCell "IdentityReference"
  | AdditionalVolumeCell "AdditionalVolume"
  | NodeInfoCell "NodeInfo"
  | ControlPlaneLoadBalancerCell "ControlPlaneLoadBalancer_obj"
  | LoadBalancerStatusCell "LoadBalancerStatus_obj"
  | VerdaClusterInitializationStatusCell "VerdaClusterInitializationStatus"
  | VerdaClusterSpecCell "VerdaClusterSpec_obj"
  | VerdaClusterStatusCell "VerdaClusterStatus_obj"
  | VerdaClusterCell "'x VerdaCluster_obj"
  | VerdaClusterListCell "'x VerdaClusterList"
  | VerdaClusterTemplateResourceCell "'x VerdaClusterTemplateResource"
  | VerdaClusterTemplateSpecCell "'x VerdaClusterTemplateSpec"
  | VerdaClusterTemplateCell "'x VerdaClusterTemplate_obj"
  | VerdaClusterTemplateListCell "'x VerdaClusterTemplateList"
  | VerdaMachineInitializationStatusCell "VerdaMachineInitializationStatus"
  | VerdaMachineSpecCell "VerdaMachineSpec_obj"
  | VerdaMachineStatusCell "VerdaMachineStatus_obj"
  | VerdaMachineCell "'x VerdaMachine_obj"
  | VerdaMachineListCell "'x VerdaMachineList"
  | VerdaMachineTemplateResourceCell "'x VerdaMachineTemplateResource"
  | VerdaMachineTemplateSpecCell "'x VerdaMachineTemplateSpec"
  | VerdaMachineTemplateStatusCell "VerdaMachineTemplateStatus_obj"
  | VerdaMachineTemplateCell "'x VerdaMachineTemplate_obj"
  | VerdaMachineTemplateListCell "'x VerdaMachineTemplateList"

definition bool_slot :: "(bool, 'x cell) slot" where
  "bool_slot = \<lparr>wrap = BoolCell, unwrap = (\<lambda>c. case c of BoolCell x \<Rightarrow> Some x | _ \<Rightarrow> None)\<rparr>"

definition string_slot :: "(string, 'x cell) slot" where
  "string_slot = \<lparr>wrap = StringCell, unwrap = (\<lambda>c. case c of StringCell x \<Rightarrow> Some x | _ \<Rightarrow> None)\<rparr>"

definition MachineAddress_slot :: "(MachineAddress, 'x cell) slot" where
  "MachineAddress_slot = \<lparr>wrap = MachineAddressCell, unwrap = (\<lambda>c. case c of MachineAddressCell x \<Rightarrow> Some x | _ \<Rightarrow> None)\<rparr>"

definition ResourceList_slot :: "((string \<times> 'x) list, 'x cell) slot" where
  "ResourceList_slot = \<lparr>wrap = ResourceListCell, unwrap = (\<lambda>c. case c of ResourceListCell x \<Rightarrow> Some x | _ \<Rightarrow> None)\<rparr>"

definition foreign_slot :: "('x, 'x cell) slot" where
  "foreign_slot = \<lparr>wrap = ForeignCell, unwrap = (\<lambda>c. case c of ForeignCell x \<Rightarrow> Some x | _ \<Rightarrow> None)\<rparr>"

definition IdentityReference_slot :: "(IdentityReference, 'x cell) slot" where
  "IdentityReference_slot = \<lparr>wrap = IdentityReferenceCell, unwrap = (\<lambda>c. case c of IdentityReferenceCell x \<Rightarrow> Some x | _ \<Rightarrow> None)\<rparr>"

definition AdditionalVolume_slot :: "(AdditionalVolume, 'x cell) slot" where
  "AdditionalVolume_slot = \<lparr>wrap = AdditionalVolumeCell, unwrap = (\<lambda>c. case c of AdditionalVolumeCell x \<Rightarrow> Some x | _ \<Rightarrow> None)\<rparr>"

definition NodeInfo_slot :: "(NodeInfo, 'x cell) slot" where
  "NodeInfo_slot = \<lparr>wrap = NodeInfoCell, unwrap = (\<lambda>c. case c of NodeInfoCell x \<Rightarrow> Some x | _ \<Rightarrow> None)\<rparr>"

definition ControlPlaneLoadBalancer_slot :: "(ControlPlaneLoadBalancer_obj, 'x cell) slot" where
  "ControlPlaneLoadBalancer_slot = \<lparr>wrap = ControlPlaneLoadBalancerCell, unwrap = (\<lambda>c. case c of ControlPlaneLoadBalancerCell x \<Rightarrow> Some x | _ \<Rightarrow> None)\<rparr>"

definition LoadBalancerStatus_slot :: "(LoadBalancerStatus_obj, 'x cell) slot" where
  "LoadBalancerStatus_slot = \<lparr>wrap = LoadBalancerStatusCell, unwrap = (\<lambda>c. case c of LoadBalancerStatusCell x \<Rightarrow> Some x | _ \<Rightarrow> None)\<rparr>"

definition VerdaClusterInitializationStatus_slot :: "(VerdaClusterInitializationStatus, 'x cell) slot" where
  "VerdaClusterInitializationStatus_slot = \<lparr>wrap = VerdaClusterInitializationStatusCell, unwrap = (\<lambda>c. case c of VerdaClusterInitializationStatusCell x \<Rightarrow> Some x | _ \<Rightarrow> None)\<rparr>"

definition VerdaClusterSpec_slot :: "(VerdaClusterSpec_obj, 'x cell) slot" where
  "VerdaClusterSpec_slot = \<lparr>wrap = VerdaClusterSpecCell, unwrap = (\<lambda>c. case c of VerdaClusterSpecCell x \<Rightarrow> Some x | _ \<Rightarrow> None)\<rparr>"

definition VerdaClusterStatus_slot :: "(VerdaClusterStatus_obj, 'x cell) slot" where
  "VerdaClusterStatus_slot = \<lparr>wrap = VerdaClusterStatusCell, unwrap = (\<lambda>c. case c of VerdaClusterStatusCell x \<Rightarrow> Some x | _ \<Rightarrow> None)\<rparr>"

definition VerdaCluster_slot :: "('x VerdaCluster_obj, 'x cell) slot" where
  "VerdaCluster_slot = \<lparr>wrap = VerdaClusterCell, unwrap = (\<lambda>c. case c of VerdaClusterCell x \<Rightarrow> Some x | _ \<Rightarrow> None)\<rparr>"

definition VerdaClusterList_slot :: "('x VerdaClusterList, 'x cell) slot" where
  "VerdaClusterList_slot = \<lparr>wrap = VerdaClusterListCell, unwrap = (\<lambda>c. case c of VerdaClusterListCell x \<Rightarrow> Some x | _ \<Rightarrow> None)\<rparr>"

definition VerdaClusterTemplateResource_slot :: "('x VerdaClusterTemplateResource, 'x cell) slot" where
  "VerdaClusterTemplateResource_slot = \<lparr>wrap = VerdaClusterTemplateResourceCell, unwrap = (\<lambda>c. case c of VerdaClusterTemplateResourceCell x \<Rightarrow> Some x | _ \<Rightarrow> None)\<rparr>"

definition VerdaClusterTemplateSpec_slot :: "('x VerdaClusterTemplateSpec, 'x cell) slot" where
  "VerdaClusterTemplateSpec_slot = \<lparr>wrap = VerdaClusterTemplateSpecCell, unwrap = (\<lambda>c. case c of VerdaClusterTemplateSpecCell x \<Rightarrow> Some x | _ \<Rightarrow> None)\<rparr>"

definition VerdaClusterTemplate_slot :: "('x VerdaClusterTemplate_obj, 'x cell) slot" where
  "VerdaClusterTemplate_slot = \<lparr>wrap = VerdaClusterTemplateCell, unwrap = (\<lambda>c. case c of VerdaClusterTemplateCell x \<Rightarrow> Some x | _ \<Rightarrow> None)\<rparr>"

definition VerdaClusterTemplateList_slot :: "('x VerdaClusterTemplateList, 'x cell) slot" where
  "VerdaClusterTemplateList_slot = \<lparr>wrap = VerdaClusterTemplateListCell, unwrap = (\<lambda>c. case c of VerdaClusterTemplateListCell x \<Rightarrow> Some x | _ \<Rightarrow> None)\<rparr>"

definition VerdaMachineInitializationStatus_slot :: "(VerdaMachineInitializationStatus, 'x cell) slot" where
  "VerdaMachineInitializationStatus_slot = \<lparr>wrap = VerdaMachineInitializationStatusCell, unwrap = (\<lambda>c. case c of VerdaMachineInitializationStatusCell x \<Rightarrow> Some x | _ \<Rightarrow> None)\<rparr>"

definition VerdaMachineSpec_slot :: "(VerdaMachineSpec_obj, 'x cell) slot" where
  "VerdaMachineSpec_slot = \<lparr>wrap = VerdaMachineSpecCell, unwrap = (\<lambda>c. case c of VerdaMachineSpecCell x \<Rightarrow> Some x | _ \<Rightarrow> None)\<rparr>"

definition VerdaMachineStatus_slot :: "(VerdaMachineStatus_obj, 'x cell) slot" where
  "VerdaMachineStatus_slot = \<lparr>wrap = VerdaMachineStatusCell, unwrap = (\<lambda>c. case c of VerdaMachineStatusCell x \<Rightarrow> Some x | _ \<Rightarrow> None)\<rparr>"

definition VerdaMachine_slot :: "('x VerdaMachine_obj, 'x cell) slot" where
  "VerdaMachine_slot = \<lparr>wrap = VerdaMachineCell, unwrap = (\<lambda>c. case c of VerdaMachineCell x \<Rightarrow> Some x | _ \<Rightarrow> None)\<rparr>"

definition VerdaMachineList_slot :: "('x VerdaMachineList, 'x cell) slot" where
  "VerdaMachineList_slot = \<lparr>wrap = VerdaMachineListCell, unwrap = (\<lambda>c. case c of VerdaMachineListCell x \<Rightarrow> Some x | _ \<Rightarrow> None)\<rparr>"

definition VerdaMachineTemplateResource_slot :: "('x VerdaMachineTemplateResource, 'x cell) slot" where
  "VerdaMachineTemplateResource_slot = \<lparr>wrap = VerdaMachineTemplateResourceCell, unwrap = (\<lambda>c. case c of VerdaMachineTemplateResourceCell x \<Rightarrow> Some x | _ \<Rightarrow> None)\<rparr>"

definition VerdaMachineTemplateSpec_slot :: "('x VerdaMachineTemplateSpec, 'x cell) slot" where
  "VerdaMachineTemplateSpec_slot = \<lparr>wrap = VerdaMachineTemplateSpecCell, unwrap = (\<lambda>c. case c of VerdaMachineTemplateSpecCell x \<Rightarrow> Some x | _ \<Rightarrow> None)\<rparr>"

definition VerdaMachineTemplateStatus_slot :: "(VerdaMachineTemplateStatus_obj, 'x cell) slot" where
  "VerdaMachineTemplateStatus_slot = \<lparr>wrap = VerdaMachineTemplateStatusCell, unwrap = (\<lambda>c. case c of VerdaMachineTemplateStatusCell x \<Rightarrow> Some x | _ \<Rightarrow> None)\<rparr>"

definition VerdaMachineTemplate_slot :: "('x VerdaMachineTemplate_obj, 'x cell) slot" where
  "VerdaMachineTemplate_slot = \<lparr>wrap = VerdaMachineTemplateCell, unwrap = (\<lambda>c. case c of VerdaMachineTemplateCell x \<Rightarrow> Some x | _ \<Rightarrow> None)\<rparr>"

definition VerdaMachineTemplateList_slot :: "('x VerdaMachineTemplateList, 'x cell) slot" where
  "VerdaMachineTemplateList_slot = \<lparr>wrap = VerdaMachineTemplateListCell, unwrap = (\<lambda>c. case c of VerdaMachineTemplateListCell x \<Rightarrow> Some x | _ \<Rightarrow> None)\<rparr>"

section \<open>Copies\<close>

text \<open>The deep copies of the structs of other packages.\<close>

record 'x copylib =
  metav1_ObjectMeta_DeepCopyInto :: "('x, 'x cell) copier"
  metav1_ListMeta_DeepCopyInto :: "('x, 'x cell) copier"
  metav1_Condition_DeepCopyInto :: "('x, 'x cell) copier"
  clusterv1_ObjectMeta_DeepCopyInto :: "('x, 'x cell) copier"
  clusterv1_FailureDomain_DeepCopyInto :: "('x, 'x cell) copier"
  resource_Quantity_DeepCopy :: "('x, 'x cell) copier"

definition AdditionalVolume_DeepCopyInto :: "(AdditionalVolume, 'x cell) copier" where
  "AdditionalVolume_DeepCopyInto inp h = assign inp h"

definition ControlPlaneLoadBalancer_DeepCopyInto :: "(ControlPlaneLoadBalancer_obj, 'x cell) copier" where
  "ControlPlaneLoadBalancer_DeepCopyInto inp h = do {
     (enabled, h) \<leftarrow> copy_ptr bool_slot assign (lbo_Enabled inp) h;
     (keys, h) \<leftarrow> copy_slice string_slot assign (lbo_SSHKeyIDs inp) h;
     Some (inp\<lparr>lbo_Enabled := enabled, lbo_SSHKeyIDs := keys\<rparr>, h)
   }"

definition IdentityReference_DeepCopyInto :: "(IdentityReference, 'x cell) copier" where
  "IdentityReference_DeepCopyInto inp h = assign inp h"

definition LoadBalancerStatus_DeepCopyInto :: "(LoadBalancerStatus_obj, 'x cell) copier" where
  "LoadBalancerStatus_DeepCopyInto inp h = do {
     (backends, h) \<leftarrow> copy_slice string_slot assign (lso_Backends inp) h;
     (published, h) \<leftarrow> copy_ptr bool_slot assign (lso_SecretPublished inp) h;
     Some (inp\<lparr>lso_Backends := backends, lso_SecretPublished := published\<rparr>, h)
   }"

definition NodeInfo_DeepCopyInto :: "(NodeInfo, 'x cell) copier" where
  "NodeInfo_DeepCopyInto inp h = assign inp h"

definition VerdaClusterInitializationStatus_DeepCopyInto :: "(VerdaClusterInitializationStatus, 'x cell) copier" where
  "VerdaClusterInitializationStatus_DeepCopyInto inp h = do {
     (provisioned, h) \<leftarrow> copy_ptr bool_slot assign (cio_Provisioned inp) h;
     Some (inp\<lparr>cio_Provisioned := provisioned\<rparr>, h)
   }"

definition VerdaClusterSpec_DeepCopyInto :: "(VerdaClusterSpec_obj, 'x cell) copier" where
  "VerdaClusterSpec_DeepCopyInto inp h = do {
     (ident, h) \<leftarrow> copy_ptr IdentityReference_slot assign (cso_IdentityRef inp) h;
     (lb, h) \<leftarrow> ControlPlaneLoadBalancer_DeepCopyInto (cso_ControlPlaneLoadBalancer inp) h;
     (slb, h) \<leftarrow> ControlPlaneLoadBalancer_DeepCopyInto (cso_ServiceLoadBalancer inp) h;
     Some (inp\<lparr>cso_IdentityRef := ident, cso_ControlPlaneLoadBalancer := lb, cso_ServiceLoadBalancer := slb\<rparr>, h)
   }"

definition VerdaClusterStatus_DeepCopyInto :: "'x copylib \<Rightarrow> (VerdaClusterStatus_obj, 'x cell) copier" where
  "VerdaClusterStatus_DeepCopyInto lib inp h = do {
     (init, h) \<leftarrow> VerdaClusterInitializationStatus_DeepCopyInto (csto_Initialization inp) h;
     (conds, h) \<leftarrow> copy_slice foreign_slot (metav1_Condition_DeepCopyInto lib) (csto_Conditions inp) h;
     (lb, h) \<leftarrow> LoadBalancerStatus_DeepCopyInto (csto_LoadBalancer inp) h;
     (slb, h) \<leftarrow> LoadBalancerStatus_DeepCopyInto (csto_ServiceLoadBalancer inp) h;
     (domains, h) \<leftarrow> copy_slice foreign_slot (clusterv1_FailureDomain_DeepCopyInto lib) (csto_FailureDomains inp) h;
     Some (inp\<lparr>csto_Initialization := init, csto_Conditions := conds, csto_LoadBalancer := lb,
       csto_ServiceLoadBalancer := slb, csto_FailureDomains := domains\<rparr>, h)
   }"

definition VerdaCluster_DeepCopyInto :: "'x copylib \<Rightarrow> ('x VerdaCluster_obj, 'x cell) copier" where
  "VerdaCluster_DeepCopyInto lib inp h = do {
     (meta, h) \<leftarrow> metav1_ObjectMeta_DeepCopyInto lib (vco_ObjectMeta inp) h;
     (spec, h) \<leftarrow> VerdaClusterSpec_DeepCopyInto (vco_Spec inp) h;
     (status, h) \<leftarrow> VerdaClusterStatus_DeepCopyInto lib (vco_Status inp) h;
     Some (inp\<lparr>vco_ObjectMeta := meta, vco_Spec := spec, vco_Status := status\<rparr>, h)
   }"

definition VerdaClusterList_DeepCopyInto :: "'x copylib \<Rightarrow> ('x VerdaClusterList, 'x cell) copier" where
  "VerdaClusterList_DeepCopyInto lib inp h = do {
     (meta, h) \<leftarrow> metav1_ListMeta_DeepCopyInto lib (vcl_ListMeta inp) h;
     (items, h) \<leftarrow> copy_slice VerdaCluster_slot (VerdaCluster_DeepCopyInto lib) (vcl_Items inp) h;
     Some (inp\<lparr>vcl_ListMeta := meta, vcl_Items := items\<rparr>, h)
   }"

definition VerdaClusterTemplateResource_DeepCopyInto :: "'x copylib \<Rightarrow> ('x VerdaClusterTemplateResource, 'x cell) copier" where
  "VerdaClusterTemplateResource_DeepCopyInto lib inp h = do {
     (meta, h) \<leftarrow> clusterv1_ObjectMeta_DeepCopyInto lib (ctr_ObjectMeta inp) h;
     (spec, h) \<leftarrow> VerdaClusterSpec_DeepCopyInto (ctr_Spec inp) h;
     Some (inp\<lparr>ctr_ObjectMeta := meta, ctr_Spec := spec\<rparr>, h)
   }"

definition VerdaClusterTemplateSpec_DeepCopyInto :: "'x copylib \<Rightarrow> ('x VerdaClusterTemplateSpec, 'x cell) copier" where
  "VerdaClusterTemplateSpec_DeepCopyInto lib inp h = do {
     (t, h) \<leftarrow> VerdaClusterTemplateResource_DeepCopyInto lib (cts_Template inp) h;
     Some (inp\<lparr>cts_Template := t\<rparr>, h)
   }"

definition VerdaClusterTemplate_DeepCopyInto :: "'x copylib \<Rightarrow> ('x VerdaClusterTemplate_obj, 'x cell) copier" where
  "VerdaClusterTemplate_DeepCopyInto lib inp h = do {
     (meta, h) \<leftarrow> metav1_ObjectMeta_DeepCopyInto lib (cto_ObjectMeta inp) h;
     (spec, h) \<leftarrow> VerdaClusterTemplateSpec_DeepCopyInto lib (cto_Spec inp) h;
     Some (inp\<lparr>cto_ObjectMeta := meta, cto_Spec := spec\<rparr>, h)
   }"

definition VerdaClusterTemplateList_DeepCopyInto :: "'x copylib \<Rightarrow> ('x VerdaClusterTemplateList, 'x cell) copier" where
  "VerdaClusterTemplateList_DeepCopyInto lib inp h = do {
     (meta, h) \<leftarrow> metav1_ListMeta_DeepCopyInto lib (ctl_ListMeta inp) h;
     (items, h) \<leftarrow> copy_slice VerdaClusterTemplate_slot (VerdaClusterTemplate_DeepCopyInto lib) (ctl_Items inp) h;
     Some (inp\<lparr>ctl_ListMeta := meta, ctl_Items := items\<rparr>, h)
   }"

definition VerdaMachineInitializationStatus_DeepCopyInto :: "(VerdaMachineInitializationStatus, 'x cell) copier" where
  "VerdaMachineInitializationStatus_DeepCopyInto inp h = do {
     (provisioned, h) \<leftarrow> copy_ptr bool_slot assign (mio_Provisioned inp) h;
     Some (inp\<lparr>mio_Provisioned := provisioned\<rparr>, h)
   }"

definition VerdaMachineSpec_DeepCopyInto :: "(VerdaMachineSpec_obj, 'x cell) copier" where
  "VerdaMachineSpec_DeepCopyInto inp h = do {
     (keys, h) \<leftarrow> copy_slice string_slot assign (mso_SSHKeyIDs inp) h;
     (spot, h) \<leftarrow> copy_ptr bool_slot assign (mso_Spot inp) h;
     (vols, h) \<leftarrow> copy_slice AdditionalVolume_slot assign (mso_AdditionalVolumes inp) h;
     Some (inp\<lparr>mso_SSHKeyIDs := keys, mso_Spot := spot, mso_AdditionalVolumes := vols\<rparr>, h)
   }"

definition VerdaMachineStatus_DeepCopyInto :: "'x copylib \<Rightarrow> (VerdaMachineStatus_obj, 'x cell) copier" where
  "VerdaMachineStatus_DeepCopyInto lib inp h = do {
     (init, h) \<leftarrow> VerdaMachineInitializationStatus_DeepCopyInto (msto_Initialization inp) h;
     (conds, h) \<leftarrow> copy_slice foreign_slot (metav1_Condition_DeepCopyInto lib) (msto_Conditions inp) h;
     (addresses, h) \<leftarrow> copy_slice MachineAddress_slot assign (msto_Addresses inp) h;
     Some (inp\<lparr>msto_Initialization := init, msto_Conditions := conds, msto_Addresses := addresses\<rparr>, h)
   }"

definition VerdaMachine_DeepCopyInto :: "'x copylib \<Rightarrow> ('x VerdaMachine_obj, 'x cell) copier" where
  "VerdaMachine_DeepCopyInto lib inp h = do {
     (meta, h) \<leftarrow> metav1_ObjectMeta_DeepCopyInto lib (vmo_ObjectMeta inp) h;
     (spec, h) \<leftarrow> VerdaMachineSpec_DeepCopyInto (vmo_Spec inp) h;
     (status, h) \<leftarrow> VerdaMachineStatus_DeepCopyInto lib (vmo_Status inp) h;
     Some (inp\<lparr>vmo_ObjectMeta := meta, vmo_Spec := spec, vmo_Status := status\<rparr>, h)
   }"

definition VerdaMachineList_DeepCopyInto :: "'x copylib \<Rightarrow> ('x VerdaMachineList, 'x cell) copier" where
  "VerdaMachineList_DeepCopyInto lib inp h = do {
     (meta, h) \<leftarrow> metav1_ListMeta_DeepCopyInto lib (vml_ListMeta inp) h;
     (items, h) \<leftarrow> copy_slice VerdaMachine_slot (VerdaMachine_DeepCopyInto lib) (vml_Items inp) h;
     Some (inp\<lparr>vml_ListMeta := meta, vml_Items := items\<rparr>, h)
   }"

definition VerdaMachineTemplateResource_DeepCopyInto :: "'x copylib \<Rightarrow> ('x VerdaMachineTemplateResource, 'x cell) copier" where
  "VerdaMachineTemplateResource_DeepCopyInto lib inp h = do {
     (meta, h) \<leftarrow> clusterv1_ObjectMeta_DeepCopyInto lib (mtr_ObjectMeta inp) h;
     (spec, h) \<leftarrow> VerdaMachineSpec_DeepCopyInto (mtr_Spec inp) h;
     Some (inp\<lparr>mtr_ObjectMeta := meta, mtr_Spec := spec\<rparr>, h)
   }"

definition VerdaMachineTemplateSpec_DeepCopyInto :: "'x copylib \<Rightarrow> ('x VerdaMachineTemplateSpec, 'x cell) copier" where
  "VerdaMachineTemplateSpec_DeepCopyInto lib inp h = do {
     (t, h) \<leftarrow> VerdaMachineTemplateResource_DeepCopyInto lib (mts_Template inp) h;
     Some (inp\<lparr>mts_Template := t\<rparr>, h)
   }"

definition VerdaMachineTemplateStatus_DeepCopyInto :: "'x copylib \<Rightarrow> (VerdaMachineTemplateStatus_obj, 'x cell) copier" where
  "VerdaMachineTemplateStatus_DeepCopyInto lib inp h = do {
     (capacity, h) \<leftarrow> copy_map ResourceList_slot (resource_Quantity_DeepCopy lib) (mtso_Capacity inp) h;
     (conds, h) \<leftarrow> copy_slice foreign_slot (metav1_Condition_DeepCopyInto lib) (mtso_Conditions inp) h;
     Some (inp\<lparr>mtso_Capacity := capacity, mtso_Conditions := conds\<rparr>, h)
   }"

definition VerdaMachineTemplate_DeepCopyInto :: "'x copylib \<Rightarrow> ('x VerdaMachineTemplate_obj, 'x cell) copier" where
  "VerdaMachineTemplate_DeepCopyInto lib inp h = do {
     (meta, h) \<leftarrow> metav1_ObjectMeta_DeepCopyInto lib (mto_ObjectMeta inp) h;
     (spec, h) \<leftarrow> VerdaMachineTemplateSpec_DeepCopyInto lib (mto_Spec inp) h;
     (status, h) \<leftarrow> VerdaMachineTemplateStatus_DeepCopyInto lib (mto_Status inp) h;
     Some (inp\<lparr>mto_ObjectMeta := meta, mto_Spec := spec, mto_Status := status\<rparr>, h)
   }"

definition VerdaMachineTemplateList_DeepCopyInto :: "'x copylib \<Rightarrow> ('x VerdaMachineTemplateList, 'x cell) copier" where
  "VerdaMachineTemplateList_DeepCopyInto lib inp h = do {
     (meta, h) \<leftarrow> metav1_ListMeta_DeepCopyInto lib (mtl_ListMeta inp) h;
     (items, h) \<leftarrow> copy_slice VerdaMachineTemplate_slot (VerdaMachineTemplate_DeepCopyInto lib) (mtl_Items inp) h;
     Some (inp\<lparr>mtl_ListMeta := meta, mtl_Items := items\<rparr>, h)
   }"

section \<open>Copies behind a pointer\<close>

definition AdditionalVolume_DeepCopy :: "(ptr, 'x cell) copier" where
  "AdditionalVolume_DeepCopy = copy_ptr AdditionalVolume_slot AdditionalVolume_DeepCopyInto"

definition ControlPlaneLoadBalancer_DeepCopy :: "(ptr, 'x cell) copier" where
  "ControlPlaneLoadBalancer_DeepCopy = copy_ptr ControlPlaneLoadBalancer_slot ControlPlaneLoadBalancer_DeepCopyInto"

definition IdentityReference_DeepCopy :: "(ptr, 'x cell) copier" where
  "IdentityReference_DeepCopy = copy_ptr IdentityReference_slot IdentityReference_DeepCopyInto"

definition LoadBalancerStatus_DeepCopy :: "(ptr, 'x cell) copier" where
  "LoadBalancerStatus_DeepCopy = copy_ptr LoadBalancerStatus_slot LoadBalancerStatus_DeepCopyInto"

definition NodeInfo_DeepCopy :: "(ptr, 'x cell) copier" where
  "NodeInfo_DeepCopy = copy_ptr NodeInfo_slot NodeInfo_DeepCopyInto"

definition VerdaCluster_DeepCopy :: "'x copylib \<Rightarrow> (ptr, 'x cell) copier" where
  "VerdaCluster_DeepCopy lib = copy_ptr VerdaCluster_slot (VerdaCluster_DeepCopyInto lib)"

definition VerdaClusterInitializationStatus_DeepCopy :: "(ptr, 'x cell) copier" where
  "VerdaClusterInitializationStatus_DeepCopy = copy_ptr VerdaClusterInitializationStatus_slot VerdaClusterInitializationStatus_DeepCopyInto"

definition VerdaClusterList_DeepCopy :: "'x copylib \<Rightarrow> (ptr, 'x cell) copier" where
  "VerdaClusterList_DeepCopy lib = copy_ptr VerdaClusterList_slot (VerdaClusterList_DeepCopyInto lib)"

definition VerdaClusterSpec_DeepCopy :: "(ptr, 'x cell) copier" where
  "VerdaClusterSpec_DeepCopy = copy_ptr VerdaClusterSpec_slot VerdaClusterSpec_DeepCopyInto"

definition VerdaClusterStatus_DeepCopy :: "'x copylib \<Rightarrow> (ptr, 'x cell) copier" where
  "VerdaClusterStatus_DeepCopy lib = copy_ptr VerdaClusterStatus_slot (VerdaClusterStatus_DeepCopyInto lib)"

definition VerdaClusterTemplate_DeepCopy :: "'x copylib \<Rightarrow> (ptr, 'x cell) copier" where
  "VerdaClusterTemplate_DeepCopy lib = copy_ptr VerdaClusterTemplate_slot (VerdaClusterTemplate_DeepCopyInto lib)"

definition VerdaClusterTemplateList_DeepCopy :: "'x copylib \<Rightarrow> (ptr, 'x cell) copier" where
  "VerdaClusterTemplateList_DeepCopy lib = copy_ptr VerdaClusterTemplateList_slot (VerdaClusterTemplateList_DeepCopyInto lib)"

definition VerdaClusterTemplateResource_DeepCopy :: "'x copylib \<Rightarrow> (ptr, 'x cell) copier" where
  "VerdaClusterTemplateResource_DeepCopy lib = copy_ptr VerdaClusterTemplateResource_slot (VerdaClusterTemplateResource_DeepCopyInto lib)"

definition VerdaClusterTemplateSpec_DeepCopy :: "'x copylib \<Rightarrow> (ptr, 'x cell) copier" where
  "VerdaClusterTemplateSpec_DeepCopy lib = copy_ptr VerdaClusterTemplateSpec_slot (VerdaClusterTemplateSpec_DeepCopyInto lib)"

definition VerdaMachine_DeepCopy :: "'x copylib \<Rightarrow> (ptr, 'x cell) copier" where
  "VerdaMachine_DeepCopy lib = copy_ptr VerdaMachine_slot (VerdaMachine_DeepCopyInto lib)"

definition VerdaMachineInitializationStatus_DeepCopy :: "(ptr, 'x cell) copier" where
  "VerdaMachineInitializationStatus_DeepCopy = copy_ptr VerdaMachineInitializationStatus_slot VerdaMachineInitializationStatus_DeepCopyInto"

definition VerdaMachineList_DeepCopy :: "'x copylib \<Rightarrow> (ptr, 'x cell) copier" where
  "VerdaMachineList_DeepCopy lib = copy_ptr VerdaMachineList_slot (VerdaMachineList_DeepCopyInto lib)"

definition VerdaMachineSpec_DeepCopy :: "(ptr, 'x cell) copier" where
  "VerdaMachineSpec_DeepCopy = copy_ptr VerdaMachineSpec_slot VerdaMachineSpec_DeepCopyInto"

definition VerdaMachineStatus_DeepCopy :: "'x copylib \<Rightarrow> (ptr, 'x cell) copier" where
  "VerdaMachineStatus_DeepCopy lib = copy_ptr VerdaMachineStatus_slot (VerdaMachineStatus_DeepCopyInto lib)"

definition VerdaMachineTemplate_DeepCopy :: "'x copylib \<Rightarrow> (ptr, 'x cell) copier" where
  "VerdaMachineTemplate_DeepCopy lib = copy_ptr VerdaMachineTemplate_slot (VerdaMachineTemplate_DeepCopyInto lib)"

definition VerdaMachineTemplateList_DeepCopy :: "'x copylib \<Rightarrow> (ptr, 'x cell) copier" where
  "VerdaMachineTemplateList_DeepCopy lib = copy_ptr VerdaMachineTemplateList_slot (VerdaMachineTemplateList_DeepCopyInto lib)"

definition VerdaMachineTemplateResource_DeepCopy :: "'x copylib \<Rightarrow> (ptr, 'x cell) copier" where
  "VerdaMachineTemplateResource_DeepCopy lib = copy_ptr VerdaMachineTemplateResource_slot (VerdaMachineTemplateResource_DeepCopyInto lib)"

definition VerdaMachineTemplateSpec_DeepCopy :: "'x copylib \<Rightarrow> (ptr, 'x cell) copier" where
  "VerdaMachineTemplateSpec_DeepCopy lib = copy_ptr VerdaMachineTemplateSpec_slot (VerdaMachineTemplateSpec_DeepCopyInto lib)"

definition VerdaMachineTemplateStatus_DeepCopy :: "'x copylib \<Rightarrow> (ptr, 'x cell) copier" where
  "VerdaMachineTemplateStatus_DeepCopy lib = copy_ptr VerdaMachineTemplateStatus_slot (VerdaMachineTemplateStatus_DeepCopyInto lib)"

text \<open>
  A \<^verbatim>\<open>runtime.Object\<close> that is not nil: the dynamic type and the pointer, which may be nil. The
  result of \<^verbatim>\<open>DeepCopyObject\<close> is nil, the interface value, for a nil pointer.
\<close>

datatype runtime_Object =
    VerdaCluster_Object ptr
  | VerdaClusterList_Object ptr
  | VerdaClusterTemplate_Object ptr
  | VerdaClusterTemplateList_Object ptr
  | VerdaMachine_Object ptr
  | VerdaMachineList_Object ptr
  | VerdaMachineTemplate_Object ptr
  | VerdaMachineTemplateList_Object ptr

definition as_object :: "(ptr \<Rightarrow> runtime_Object) \<Rightarrow> (ptr \<times> 'c heap) option \<Rightarrow> (runtime_Object option \<times> 'c heap) option" where
  "as_object dyn run = do {
     (c, h) \<leftarrow> run;
     if c \<noteq> None then Some (Some (dyn c), h) else Some (None, h)
   }"

definition VerdaCluster_DeepCopyObject :: "'x copylib \<Rightarrow> ptr \<Rightarrow> 'x cell heap \<Rightarrow> (runtime_Object option \<times> 'x cell heap) option" where
  "VerdaCluster_DeepCopyObject lib inp h = as_object VerdaCluster_Object (VerdaCluster_DeepCopy lib inp h)"

definition VerdaClusterList_DeepCopyObject :: "'x copylib \<Rightarrow> ptr \<Rightarrow> 'x cell heap \<Rightarrow> (runtime_Object option \<times> 'x cell heap) option" where
  "VerdaClusterList_DeepCopyObject lib inp h = as_object VerdaClusterList_Object (VerdaClusterList_DeepCopy lib inp h)"

definition VerdaClusterTemplate_DeepCopyObject :: "'x copylib \<Rightarrow> ptr \<Rightarrow> 'x cell heap \<Rightarrow> (runtime_Object option \<times> 'x cell heap) option" where
  "VerdaClusterTemplate_DeepCopyObject lib inp h = as_object VerdaClusterTemplate_Object (VerdaClusterTemplate_DeepCopy lib inp h)"

definition VerdaClusterTemplateList_DeepCopyObject :: "'x copylib \<Rightarrow> ptr \<Rightarrow> 'x cell heap \<Rightarrow> (runtime_Object option \<times> 'x cell heap) option" where
  "VerdaClusterTemplateList_DeepCopyObject lib inp h = as_object VerdaClusterTemplateList_Object (VerdaClusterTemplateList_DeepCopy lib inp h)"

definition VerdaMachine_DeepCopyObject :: "'x copylib \<Rightarrow> ptr \<Rightarrow> 'x cell heap \<Rightarrow> (runtime_Object option \<times> 'x cell heap) option" where
  "VerdaMachine_DeepCopyObject lib inp h = as_object VerdaMachine_Object (VerdaMachine_DeepCopy lib inp h)"

definition VerdaMachineList_DeepCopyObject :: "'x copylib \<Rightarrow> ptr \<Rightarrow> 'x cell heap \<Rightarrow> (runtime_Object option \<times> 'x cell heap) option" where
  "VerdaMachineList_DeepCopyObject lib inp h = as_object VerdaMachineList_Object (VerdaMachineList_DeepCopy lib inp h)"

definition VerdaMachineTemplate_DeepCopyObject :: "'x copylib \<Rightarrow> ptr \<Rightarrow> 'x cell heap \<Rightarrow> (runtime_Object option \<times> 'x cell heap) option" where
  "VerdaMachineTemplate_DeepCopyObject lib inp h = as_object VerdaMachineTemplate_Object (VerdaMachineTemplate_DeepCopy lib inp h)"

definition VerdaMachineTemplateList_DeepCopyObject :: "'x copylib \<Rightarrow> ptr \<Rightarrow> 'x cell heap \<Rightarrow> (runtime_Object option \<times> 'x cell heap) option" where
  "VerdaMachineTemplateList_DeepCopyObject lib inp h = as_object VerdaMachineTemplateList_Object (VerdaMachineTemplateList_DeepCopy lib inp h)"

text \<open>The call of the method through the interface.\<close>

fun DeepCopyObject :: "'x copylib \<Rightarrow> runtime_Object \<Rightarrow> 'x cell heap \<Rightarrow> (runtime_Object option \<times> 'x cell heap) option" where
  "DeepCopyObject lib (VerdaCluster_Object p) h = VerdaCluster_DeepCopyObject lib p h"
| "DeepCopyObject lib (VerdaClusterList_Object p) h = VerdaClusterList_DeepCopyObject lib p h"
| "DeepCopyObject lib (VerdaClusterTemplate_Object p) h = VerdaClusterTemplate_DeepCopyObject lib p h"
| "DeepCopyObject lib (VerdaClusterTemplateList_Object p) h = VerdaClusterTemplateList_DeepCopyObject lib p h"
| "DeepCopyObject lib (VerdaMachine_Object p) h = VerdaMachine_DeepCopyObject lib p h"
| "DeepCopyObject lib (VerdaMachineList_Object p) h = VerdaMachineList_DeepCopyObject lib p h"
| "DeepCopyObject lib (VerdaMachineTemplate_Object p) h = VerdaMachineTemplate_DeepCopyObject lib p h"
| "DeepCopyObject lib (VerdaMachineTemplateList_Object p) h = VerdaMachineTemplateList_DeepCopyObject lib p h"

end
