(* ===== verification/DeepCopyProps.thy ===== *)
theory DeepCopyProps
  imports DeepCopy
begin

text \<open>
  What the structs in memory stand for, that every generated copy is a deep copy, and with it that
  the controllers may be modelled on values: a copy has the value of the original, and no write to
  the one is seen through the other.
\<close>

section \<open>Meaning\<close>

text \<open>\<^verbatim>\<open>metav1.ListMeta\<close>.\<close>

record ListMeta =
  lm_SelfLink :: string
  lm_ResourceVersion :: string
  lm_Continue :: string
  lm_RemainingItemCount :: "int option"

text \<open>What the structs of other packages stand for; the metadata of a template has labels and annotations.\<close>

record 'x meaning =
  ObjectMeta_of :: "('x, 'x cell, ObjectMeta) reader"
  ListMeta_of :: "('x, 'x cell, ListMeta) reader"
  Condition_of :: "('x, 'x cell, Condition) reader"
  TemplateMeta_of :: "('x, 'x cell, gomap \<times> gomap) reader"
  FailureDomain_of :: "('x, 'x cell, string \<times> bool option) reader"
  Quantity_of :: "('x, 'x cell, Quantity) reader"

definition ControlPlaneLoadBalancer_read :: "(ControlPlaneLoadBalancer_obj, 'x cell, ControlPlaneLoadBalancer) reader" where
  "ControlPlaneLoadBalancer_read m x = do {
     enabled \<leftarrow> read_ptr bool_slot (flat id) m (lbo_Enabled x);
     keys \<leftarrow> read_slice string_slot (flat id) m (lbo_SSHKeyIDs x);
     Some \<lparr>lb_Enabled = enabled, lb_InstanceType = lbo_InstanceType x, lb_Image = lbo_Image x, lb_SSHKeyIDs = keys\<rparr>
   }"

definition LoadBalancerStatus_read :: "(LoadBalancerStatus_obj, 'x cell, LoadBalancerStatus) reader" where
  "LoadBalancerStatus_read m x = do {
     backends \<leftarrow> read_slice string_slot (flat id) m (lso_Backends x);
     published \<leftarrow> read_ptr bool_slot (flat id) m (lso_SecretPublished x);
     Some \<lparr>ls_InstanceID = lso_InstanceID x, ls_StartupScriptID = lso_StartupScriptID x, ls_Address = lso_Address x,
       ls_Backends = elems backends, ls_SecretPublished = published\<rparr>
   }"

definition VerdaClusterInitializationStatus_read :: "(VerdaClusterInitializationStatus, 'x cell, bool option) reader" where
  "VerdaClusterInitializationStatus_read m x = read_ptr bool_slot (flat id) m (cio_Provisioned x)"

definition VerdaClusterSpec_read :: "(VerdaClusterSpec_obj, 'x cell, VerdaClusterSpec) reader" where
  "VerdaClusterSpec_read m x = do {
     ident \<leftarrow> read_ptr IdentityReference_slot (flat ir_Name) m (cso_IdentityRef x);
     lb \<leftarrow> ControlPlaneLoadBalancer_read m (cso_ControlPlaneLoadBalancer x);
     slb \<leftarrow> ControlPlaneLoadBalancer_read m (cso_ServiceLoadBalancer x);
     Some \<lparr>cs_Location = cso_Location x, cs_ControlPlaneEndpoint = cso_ControlPlaneEndpoint x, cs_IdentityRef = ident,
       cs_ControlPlaneLoadBalancer = lb, cs_ServiceLoadBalancer = slb\<rparr>
   }"

definition VerdaClusterStatus_read :: "'x meaning \<Rightarrow> (VerdaClusterStatus_obj, 'x cell, VerdaClusterStatus) reader" where
  "VerdaClusterStatus_read M m x = do {
     init \<leftarrow> VerdaClusterInitializationStatus_read m (csto_Initialization x);
     conds \<leftarrow> read_slice foreign_slot (Condition_of M) m (csto_Conditions x);
     lb \<leftarrow> LoadBalancerStatus_read m (csto_LoadBalancer x);
     slb \<leftarrow> LoadBalancerStatus_read m (csto_ServiceLoadBalancer x);
     domains \<leftarrow> read_slice foreign_slot (FailureDomain_of M) m (csto_FailureDomains x);
     Some \<lparr>cst_Provisioned = init, cst_Conditions = elems conds, cst_LoadBalancer = lb, cst_ServiceLoadBalancer = slb,
       cst_FailureDomains = elems domains\<rparr>
   }"

definition VerdaCluster_read :: "'x meaning \<Rightarrow> ('x VerdaCluster_obj, 'x cell, VerdaCluster) reader" where
  "VerdaCluster_read M m x = do {
     meta \<leftarrow> ObjectMeta_of M m (vco_ObjectMeta x);
     spec \<leftarrow> VerdaClusterSpec_read m (vco_Spec x);
     status \<leftarrow> VerdaClusterStatus_read M m (vco_Status x);
     Some \<lparr>vc_Kind = tm_Kind (vco_TypeMeta x), vc_Meta = meta, vc_Spec = spec, vc_Status = status\<rparr>
   }"

definition VerdaClusterList_read :: "'x meaning \<Rightarrow> ('x VerdaClusterList, 'x cell, ListMeta \<times> VerdaCluster goslice) reader" where
  "VerdaClusterList_read M m x = do {
     meta \<leftarrow> ListMeta_of M m (vcl_ListMeta x);
     items \<leftarrow> read_slice VerdaCluster_slot (VerdaCluster_read M) m (vcl_Items x);
     Some (meta, items)
   }"

definition VerdaClusterTemplateResource_read ::
    "'x meaning \<Rightarrow> ('x VerdaClusterTemplateResource, 'x cell, (gomap \<times> gomap) \<times> VerdaClusterSpec) reader" where
  "VerdaClusterTemplateResource_read M m x = do {
     meta \<leftarrow> TemplateMeta_of M m (ctr_ObjectMeta x);
     spec \<leftarrow> VerdaClusterSpec_read m (ctr_Spec x);
     Some (meta, spec)
   }"

definition VerdaClusterTemplateSpec_read ::
    "'x meaning \<Rightarrow> ('x VerdaClusterTemplateSpec, 'x cell, (gomap \<times> gomap) \<times> VerdaClusterSpec) reader" where
  "VerdaClusterTemplateSpec_read M m x = VerdaClusterTemplateResource_read M m (cts_Template x)"

definition VerdaClusterTemplate_read ::
    "'x meaning \<Rightarrow> ('x VerdaClusterTemplate_obj, 'x cell, (gomap \<times> gomap) \<times> VerdaClusterTemplate) reader" where
  "VerdaClusterTemplate_read M m x = do {
     meta \<leftarrow> ObjectMeta_of M m (cto_ObjectMeta x);
     (tmeta, spec) \<leftarrow> VerdaClusterTemplateSpec_read M m (cto_Spec x);
     Some (tmeta, \<lparr>ct_Kind = tm_Kind (cto_TypeMeta x), ct_Meta = meta, ct_Spec = spec\<rparr>)
   }"

definition VerdaClusterTemplateList_read :: "'x meaning \<Rightarrow>
    ('x VerdaClusterTemplateList, 'x cell, ListMeta \<times> ((gomap \<times> gomap) \<times> VerdaClusterTemplate) goslice) reader" where
  "VerdaClusterTemplateList_read M m x = do {
     meta \<leftarrow> ListMeta_of M m (ctl_ListMeta x);
     items \<leftarrow> read_slice VerdaClusterTemplate_slot (VerdaClusterTemplate_read M) m (ctl_Items x);
     Some (meta, items)
   }"

definition VerdaMachineInitializationStatus_read :: "(VerdaMachineInitializationStatus, 'x cell, bool option) reader" where
  "VerdaMachineInitializationStatus_read m x = read_ptr bool_slot (flat id) m (mio_Provisioned x)"

definition VerdaMachineSpec_read :: "(VerdaMachineSpec_obj, 'x cell, VerdaMachineSpec) reader" where
  "VerdaMachineSpec_read m x = do {
     keys \<leftarrow> read_slice string_slot (flat id) m (mso_SSHKeyIDs x);
     spot \<leftarrow> read_ptr bool_slot (flat id) m (mso_Spot x);
     vols \<leftarrow> read_slice AdditionalVolume_slot (flat id) m (mso_AdditionalVolumes x);
     Some \<lparr>ms_ProviderID = mso_ProviderID x, ms_InstanceType = mso_InstanceType x, ms_Image = mso_Image x,
       ms_OSVolumeID = mso_OSVolumeID x, ms_SSHKeyIDs = keys, ms_OSVolumeSizeGB = mso_OSVolumeSizeGB x, ms_Contract = mso_Contract x,
       ms_Spot = spot, ms_SpotDiscontinuePolicy = mso_SpotDiscontinuePolicy x, ms_AdditionalVolumes = vols\<rparr>
   }"

definition VerdaMachineStatus_read :: "'x meaning \<Rightarrow> (VerdaMachineStatus_obj, 'x cell, VerdaMachineStatus) reader" where
  "VerdaMachineStatus_read M m x = do {
     init \<leftarrow> VerdaMachineInitializationStatus_read m (msto_Initialization x);
     conds \<leftarrow> read_slice foreign_slot (Condition_of M) m (msto_Conditions x);
     addresses \<leftarrow> read_slice MachineAddress_slot (flat id) m (msto_Addresses x);
     Some \<lparr>mst_Provisioned = init, mst_Conditions = elems conds, mst_Addresses = elems addresses,
       mst_FailureDomain = msto_FailureDomain x, mst_InstanceID = msto_InstanceID x, mst_InstanceState = msto_InstanceState x,
       mst_OSVolumeID = msto_OSVolumeID x, mst_StartupScriptID = msto_StartupScriptID x\<rparr>
   }"

definition VerdaMachine_read :: "'x meaning \<Rightarrow> ('x VerdaMachine_obj, 'x cell, VerdaMachine) reader" where
  "VerdaMachine_read M m x = do {
     meta \<leftarrow> ObjectMeta_of M m (vmo_ObjectMeta x);
     spec \<leftarrow> VerdaMachineSpec_read m (vmo_Spec x);
     status \<leftarrow> VerdaMachineStatus_read M m (vmo_Status x);
     Some \<lparr>vm_Kind = tm_Kind (vmo_TypeMeta x), vm_Meta = meta, vm_Spec = spec, vm_Status = status\<rparr>
   }"

definition VerdaMachineList_read :: "'x meaning \<Rightarrow> ('x VerdaMachineList, 'x cell, ListMeta \<times> VerdaMachine goslice) reader" where
  "VerdaMachineList_read M m x = do {
     meta \<leftarrow> ListMeta_of M m (vml_ListMeta x);
     items \<leftarrow> read_slice VerdaMachine_slot (VerdaMachine_read M) m (vml_Items x);
     Some (meta, items)
   }"

definition VerdaMachineTemplateResource_read ::
    "'x meaning \<Rightarrow> ('x VerdaMachineTemplateResource, 'x cell, (gomap \<times> gomap) \<times> VerdaMachineSpec) reader" where
  "VerdaMachineTemplateResource_read M m x = do {
     meta \<leftarrow> TemplateMeta_of M m (mtr_ObjectMeta x);
     spec \<leftarrow> VerdaMachineSpec_read m (mtr_Spec x);
     Some (meta, spec)
   }"

definition VerdaMachineTemplateSpec_read ::
    "'x meaning \<Rightarrow> ('x VerdaMachineTemplateSpec, 'x cell, (gomap \<times> gomap) \<times> VerdaMachineSpec) reader" where
  "VerdaMachineTemplateSpec_read M m x = VerdaMachineTemplateResource_read M m (mts_Template x)"

definition VerdaMachineTemplateStatus_read ::
    "'x meaning \<Rightarrow> (VerdaMachineTemplateStatus_obj, 'x cell, VerdaMachineTemplateStatus) reader" where
  "VerdaMachineTemplateStatus_read M m x = do {
     capacity \<leftarrow> read_map ResourceList_slot (Quantity_of M) m (mtso_Capacity x);
     conds \<leftarrow> read_slice foreign_slot (Condition_of M) m (mtso_Conditions x);
     Some \<lparr>mtst_Capacity = elems capacity, mtst_NodeInfo = mtso_NodeInfo x, mtst_Conditions = elems conds\<rparr>
   }"

definition VerdaMachineTemplate_read ::
    "'x meaning \<Rightarrow> ('x VerdaMachineTemplate_obj, 'x cell, (gomap \<times> gomap) \<times> VerdaMachineTemplate) reader" where
  "VerdaMachineTemplate_read M m x = do {
     meta \<leftarrow> ObjectMeta_of M m (mto_ObjectMeta x);
     (tmeta, spec) \<leftarrow> VerdaMachineTemplateSpec_read M m (mto_Spec x);
     status \<leftarrow> VerdaMachineTemplateStatus_read M m (mto_Status x);
     Some (tmeta, \<lparr>mt_Kind = tm_Kind (mto_TypeMeta x), mt_Meta = meta, mt_Spec = spec, mt_Status = status\<rparr>)
   }"

definition VerdaMachineTemplateList_read :: "'x meaning \<Rightarrow>
    ('x VerdaMachineTemplateList, 'x cell, ListMeta \<times> ((gomap \<times> gomap) \<times> VerdaMachineTemplate) goslice) reader" where
  "VerdaMachineTemplateList_read M m x = do {
     meta \<leftarrow> ListMeta_of M m (mtl_ListMeta x);
     items \<leftarrow> read_slice VerdaMachineTemplate_slot (VerdaMachineTemplate_read M) m (mtl_Items x);
     Some (meta, items)
   }"

section \<open>Every copy is a deep copy\<close>

text \<open>What the copies of other packages promise.\<close>

definition copylib_ok :: "'x copylib \<Rightarrow> 'x meaning \<Rightarrow> bool" where
  "copylib_ok lib M =
     (deep_copy (metav1_ObjectMeta_DeepCopyInto lib) (ObjectMeta_of M) \<and>
      deep_copy (metav1_ListMeta_DeepCopyInto lib) (ListMeta_of M) \<and>
      deep_copy (metav1_Condition_DeepCopyInto lib) (Condition_of M) \<and>
      deep_copy (clusterv1_ObjectMeta_DeepCopyInto lib) (TemplateMeta_of M) \<and>
      deep_copy (clusterv1_FailureDomain_DeepCopyInto lib) (FailureDomain_of M) \<and>
      deep_copy (resource_Quantity_DeepCopy lib) (Quantity_of M))"

lemmas slot_defs = bool_slot_def string_slot_def MachineAddress_slot_def ResourceList_slot_def foreign_slot_def
  IdentityReference_slot_def AdditionalVolume_slot_def VerdaCluster_slot_def VerdaClusterTemplate_slot_def
  VerdaMachine_slot_def VerdaMachineTemplate_slot_def VerdaClusterList_slot_def VerdaClusterTemplateList_slot_def
  VerdaMachineList_slot_def VerdaMachineTemplateList_slot_def

lemma slots_storable:
  "storable bool_slot" "storable string_slot" "storable MachineAddress_slot" "storable ResourceList_slot" "storable foreign_slot"
  "storable IdentityReference_slot" "storable AdditionalVolume_slot" "storable VerdaCluster_slot" "storable VerdaClusterTemplate_slot"
  "storable VerdaMachine_slot" "storable VerdaMachineTemplate_slot" "storable VerdaClusterList_slot"
  "storable VerdaClusterTemplateList_slot" "storable VerdaMachineList_slot" "storable VerdaMachineTemplateList_slot"
  by (simp_all add: storable_def slot_defs)

interpretation bools: copied_slot bool_slot assign "flat id"
  by (intro copied_slot.intro slots_storable deep_copy_assign)

interpretation strings: copied_slot string_slot assign "flat id"
  by (intro copied_slot.intro slots_storable deep_copy_assign)

interpretation addresses: copied_slot MachineAddress_slot assign "flat id"
  by (intro copied_slot.intro slots_storable deep_copy_assign)

interpretation volumes: copied_slot AdditionalVolume_slot assign "flat id"
  by (intro copied_slot.intro slots_storable deep_copy_assign)

interpretation identities: copied_slot IdentityReference_slot assign "flat ir_Name"
  by (intro copied_slot.intro slots_storable deep_copy_assign)

text \<open>A map of resources whose quantities are plain values; \<open>copylibD\<close> has the general case.\<close>

interpretation resources: copied_map ResourceList_slot assign "flat id"
  by (intro copied_map.intro slots_storable deep_copy_assign)

lemmas struct_simps = copy_pair_def read_pair_def map_option_bind Option.bind_map_option comp_def case_prod_unfold

interpretation lb: deep_copy ControlPlaneLoadBalancer_DeepCopyInto ControlPlaneLoadBalancer_read
  by (rule deep_copy_struct [where get = "\<lambda>x. (lbo_Enabled x, lbo_SSHKeyIDs x)"
        and put = "\<lambda>x (e, k). x\<lparr>lbo_Enabled := e, lbo_SSHKeyIDs := k\<rparr>"
        and g = "\<lambda>x (e, k). \<lparr>lb_Enabled = e, lb_InstanceType = lbo_InstanceType x, lb_Image = lbo_Image x, lb_SSHKeyIDs = k\<rparr>",
      OF deep_copy_pair [OF bools.ptrs.deep_copy_axioms strings.slices.deep_copy_axioms]])
    (auto simp: ControlPlaneLoadBalancer_DeepCopyInto_def ControlPlaneLoadBalancer_read_def struct_simps)

interpretation lbs: deep_copy LoadBalancerStatus_DeepCopyInto LoadBalancerStatus_read
  by (rule deep_copy_struct [where get = "\<lambda>x. (lso_Backends x, lso_SecretPublished x)"
        and put = "\<lambda>x (b, p). x\<lparr>lso_Backends := b, lso_SecretPublished := p\<rparr>"
        and g = "\<lambda>x (b, p). \<lparr>ls_InstanceID = lso_InstanceID x, ls_StartupScriptID = lso_StartupScriptID x,
          ls_Address = lso_Address x, ls_Backends = elems b, ls_SecretPublished = p\<rparr>",
      OF deep_copy_pair [OF strings.slices.deep_copy_axioms bools.ptrs.deep_copy_axioms]])
    (auto simp: LoadBalancerStatus_DeepCopyInto_def LoadBalancerStatus_read_def struct_simps)

interpretation cinit: deep_copy VerdaClusterInitializationStatus_DeepCopyInto VerdaClusterInitializationStatus_read
  by (rule deep_copy_struct [where get = cio_Provisioned and put = "\<lambda>x p. x\<lparr>cio_Provisioned := p\<rparr>" and g = "\<lambda>x. id",
      OF bools.ptrs.deep_copy_axioms])
    (auto simp: VerdaClusterInitializationStatus_DeepCopyInto_def VerdaClusterInitializationStatus_read_def struct_simps map_conv_bind_option)

interpretation minit: deep_copy VerdaMachineInitializationStatus_DeepCopyInto VerdaMachineInitializationStatus_read
  by (rule deep_copy_struct [where get = mio_Provisioned and put = "\<lambda>x p. x\<lparr>mio_Provisioned := p\<rparr>" and g = "\<lambda>x. id",
      OF bools.ptrs.deep_copy_axioms])
    (auto simp: VerdaMachineInitializationStatus_DeepCopyInto_def VerdaMachineInitializationStatus_read_def struct_simps map_conv_bind_option)

interpretation cspec: deep_copy VerdaClusterSpec_DeepCopyInto VerdaClusterSpec_read
  by (rule deep_copy_struct [where get = "\<lambda>x. (cso_IdentityRef x, cso_ControlPlaneLoadBalancer x, cso_ServiceLoadBalancer x)"
        and put = "\<lambda>x (i, l, s). x\<lparr>cso_IdentityRef := i, cso_ControlPlaneLoadBalancer := l, cso_ServiceLoadBalancer := s\<rparr>"
        and g = "\<lambda>x (i, l, s). \<lparr>cs_Location = cso_Location x, cs_ControlPlaneEndpoint = cso_ControlPlaneEndpoint x, cs_IdentityRef = i,
          cs_ControlPlaneLoadBalancer = l, cs_ServiceLoadBalancer = s\<rparr>",
      OF deep_copy_pair [OF identities.ptrs.deep_copy_axioms deep_copy_pair [OF lb.deep_copy_axioms lb.deep_copy_axioms]]])
    (auto simp: VerdaClusterSpec_DeepCopyInto_def VerdaClusterSpec_read_def struct_simps)

interpretation mspec: deep_copy VerdaMachineSpec_DeepCopyInto VerdaMachineSpec_read
  by (rule deep_copy_struct [where get = "\<lambda>x. (mso_SSHKeyIDs x, mso_Spot x, mso_AdditionalVolumes x)"
        and put = "\<lambda>x (k, s, v). x\<lparr>mso_SSHKeyIDs := k, mso_Spot := s, mso_AdditionalVolumes := v\<rparr>"
        and g = "\<lambda>x (k, s, v). \<lparr>ms_ProviderID = mso_ProviderID x, ms_InstanceType = mso_InstanceType x, ms_Image = mso_Image x,
          ms_OSVolumeID = mso_OSVolumeID x, ms_SSHKeyIDs = k, ms_OSVolumeSizeGB = mso_OSVolumeSizeGB x, ms_Contract = mso_Contract x,
          ms_Spot = s, ms_SpotDiscontinuePolicy = mso_SpotDiscontinuePolicy x, ms_AdditionalVolumes = v\<rparr>",
      OF deep_copy_pair [OF strings.slices.deep_copy_axioms deep_copy_pair [OF bools.ptrs.deep_copy_axioms volumes.slices.deep_copy_axioms]]])
    (auto simp: VerdaMachineSpec_DeepCopyInto_def VerdaMachineSpec_read_def struct_simps)

lemma copylibD:
  assumes "copylib_ok lib M"
  shows "deep_copy (metav1_ObjectMeta_DeepCopyInto lib) (ObjectMeta_of M)" "deep_copy (metav1_ListMeta_DeepCopyInto lib) (ListMeta_of M)"
    "deep_copy (clusterv1_ObjectMeta_DeepCopyInto lib) (TemplateMeta_of M)"
    "deep_copy (copy_slice foreign_slot (metav1_Condition_DeepCopyInto lib)) (read_slice foreign_slot (Condition_of M))"
    "deep_copy (copy_slice foreign_slot (clusterv1_FailureDomain_DeepCopyInto lib)) (read_slice foreign_slot (FailureDomain_of M))"
    "deep_copy (copy_map ResourceList_slot (resource_Quantity_DeepCopy lib)) (read_map ResourceList_slot (Quantity_of M))"
  using assms by (simp_all add: copylib_ok_def deep_copy_slice deep_copy_map slots_storable)

lemma VerdaClusterStatus_deep:
  assumes "copylib_ok lib M"
  shows "deep_copy (VerdaClusterStatus_DeepCopyInto lib) (VerdaClusterStatus_read M)"
  by (rule deep_copy_struct [where
        get = "\<lambda>x. (csto_Initialization x, csto_Conditions x, csto_LoadBalancer x, csto_ServiceLoadBalancer x, csto_FailureDomains x)"
        and put = "\<lambda>x (i, c, l, s, f). x\<lparr>csto_Initialization := i, csto_Conditions := c, csto_LoadBalancer := l,
          csto_ServiceLoadBalancer := s, csto_FailureDomains := f\<rparr>"
        and g = "\<lambda>x (i, c, l, s, f). \<lparr>cst_Provisioned = i, cst_Conditions = elems c, cst_LoadBalancer = l,
          cst_ServiceLoadBalancer = s, cst_FailureDomains = elems f\<rparr>",
      OF deep_copy_pair [OF cinit.deep_copy_axioms deep_copy_pair [OF copylibD(4) [OF assms] deep_copy_pair [OF lbs.deep_copy_axioms
        deep_copy_pair [OF lbs.deep_copy_axioms copylibD(5) [OF assms]]]]]])
    (auto simp: VerdaClusterStatus_DeepCopyInto_def VerdaClusterStatus_read_def struct_simps)

lemma VerdaCluster_deep:
  assumes "copylib_ok lib M"
  shows "deep_copy (VerdaCluster_DeepCopyInto lib) (VerdaCluster_read M)"
  by (rule deep_copy_struct [where get = "\<lambda>x. (vco_ObjectMeta x, vco_Spec x, vco_Status x)"
        and put = "\<lambda>x (m, s, t). x\<lparr>vco_ObjectMeta := m, vco_Spec := s, vco_Status := t\<rparr>"
        and g = "\<lambda>x (m, s, t). \<lparr>vc_Kind = tm_Kind (vco_TypeMeta x), vc_Meta = m, vc_Spec = s, vc_Status = t\<rparr>",
      OF deep_copy_pair [OF copylibD(1) [OF assms] deep_copy_pair [OF cspec.deep_copy_axioms VerdaClusterStatus_deep [OF assms]]]])
    (auto simp: VerdaCluster_DeepCopyInto_def VerdaCluster_read_def struct_simps)

lemma VerdaClusterList_deep:
  assumes "copylib_ok lib M"
  shows "deep_copy (VerdaClusterList_DeepCopyInto lib) (VerdaClusterList_read M)"
  by (rule deep_copy_struct [where get = "\<lambda>x. (vcl_ListMeta x, vcl_Items x)" and g = "\<lambda>x. id"
        and put = "\<lambda>x (m, i). x\<lparr>vcl_ListMeta := m, vcl_Items := i\<rparr>",
      OF deep_copy_pair [OF copylibD(2) [OF assms] deep_copy_slice [OF slots_storable(8) VerdaCluster_deep [OF assms]]]])
    (auto simp: VerdaClusterList_DeepCopyInto_def VerdaClusterList_read_def struct_simps option.map_id)

lemma VerdaClusterTemplateResource_deep:
  assumes "copylib_ok lib M"
  shows "deep_copy (VerdaClusterTemplateResource_DeepCopyInto lib) (VerdaClusterTemplateResource_read M)"
  by (rule deep_copy_struct [where get = "\<lambda>x. (ctr_ObjectMeta x, ctr_Spec x)" and g = "\<lambda>x. id"
        and put = "\<lambda>x (m, s). x\<lparr>ctr_ObjectMeta := m, ctr_Spec := s\<rparr>",
      OF deep_copy_pair [OF copylibD(3) [OF assms] cspec.deep_copy_axioms]])
    (auto simp: VerdaClusterTemplateResource_DeepCopyInto_def VerdaClusterTemplateResource_read_def struct_simps option.map_id)

lemma VerdaClusterTemplateSpec_deep:
  assumes "copylib_ok lib M"
  shows "deep_copy (VerdaClusterTemplateSpec_DeepCopyInto lib) (VerdaClusterTemplateSpec_read M)"
  by (rule deep_copy_struct [where get = cts_Template and g = "\<lambda>x. id" and put = "\<lambda>x t. x\<lparr>cts_Template := t\<rparr>",
      OF VerdaClusterTemplateResource_deep [OF assms]])
    (auto simp: VerdaClusterTemplateSpec_DeepCopyInto_def VerdaClusterTemplateSpec_read_def struct_simps map_conv_bind_option)

lemma VerdaClusterTemplate_deep:
  assumes "copylib_ok lib M"
  shows "deep_copy (VerdaClusterTemplate_DeepCopyInto lib) (VerdaClusterTemplate_read M)"
  by (rule deep_copy_struct [where get = "\<lambda>x. (cto_ObjectMeta x, cto_Spec x)"
        and put = "\<lambda>x (m, s). x\<lparr>cto_ObjectMeta := m, cto_Spec := s\<rparr>"
        and g = "\<lambda>x (m, t, s). (t, \<lparr>ct_Kind = tm_Kind (cto_TypeMeta x), ct_Meta = m, ct_Spec = s\<rparr>)",
      OF deep_copy_pair [OF copylibD(1) [OF assms] VerdaClusterTemplateSpec_deep [OF assms]]])
    (auto simp: VerdaClusterTemplate_DeepCopyInto_def VerdaClusterTemplate_read_def struct_simps)

lemma VerdaClusterTemplateList_deep:
  assumes "copylib_ok lib M"
  shows "deep_copy (VerdaClusterTemplateList_DeepCopyInto lib) (VerdaClusterTemplateList_read M)"
  by (rule deep_copy_struct [where get = "\<lambda>x. (ctl_ListMeta x, ctl_Items x)" and g = "\<lambda>x. id"
        and put = "\<lambda>x (m, i). x\<lparr>ctl_ListMeta := m, ctl_Items := i\<rparr>",
      OF deep_copy_pair [OF copylibD(2) [OF assms] deep_copy_slice [OF slots_storable(9) VerdaClusterTemplate_deep [OF assms]]]])
    (auto simp: VerdaClusterTemplateList_DeepCopyInto_def VerdaClusterTemplateList_read_def struct_simps option.map_id)

lemma VerdaMachineStatus_deep:
  assumes "copylib_ok lib M"
  shows "deep_copy (VerdaMachineStatus_DeepCopyInto lib) (VerdaMachineStatus_read M)"
  by (rule deep_copy_struct [where get = "\<lambda>x. (msto_Initialization x, msto_Conditions x, msto_Addresses x)"
        and put = "\<lambda>x (i, c, a). x\<lparr>msto_Initialization := i, msto_Conditions := c, msto_Addresses := a\<rparr>"
        and g = "\<lambda>x (i, c, a). \<lparr>mst_Provisioned = i, mst_Conditions = elems c, mst_Addresses = elems a,
          mst_FailureDomain = msto_FailureDomain x, mst_InstanceID = msto_InstanceID x, mst_InstanceState = msto_InstanceState x,
          mst_OSVolumeID = msto_OSVolumeID x, mst_StartupScriptID = msto_StartupScriptID x\<rparr>",
      OF deep_copy_pair [OF minit.deep_copy_axioms deep_copy_pair [OF copylibD(4) [OF assms] addresses.slices.deep_copy_axioms]]])
    (auto simp: VerdaMachineStatus_DeepCopyInto_def VerdaMachineStatus_read_def struct_simps)

lemma VerdaMachine_deep:
  assumes "copylib_ok lib M"
  shows "deep_copy (VerdaMachine_DeepCopyInto lib) (VerdaMachine_read M)"
  by (rule deep_copy_struct [where get = "\<lambda>x. (vmo_ObjectMeta x, vmo_Spec x, vmo_Status x)"
        and put = "\<lambda>x (m, s, t). x\<lparr>vmo_ObjectMeta := m, vmo_Spec := s, vmo_Status := t\<rparr>"
        and g = "\<lambda>x (m, s, t). \<lparr>vm_Kind = tm_Kind (vmo_TypeMeta x), vm_Meta = m, vm_Spec = s, vm_Status = t\<rparr>",
      OF deep_copy_pair [OF copylibD(1) [OF assms] deep_copy_pair [OF mspec.deep_copy_axioms VerdaMachineStatus_deep [OF assms]]]])
    (auto simp: VerdaMachine_DeepCopyInto_def VerdaMachine_read_def struct_simps)

lemma VerdaMachineList_deep:
  assumes "copylib_ok lib M"
  shows "deep_copy (VerdaMachineList_DeepCopyInto lib) (VerdaMachineList_read M)"
  by (rule deep_copy_struct [where get = "\<lambda>x. (vml_ListMeta x, vml_Items x)" and g = "\<lambda>x. id"
        and put = "\<lambda>x (m, i). x\<lparr>vml_ListMeta := m, vml_Items := i\<rparr>",
      OF deep_copy_pair [OF copylibD(2) [OF assms] deep_copy_slice [OF slots_storable(10) VerdaMachine_deep [OF assms]]]])
    (auto simp: VerdaMachineList_DeepCopyInto_def VerdaMachineList_read_def struct_simps option.map_id)

lemma VerdaMachineTemplateResource_deep:
  assumes "copylib_ok lib M"
  shows "deep_copy (VerdaMachineTemplateResource_DeepCopyInto lib) (VerdaMachineTemplateResource_read M)"
  by (rule deep_copy_struct [where get = "\<lambda>x. (mtr_ObjectMeta x, mtr_Spec x)" and g = "\<lambda>x. id"
        and put = "\<lambda>x (m, s). x\<lparr>mtr_ObjectMeta := m, mtr_Spec := s\<rparr>",
      OF deep_copy_pair [OF copylibD(3) [OF assms] mspec.deep_copy_axioms]])
    (auto simp: VerdaMachineTemplateResource_DeepCopyInto_def VerdaMachineTemplateResource_read_def struct_simps option.map_id)

lemma VerdaMachineTemplateSpec_deep:
  assumes "copylib_ok lib M"
  shows "deep_copy (VerdaMachineTemplateSpec_DeepCopyInto lib) (VerdaMachineTemplateSpec_read M)"
  by (rule deep_copy_struct [where get = mts_Template and g = "\<lambda>x. id" and put = "\<lambda>x t. x\<lparr>mts_Template := t\<rparr>",
      OF VerdaMachineTemplateResource_deep [OF assms]])
    (auto simp: VerdaMachineTemplateSpec_DeepCopyInto_def VerdaMachineTemplateSpec_read_def struct_simps map_conv_bind_option)

lemma VerdaMachineTemplateStatus_deep:
  assumes "copylib_ok lib M"
  shows "deep_copy (VerdaMachineTemplateStatus_DeepCopyInto lib) (VerdaMachineTemplateStatus_read M)"
  by (rule deep_copy_struct [where get = "\<lambda>x. (mtso_Capacity x, mtso_Conditions x)"
        and put = "\<lambda>x (q, c). x\<lparr>mtso_Capacity := q, mtso_Conditions := c\<rparr>"
        and g = "\<lambda>x (q, c). \<lparr>mtst_Capacity = elems q, mtst_NodeInfo = mtso_NodeInfo x, mtst_Conditions = elems c\<rparr>",
      OF deep_copy_pair [OF copylibD(6) [OF assms] copylibD(4) [OF assms]]])
    (auto simp: VerdaMachineTemplateStatus_DeepCopyInto_def VerdaMachineTemplateStatus_read_def struct_simps)

lemma VerdaMachineTemplate_deep:
  assumes "copylib_ok lib M"
  shows "deep_copy (VerdaMachineTemplate_DeepCopyInto lib) (VerdaMachineTemplate_read M)"
  by (rule deep_copy_struct [where get = "\<lambda>x. (mto_ObjectMeta x, mto_Spec x, mto_Status x)"
        and put = "\<lambda>x (m, s, t). x\<lparr>mto_ObjectMeta := m, mto_Spec := s, mto_Status := t\<rparr>"
        and g = "\<lambda>x (m, (r, s), t). (r, \<lparr>mt_Kind = tm_Kind (mto_TypeMeta x), mt_Meta = m, mt_Spec = s, mt_Status = t\<rparr>)",
      OF deep_copy_pair [OF copylibD(1) [OF assms] deep_copy_pair [OF VerdaMachineTemplateSpec_deep [OF assms]
        VerdaMachineTemplateStatus_deep [OF assms]]]])
    (auto simp: VerdaMachineTemplate_DeepCopyInto_def VerdaMachineTemplate_read_def struct_simps)

lemma VerdaMachineTemplateList_deep:
  assumes "copylib_ok lib M"
  shows "deep_copy (VerdaMachineTemplateList_DeepCopyInto lib) (VerdaMachineTemplateList_read M)"
  by (rule deep_copy_struct [where get = "\<lambda>x. (mtl_ListMeta x, mtl_Items x)" and g = "\<lambda>x. id"
        and put = "\<lambda>x (m, i). x\<lparr>mtl_ListMeta := m, mtl_Items := i\<rparr>",
      OF deep_copy_pair [OF copylibD(2) [OF assms] deep_copy_slice [OF slots_storable(11) VerdaMachineTemplate_deep [OF assms]]]])
    (auto simp: VerdaMachineTemplateList_DeepCopyInto_def VerdaMachineTemplateList_read_def struct_simps option.map_id)

section \<open>Objects\<close>

text \<open>The value of an object; \<open>Some None\<close> if its pointer is nil.\<close>

datatype object_value =
    VerdaCluster_Value "VerdaCluster"
  | VerdaClusterList_Value "ListMeta \<times> VerdaCluster goslice"
  | VerdaClusterTemplate_Value "(gomap \<times> gomap) \<times> VerdaClusterTemplate"
  | VerdaClusterTemplateList_Value "ListMeta \<times> ((gomap \<times> gomap) \<times> VerdaClusterTemplate) goslice"
  | VerdaMachine_Value "VerdaMachine"
  | VerdaMachineList_Value "ListMeta \<times> VerdaMachine goslice"
  | VerdaMachineTemplate_Value "(gomap \<times> gomap) \<times> VerdaMachineTemplate"
  | VerdaMachineTemplateList_Value "ListMeta \<times> ((gomap \<times> gomap) \<times> VerdaMachineTemplate) goslice"

fun object_read :: "'x meaning \<Rightarrow> (runtime_Object, 'x cell, object_value option) reader" where
  "object_read M m (VerdaCluster_Object p) = map_option (map_option VerdaCluster_Value) (read_ptr VerdaCluster_slot (VerdaCluster_read M) m p)"
| "object_read M m (VerdaClusterList_Object p) = map_option (map_option VerdaClusterList_Value) (read_ptr VerdaClusterList_slot (VerdaClusterList_read M) m p)"
| "object_read M m (VerdaClusterTemplate_Object p) = map_option (map_option VerdaClusterTemplate_Value) (read_ptr VerdaClusterTemplate_slot (VerdaClusterTemplate_read M) m p)"
| "object_read M m (VerdaClusterTemplateList_Object p) = map_option (map_option VerdaClusterTemplateList_Value) (read_ptr VerdaClusterTemplateList_slot (VerdaClusterTemplateList_read M) m p)"
| "object_read M m (VerdaMachine_Object p) = map_option (map_option VerdaMachine_Value) (read_ptr VerdaMachine_slot (VerdaMachine_read M) m p)"
| "object_read M m (VerdaMachineList_Object p) = map_option (map_option VerdaMachineList_Value) (read_ptr VerdaMachineList_slot (VerdaMachineList_read M) m p)"
| "object_read M m (VerdaMachineTemplate_Object p) = map_option (map_option VerdaMachineTemplate_Value) (read_ptr VerdaMachineTemplate_slot (VerdaMachineTemplate_read M) m p)"
| "object_read M m (VerdaMachineTemplateList_Object p) = map_option (map_option VerdaMachineTemplateList_Value) (read_ptr VerdaMachineTemplateList_slot (VerdaMachineTemplateList_read M) m p)"

lemmas object_deep = VerdaCluster_deep VerdaClusterList_deep VerdaClusterTemplate_deep VerdaClusterTemplateList_deep
  VerdaMachine_deep VerdaMachineList_deep VerdaMachineTemplate_deep VerdaMachineTemplateList_deep

lemma read_ptr_as_mono:
  assumes "m \<subseteq>\<^sub>m m'" "deep_copy cp rd" "storable s" "map_option (map_option C) (read_ptr s rd m p) = Some v"
  shows "map_option (map_option C) (read_ptr s rd m' p) = Some v"
  using assms(4) deep_copy.rd_mono [OF deep_copy_ptr [OF assms(3,2)] assms(1)] by auto

lemma copy_as_object:
  assumes "heap_ok h" "deep_copy cp rd" "storable s" "map_option (map_option C) (read_ptr s rd (mem h) p) = Some (Some v)"
  shows "\<exists>q h'. as_object dyn (copy_ptr s cp p h) = Some (Some (dyn (Some q)), h') \<and> grown h h' \<and>
     map_option (map_option C) (read_ptr s rd (from_lim (lim h) h') (Some q)) = Some (Some v)"
proof -
  from assms(4) obtain u where u: "read_ptr s rd (mem h) p = Some (Some u)" "v = C u" by auto
  from deep_copy.copied [OF deep_copy_ptr [OF assms(3,2)] assms(1) u(1)] obtain q h' where
    q: "copy_ptr s cp p h = Some (q, h')" "grown h h'" "read_ptr s rd (from_lim (lim h) h') q = Some (Some u)" by blast
  obtain a where "q = Some a" using q(3) by (cases q) auto
  with q u(2) show ?thesis by (auto simp: as_object_def simp del: read_ptr.simps)
qed

lemma object_read_mono:
  assumes lib: "copylib_ok lib M" and m: "m \<subseteq>\<^sub>m m'" and v: "object_read M m obj = Some v"
  shows "object_read M m' obj = Some v"
  using v by (cases obj; simp only: object_read.simps)
    (erule read_ptr_as_mono [OF m, rotated 2], rule object_deep [OF lib], rule slots_storable)+

lemmas DeepCopyObject_defs = VerdaCluster_DeepCopyObject_def VerdaClusterList_DeepCopyObject_def VerdaClusterTemplate_DeepCopyObject_def
  VerdaClusterTemplateList_DeepCopyObject_def VerdaMachine_DeepCopyObject_def VerdaMachineList_DeepCopyObject_def
  VerdaMachineTemplate_DeepCopyObject_def VerdaMachineTemplateList_DeepCopyObject_def
  VerdaCluster_DeepCopy_def VerdaClusterList_DeepCopy_def VerdaClusterTemplate_DeepCopy_def
  VerdaClusterTemplateList_DeepCopy_def VerdaMachine_DeepCopy_def VerdaMachineList_DeepCopy_def
  VerdaMachineTemplate_DeepCopy_def VerdaMachineTemplateList_DeepCopy_def

lemma DeepCopyObject_grown:
  assumes lib: "copylib_ok lib M" and h: "heap_ok h" and v: "object_read M (mem h) obj = Some (Some v)"
  shows "\<exists>obj' h'. DeepCopyObject lib obj h = Some (Some obj', h') \<and> grown h h' \<and>
     object_read M (from_lim (lim h) h') obj' = Some (Some v)"
proof -
  note copied = copy_as_object [OF h object_deep(1) [OF lib] slots_storable(8), where dyn = VerdaCluster_Object]
    copy_as_object [OF h object_deep(2) [OF lib] slots_storable(12), where dyn = VerdaClusterList_Object]
    copy_as_object [OF h object_deep(3) [OF lib] slots_storable(9), where dyn = VerdaClusterTemplate_Object]
    copy_as_object [OF h object_deep(4) [OF lib] slots_storable(13), where dyn = VerdaClusterTemplateList_Object]
    copy_as_object [OF h object_deep(5) [OF lib] slots_storable(10), where dyn = VerdaMachine_Object]
    copy_as_object [OF h object_deep(6) [OF lib] slots_storable(14), where dyn = VerdaMachineList_Object]
    copy_as_object [OF h object_deep(7) [OF lib] slots_storable(11), where dyn = VerdaMachineTemplate_Object]
    copy_as_object [OF h object_deep(8) [OF lib] slots_storable(15), where dyn = VerdaMachineTemplateList_Object]
  show ?thesis
    using v by (cases obj; simp only: object_read.simps DeepCopyObject.simps DeepCopyObject_defs)
      (drule copied, elim exE conjE, intro exI conjI, assumption, assumption, simp only: object_read.simps)+
qed

text \<open>A nil pointer is copied to nil.\<close>

lemma DeepCopyObject_nil:
  "object_read M m obj = Some None \<Longrightarrow> DeepCopyObject lib obj h = Some (None, h)"
proof -
  have nil: "p = None" if "map_option (map_option C) (read_ptr s rd m p) = Some None" for C s rd p
    using that by (cases p) (auto simp: bind_eq_Some_conv)
  assume "object_read M m obj = Some None"
  then show ?thesis
    by (cases obj; simp only: object_read.simps) (drule nil, simp add: DeepCopyObject_defs as_object_def)+
qed

text \<open>
  C15. An object and its deep copy have nothing in common: \<^verbatim>\<open>DeepCopyObject\<close> of a readable object of
  any of the eight kinds returns an object with the same value, the original still has its value,
  and whatever is written later to the memory of the one is not seen in the other.
\<close>

theorem object_copy_independent:
  assumes "copylib_ok lib M" "heap_ok h" "object_read M (mem h) obj = Some (Some v)"
  shows "\<exists>obj' h'. DeepCopyObject lib obj h = Some (Some obj', h') \<and> heap_ok h' \<and>
     object_read M (mem h') obj = Some (Some v) \<and> object_read M (mem h') obj' = Some (Some v) \<and>
     (\<forall>m. (\<forall>a \<ge> lim h. m a = mem h' a) \<longrightarrow> object_read M m obj' = Some (Some v)) \<and>
     (\<forall>m. (\<forall>a < lim h. m a = mem h' a) \<longrightarrow> object_read M m obj = Some (Some v))"
proof -
  from DeepCopyObject_grown [OF assms] obtain obj' h' where
    run: "DeepCopyObject lib obj h = Some (Some obj', h')" "grown h h'" "object_read M (from_lim (lim h) h') obj' = Some (Some v)"
    by blast
  have new: "object_read M m obj' = Some (Some v)" if "\<forall>a \<ge> lim h. m a = mem h' a" for m
    by (rule object_read_mono [OF assms(1) _ run(3)]) (use that in \<open>auto simp: map_le_def restrict_map_def\<close>)
  have old: "object_read M m obj = Some (Some v)" if "\<forall>a < lim h. m a = mem h' a" for m
    by (rule object_read_mono [OF assms(1) _ assms(3)]) (use that run(2) assms(2) in \<open>auto simp: map_le_def grown_def heap_ok_def dom_def\<close>)
  from run(1) grown_ok [OF run(2)] new old show ?thesis by blast
qed

section \<open>Example\<close>

text \<open>A failure domain has a pointer; the other structs of other packages are plain values here.\<close>

datatype foreign =
    PlainMeta ObjectMeta
  | PlainList ListMeta
  | PlainCondition Condition
  | PlainTemplateMeta gomap gomap
  | PlainQuantity Quantity
  | Domain string ptr

fun domain_copy :: "(foreign, foreign cell) copier" where
  "domain_copy (Domain name p) h = do { (q, h) \<leftarrow> copy_ptr bool_slot assign p h; Some (Domain name q, h) }"
| "domain_copy x h = None"

fun domain_read :: "(foreign, foreign cell, string \<times> bool option) reader" where
  "domain_read m (Domain name p) = map_option (Pair name) (read_ptr bool_slot (flat id) m p)"
| "domain_read m x = None"

definition plain_lib :: "foreign copylib" where
  "plain_lib = \<lparr>metav1_ObjectMeta_DeepCopyInto = assign, metav1_ListMeta_DeepCopyInto = assign, metav1_Condition_DeepCopyInto = assign,
     clusterv1_ObjectMeta_DeepCopyInto = assign, clusterv1_FailureDomain_DeepCopyInto = domain_copy, resource_Quantity_DeepCopy = assign\<rparr>"

definition plain_meaning :: "foreign meaning" where
  "plain_meaning =
     \<lparr>ObjectMeta_of = (\<lambda>_ x. case x of PlainMeta y \<Rightarrow> Some y | _ \<Rightarrow> None),
      ListMeta_of = (\<lambda>_ x. case x of PlainList y \<Rightarrow> Some y | _ \<Rightarrow> None),
      Condition_of = (\<lambda>_ x. case x of PlainCondition y \<Rightarrow> Some y | _ \<Rightarrow> None),
      TemplateMeta_of = (\<lambda>_ x. case x of PlainTemplateMeta y z \<Rightarrow> Some (y, z) | _ \<Rightarrow> None),
      FailureDomain_of = domain_read, Quantity_of = (\<lambda>_ x. case x of PlainQuantity y \<Rightarrow> Some y | _ \<Rightarrow> None)\<rparr>"

lemma domain_deep: "deep_copy domain_copy domain_read"
proof
  show "domain_read m' x = Some v" if "m \<subseteq>\<^sub>m m'" "domain_read m x = Some v" for m m' x v
    using that bools.ptrs.rd_mono [OF that(1)] by (cases x) auto
next
  fix h :: "foreign cell heap" and x v assume h: "heap_ok h" and v: "domain_read (mem h) x = Some v"
  then obtain name p u where x: "x = Domain name p" "read_ptr bool_slot (flat id) (mem h) p = Some u" "v = (name, u)"
    by (cases x) auto
  from bools.ptrs.copied [OF h x(2)] obtain q h' where "copy_ptr bool_slot assign p h = Some (q, h')" "grown h h'"
    "read_ptr bool_slot (flat id) (from_lim (lim h) h') q = Some u" by blast
  with x show "\<exists>y h'. domain_copy x h = Some (y, h') \<and> grown h h' \<and> domain_read (from_lim (lim h) h') y = Some v" by auto
qed

lemma plain_lib_ok: "copylib_ok plain_lib plain_meaning"
  by (simp add: copylib_ok_def plain_lib_def plain_meaning_def deep_copy_partial domain_deep)

text \<open>A machine at address 0, its field \<^verbatim>\<open>Spot\<close> at 1 and its keys at 2 and 3.\<close>

definition heap_machine :: "foreign VerdaMachine_obj" where
  "heap_machine =
     \<lparr>vmo_TypeMeta = \<lparr>tm_Kind = ''VerdaMachine'', tm_APIVersion = ''infrastructure.cluster.x-k8s.io/v1beta1''\<rparr>,
      vmo_ObjectMeta = PlainMeta \<lparr>om_Name = ''node-1'', om_Namespace = ''default'', om_Annotations = [], om_Labels = [],
        om_Finalizers = [], om_DeletionTimestamp = None\<rparr>,
      vmo_Spec = \<lparr>mso_ProviderID = '''', mso_InstanceType = ''CPU.4V.16G'', mso_Image = '''', mso_OSVolumeID = '''',
        mso_SSHKeyIDs = Some (2, 2), mso_OSVolumeSizeGB = 50, mso_Contract = '''', mso_Spot = Some 1,
        mso_SpotDiscontinuePolicy = '''', mso_AdditionalVolumes = None\<rparr>,
      vmo_Status = \<lparr>msto_Initialization = \<lparr>mio_Provisioned = None\<rparr>, msto_Conditions = None, msto_Addresses = None,
        msto_FailureDomain = '''', msto_InstanceID = '''', msto_InstanceState = '''', msto_OSVolumeID = '''', msto_StartupScriptID = ''''\<rparr>\<rparr>"

definition demo_heap :: "foreign cell heap" where
  "demo_heap = \<lparr>mem = [0 \<mapsto> VerdaMachineCell heap_machine, 1 \<mapsto> BoolCell True, 2 \<mapsto> StringCell ''k1'', 3 \<mapsto> StringCell ''k2''], lim = 4\<rparr>"

definition heap_value :: "bool \<Rightarrow> VerdaMachine" where
  "heap_value spot =
     \<lparr>vm_Kind = ''VerdaMachine'',
      vm_Meta = \<lparr>om_Name = ''node-1'', om_Namespace = ''default'', om_Annotations = [], om_Labels = [], om_Finalizers = [],
        om_DeletionTimestamp = None\<rparr>,
      vm_Spec = \<lparr>ms_ProviderID = '''', ms_InstanceType = ''CPU.4V.16G'', ms_Image = '''', ms_OSVolumeID = '''',
        ms_SSHKeyIDs = Some [''k1'', ''k2''], ms_OSVolumeSizeGB = 50, ms_Contract = '''', ms_Spot = Some spot,
        ms_SpotDiscontinuePolicy = '''', ms_AdditionalVolumes = None\<rparr>,
      vm_Status = \<lparr>mst_Provisioned = None, mst_Conditions = [], mst_Addresses = [], mst_FailureDomain = '''', mst_InstanceID = '''',
        mst_InstanceState = '''', mst_OSVolumeID = '''', mst_StartupScriptID = ''''\<rparr>\<rparr>"

lemma demo_heap_read:
  "object_read plain_meaning ((mem demo_heap)(1 \<mapsto> BoolCell b)) (VerdaMachine_Object (Some 0)) = Some (Some (VerdaMachine_Value (heap_value b)))"
  by (simp add: demo_heap_def load_def slot_defs VerdaMachine_read_def VerdaMachineSpec_read_def VerdaMachineStatus_read_def
      VerdaMachineInitializationStatus_read_def plain_meaning_def heap_machine_def heap_value_def flat_def eval_nat_numeral)

text \<open>The field \<^verbatim>\<open>Spot\<close> of the original is set to false after the copy was made: the copy keeps true.\<close>

theorem object_copy_independent_witness:
  "\<exists>obj h. DeepCopyObject plain_lib (VerdaMachine_Object (Some 0)) demo_heap = Some (Some obj, h) \<and>
     object_read plain_meaning ((mem h)(1 \<mapsto> BoolCell False)) obj = Some (Some (VerdaMachine_Value (heap_value True))) \<and>
     object_read plain_meaning ((mem demo_heap)(1 \<mapsto> BoolCell False)) (VerdaMachine_Object (Some 0)) =
       Some (Some (VerdaMachine_Value (heap_value False)))"
proof -
  have "(mem demo_heap)(1 \<mapsto> BoolCell True) = mem demo_heap" by (auto simp: demo_heap_def)
  with demo_heap_read [of True] have v: "object_read plain_meaning (mem demo_heap) (VerdaMachine_Object (Some 0)) =
      Some (Some (VerdaMachine_Value (heap_value True)))" by simp
  have "heap_ok demo_heap" by (auto simp: heap_ok_def demo_heap_def split: if_splits)
  from object_copy_independent [OF plain_lib_ok this v] obtain obj h where
    "DeepCopyObject plain_lib (VerdaMachine_Object (Some 0)) demo_heap = Some (Some obj, h)"
    "\<forall>m. (\<forall>a \<ge> lim demo_heap. m a = mem h a) \<longrightarrow> object_read plain_meaning m obj = Some (Some (VerdaMachine_Value (heap_value True)))"
    by blast
  with demo_heap_read [of False] show ?thesis by (intro exI [of _ obj] exI [of _ h]) (simp add: demo_heap_def)
qed

end
