(* ===== verification/GoFlags.thy ===== *)
theory GoFlags
  imports Prelude
begin

text \<open>
  Go's package \<^verbatim>\<open>flag\<close> as a program sees it that calls \<^verbatim>\<open>flag.Parse\<close>, with the
  parsers of \<^verbatim>\<open>strconv\<close> for the types of flags, and that a printed command line is read
  back.
\<close>

section \<open>Values\<close>

definition ParseBool :: "string \<Rightarrow> bool option" where
  "ParseBool s =
     (if s \<in> {''1'', ''t'', ''T'', ''TRUE'', ''true'', ''True''} then Some True
      else if s \<in> {''0'', ''f'', ''F'', ''FALSE'', ''false'', ''False''} then Some False
      else None)"

text \<open>\<^verbatim>\<open>strconv.ParseInt(s, 0, 64)\<close>: a sign, a prefix for the base, and underscores between digits.\<close>

definition digit36 :: "char \<Rightarrow> nat option" where
  "digit36 c =
     (let n = (of_char c :: nat) in
      if 48 \<le> n \<and> n \<le> 57 then Some (n - 48)
      else if 97 \<le> n \<and> n \<le> 122 then Some (n - 87)
      else if 65 \<le> n \<and> n \<le> 90 then Some (n - 55)
      else None)"

fun digits_in :: "nat \<Rightarrow> string \<Rightarrow> nat \<Rightarrow> nat option" where
  "digits_in base [] a = Some a"
| "digits_in base (c # cs) a =
     (if c = CHR ''_'' then digits_in base cs a
      else case digit36 c of
        None \<Rightarrow> None
      | Some d \<Rightarrow> if d < base then digits_in base cs (a * base + d) else None)"

definition base_prefix :: "string \<Rightarrow> nat \<times> string" where
  "base_prefix s =
     (if s = [] \<or> hd s \<noteq> CHR ''0'' then (10, s)
      else if 3 \<le> length s \<and> s ! 1 \<in> {CHR ''b'', CHR ''B''} then (2, drop 2 s)
      else if 3 \<le> length s \<and> s ! 1 \<in> {CHR ''o'', CHR ''O''} then (8, drop 2 s)
      else if 3 \<le> length s \<and> s ! 1 \<in> {CHR ''x'', CHR ''X''} then (16, drop 2 s)
      else (8, drop 1 s))"

text \<open>What was seen last: the beginning, a digit or a prefix, an underscore, or something else.\<close>

datatype seen = Begin | Digit | Underscore | Other

fun underscores_ok :: "bool \<Rightarrow> seen \<Rightarrow> string \<Rightarrow> bool" where
  "underscores_ok hex saw [] = (saw \<noteq> Underscore)"
| "underscores_ok hex saw (c # cs) =
     (case digit36 c of
        Some d \<Rightarrow> if d < (if hex then 16 else 10) then underscores_ok hex Digit cs
                  else saw \<noteq> Underscore \<and> underscores_ok hex Other cs
      | None \<Rightarrow> if c = CHR ''_'' then saw = Digit \<and> underscores_ok hex Underscore cs
                else saw \<noteq> Underscore \<and> underscores_ok hex Other cs)"

definition underscoreOK :: "string \<Rightarrow> bool" where
  "underscoreOK s =
     (if 2 \<le> length s \<and> hd s = CHR ''0'' \<and> s ! 1 \<in> set ''bBoOxX''
      then underscores_ok (s ! 1 \<in> set ''xX'') Digit (drop 2 s)
      else underscores_ok False Begin s)"

definition ParseUint :: "string \<Rightarrow> nat option" where
  "ParseUint s =
     (if s = [] then None
      else case base_prefix s of (base, ds) \<Rightarrow>
        (case digits_in base ds 0 of
           None \<Rightarrow> None
         | Some n \<Rightarrow> if CHR ''_'' \<in> set ds \<and> \<not> underscoreOK s then None else Some n))"

definition ParseInt :: "string \<Rightarrow> int option" where
  "ParseInt s =
     (if s = [] then None
      else if hd s = CHR ''-'' then
        (case ParseUint (tl s) of
           None \<Rightarrow> None
         | Some n \<Rightarrow> if 2 ^ 63 < n then None else Some (- int n))
      else
        (case ParseUint (if hd s = CHR ''+'' then tl s else s) of
           None \<Rightarrow> None
         | Some n \<Rightarrow> if 2 ^ 63 \<le> n then None else Some (int n)))"

section \<open>Flags\<close>

text \<open>
  A flag is bound to a variable of the program, here a field of the record of options \<open>'o\<close>; a flag
  of another package is known by whether it is boolean and which values it takes.
\<close>

datatype 'o flag =
    StringVar "string \<Rightarrow> 'o \<Rightarrow> 'o"
  | BoolVar "bool \<Rightarrow> 'o \<Rightarrow> 'o"
  | IntVar "int \<Rightarrow> 'o \<Rightarrow> 'o"
  | ForeignVar bool "string \<Rightarrow> bool"

fun flag_Set :: "'o flag \<Rightarrow> string \<Rightarrow> 'o \<Rightarrow> 'o option" where
  "flag_Set (StringVar put) v opts = Some (put v opts)"
| "flag_Set (BoolVar put) v opts = map_option (\<lambda>b. put b opts) (ParseBool v)"
| "flag_Set (IntVar put) v opts = map_option (\<lambda>i. put i opts) (ParseInt v)"
| "flag_Set (ForeignVar _ takes) v opts = (if takes v then Some opts else None)"

fun IsBoolFlag :: "'o flag \<Rightarrow> bool" where
  "IsBoolFlag (BoolVar _) = True"
| "IsBoolFlag (ForeignVar b _) = b"
| "IsBoolFlag _ = False"

text \<open>
  \<^verbatim>\<open>flag.Parse\<close> with the command line as it is: the options, or the status with which the
  process exits. Parsing ends at the first argument that is not a flag, or after two dashes.
\<close>

fun flag_Parse :: "(string \<Rightarrow> 'o flag option) \<Rightarrow> string list \<Rightarrow> 'o \<Rightarrow> nat + 'o" where
  "flag_Parse formal [] opts = Inr opts"
| "flag_Parse formal (s # args) opts =
     (if length s < 2 \<or> hd s \<noteq> CHR ''-'' \<or> s = ''--'' then Inr opts
      else
        let body = (if s ! 1 = CHR ''-'' then drop 2 s else drop 1 s);
            (name, val) = (case Cut CHR ''='' body of None \<Rightarrow> (body, None) | Some (n, v) \<Rightarrow> (n, Some v))
        in if body = [] \<or> hd body = CHR ''-'' \<or> hd body = CHR ''='' then Inl 2
           else case formal name of
             None \<Rightarrow> Inl (if name = ''help'' \<or> name = ''h'' then 0 else 2)
           | Some fl \<Rightarrow>
               (case (val, IsBoolFlag fl, args) of
                  (Some v, _, _) \<Rightarrow> (case flag_Set fl v opts of None \<Rightarrow> Inl 2 | Some opts' \<Rightarrow> flag_Parse formal args opts')
                | (None, True, _) \<Rightarrow> (case flag_Set fl ''true'' opts of None \<Rightarrow> Inl 2 | Some opts' \<Rightarrow> flag_Parse formal args opts')
                | (None, False, []) \<Rightarrow> Inl 2
                | (None, False, v # rest) \<Rightarrow>
                    (case flag_Set fl v opts of None \<Rightarrow> Inl 2 | Some opts' \<Rightarrow> flag_Parse formal rest opts')))"

declare flag_Parse.simps(2) [simp del]

section \<open>Reading back\<close>

definition print_flag :: "string \<Rightarrow> string \<Rightarrow> string" where
  "print_flag name val = ''--'' @ name @ ''='' @ val"

definition print_bool :: "bool \<Rightarrow> string" where
  "print_bool b = (if b then ''true'' else ''false'')"

lemma ParseBool_print [simp]: "ParseBool (print_bool b) = Some b"
  by (simp add: ParseBool_def print_bool_def)

lemma flag_Parse_print:
  assumes "formal name = Some fl" "name \<noteq> []" "hd name \<noteq> CHR ''-''" "CHR ''='' \<notin> set name"
  shows "flag_Parse formal (print_flag name v # args) opts =
     (case flag_Set fl v opts of None \<Rightarrow> Inl 2 | Some opts' \<Rightarrow> flag_Parse formal args opts')"
proof -
  have "Cut CHR ''='' (name @ CHR ''='' # v) = Some (name, v)" using assms(4) by (rule Cut_append)
  moreover have "hd name \<noteq> CHR ''=''" using assms(2,4) by (cases name) auto
  ultimately show ?thesis using assms by (cases name) (auto simp: flag_Parse.simps(2) print_flag_def)
qed

lemma digit36_decimal: "48 \<le> (of_char c :: nat) \<Longrightarrow> (of_char c :: nat) \<le> 57 \<Longrightarrow> digit36 c = digit_val c \<and> c \<noteq> CHR ''_''"
  by (auto simp: digit36_def digit_val_def)

lemma digits_in_decimal:
  "(\<And>c. c \<in> set s \<Longrightarrow> 48 \<le> (of_char c :: nat) \<and> (of_char c :: nat) \<le> 57) \<Longrightarrow>
   digits_in 10 s a = Some (foldl (\<lambda>a c. 10 * a + the (digit_val c)) a s)"
proof (induction s arbitrary: a)
  case (Cons c s)
  have "48 \<le> (of_char c :: nat)" "(of_char c :: nat) \<le> 57" using Cons.prems by auto
  then have "digit36 c = digit_val c" "c \<noteq> CHR ''_''" "digit_val c = Some ((of_char c :: nat) - 48)" "(of_char c :: nat) - 48 < 10"
    by (auto simp: digit36_decimal digit_val_def)
  with Cons show ?case by (simp add: mult.commute)
qed simp

lemma hd_itoa: "0 < n \<Longrightarrow> hd (itoa n) \<noteq> CHR ''0''"
proof (induction n rule: itoa.induct)
  case (1 n)
  show ?case
  proof (cases "n < 10")
    case True
    have "(of_char (CHR ''0'') :: nat) = 48" by simp
    with True 1(2) have "digit_char n \<noteq> CHR ''0''" by (metis add_cancel_right_right not_gr0 of_char_digit_char)
    with True show ?thesis by (simp add: itoa.simps [of n])
  next
    case False
    then have "0 < n div 10" by (simp add: div_greater_zero_iff)
    with 1(1) False show ?thesis by (simp add: itoa.simps [of n] hd_append)
  qed
qed

lemma ParseUint_itoa [simp]: "ParseUint (itoa n) = Some n"
proof (cases "n = 0")
  case True
  have "itoa 0 = ''0''" by code_simp
  with True show ?thesis by (simp add: ParseUint_def base_prefix_def)
next
  case False
  then have "base_prefix (itoa n) = (10, itoa n)" by (simp add: base_prefix_def hd_itoa)
  moreover have "digits_in 10 (itoa n) 0 = Some n"
    using digits_in_decimal [of "itoa n" 0, OF itoa_digits] atoi_itoa [of n] by (simp add: atoi_def)
  moreover have "CHR ''_'' \<notin> set (itoa n)" using itoa_digits [of "CHR ''_''" n] by auto
  ultimately show ?thesis by (simp add: ParseUint_def)
qed

lemma ParseInt_itoa:
  assumes "- (2 ^ 63) \<le> i" "i < 2 ^ 63"
  shows "ParseInt (itoa_int i) = Some i"
proof (cases "i < 0")
  case True
  then show ?thesis using assms(1) by (simp add: ParseInt_def itoa_int_def nat_less_iff)
next
  case False
  obtain c cs where c: "itoa (nat i) = c # cs" by (cases "itoa (nat i)") auto
  then have "48 \<le> (of_char c :: nat)" using itoa_digits [of c "nat i"] by simp
  then have "c \<noteq> CHR ''-''" "c \<noteq> CHR ''+''" by auto
  with False c assms(2) ParseUint_itoa [of "nat i"] show ?thesis by (simp add: ParseInt_def itoa_int_def nat_less_iff)
qed

end
