(* ===== verification/Managers.thy ===== *)
theory Managers
  imports GoFlags Credentials CloudProvider
begin

text \<open>
  The two programs: \<^verbatim>\<open>cmd/main.go\<close>, which reads flags and credentials and registers the
  controllers and webhooks with a manager of controller-runtime, and
  \<^verbatim>\<open>cmd/cloud-controller-manager/main.go\<close> with the cloud provider it runs. The calls of
  controller-runtime and of the framework of cloud controller managers are parameters.
\<close>

section \<open>Types and their registration\<close>

record GroupVersion =
  gv_Group :: string
  gv_Version :: string

definition SchemeGroupVersion :: GroupVersion where
  "SchemeGroupVersion = \<lparr>gv_Group = ''infrastructure.cluster.x-k8s.io'', gv_Version = ''v1beta1''\<rparr>"

datatype scheme_call =
    AddToGroupVersion GroupVersion
  | AddKnownTypes GroupVersion "string list"

definition VerdaCluster_init :: "scheme_call list" where
  "VerdaCluster_init = [AddKnownTypes SchemeGroupVersion [''VerdaCluster'', ''VerdaClusterList'']]"

definition VerdaClusterTemplate_init :: "scheme_call list" where
  "VerdaClusterTemplate_init = [AddKnownTypes SchemeGroupVersion [''VerdaClusterTemplate'', ''VerdaClusterTemplateList'']]"

definition VerdaMachine_init :: "scheme_call list" where
  "VerdaMachine_init = [AddKnownTypes SchemeGroupVersion [''VerdaMachine'', ''VerdaMachineList'']]"

definition VerdaMachineTemplate_init :: "scheme_call list" where
  "VerdaMachineTemplate_init = [AddKnownTypes SchemeGroupVersion [''VerdaMachineTemplate'', ''VerdaMachineTemplateList'']]"

text \<open>The package's variables are set before its \<^verbatim>\<open>init\<close> functions run, in the order of the files.\<close>

definition SchemeBuilder :: "scheme_call list" where
  "SchemeBuilder = [AddToGroupVersion SchemeGroupVersion] @
     VerdaCluster_init @ VerdaClusterTemplate_init @ VerdaMachine_init @ VerdaMachineTemplate_init"

section \<open>Flags\<close>

record manager_flags =
  fl_watchFilterValue :: string
  fl_credentialsFile :: string
  fl_concurrency :: int
  fl_watchNamespace :: string
  fl_metricsAddr :: string
  fl_probeAddr :: string
  fl_enableLeaderElection :: bool
  fl_secureMetrics :: bool
  fl_webhookCertPath :: string
  fl_webhookCertName :: string
  fl_webhookCertKey :: string
  fl_metricsCertPath :: string
  fl_metricsCertName :: string
  fl_metricsCertKey :: string
  fl_enableHTTP2 :: bool

definition default_flags :: manager_flags where
  "default_flags =
     \<lparr>fl_watchFilterValue = '''', fl_credentialsFile = '''', fl_concurrency = 10, fl_watchNamespace = '''', fl_metricsAddr = ''0'',
      fl_probeAddr = '':8081'', fl_enableLeaderElection = False, fl_secureMetrics = True, fl_webhookCertPath = '''',
      fl_webhookCertName = ''tls.crt'', fl_webhookCertKey = ''tls.key'', fl_metricsCertPath = '''', fl_metricsCertName = ''tls.crt'',
      fl_metricsCertKey = ''tls.key'', fl_enableHTTP2 = False\<rparr>"

definition own_flags :: "(string \<times> manager_flags flag) list" where
  "own_flags =
     [(''watch-filter'', StringVar (\<lambda>v. fl_watchFilterValue_update (\<lambda>_. v))),
      (''credentials-file'', StringVar (\<lambda>v. fl_credentialsFile_update (\<lambda>_. v))),
      (''concurrency'', IntVar (\<lambda>v. fl_concurrency_update (\<lambda>_. v))),
      (''namespace'', StringVar (\<lambda>v. fl_watchNamespace_update (\<lambda>_. v))),
      (''metrics-bind-address'', StringVar (\<lambda>v. fl_metricsAddr_update (\<lambda>_. v))),
      (''health-probe-bind-address'', StringVar (\<lambda>v. fl_probeAddr_update (\<lambda>_. v))),
      (''leader-elect'', BoolVar (\<lambda>v. fl_enableLeaderElection_update (\<lambda>_. v))),
      (''metrics-secure'', BoolVar (\<lambda>v. fl_secureMetrics_update (\<lambda>_. v))),
      (''webhook-cert-path'', StringVar (\<lambda>v. fl_webhookCertPath_update (\<lambda>_. v))),
      (''webhook-cert-name'', StringVar (\<lambda>v. fl_webhookCertName_update (\<lambda>_. v))),
      (''webhook-cert-key'', StringVar (\<lambda>v. fl_webhookCertKey_update (\<lambda>_. v))),
      (''metrics-cert-path'', StringVar (\<lambda>v. fl_metricsCertPath_update (\<lambda>_. v))),
      (''metrics-cert-name'', StringVar (\<lambda>v. fl_metricsCertName_update (\<lambda>_. v))),
      (''metrics-cert-key'', StringVar (\<lambda>v. fl_metricsCertKey_update (\<lambda>_. v))),
      (''enable-http2'', BoolVar (\<lambda>v. fl_enableHTTP2_update (\<lambda>_. v)))]"

text \<open>The flags of the logger are \<open>zap\<close>; a name registered twice would be a panic.\<close>

definition flag_set :: "(string \<Rightarrow> (bool \<times> (string \<Rightarrow> bool)) option) \<Rightarrow> string \<Rightarrow> manager_flags flag option" where
  "flag_set zap name =
     (case map_of own_flags name of
        Some fl \<Rightarrow> Some fl
      | None \<Rightarrow> map_option (\<lambda>(b, takes). ForeignVar b takes) (zap name))"

section \<open>Options of the manager\<close>

record tls_Config =
  tls_NextProtos :: "string list"

record webhook_Options =
  wo_TLSOpts :: "(tls_Config \<Rightarrow> tls_Config) list"
  wo_CertDir :: string
  wo_CertName :: string
  wo_KeyName :: string

text \<open>\<open>mo_FilterProvider\<close>: requests for metrics are authenticated and authorised.\<close>

record metrics_Options =
  mo_BindAddress :: string
  mo_SecureServing :: bool
  mo_TLSOpts :: "(tls_Config \<Rightarrow> tls_Config) list"
  mo_FilterProvider :: bool
  mo_CertDir :: string
  mo_CertName :: string
  mo_KeyName :: string

text \<open>
  \<open>opt_DefaultNamespaces\<close>: the namespaces the caches are restricted to; none for no restriction. The
  scheme is not a field: what this repository registers in it is \<open>SchemeBuilder\<close>.
\<close>

record ctrl_Options =
  opt_DefaultNamespaces :: "string list"
  opt_Metrics :: metrics_Options
  opt_WebhookServer :: webhook_Options
  opt_HealthProbeBindAddress :: string
  opt_LeaderElection :: bool
  opt_LeaderElectionID :: string

definition disableHTTP2 :: "tls_Config \<Rightarrow> tls_Config" where
  "disableHTTP2 c = c\<lparr>tls_NextProtos := [''http/1.1'']\<rparr>"

definition tlsOpts :: "manager_flags \<Rightarrow> (tls_Config \<Rightarrow> tls_Config) list" where
  "tlsOpts fl = (if \<not> fl_enableHTTP2 fl then [disableHTTP2] else [])"

definition webhookServerOptions :: "manager_flags \<Rightarrow> webhook_Options" where
  "webhookServerOptions fl =
     (let opts = \<lparr>wo_TLSOpts = tlsOpts fl, wo_CertDir = '''', wo_CertName = '''', wo_KeyName = ''''\<rparr> in
      if length (fl_webhookCertPath fl) > 0 then
        opts\<lparr>wo_CertDir := fl_webhookCertPath fl, wo_CertName := fl_webhookCertName fl, wo_KeyName := fl_webhookCertKey fl\<rparr>
      else opts)"

definition metricsServerOptions :: "manager_flags \<Rightarrow> metrics_Options" where
  "metricsServerOptions fl =
     (let opts = \<lparr>mo_BindAddress = fl_metricsAddr fl, mo_SecureServing = fl_secureMetrics fl, mo_TLSOpts = tlsOpts fl,
            mo_FilterProvider = False, mo_CertDir = '''', mo_CertName = '''', mo_KeyName = ''''\<rparr>;
          opts = (if fl_secureMetrics fl then opts\<lparr>mo_FilterProvider := True\<rparr> else opts)
      in if length (fl_metricsCertPath fl) > 0 then
           opts\<lparr>mo_CertDir := fl_metricsCertPath fl, mo_CertName := fl_metricsCertName fl, mo_KeyName := fl_metricsCertKey fl\<rparr>
         else opts)"

definition manager_options :: "manager_flags \<Rightarrow> ctrl_Options" where
  "manager_options fl =
     \<lparr>opt_DefaultNamespaces = (if fl_watchNamespace fl \<noteq> '''' then [fl_watchNamespace fl] else []),
      opt_Metrics = metricsServerOptions fl, opt_WebhookServer = webhookServerOptions fl,
      opt_HealthProbeBindAddress = fl_probeAddr fl, opt_LeaderElection = fl_enableLeaderElection fl,
      opt_LeaderElectionID = ''e4964426.cluster.x-k8s.io''\<rparr>"

section \<open>Controllers and webhooks\<close>

datatype map_func =
    ClusterToInfrastructureMapFunc GroupVersion string
  | MachineToInfrastructureMapFunc GroupVersion string
  | ClusterToTypedObjects string
  | VerdaMachineToVerdaCluster

datatype predicate =
    ResourceHasFilterLabel string
  | ResourceIsNotExternallyManaged
  | ClusterPausedTransitions
  | ClusterPausedTransitionsOrInfrastructureProvisioned

record watch =
  wa_Object :: string
  wa_Handler :: map_func
  wa_Predicates :: "predicate list"

text \<open>\<open>cb_MaxConcurrentReconciles\<close> is the only option the manager sets.\<close>

record controller_builder =
  cb_For :: string
  cb_MaxConcurrentReconciles :: int
  cb_EventFilters :: "predicate list"
  cb_Watches :: "watch list"
  cb_Named :: string

record webhook_builder =
  wb_For :: string
  wb_Validator :: string
  wb_Defaulter :: string

datatype manager_call =
    GetConfig
  | NewManager ctrl_Options
  | NewTypedObjectsMapper string
  | CompleteController controller_builder
  | CompleteWebhook webhook_builder
  | AddHealthzCheck string
  | AddReadyzCheck string
  | Start

type_synonym 'w manager = "manager_call \<Rightarrow> ('w, unit) call"

definition VerdaClusterReconciler_SetupWithManager :: "'w manager \<Rightarrow> string \<Rightarrow> int \<Rightarrow> ('w, unit) call" where
  "VerdaClusterReconciler_SetupWithManager mgr WatchFilterValue options =
     mgr (CompleteController
       \<lparr>cb_For = ''VerdaCluster'', cb_MaxConcurrentReconciles = options,
        cb_EventFilters = [ResourceHasFilterLabel WatchFilterValue, ResourceIsNotExternallyManaged],
        cb_Watches =
          [\<lparr>wa_Object = ''Cluster'', wa_Handler = ClusterToInfrastructureMapFunc SchemeGroupVersion ''VerdaCluster'',
            wa_Predicates = [ClusterPausedTransitions]\<rparr>,
           \<lparr>wa_Object = ''VerdaMachine'', wa_Handler = VerdaMachineToVerdaCluster, wa_Predicates = []\<rparr>],
        cb_Named = ''verdacluster''\<rparr>)"

definition VerdaMachineReconciler_SetupWithManager :: "'w manager \<Rightarrow> string \<Rightarrow> int \<Rightarrow> ('w, unit) call" where
  "VerdaMachineReconciler_SetupWithManager mgr WatchFilterValue options w =
     (case mgr (NewTypedObjectsMapper ''VerdaMachineList'') w of
        (Inl err, w) \<Rightarrow> (Inl (Wrapf ''creating cluster to VerdaMachines mapper: %w'' [] err), w)
      | (Inr _, w) \<Rightarrow>
          mgr (CompleteController
            \<lparr>cb_For = ''VerdaMachine'', cb_MaxConcurrentReconciles = options,
             cb_EventFilters = [ResourceHasFilterLabel WatchFilterValue],
             cb_Watches =
               [\<lparr>wa_Object = ''Machine'', wa_Handler = MachineToInfrastructureMapFunc SchemeGroupVersion ''VerdaMachine'',
                 wa_Predicates = []\<rparr>,
                \<lparr>wa_Object = ''Cluster'', wa_Handler = ClusterToTypedObjects ''VerdaMachineList'',
                 wa_Predicates = [ClusterPausedTransitionsOrInfrastructureProvisioned]\<rparr>],
             cb_Named = ''verdamachine''\<rparr>) w)"

definition VerdaMachineTemplateReconciler_SetupWithManager :: "'w manager \<Rightarrow> string \<Rightarrow> int \<Rightarrow> ('w, unit) call" where
  "VerdaMachineTemplateReconciler_SetupWithManager mgr WatchFilterValue options =
     mgr (CompleteController
       \<lparr>cb_For = ''VerdaMachineTemplate'', cb_MaxConcurrentReconciles = options,
        cb_EventFilters = [ResourceHasFilterLabel WatchFilterValue], cb_Watches = [], cb_Named = ''verdamachinetemplate''\<rparr>)"

definition SetupVerdaClusterWebhookWithManager :: "'w manager \<Rightarrow> ('w, unit) call" where
  "SetupVerdaClusterWebhookWithManager mgr =
     mgr (CompleteWebhook \<lparr>wb_For = ''VerdaCluster'', wb_Validator = ''VerdaClusterCustomValidator'',
       wb_Defaulter = ''VerdaClusterCustomDefaulter''\<rparr>)"

definition SetupVerdaMachineWebhookWithManager :: "'w manager \<Rightarrow> ('w, unit) call" where
  "SetupVerdaMachineWebhookWithManager mgr =
     mgr (CompleteWebhook \<lparr>wb_For = ''VerdaMachine'', wb_Validator = ''VerdaMachineCustomValidator'',
       wb_Defaulter = ''VerdaMachineCustomDefaulter''\<rparr>)"

definition SetupVerdaMachineTemplateWebhookWithManager :: "'w manager \<Rightarrow> ('w, unit) call" where
  "SetupVerdaMachineTemplateWebhookWithManager mgr =
     mgr (CompleteWebhook \<lparr>wb_For = ''VerdaMachineTemplate'', wb_Validator = ''VerdaMachineTemplateCustomValidator'',
       wb_Defaulter = ''VerdaMachineTemplateCustomDefaulter''\<rparr>)"

definition SetupVerdaClusterTemplateWebhookWithManager :: "'w manager \<Rightarrow> ('w, unit) call" where
  "SetupVerdaClusterTemplateWebhookWithManager mgr =
     mgr (CompleteWebhook \<lparr>wb_For = ''VerdaClusterTemplate'', wb_Validator = ''VerdaClusterTemplateCustomValidator'',
       wb_Defaulter = ''VerdaClusterTemplateCustomDefaulter''\<rparr>)"

section \<open>The controller manager\<close>

text \<open>
  What the process finds: its environment, home directory and files, the constructor of the SDK,
  the reader of secrets the manager hands out, and the flags of the logger.
\<close>

record 'a process =
  ps_Getenv :: "string \<Rightarrow> string"
  ps_UserHomeDir :: "go_error + string"
  ps_Open :: "string \<Rightarrow> go_error + string \<times> go_error option"
  ps_verda_NewClient :: "client_option list \<Rightarrow> go_error + 'a verda_api"
  ps_APIReader :: "string \<Rightarrow> string \<Rightarrow> go_error + identity_secret"
  ps_zap :: "string \<Rightarrow> (bool \<times> (string \<Rightarrow> bool)) option"

text \<open>The factory that all three controllers share, or the error for which the process exits.\<close>

definition cloudFactory :: "'a process \<Rightarrow> manager_flags \<Rightarrow> go_error + 'a cloud_client SecretFactory" where
  "cloudFactory ps fl =
     (let f = \<lparr>sf_Reader = ps_APIReader ps, sf_Global = None, sf_NewClient = None, sf_cache = []\<rparr> in
      case LoadCredentials (ps_Getenv ps) (ps_UserHomeDir ps) (ps_Open ps) (fl_credentialsFile fl) of
        Inl _ \<Rightarrow> Inr f
      | Inr creds \<Rightarrow>
          (case NewClient (ps_verda_NewClient ps) creds of
             Inl err \<Rightarrow> Inl err
           | Inr verdaClient \<Rightarrow> Inr (f\<lparr>sf_Global := Some verdaClient\<rparr>)))"

text \<open>Steps that are taken one after the other until one fails.\<close>

fun run_steps :: "('w, unit) call list \<Rightarrow> ('w, unit) call" where
  "run_steps [] w = (Inr (), w)"
| "run_steps (f # fs) w = (case f w of (Inl err, w) \<Rightarrow> (Inl err, w) | (Inr _, w) \<Rightarrow> run_steps fs w)"

definition setup_steps :: "'w manager \<Rightarrow> 'a process \<Rightarrow> manager_flags \<Rightarrow> ('w, unit) call list" where
  "setup_steps mgr ps fl =
     [VerdaClusterReconciler_SetupWithManager mgr (fl_watchFilterValue fl) (fl_concurrency fl),
      VerdaMachineReconciler_SetupWithManager mgr (fl_watchFilterValue fl) (fl_concurrency fl)] @
     (if ps_Getenv ps ''ENABLE_WEBHOOKS'' \<noteq> ''false'' then [SetupVerdaClusterWebhookWithManager mgr] else []) @
     (if ps_Getenv ps ''ENABLE_WEBHOOKS'' \<noteq> ''false'' then [SetupVerdaMachineWebhookWithManager mgr] else []) @
     (if ps_Getenv ps ''ENABLE_WEBHOOKS'' \<noteq> ''false'' then [SetupVerdaMachineTemplateWebhookWithManager mgr] else []) @
     (if ps_Getenv ps ''ENABLE_WEBHOOKS'' \<noteq> ''false'' then [SetupVerdaClusterTemplateWebhookWithManager mgr] else []) @
     [VerdaMachineTemplateReconciler_SetupWithManager mgr (fl_watchFilterValue fl) (fl_concurrency fl),
      mgr (AddHealthzCheck ''healthz''), mgr (AddReadyzCheck ''readyz''), mgr Start]"

text \<open>The exit status of the process, and the factory if the controllers got one.\<close>

definition main :: "'w manager \<Rightarrow> 'a process \<Rightarrow> string list \<Rightarrow> 'w \<Rightarrow> nat \<times> 'a cloud_client SecretFactory option \<times> 'w" where
  "main mgr ps args w =
     (case flag_Parse (flag_set (ps_zap ps)) args default_flags of
        Inl code \<Rightarrow> (code, None, w)
      | Inr fl \<Rightarrow>
          (case run_steps [mgr GetConfig, mgr (NewManager (manager_options fl))] w of
             (Inl _, w) \<Rightarrow> (1, None, w)
           | (Inr _, w) \<Rightarrow>
               (case cloudFactory ps fl of
                  Inl _ \<Rightarrow> (1, None, w)
                | Inr f \<Rightarrow>
                    (case run_steps (setup_steps mgr ps fl) w of
                       (Inl _, w) \<Rightarrow> (1, Some f, w)
                     | (Inr _, w) \<Rightarrow> (0, Some f, w)))))"

section \<open>The cloud controller manager\<close>

text \<open>
  \<^verbatim>\<open>ccm.Provider\<close> with its client, and once it is initialised the client of the workload cluster
  and the load balancer made from it and an updater.
\<close>

record ('c, 'k, 'u) Provider =
  pr_client :: 'c
  pr_kube :: "'k option"
  pr_lb :: "('k \<times> 'u) option"

definition ProviderName :: string where "ProviderName = ''verda''"

definition New :: "'c \<Rightarrow> ('c, 'k, 'u) Provider" where
  "New client = \<lparr>pr_client = client, pr_kube = None, pr_lb = None\<rparr>"

text \<open>The constructor that \<^verbatim>\<open>init\<close> registers under the name of the provider.\<close>

definition provider_constructor :: "'a process \<Rightarrow> go_error + ('a cloud_client, 'k, 'u) Provider" where
  "provider_constructor ps =
     (case LoadCredentials (ps_Getenv ps) (ps_UserHomeDir ps) (ps_Open ps) '''' of
        Inl err \<Rightarrow> Inl err
      | Inr creds \<Rightarrow>
          (case NewClient (ps_verda_NewClient ps) creds of
             Inl err \<Rightarrow> Inl err
           | Inr client \<Rightarrow> Inr (New client)))"

definition WithKubeClient :: "'k \<Rightarrow> 'u \<Rightarrow> ('c, 'k, 'u) Provider \<Rightarrow> ('c, 'k, 'u) Provider" where
  "WithKubeClient kube updater p = p\<lparr>pr_kube := Some kube, pr_lb := Some (kube, updater)\<rparr>"

text \<open>\<open>ssh\<close> is the library the updater uses, which gets no timeout of its own.\<close>

definition Initialize :: "('k, 'l, 'w) ssh_lib \<Rightarrow> (string \<Rightarrow> 'j) \<Rightarrow> ('c, 'j, 'w updater) Provider \<Rightarrow> ('c, 'j, 'w updater) Provider" where
  "Initialize ssh ClientOrDie p = WithKubeClient (ClientOrDie ''verda-service-load-balancer'') (SSHUpdater ssh 0) p"

text \<open>What the provider offers: a value and whether the interface is supported.\<close>

definition Instances :: "('c, 'k, 'u) Provider \<Rightarrow> unit option \<times> bool" where
  "Instances p = (None, False)"

definition InstancesV2 :: "('c, 'k, 'u) Provider \<Rightarrow> ('c, 'k, 'u) Provider option \<times> bool" where
  "InstancesV2 p = (Some p, True)"

definition Zones :: "('c, 'k, 'u) Provider \<Rightarrow> unit option \<times> bool" where
  "Zones p = (None, False)"

definition Clusters :: "('c, 'k, 'u) Provider \<Rightarrow> unit option \<times> bool" where
  "Clusters p = (None, False)"

definition Routes :: "('c, 'k, 'u) Provider \<Rightarrow> unit option \<times> bool" where
  "Routes p = (None, False)"

definition Provider_ProviderName :: "('c, 'k, 'u) Provider \<Rightarrow> string" where
  "Provider_ProviderName p = ProviderName"

definition HasClusterID :: "('c, 'k, 'u) Provider \<Rightarrow> bool" where
  "HasClusterID p = True"

definition Provider_LoadBalancer :: "('c, 'k, 'u) Provider \<Rightarrow> ('k \<times> 'u) option \<times> bool" where
  "Provider_LoadBalancer p = (if pr_kube p = None then (None, False) else (pr_lb p, True))"

text \<open>
  The controllers the framework starts: a constructor \<open>'f\<close> for each name, with the name of the
  client it uses. \<open>NodeRouteController\<close> is the framework's name of the route controller.
\<close>

record 'f constructor =
  co_ClientName :: string
  co_Constructor :: 'f

definition controllerInitializers :: "string \<Rightarrow> (string \<times> 'f constructor) list \<Rightarrow> (string \<times> 'f constructor) list" where
  "controllerInitializers NodeRouteController defaults =
     map (\<lambda>(name, c). (name, c\<lparr>co_ClientName := ''verda-external-'' @ name\<rparr>)) (AList.delete NodeRouteController defaults)"

definition cloudInitializer :: "(string \<Rightarrow> string \<Rightarrow> go_error + 'p option) \<Rightarrow> string \<Rightarrow> string \<Rightarrow> nat + 'p" where
  "cloudInitializer InitCloudProvider name configFile =
     (case InitCloudProvider name configFile of
        Inl _ \<Rightarrow> Inl 1
      | Inr None \<Rightarrow> Inl 1
      | Inr (Some cloud) \<Rightarrow> Inr cloud)"

text \<open>
  The parameters are the framework: its options, how the name of the provider is set in them, and
  the command that is run with the initializer of the cloud and of the controllers.
\<close>

definition ccm_main :: "go_error + 'o \<Rightarrow> (string \<Rightarrow> 'o \<Rightarrow> 'o) \<Rightarrow> (string \<Rightarrow> string \<Rightarrow> go_error + 'p option) \<Rightarrow> string \<Rightarrow>
    (string \<times> 'f constructor) list \<Rightarrow>
    ('o \<Rightarrow> (string \<Rightarrow> string \<Rightarrow> nat + 'p) \<Rightarrow> (string \<times> 'f constructor) list \<Rightarrow> nat) \<Rightarrow> nat" where
  "ccm_main NewOptions set_Name InitCloudProvider NodeRouteController defaults cli_Run =
     (case NewOptions of
        Inl _ \<Rightarrow> 1
      | Inr ccmOptions \<Rightarrow>
          cli_Run (set_Name ProviderName ccmOptions) (cloudInitializer InitCloudProvider)
            (controllerInitializers NodeRouteController defaults))"

end
