(* ===== verification/ManagersProps.thy ===== *)
theory ManagersProps
  imports Managers "HOL-Library.Sublist"
begin

text \<open>
  What the two programs do: every flag sets its own option, the manager starts only after
  everything it needs has been set up, which client a cluster gets, and which interfaces and
  controllers the cloud controller manager has.
\<close>

section \<open>Flags\<close>

definition print_flags :: "manager_flags \<Rightarrow> string list" where
  "print_flags fl =
     [print_flag ''watch-filter'' (fl_watchFilterValue fl), print_flag ''credentials-file'' (fl_credentialsFile fl),
      print_flag ''concurrency'' (itoa_int (fl_concurrency fl)), print_flag ''namespace'' (fl_watchNamespace fl),
      print_flag ''metrics-bind-address'' (fl_metricsAddr fl), print_flag ''health-probe-bind-address'' (fl_probeAddr fl),
      print_flag ''leader-elect'' (print_bool (fl_enableLeaderElection fl)), print_flag ''metrics-secure'' (print_bool (fl_secureMetrics fl)),
      print_flag ''webhook-cert-path'' (fl_webhookCertPath fl), print_flag ''webhook-cert-name'' (fl_webhookCertName fl),
      print_flag ''webhook-cert-key'' (fl_webhookCertKey fl), print_flag ''metrics-cert-path'' (fl_metricsCertPath fl),
      print_flag ''metrics-cert-name'' (fl_metricsCertName fl), print_flag ''metrics-cert-key'' (fl_metricsCertKey fl),
      print_flag ''enable-http2'' (print_bool (fl_enableHTTP2 fl))]"

lemma flag_Parse_own:
  assumes "(name, b) \<in> set own_flags"
  shows "flag_Parse (flag_set zap) (print_flag name v # args) opts =
     (case flag_Set b v opts of None \<Rightarrow> Inl 2 | Some opts' \<Rightarrow> flag_Parse (flag_set zap) args opts')"
proof (rule flag_Parse_print)
  have "distinct (map fst own_flags)" by (simp add: own_flags_def)
  with assms show "flag_set zap name = Some b" by (simp add: flag_set_def map_of_eq_Some_iff)
  have "\<forall>n \<in> fst ` set own_flags. n \<noteq> [] \<and> hd n \<noteq> CHR ''-'' \<and> CHR ''='' \<notin> set n" by (simp add: own_flags_def)
  with assms show "name \<noteq> []" "hd name \<noteq> CHR ''-''" "CHR ''='' \<notin> set name" by force+
qed

text \<open>
  Every flag of the manager sets its own option: the command line that spells out the options
  one by one is parsed to these options, whatever they are, as long as the concurrency is an
  \<^verbatim>\<open>int\<close>.
\<close>

theorem flags_read_back:
  assumes "- (2 ^ 63) \<le> fl_concurrency fl" "fl_concurrency fl < 2 ^ 63"
  shows "flag_Parse (flag_set zap) (print_flags fl) default_flags = Inr fl"
  unfolding print_flags_def
  by (simp add: flag_Parse_own own_flags_def ParseInt_itoa [OF assms] default_flags_def)

section \<open>Starting\<close>

text \<open>The calls of controller-runtime in order, each with whether it succeeded.\<close>

definition logged :: "'w manager \<Rightarrow> ((manager_call \<times> bool) list \<times> 'w) manager" where
  "logged mgr c lw =
     (case mgr c (snd lw) of
        (Inl err, w) \<Rightarrow> (Inl err, fst lw @ [(c, False)], w)
      | (Inr u, w) \<Rightarrow> (Inr u, fst lw @ [(c, True)], w))"

definition controller_of :: "string \<Rightarrow> predicate list \<Rightarrow> watch list \<Rightarrow> string \<Rightarrow> manager_flags \<Rightarrow> manager_call" where
  "controller_of kind filters watches name fl =
     CompleteController \<lparr>cb_For = kind, cb_MaxConcurrentReconciles = fl_concurrency fl,
       cb_EventFilters = ResourceHasFilterLabel (fl_watchFilterValue fl) # filters, cb_Watches = watches, cb_Named = name\<rparr>"

definition webhook_of :: "string \<Rightarrow> manager_call" where
  "webhook_of kind = CompleteWebhook \<lparr>wb_For = kind, wb_Validator = kind @ ''CustomValidator'', wb_Defaulter = kind @ ''CustomDefaulter''\<rparr>"

text \<open>Everything there is to set up, in order.\<close>

definition startup_plan :: "'a process \<Rightarrow> manager_flags \<Rightarrow> manager_call list" where
  "startup_plan ps fl =
     [GetConfig, NewManager (manager_options fl),
      controller_of ''VerdaCluster'' [ResourceIsNotExternallyManaged]
        [\<lparr>wa_Object = ''Cluster'', wa_Handler = ClusterToInfrastructureMapFunc SchemeGroupVersion ''VerdaCluster'',
          wa_Predicates = [ClusterPausedTransitions]\<rparr>,
         \<lparr>wa_Object = ''VerdaMachine'', wa_Handler = VerdaMachineToVerdaCluster, wa_Predicates = []\<rparr>] ''verdacluster'' fl,
      NewTypedObjectsMapper ''VerdaMachineList'',
      controller_of ''VerdaMachine'' []
        [\<lparr>wa_Object = ''Machine'', wa_Handler = MachineToInfrastructureMapFunc SchemeGroupVersion ''VerdaMachine'', wa_Predicates = []\<rparr>,
         \<lparr>wa_Object = ''Cluster'', wa_Handler = ClusterToTypedObjects ''VerdaMachineList'',
          wa_Predicates = [ClusterPausedTransitionsOrInfrastructureProvisioned]\<rparr>] ''verdamachine'' fl] @
     (if ps_Getenv ps ''ENABLE_WEBHOOKS'' = ''false'' then []
      else map webhook_of [''VerdaCluster'', ''VerdaMachine'', ''VerdaMachineTemplate'', ''VerdaClusterTemplate'']) @
     [controller_of ''VerdaMachineTemplate'' [] [] ''verdamachinetemplate'' fl,
      AddHealthzCheck ''healthz'', AddReadyzCheck ''readyz'', Start]"

text \<open>\<open>f\<close> makes the calls \<open>cs\<close> one after the other and stops with an error at the first that fails.\<close>

definition executes :: "((manager_call \<times> bool) list \<times> 'w, unit) call \<Rightarrow> manager_call list \<Rightarrow> bool" where
  "executes f cs =
     (\<forall>lw. if isl (fst (f lw))
        then \<exists>pre c. prefix (pre @ [c]) cs \<and> fst (snd (f lw)) = fst lw @ map (\<lambda>c. (c, True)) pre @ [(c, False)]
        else fst (snd (f lw)) = fst lw @ map (\<lambda>c. (c, True)) cs)"

lemma executesD:
  assumes "executes f cs"
  shows "isl (fst (f lw)) \<Longrightarrow> \<exists>pre c. prefix (pre @ [c]) cs \<and> fst (snd (f lw)) = fst lw @ map (\<lambda>c. (c, True)) pre @ [(c, False)]"
    and "\<not> isl (fst (f lw)) \<Longrightarrow> fst (snd (f lw)) = fst lw @ map (\<lambda>c. (c, True)) cs"
  using assms [unfolded executes_def, rule_format, of lw] by simp_all

lemma executes_cong:
  assumes "executes g cs" "\<And>lw. isl (fst (f lw)) = isl (fst (g lw))" "\<And>lw. snd (f lw) = snd (g lw)"
  shows "executes f cs"
  using assms(1) unfolding executes_def assms(2,3) .

lemma executes_logged: "executes (logged mgr c) [c]"
  by (auto simp: executes_def logged_def split: prod.splits sum.splits intro!: exI [of _ "[]"])

lemma run_steps_Cons:
  "run_steps (f # fs) w = (if isl (fst (f w)) then (Inl (projl (fst (f w))), snd (f w)) else run_steps fs (snd (f w)))"
  by (auto split: prod.splits sum.splits)

lemma executes_steps:
  assumes "executes f cs" "executes (run_steps fs) ds"
  shows "executes (run_steps (f # fs)) (cs @ ds)"
  unfolding executes_def
proof
  fix lw
  show "if isl (fst (run_steps (f # fs) lw))
    then \<exists>pre c. prefix (pre @ [c]) (cs @ ds) \<and> fst (snd (run_steps (f # fs) lw)) = fst lw @ map (\<lambda>c. (c, True)) pre @ [(c, False)]
    else fst (snd (run_steps (f # fs) lw)) = fst lw @ map (\<lambda>c. (c, True)) (cs @ ds)"
  proof (cases "isl (fst (f lw))")
    case True
    with executesD(1) [OF assms(1) True] show ?thesis by (auto simp: run_steps_Cons simp del: run_steps.simps intro: prefix_prefix)
  next
    case False
    let ?lw = "snd (f lw)"
    have 1: "fst ?lw = fst lw @ map (\<lambda>c. (c, True)) cs" by (rule executesD(2) [OF assms(1) False])
    show ?thesis
    proof (cases "isl (fst (run_steps fs ?lw))")
      case True
      from executesD(1) [OF assms(2) True] obtain pre c where
        "prefix (pre @ [c]) ds" "fst (snd (run_steps fs ?lw)) = fst ?lw @ map (\<lambda>c. (c, True)) pre @ [(c, False)]" by blast
      with 1 True False show ?thesis
        by (simp add: run_steps_Cons del: run_steps.simps) (intro exI [of _ "cs @ pre"] exI [of _ c], simp)
    next
      case 2: False
      with 1 False executesD(2) [OF assms(2) 2] show ?thesis by (simp add: run_steps_Cons del: run_steps.simps)
    qed
  qed
qed

lemma executes_Nil: "executes (run_steps []) []"
  by (simp add: executes_def)

lemma executes_machine_setup:
  "executes (VerdaMachineReconciler_SetupWithManager (logged mgr) (fl_watchFilterValue fl) (fl_concurrency fl))
     ([NewTypedObjectsMapper ''VerdaMachineList''] @
      [controller_of ''VerdaMachine'' []
        [\<lparr>wa_Object = ''Machine'', wa_Handler = MachineToInfrastructureMapFunc SchemeGroupVersion ''VerdaMachine'', wa_Predicates = []\<rparr>,
         \<lparr>wa_Object = ''Cluster'', wa_Handler = ClusterToTypedObjects ''VerdaMachineList'',
          wa_Predicates = [ClusterPausedTransitionsOrInfrastructureProvisioned]\<rparr>] ''verdamachine'' fl] @ [])"
    (is "executes ?f ([?a] @ [?b] @ [])")
proof (rule executes_cong)
  show "executes (run_steps [logged mgr ?a, logged mgr ?b]) ([?a] @ [?b] @ [])"
    by (intro executes_steps executes_logged executes_Nil)
qed (auto simp: VerdaMachineReconciler_SetupWithManager_def controller_of_def split: prod.splits sum.splits)

lemma setup_executes:
  "startup_plan ps fl = [GetConfig, NewManager (manager_options fl)] @ drop 2 (startup_plan ps fl)"
  "executes (run_steps (setup_steps (logged mgr) ps fl)) (drop 2 (startup_plan ps fl))"
proof -
  show "startup_plan ps fl = [GetConfig, NewManager (manager_options fl)] @ drop 2 (startup_plan ps fl)"
    by (simp add: startup_plan_def)
  note steps = executes_steps [OF executes_logged]
  have last: "executes (run_steps [VerdaMachineTemplateReconciler_SetupWithManager (logged mgr) (fl_watchFilterValue fl) (fl_concurrency fl),
        logged mgr (AddHealthzCheck ''healthz''), logged mgr (AddReadyzCheck ''readyz''), logged mgr Start])
      ([controller_of ''VerdaMachineTemplate'' [] [] ''verdamachinetemplate'' fl] @ [AddHealthzCheck ''healthz''] @ [AddReadyzCheck ''readyz''] @ [Start] @ [])"
    unfolding VerdaMachineTemplateReconciler_SetupWithManager_def controller_of_def by (intro steps executes_Nil)
  show "executes (run_steps (setup_steps (logged mgr) ps fl)) (drop 2 (startup_plan ps fl))"
  proof (cases "ps_Getenv ps ''ENABLE_WEBHOOKS'' = ''false''")
    case True
    with steps [OF executes_steps [OF executes_machine_setup last]] show ?thesis
      by (simp add: setup_steps_def startup_plan_def VerdaClusterReconciler_SetupWithManager_def controller_of_def)
  next
    case False
    have "executes (run_steps (map (\<lambda>k. logged mgr (webhook_of k)) ks @ fs)) (map webhook_of ks @ cs)" if "executes (run_steps fs) cs" for ks fs cs
      using that by (induction ks) (auto dest: steps)
    from steps [OF executes_steps [OF executes_machine_setup this [OF last, of "[''VerdaCluster'', ''VerdaMachine'', ''VerdaMachineTemplate'', ''VerdaClusterTemplate'']"]]]
      False show ?thesis
      by (simp add: setup_steps_def startup_plan_def VerdaClusterReconciler_SetupWithManager_def controller_of_def webhook_of_def
          SetupVerdaClusterWebhookWithManager_def SetupVerdaMachineWebhookWithManager_def
          SetupVerdaMachineTemplateWebhookWithManager_def SetupVerdaClusterTemplateWebhookWithManager_def)
  qed
qed

text \<open>A log of a list of calls: complete, or broken off at the first call that failed.\<close>

definition completed :: "manager_call list \<Rightarrow> (manager_call \<times> bool) list \<Rightarrow> bool" where
  "completed cs log = (log = map (\<lambda>c. (c, True)) cs)"

definition broken_off :: "manager_call list \<Rightarrow> (manager_call \<times> bool) list \<Rightarrow> bool" where
  "broken_off cs log = (\<exists>pre c. prefix (pre @ [c]) cs \<and> log = map (\<lambda>c. (c, True)) pre @ [(c, False)])"

lemma prefix_snoc_once:
  assumes "prefix xs (ys @ [x])" "x \<notin> set ys" "x \<in> set xs"
  shows "xs = ys @ [x]"
proof (rule ccontr)
  assume "xs \<noteq> ys @ [x]"
  with assms(1) have "prefix xs ys" by (auto simp: prefix_snoc)
  with assms(2,3) show False by (auto dest: set_mono_prefix)
qed

lemma startup_plan_last: "\<exists>cs. startup_plan ps fl = cs @ [Start] \<and> Start \<notin> set cs"
  by (rule exI [of _ "butlast (startup_plan ps fl)"])
    (auto simp: startup_plan_def butlast_append controller_of_def webhook_of_def)

lemma main_run:
  assumes "flag_Parse (flag_set (ps_zap ps)) args default_flags = Inr fl"
    and "main (logged mgr) ps args ([], w) = (code, f, log, w')"
  shows "code = 0 \<and> completed (startup_plan ps fl) log \<and> cloudFactory ps fl = Inr (the f) \<and> f \<noteq> None \<or>
     code = 1 \<and> (broken_off (startup_plan ps fl) log \<or> log = map (\<lambda>c. (c, True)) (take 2 (startup_plan ps fl)))"
proof -
  let ?first = "run_steps [logged mgr GetConfig, logged mgr (NewManager (manager_options fl))]" and ?plan = "startup_plan ps fl"
  let ?lw = "snd (?first ([], w))" and ?rest = "run_steps (setup_steps (logged mgr) ps fl)"
  have first: "executes ?first ([GetConfig] @ [NewManager (manager_options fl)] @ [])"
    by (intro executes_steps executes_logged executes_Nil)
  have plan: "?plan = [GetConfig] @ [NewManager (manager_options fl)] @ [] @ drop 2 ?plan" using setup_executes(1) by simp
  have main: "(code, f, log, w') =
      (if isl (fst (?first ([], w))) then (1, None, ?lw)
       else case cloudFactory ps fl of Inl _ \<Rightarrow> (1, None, ?lw)
         | Inr g \<Rightarrow> (if isl (fst (?rest ?lw)) then (1, Some g, snd (?rest ?lw)) else (0, Some g, snd (?rest ?lw))))"
    using assms by (simp add: main_def del: run_steps.simps split: prod.splits sum.splits)
  show ?thesis
  proof (cases "isl (fst (?first ([], w)))")
    case True
    from executesD(1) [OF first True] obtain pre c where "prefix (pre @ [c]) ([GetConfig] @ [NewManager (manager_options fl)] @ [])"
      "fst ?lw = map (\<lambda>c. (c, True)) pre @ [(c, False)]" by auto
    with plan have "broken_off ?plan (fst ?lw)" unfolding broken_off_def by (metis append.assoc prefix_prefix)
    with main True show ?thesis by (simp del: run_steps.simps) (metis fst_conv)
  next
    case False
    have lw: "fst ?lw = map (\<lambda>c. (c, True)) (take 2 ?plan)"
      using executesD(2) [OF first False] by (subst plan) simp
    show ?thesis
    proof (cases "cloudFactory ps fl")
      case (Inl e)
      with main False lw show ?thesis by (simp del: run_steps.simps) (metis fst_conv)
    next
      case (Inr g)
      show ?thesis
      proof (cases "isl (fst (?rest ?lw))")
        case True
        from executesD(1) [OF setup_executes(2) True] obtain pre c where "prefix (pre @ [c]) (drop 2 ?plan)"
          "fst (snd (?rest ?lw)) = map (\<lambda>c. (c, True)) (take 2 ?plan @ pre) @ [(c, False)]" using lw by auto
        moreover from this(1) have "prefix ((take 2 ?plan @ pre) @ [c]) ?plan" by (metis append.assoc append_take_drop_id same_prefix_prefix)
        ultimately have "broken_off ?plan (fst (snd (?rest ?lw)))" unfolding broken_off_def by blast
        with main False Inr True show ?thesis by (simp del: run_steps.simps) (metis fst_conv)
      next
        case ok: False
        from executesD(2) [OF setup_executes(2) ok] lw have "completed ?plan (fst (snd (?rest ?lw)))"
          by (simp add: completed_def flip: map_append)
        with main False Inr ok show ?thesis by (simp del: run_steps.simps) (metis fst_conv)
      qed
    qed
  qed
qed

text \<open>
  C16. The manager starts only when everything is set up: with flags that parse, the calls made are a
  beginning of the plan (the manager with its options, the three controllers, the four webhooks
  unless they are switched off, the checks, and the start), only the last call made can have
  failed, the start is reached only after all others, and the process exits with 0 just when the
  whole plan was carried out, with 1 otherwise.
\<close>

theorem manager_startup:
  assumes "flag_Parse (flag_set (ps_zap ps)) args default_flags = Inr fl"
    and "main (logged mgr) ps args ([], w) = (code, f, log, w')"
  shows "prefix (map fst log) (startup_plan ps fl) \<and> list_all snd (butlast log) \<and>
     (Start \<in> set (map fst log) \<longrightarrow> map fst log = startup_plan ps fl) \<and>
     code = (if log = map (\<lambda>c. (c, True)) (startup_plan ps fl) then 0 else 1)"
proof -
  from startup_plan_last obtain cs where cs: "startup_plan ps fl = cs @ [Start]" "Start \<notin> set cs" by blast
  from main_run [OF assms] show ?thesis
  proof (elim disjE conjE)
    assume "completed (startup_plan ps fl) log" "code = 0"
    then show ?thesis by (auto simp: completed_def o_def list_all_iff dest!: in_set_butlastD)
  next
    assume "broken_off (startup_plan ps fl) log" "code = 1"
    then obtain pre c where log: "prefix (pre @ [c]) (startup_plan ps fl)" "log = map (\<lambda>c. (c, True)) pre @ [(c, False)]"
      by (auto simp: broken_off_def)
    then have "map fst log = pre @ [c]" "list_all snd (butlast log)" "(c, False) \<in> set log" by (simp_all add: o_def list_all_iff)
    moreover from this(3) have "log \<noteq> map (\<lambda>c. (c, True)) (startup_plan ps fl)" by auto
    ultimately show ?thesis using log(1) prefix_snoc_once [of "pre @ [c]" cs Start] cs \<open>code = 1\<close> by metis
  next
    assume log: "log = map (\<lambda>c. (c, True)) (take 2 (startup_plan ps fl))" "code = 1"
    have "2 < length (startup_plan ps fl)" "Start \<notin> set (take 2 (startup_plan ps fl))" by (simp_all add: startup_plan_def)
    with log show ?thesis
      by (auto simp: o_def take_is_prefix list_all_iff min_def dest!: in_set_butlastD arg_cong [where f = length] split: if_splits)
  qed
qed

section \<open>Options\<close>

text \<open>Without the flag both servers speak HTTP/1.1 only, with it their configuration is left alone.\<close>

lemma http2_switch:
  assumes "opts \<in> {wo_TLSOpts (opt_WebhookServer (manager_options fl)), mo_TLSOpts (opt_Metrics (manager_options fl))}"
  shows "tls_NextProtos (fold id opts c) = (if fl_enableHTTP2 fl then tls_NextProtos c else [''http/1.1''])"
proof -
  have "opts = tlsOpts fl"
    using assms by (auto simp: manager_options_def webhookServerOptions_def metricsServerOptions_def Let_def)
  then show ?thesis by (simp add: tlsOpts_def disableHTTP2_def)
qed

text \<open>Metrics served over HTTPS are served to authorised clients only.\<close>

lemma secure_metrics_filtered:
  "mo_SecureServing (opt_Metrics (manager_options fl)) \<Longrightarrow> mo_FilterProvider (opt_Metrics (manager_options fl))"
  by (auto simp: manager_options_def metricsServerOptions_def Let_def split: if_splits)

text \<open>Every kind that is reconciled or admitted is registered, with its list.\<close>

lemma kinds_registered:
  assumes "CompleteController b \<in> set (startup_plan ps fl) \<and> k = cb_For b \<or> CompleteWebhook wb \<in> set (startup_plan ps fl) \<and> k = wb_For wb"
  shows "\<exists>ks. AddKnownTypes SchemeGroupVersion ks \<in> set SchemeBuilder \<and> k \<in> set ks \<and> k @ ''List'' \<in> set ks"
proof -
  let ?K = "{''VerdaCluster'', ''VerdaMachine'', ''VerdaMachineTemplate'', ''VerdaClusterTemplate''}"
  have "\<forall>c \<in> set (startup_plan ps fl). case c of CompleteController b \<Rightarrow> cb_For b \<in> ?K | CompleteWebhook wb \<Rightarrow> wb_For wb \<in> ?K | _ \<Rightarrow> True"
    by (simp add: startup_plan_def controller_of_def webhook_of_def)
  with assms have "k \<in> ?K" by (elim disjE conjE) (drule (1) bspec, simp only: manager_call.case)+
  moreover have "\<forall>k \<in> ?K. AddKnownTypes SchemeGroupVersion [k, k @ ''List''] \<in> set SchemeBuilder"
    by (simp add: SchemeBuilder_def VerdaCluster_init_def VerdaClusterTemplate_init_def VerdaMachine_init_def VerdaMachineTemplate_init_def)
  ultimately have "AddKnownTypes SchemeGroupVersion [k, k @ ''List''] \<in> set SchemeBuilder" by (rule bspec [rotated])
  then show ?thesis by (intro exI [of _ "[k, k @ ''List'']"]) simp
qed

text \<open>
  A cluster without an identity gets the client made from the credentials of the manager; if there
  are none, an error, and the manager runs nevertheless.
\<close>

lemma manager_global_client:
  assumes "flag_Parse (flag_set (ps_zap ps)) args default_flags = Inr fl" "main mgr ps args w = (code, Some f, w')"
    and "id_SecretName i = ''''"
  shows "fst (SecretFactory_ClientFor (NewClient (ps_verda_NewClient ps)) i f) =
     (case LoadCredentials (ps_Getenv ps) (ps_UserHomeDir ps) (ps_Open ps) (fl_credentialsFile fl) of
        Inl _ \<Rightarrow> Inl (Errorf ''no identityRef set and the manager has no global Verda credentials'' [])
      | Inr creds \<Rightarrow> NewClient (ps_verda_NewClient ps) creds)"
proof -
  have "cloudFactory ps fl = Inr f" using assms(1,2) by (auto simp: main_def simp del: run_steps.simps split: prod.splits sum.splits)
  then show ?thesis using assms(3) by (auto simp: cloudFactory_def SecretFactory_ClientFor_def Let_def split: sum.splits)
qed

section \<open>The cloud controller manager\<close>

text \<open>
  The provider has instances, and load balancers once it is initialised, made from the client of the
  workload cluster it was given; it has no routes, and the route controller is not started.
\<close>

lemma provider_interfaces:
  "snd (InstancesV2 p)" "\<not> snd (Routes p)" "\<not> snd (Zones p)" "\<not> snd (Clusters p)" "\<not> snd (Instances p)"
  "Provider_LoadBalancer (New c) = (None, False)"
  "Provider_LoadBalancer (Initialize ssh ClientOrDie q) = (Some (ClientOrDie ''verda-service-load-balancer'', SSHUpdater ssh 0), True)"
  "fst (InstancesV2 (Initialize ssh ClientOrDie q)) = Some (Initialize ssh ClientOrDie q)" "pr_client (Initialize ssh ClientOrDie q) = pr_client q"
  by (simp_all add: InstancesV2_def Routes_def Zones_def Clusters_def Instances_def Provider_LoadBalancer_def New_def Initialize_def WithKubeClient_def)

lemma map_of_map_entries: "map_of (map (\<lambda>(k, x). (k, g k x)) xs) k = map_option (g k) (map_of xs k)"
  by (induction xs) auto

lemma controllers_started:
  "map_of (controllerInitializers route defaults) name =
     (if name = route then None
      else map_option (\<lambda>c. c\<lparr>co_ClientName := ''verda-external-'' @ name\<rparr>) (map_of defaults name))"
  unfolding controllerInitializers_def map_of_map_entries by (simp add: delete_conv')

section \<open>Examples\<close>

definition demo_process :: "unit process" where
  "demo_process =
     \<lparr>ps_Getenv = (\<lambda>_. ''''), ps_UserHomeDir = Inl (Opaque ''no home''), ps_Open = (\<lambda>_. Inl os_ErrNotExist),
      ps_verda_NewClient = (\<lambda>_. Inl (Opaque ''none'')), ps_APIReader = (\<lambda>_ _. Inl (Opaque ''none'')), ps_zap = (\<lambda>_. None)\<rparr>"

text \<open>A manager whose start fails.\<close>

definition demo_manager :: "unit manager" where
  "demo_manager c w = (case c of Start \<Rightarrow> Inl (Opaque ''port in use'') | _ \<Rightarrow> Inr (), w)"

theorem flags_read_back_witness:
  "flag_Parse (flag_set (\<lambda>_. None)) (print_flags (default_flags\<lparr>fl_concurrency := - 3, fl_enableHTTP2 := True, fl_metricsCertKey := ''k''\<rparr>)) default_flags =
     Inr (default_flags\<lparr>fl_concurrency := - 3, fl_enableHTTP2 := True, fl_metricsCertKey := ''k''\<rparr>)"
  by (rule flags_read_back) simp_all

lemma demo_logged:
  "logged demo_manager c lw = (if c = Start then Inl (Opaque ''port in use'') else Inr (), fst lw @ [(c, c \<noteq> Start)], ())"
  by (cases c) (simp_all add: logged_def demo_manager_def)

lemma demo_factory: "\<exists>f. cloudFactory demo_process default_flags = Inr f"
  by (simp add: cloudFactory_def LoadCredentials_def demo_process_def default_flags_def Let_def)

lemma demo_setup:
  "isl (fst (run_steps (setup_steps (logged demo_manager) demo_process fl) lw)) \<and>
   Start \<in> set (map fst (fst (snd (run_steps (setup_steps (logged demo_manager) demo_process fl) lw))))"
  by (simp add: setup_steps_def demo_process_def demo_logged VerdaClusterReconciler_SetupWithManager_def
      VerdaMachineReconciler_SetupWithManager_def VerdaMachineTemplateReconciler_SetupWithManager_def
      SetupVerdaClusterWebhookWithManager_def SetupVerdaMachineWebhookWithManager_def
      SetupVerdaMachineTemplateWebhookWithManager_def SetupVerdaClusterTemplateWebhookWithManager_def)

theorem manager_startup_witness:
  "\<exists>f log w. main (logged demo_manager) demo_process [] ([], ()) = (1, f, log, w) \<and>
     map fst log = startup_plan demo_process default_flags \<and> length log = 13"
proof -
  obtain code f log w where run: "main (logged demo_manager) demo_process [] ([], ()) = (code, f, log, w)" by (metis prod_cases4)
  have parse: "flag_Parse (flag_set (ps_zap demo_process)) [] default_flags = Inr default_flags" by simp
  from manager_startup [OF parse run]
  have all: "Start \<in> set (map fst log) \<longrightarrow> map fst log = startup_plan demo_process default_flags"
    and code: "code = (if log = map (\<lambda>c. (c, True)) (startup_plan demo_process default_flags) then 0 else 1)" by blast+
  let ?lw = "([(GetConfig, True), (NewManager (manager_options default_flags), True)], ())"
  obtain g where g: "cloudFactory demo_process default_flags = Inr g" using demo_factory by blast
  obtain e lw where rest: "run_steps (setup_steps (logged demo_manager) demo_process default_flags) ?lw = (Inl e, lw)"
    "Start \<in> set (map fst (fst lw))"
    using demo_setup [of default_flags ?lw] by (cases "run_steps (setup_steps (logged demo_manager) demo_process default_flags) ?lw")
      (simp add: isl_def, blast)
  from run have "(log, w) = lw" "code = 1" by (simp_all add: main_def parse demo_logged g rest(1))
  from \<open>(log, w) = lw\<close> have "fst lw = log" by (rule subst) simp
  with rest(2) all have eq: "map fst log = startup_plan demo_process default_flags" by simp
  have "length (startup_plan demo_process default_flags) = 13" by (simp add: startup_plan_def demo_process_def)
  with arg_cong [OF eq, of length] have "length log = 13" by simp
  moreover from run \<open>code = 1\<close> have "main (logged demo_manager) demo_process [] ([], ()) = (1, f, log, w)" by simp
  ultimately show ?thesis using eq by (intro exI conjI)
qed

end
