(* ===== verification/StatusSchema.thy ===== *)
theory StatusSchema
  imports MachineController ClusterController
begin

text \<open>
  The schema of the status of machines and clusters, as the markers of
  \<^verbatim>\<open>api/v1beta1/verdamachine_types.go\<close> and \<^verbatim>\<open>verdacluster_types.go\<close> and the
  type \<^verbatim>\<open>metav1.Condition\<close> give it: which lists are maps or sets, how long they may be, and
  which values a condition may have. What the reconcilers hand to the patch helper fits it. The
  lengths of strings are left out: the text of messages is not rendered in the model, and the
  lengths of ids are those the cloud makes.
\<close>

section \<open>The schema\<close>

definition is_letter :: "char \<Rightarrow> bool" where
  "is_letter c = (let n = (of_char c :: nat) in 65 \<le> n \<and> n \<le> 90 \<or> 97 \<le> n \<and> n \<le> 122)"

definition is_word :: "char \<Rightarrow> bool" where
  "is_word c = (is_letter c \<or> (let n = (of_char c :: nat) in 48 \<le> n \<and> n \<le> 57) \<or> c = CHR ''_'')"

text \<open>The pattern \<^verbatim>\<open>^[A-Za-z]([A-Za-z0-9_,:]*[A-Za-z0-9_])?$\<close> of a reason.\<close>

definition reason_ok :: "string \<Rightarrow> bool" where
  "reason_ok s = (s \<noteq> [] \<and> is_letter (hd s) \<and> list_all (\<lambda>c. is_word c \<or> c \<in> set '',:'') s \<and> is_word (last s))"

definition cond_ok :: "Condition \<Rightarrow> bool" where
  "cond_ok c = (cond_Status c \<in> {''True'', ''False'', ''Unknown''} \<and> reason_ok (cond_Reason c))"

text \<open>Conditions are a map with the type as key; \<open>T\<close> are the types that may occur.\<close>

definition conds_fit :: "string set \<Rightarrow> Condition list \<Rightarrow> bool" where
  "conds_fit T cs = (distinct (map cond_Type cs) \<and> (\<forall>c \<in> set cs. cond_ok c \<and> cond_Type c \<in> T))"

definition machine_status_fits :: "string set \<Rightarrow> VerdaMachineStatus \<Rightarrow> bool" where
  "machine_status_fits T s = (conds_fit T (mst_Conditions s) \<and> length (mst_Conditions s) \<le> 32 \<and> length (mst_Addresses s) \<le> 32)"

definition lb_status_fits :: "LoadBalancerStatus \<Rightarrow> bool" where
  "lb_status_fits s = (distinct (ls_Backends s) \<and> length (ls_Backends s) \<le> 64)"

definition cluster_status_fits :: "string set \<Rightarrow> VerdaClusterStatus \<Rightarrow> bool" where
  "cluster_status_fits T s =
     (conds_fit T (cst_Conditions s) \<and> length (cst_Conditions s) \<le> 32 \<and> lb_status_fits (cst_LoadBalancer s) \<and>
      lb_status_fits (cst_ServiceLoadBalancer s) \<and> distinct (map fst (cst_FailureDomains s)) \<and> length (cst_FailureDomains s) \<le> 100)"

section \<open>The library of conditions\<close>

text \<open>
  What the helpers for conditions promise beyond \<open>klib_ok\<close>: conditions are kept by type, and a
  condition that is in the list afterwards was there before or is the one that was set. The reasons
  of the library are well formed.
\<close>

definition klib_typed :: "klib \<Rightarrow> bool" where
  "klib_typed K =
     ((\<forall>cs c. distinct (map cond_Type cs) \<longrightarrow>
         distinct (map cond_Type (conditions_Set K cs c)) \<and> set (conditions_Set K cs c) \<subseteq> insert c (set cs)) \<and>
      (\<forall>cs t. distinct (map cond_Type cs) \<longrightarrow>
         distinct (map cond_Type (conditions_Delete K cs t)) \<and> set (conditions_Delete K cs t) \<subseteq> set cs) \<and>
      reason_ok (ReadyReason K) \<and> reason_ok (NotReadyReason K) \<and> reason_ok (DeletingReason K))"

text \<open>The types the controllers set are among \<open>T\<close>, and there are not too many.\<close>

definition own_conditions :: "string set" where
  "own_conditions = {InstanceReadyCondition, OSVolumeReadyCondition, ReadyCondition, ControlPlaneEndpointReadyCondition,
     LoadBalancerReadyCondition, ServiceLoadBalancerReadyCondition}"

definition typed :: "klib \<Rightarrow> string set \<Rightarrow> bool" where
  "typed K T = (klib_typed K \<and> finite T \<and> card T \<le> 32 \<and> own_conditions \<subseteq> T)"

lemma conds_fit_length:
  assumes "conds_fit T cs" "typed K T"
  shows "length cs \<le> 32"
proof -
  have "length cs = card (cond_Type ` set cs)" using assms(1) by (metis conds_fit_def distinct_card length_map set_map)
  also have "\<dots> \<le> card T" using assms by (intro card_mono) (auto simp: conds_fit_def typed_def)
  finally show ?thesis using assms(2) by (simp add: typed_def)
qed

lemma conds_fit_Set:
  assumes "typed K T" "conds_fit T cs" "cond_ok c" "cond_Type c \<in> own_conditions"
  shows "conds_fit T (conditions_Set K cs c)"
proof -
  from assms(1,2) have "distinct (map cond_Type (conditions_Set K cs c))" "set (conditions_Set K cs c) \<subseteq> insert c (set cs)"
    by (simp_all add: typed_def klib_typed_def conds_fit_def)
  moreover have "cond_Type c \<in> T" using assms(1,4) by (auto simp: typed_def)
  ultimately show ?thesis using assms(2,3) by (auto simp: conds_fit_def)
qed

lemma conds_fit_Delete: "typed K T \<Longrightarrow> conds_fit T cs \<Longrightarrow> conds_fit T (conditions_Delete K cs t)"
proof -
  assume "typed K T" "conds_fit T cs"
  then have "distinct (map cond_Type (conditions_Delete K cs t))" "set (conditions_Delete K cs t) \<subseteq> set cs"
    by (simp_all add: typed_def klib_typed_def conds_fit_def)
  with \<open>conds_fit T cs\<close> show ?thesis by (auto simp: conds_fit_def)
qed

lemma reasons_ok:
  "typed K T \<Longrightarrow> reason_ok (ReadyReason K)" "typed K T \<Longrightarrow> reason_ok (NotReadyReason K)" "typed K T \<Longrightarrow> reason_ok (DeletingReason K)"
  by (simp_all add: typed_def klib_typed_def)

lemma literal_reasons_ok:
  "reason_ok ''Tagging''" "reason_ok ''Cloning''" "reason_ok ''SourceVolumeNotFound''" "reason_ok ''CloneFailed''"
  "reason_ok InstanceTerminatedReason" "reason_ok InstanceFailedReason" "reason_ok ''InstanceNotRunning''" "reason_ok NoCapacityReason"
  "reason_ok InstanceProvisioningReason" "reason_ok ''HostnameInUse''" "reason_ok ''InstanceCreateFailed''"
  "reason_ok ''WaitingForClusterInfrastructure''" "reason_ok ''WaitingForBootstrapData''" "reason_ok ''WaitingForOSVolume''"
  "reason_ok InstanceDeleteRequestedReason" "reason_ok ''CredentialsUnavailable''" "reason_ok ''WaitingForLoadBalancer''"
  "reason_ok ''EndpointNotSet''" "reason_ok ''BackendUpdateFailed''" "reason_ok ''WaitingForWorkloadCluster''"
  by (simp_all add: reason_ok_def is_word_def is_letter_def)

lemmas cond_simps = cond_ok_def own_conditions_def literal_reasons_ok reasons_ok

section \<open>Machines\<close>

abbreviation machine_fits :: "string set \<Rightarrow> VerdaMachine \<Rightarrow> bool" where
  "machine_fits T vm \<equiv> conds_fit T (mst_Conditions (vm_Status vm)) \<and> length (mst_Addresses (vm_Status vm)) \<le> 32"

lemmas machine_setters = set_condition_def setInstanceReadyFalse_def set_ready_true_def os_volume_condition_def

lemmas fit_simps = machine_setters conds_fit_Set cond_simps Let_def

lemma length_instanceAddresses [simp]: "length (instanceAddresses inst) \<le> 32"
  by (simp add: instanceAddresses_def)

lemma record_volume_fits:
  assumes "typed K T" "machine_fits T vm" "record_volume K c vm volume w = (r, vm', w')"
  shows "machine_fits T vm'"
  using assms by (auto simp: record_volume_def fit_simps split: prod.splits sum.splits if_splits)

lemma clone_volume_fits:
  assumes "typed K T" "machine_fits T vm" "clone_volume K c vc vm w = (r, vm', w')"
  shows "machine_fits T vm'"
  using assms(2,3) by (auto simp: clone_volume_def fit_simps conds_fit_Set [OF assms(1)] split: prod.splits sum.splits
      dest!: record_volume_fits [OF assms(1), rotated])

lemma ensureOSVolume_fits:
  assumes "typed K T" "machine_fits T vm" "ensureOSVolume K c vc vm w = (r, vm', w')"
  shows "machine_fits T vm'"
  using assms(2,3) by (auto simp: ensureOSVolume_def split: prod.splits sum.splits if_splits
      dest!: record_volume_fits [OF assms(1), rotated] clone_volume_fits [OF assms(1), rotated])

lemma resyncInstance_fits:
  assumes "typed K T" "machine_fits T vm" "resyncInstance K c vm w = (r, vm', w')"
  shows "machine_fits T vm'"
  using assms by (auto simp: resyncInstance_def resync_condition_def fit_simps split: prod.splits sum.splits if_splits)

lemma record_instance_fits:
  assumes "typed K T" "machine_fits T vm" "record_instance K c vm inst w = (vm', w')"
  shows "machine_fits T vm'"
  using assms by (auto simp: record_instance_def ensureOSVolumeTag_def fit_simps split: prod.splits sum.splits if_splits)

lemma act_on_status_fits:
  assumes "typed K T" "machine_fits T vm" "act_on_status K c vc vm inst w = (r, vm', w')"
  shows "machine_fits T vm'"
  using assms by (auto simp: act_on_status_def fit_simps split: prod.splits sum.splits if_splits)

lemma use_instance_fits:
  assumes "typed K T" "machine_fits T vm" "use_instance K c vc vm inst w = (r, vm', w')"
  shows "machine_fits T vm'"
proof -
  obtain vm1 w1 where 1: "record_instance K c vm inst w = (vm1, w1)" by fastforce
  with assms(3) have "act_on_status K c vc vm1 inst w1 = (r, vm', w')" by (simp add: use_instance_def)
  from act_on_status_fits [OF assms(1) record_instance_fits [OF assms(1,2) 1] this] show ?thesis .
qed

lemma create_and_use_fits:
  assumes "typed (me_lib env) T" "machine_fits T vm" "create_and_use env c cluster vc machine vm b w = (r, vm', w')"
  shows "machine_fits T vm'"
  using assms(2,3) by (auto simp: create_and_use_def fit_simps conds_fit_Set [OF assms(1)] split: prod.splits sum.splits if_splits
      dest!: use_instance_fits [OF assms(1), rotated])

lemma with_OS_volume_fits:
  assumes "typed (me_lib env) T" "machine_fits T vm"
    and "(case ensureOSVolume (me_lib env) c vc vm w of
        (Inl err, vm, w) \<Rightarrow> (Inl err, vm, w)
      | (Inr volume, vm, w) \<Rightarrow>
          if v_Status volume \<noteq> VolumeStatusDetached
          then (Inr (requeue_after instancePollInterval),
                setInstanceReadyFalse (me_lib env) vm ''WaitingForOSVolume''
                  (Sprintf ''OS volume clone %s is in state %q'' [v_ID volume, v_Status volume]), w)
          else create_and_use env c cluster vc machine vm (v_ID volume) w) = (r, vm', w')"
  shows "machine_fits T vm'"
proof -
  obtain q vm1 w1 where 1: "ensureOSVolume (me_lib env) c vc vm w = (q, vm1, w1)" by (cases "ensureOSVolume (me_lib env) c vc vm w") auto
  have fit: "machine_fits T vm1" by (rule ensureOSVolume_fits [OF assms(1,2) 1])
  show ?thesis
  proof (cases q)
    case (Inl e)
    with 1 fit assms(3) show ?thesis by simp
  next
    case (Inr volume)
    with 1 fit assms(3) show ?thesis
      by (auto simp: fit_simps conds_fit_Set [OF assms(1)] split: if_splits dest!: create_and_use_fits [OF assms(1), rotated])
  qed
qed

lemma reconcileNormal_fits:
  assumes "typed (me_lib env) T" "machine_fits T vm" "reconcileNormal env c cluster vc machine vm w = (r, vm', w')"
  shows "machine_fits T vm'"
proof -
  let ?K = "me_lib env"
  consider "resyncInstance ?K c vm w = (r, vm', w')"
    | reason msg where "vm' = setInstanceReadyFalse ?K vm reason msg" "reason_ok reason"
    | "vm' = vm"
    | inst w1 where "use_instance ?K c vc vm inst w1 = (r, vm', w')"
    | w1 b where "create_and_use env c cluster vc machine vm b w1 = (r, vm', w')"
    | w1 where "(case ensureOSVolume (me_lib env) c vc vm w1 of
        (Inl err, vm, w) \<Rightarrow> (Inl err, vm, w)
      | (Inr volume, vm, w) \<Rightarrow>
          if v_Status volume \<noteq> VolumeStatusDetached
          then (Inr (requeue_after instancePollInterval),
                setInstanceReadyFalse (me_lib env) vm ''WaitingForOSVolume''
                  (Sprintf ''OS volume clone %s is in state %q'' [v_ID volume, v_Status volume]), w)
          else create_and_use env c cluster vc machine vm (v_ID volume) w) = (r, vm', w')"
  proof -
    obtain q w1 where f: "findInstance c vm w = (q, w1)" by fastforce
    from assms(3) that literal_reasons_ok(12,13) show thesis
      by (cases q) (auto simp: reconcileNormal_def Let_def f split: if_splits option.splits)
  qed
  then show ?thesis
  proof cases
    case 1 then show ?thesis by (rule resyncInstance_fits [OF assms(1,2)])
  next
    case 2 with assms(1,2) show ?thesis by (simp add: fit_simps)
  next
    case 3 with assms(2) show ?thesis by simp
  next
    case 4 then show ?thesis by (rule use_instance_fits [OF assms(1,2)])
  next
    case 5 then show ?thesis by (rule create_and_use_fits [OF assms(1,2)])
  next
    case 6 then show ?thesis by (rule with_OS_volume_fits [OF assms(1,2)])
  qed
qed

lemma finish_delete_fits:
  assumes "machine_fits T vm" "finish_delete K c vm w = (r, vm', w')"
  shows "machine_fits T vm'"
proof -
  have script: "machine_fits T vm1" if "delete_script c vm w = (q, vm1, w1)" for q vm1 w1
    using that assms(1) by (auto simp: delete_script_def Let_def split: prod.splits sum.splits if_splits)
  have volume: "machine_fits T vm2" if "deleteOSVolume c vm1 w1 = (q, vm2, w2)" "machine_fits T vm1" for vm1 w1 q vm2 w2
    using that by (auto simp: deleteOSVolume_def Let_def split: prod.splits sum.splits if_splits)
  from assms(2) show ?thesis
    by (auto simp: finish_delete_def remove_finalizer_def split: prod.splits sum.splits dest!: script volume)
qed

lemma request_delete_fits:
  assumes "typed K T" "machine_fits T vm" "request_delete K now c vm inst w = (r, vm', w')"
  shows "machine_fits T vm'"
  using assms by (auto simp: request_delete_def fit_simps split: prod.splits sum.splits if_splits)

lemma reconcileDelete_fits:
  assumes "typed K T" "machine_fits T vm" "reconcileDelete K now c vm w = (r, vm', w')"
  shows "machine_fits T vm'"
proof -
  define vm1 where "vm1 = setInstanceReadyFalse K vm (DeletingReason K) (Text ''Deleting Verda instance'')"
  have fit: "machine_fits T vm1" using assms(1,2) by (simp add: vm1_def fit_simps)
  from assms(3) have "vm' = vm1 \<or> (\<exists>w1. finish_delete K c vm1 w1 = (r, vm', w')) \<or> (\<exists>inst w1. request_delete K now c vm1 inst w1 = (r, vm', w'))"
    by (auto simp: reconcileDelete_def Let_def vm1_def [symmetric] split: prod.splits sum.splits option.splits if_splits)
  then show ?thesis
    by (elim disjE exE) (simp_all only: fit finish_delete_fits [OF fit] request_delete_fits [OF assms(1) fit])
qed

lemma reconcile_scope_fits:
  assumes "typed (me_lib env) T" "machine_fits T vm" "reconcile_scope env cluster vc machine vm w = (r, vm', w')"
  shows "machine_fits T vm'"
  using assms(2,3) by (auto simp: reconcile_scope_def fit_simps conds_fit_Set [OF assms(1)] split: sum.splits if_splits option.splits
      dest!: reconcileDelete_fits [OF assms(1), rotated] reconcileNormal_fits [OF assms(1), rotated])

lemma with_patch_fits:
  assumes "typed (me_lib env) T" "machine_fits T vm" "with_patch env (q, vm, w1) = (r, Some vm', w')"
  shows "machine_fits T vm'"
  using assms by (auto simp: with_patch_def patchVerdaMachine_def ready_condition_def fit_simps)

text \<open>The check for a paused cluster keeps the schema as well.\<close>

lemma Reconcile_fits:
  assumes typed: "typed (me_lib env) T" and vm: "me_GetVerdaMachine env = Inr vm" "machine_fits T vm"
    and paused: "\<And>cl v q v'. machine_fits T v \<Longrightarrow> me_EnsurePausedCondition env cl v = (q, v') \<Longrightarrow> machine_fits T v'"
    and run: "Reconcile env w = (r, Some vm', w')"
  shows "machine_fits T vm'"
proof -
  have orphan: ?thesis if "reconcileOrphanDelete env vm w = (r, Some vm', w')"
  proof -
    obtain q v w1 where s: "(case me_ClientFor env \<lparr>id_Namespace = vm_Namespace vm, id_SecretName = ''''\<rparr> of
        Inl err \<Rightarrow> (Inl err, vm, w) | Inr c \<Rightarrow> reconcileDelete (me_lib env) (me_now env) c vm w) = (q, v, w1)"
      by (metis prod_cases3)
    from s vm(2) have fit: "machine_fits T v" by (auto split: sum.splits dest!: reconcileDelete_fits [OF typed, rotated])
    have "with_patch env (q, v, w1) = (r, Some vm', w')" using that s by (simp add: reconcileOrphanDelete_def split: sum.splits)
    from with_patch_fits [OF typed fit this] show ?thesis .
  qed
  have scoped: ?thesis if "me_EnsurePausedCondition env cl vm = (p, v)" "with_patch env (reconcile_scope env cl vc machine v w) = (r, Some vm', w')"
    for cl p v vc machine
  proof -
    obtain q v1 w1 where s: "reconcile_scope env cl vc machine v w = (q, v1, w1)" by (metis prod_cases3)
    from with_patch_fits [OF typed reconcile_scope_fits [OF typed paused [OF vm(2) that(1)] s]] that(2) s show ?thesis by simp
  qed
  from run vm(1) have "reconcileOrphanDelete env vm w = (r, Some vm', w') \<or>
      (\<exists>cl p v vc machine. me_EnsurePausedCondition env cl vm = (p, v) \<and> with_patch env (reconcile_scope env cl vc machine v w) = (r, Some vm', w'))"
    by (auto simp: Reconcile_def Let_def split: sum.splits option.splits if_splits prod.splits)
  then show ?thesis by (elim disjE exE conjE) (erule orphan, erule scoped, assumption)
qed

section \<open>Clusters\<close>

abbreviation cluster_fits :: "string set \<Rightarrow> VerdaCluster \<Rightarrow> bool" where
  "cluster_fits T vc \<equiv> conds_fit T (cst_Conditions (vc_Status vc)) \<and> lb_status_fits (lb_status vc) \<and> lb_status_fits (slb_status vc) \<and>
     distinct (map fst (cst_FailureDomains (vc_Status vc))) \<and> length (cst_FailureDomains (vc_Status vc)) \<le> 100"

text \<open>The recorded backends are a set: no two control plane machines have the same external address.\<close>

definition backends_fit :: "'w cluster_env \<Rightarrow> bool" where
  "backends_fit env = (\<forall>cl backends. controlPlaneAddresses env cl = Inr backends \<longrightarrow> distinct backends \<and> length backends \<le> 64)"

lemmas cluster_setters = set_ccondition_def delete_ccondition_def set_ctrue_def setEndpointReady_def setLBNotReady_def
  setServiceLBNotReady_def setFailureDomains_def

lemmas cfit_simps = cluster_setters conds_fit_Set conds_fit_Delete cond_simps Let_def

lemma lb_status_fits_update [simp]:
  "lb_status_fits (record_lb inst s) = lb_status_fits s" "lb_status_fits (s\<lparr>ls_Address := a\<rparr>) = lb_status_fits s"
  "lb_status_fits (s\<lparr>ls_SecretPublished := p\<rparr>) = lb_status_fits s" "lb_status_fits (s\<lparr>ls_StartupScriptID := x\<rparr>) = lb_status_fits s"
  "lb_status_fits zero_lb_status"
  by (simp_all add: lb_status_fits_def record_lb_def zero_lb_status_def Let_def)

lemma push_backends_fits:
  assumes "typed (ce_lib env) T" "backends_fit env" "cluster_fits T vc" "push_backends env cl vc keys inst w = (r, vc', w')"
  shows "cluster_fits T vc'"
proof -
  have "lb_status_fits (s\<lparr>ls_Backends := bks\<rparr>)" if "controlPlaneAddresses env cl = Inr bks" for s bks
    using assms(2) that by (auto simp: backends_fit_def lb_status_fits_def)
  with assms(1,3,4) show ?thesis by (auto simp: push_backends_def cfit_simps split: prod.splits sum.splits if_splits)
qed

lemma use_lb_fits:
  assumes "typed (ce_lib env) T" "backends_fit env" "cluster_fits T vc" "use_lb env cl vc keys inst w = (r, vc', w')"
  shows "cluster_fits T vc'"
  using assms(1,3,4) by (auto simp: use_lb_def cfit_simps split: lb_state.splits dest!: push_backends_fits [OF assms(1,2), rotated])

lemma reconcileLoadBalancer_fits:
  assumes "typed (ce_lib env) T" "backends_fit env" "cluster_fits T vc" "reconcileLoadBalancer env c cl vc w = (r, vc', w')"
  shows "cluster_fits T vc'"
  using assms(1,3,4) by (auto simp: reconcileLoadBalancer_def cfit_simps split: prod.splits sum.splits option.splits
      dest!: use_lb_fits [OF assms(1,2), rotated])

lemma reconcileEndpoint_fits:
  assumes "typed (ce_lib env) T" "backends_fit env" "cluster_fits T vc" "reconcileEndpoint env c cl vc w = (r, vc', w')"
  shows "cluster_fits T vc'"
proof (cases "LoadBalancerEnabled vc")
  case True
  with assms(4) reconcileLoadBalancer_fits [OF assms(1-3)] show ?thesis by (simp add: reconcileEndpoint_def)
next
  case False
  with assms show ?thesis by (auto simp: reconcileEndpoint_def cfit_simps split: if_splits)
qed

lemma reconcileServiceLoadBalancer_fits:
  assumes "typed (ce_lib env) T" "cluster_fits T vc" "reconcileServiceLoadBalancer env c cl vc w = (r, vc', w')"
  shows "cluster_fits T vc'"
proof -
  have use: "cluster_fits T v" if "use_service_lb env cl vc keys inst w1 = (q, v, w2)" for keys inst w1 q v w2
    using that assms(1,2) by (auto simp: use_service_lb_def cfit_simps split: lb_state.splits prod.splits sum.splits)
  from assms show ?thesis
    by (auto simp: reconcileServiceLoadBalancer_def cfit_simps split: prod.splits sum.splits option.splits dest!: use)
qed

lemma deleteServiceLoadBalancer_fits:
  assumes "typed (ce_lib env) T" "cluster_fits T vc" "deleteServiceLoadBalancer env c vc w = (r, vc', w')"
  shows "cluster_fits T vc'"
proof -
  have fin: "cluster_fits T v" if "finish_service_lb c vc w1 = (q, v, w2)" for w1 q v w2
    using that assms(2) by (auto simp: finish_service_lb_def Let_def split: prod.splits sum.splits if_splits)
  from assms show ?thesis
    by (auto simp: deleteServiceLoadBalancer_def cfit_simps split: prod.splits sum.splits option.splits if_splits dest!: fin)
qed

lemma delete_lb_fits:
  assumes "typed (ce_lib env) T" "cluster_fits T vc" "delete_lb env c vc w = (r, vc', w')"
  shows "cluster_fits T vc'"
proof -
  have fin: "cluster_fits T v" if "finish_cluster (ce_lib env) c vc w1 = (q, v, w2)" for w1 q v w2
    using that assms(2) by (auto simp: finish_cluster_def Let_def split: prod.splits sum.splits if_splits)
  from assms show ?thesis
    by (auto simp: delete_lb_def cfit_simps split: prod.splits sum.splits option.splits if_splits dest!: fin)
qed

lemma cluster_reconcileNormal_fits:
  assumes "typed (ce_lib env) T" "backends_fit env" "cluster_fits T vc" "cluster_reconcileNormal env c cl vc w = (r, vc', w')"
  shows "cluster_fits T vc'"
proof -
  obtain q vc1 w1 where 1: "reconcileEndpoint env c cl vc w = (q, vc1, w1)" by (metis prod_cases3)
  have fit: "cluster_fits T vc1" by (rule reconcileEndpoint_fits [OF assms(1-3) 1])
  show ?thesis
  proof (cases q)
    case (Inl e)
    with 1 assms(4) fit show ?thesis by (simp add: cluster_reconcileNormal_def)
  next
    case (Inr res)
    show ?thesis
    proof (cases "ServiceLoadBalancerEnabled vc1")
      case True
      with 1 Inr assms(4) show ?thesis
        by (auto simp: cluster_reconcileNormal_def split: prod.splits sum.splits
            dest!: reconcileServiceLoadBalancer_fits [OF assms(1) fit])
    next
      case False
      from False 1 Inr assms(4) fit show ?thesis
        by (auto simp: cluster_reconcileNormal_def Let_def delete_ccondition_def conds_fit_Delete [OF assms(1)]
            split: prod.splits sum.splits if_splits dest!: deleteServiceLoadBalancer_fits [OF assms(1) fit])
    qed
  qed
qed

lemma cluster_reconcileDelete_fits:
  assumes "typed (ce_lib env) T" "cluster_fits T vc" "cluster_reconcileDelete env c vc w = (r, vc', w')"
  shows "cluster_fits T vc'"
proof -
  obtain q vc1 w1 where 1: "deleteServiceLoadBalancer env c vc w = (q, vc1, w1)" by (metis prod_cases3)
  have fit: "cluster_fits T vc1" by (rule deleteServiceLoadBalancer_fits [OF assms(1,2) 1])
  from assms(3) have "vc' = vc1 \<or> delete_lb env c vc1 w1 = (r, vc', w')"
    by (auto simp: cluster_reconcileDelete_def 1 split: sum.splits if_splits)
  then show ?thesis by (elim disjE) (simp only: fit, erule delete_lb_fits [OF assms(1) fit])
qed

lemma cluster_scope_fits:
  assumes "typed (ce_lib env) T" "backends_fit env" "cluster_fits T vc" "cluster_scope env cl vc w = (r, vc', w')"
  shows "cluster_fits T vc'"
  using assms(1,3,4) by (auto simp: cluster_scope_def cfit_simps split: sum.splits if_splits
      dest!: cluster_reconcileDelete_fits [OF assms(1,3)] cluster_reconcileNormal_fits [OF assms(1-3)])

lemma with_cluster_patch_fits:
  assumes "typed (ce_lib env) T" "cluster_fits T vc" "with_cluster_patch env (q, vc, w1) = (r, Some vc', w')"
  shows "cluster_fits T vc'"
  using assms by (auto simp: with_cluster_patch_def patchVerdaCluster_def cluster_ready_condition_def cfit_simps)

lemma cluster_Reconcile_fits:
  assumes typed: "typed (ce_lib env) T" and fit: "backends_fit env" and vc: "ce_GetVerdaCluster env = Inr vc" "cluster_fits T vc"
    and paused: "\<And>cl v q v'. cluster_fits T v \<Longrightarrow> ce_EnsurePausedCondition env cl v = (q, v') \<Longrightarrow> cluster_fits T v'"
    and run: "cluster_Reconcile env w = (r, Some vc', w')"
  shows "cluster_fits T vc'"
proof -
  have orphan: ?thesis if "cluster_reconcileOrphanDelete env vc w = (r, Some vc', w')"
  proof -
    obtain q v w1 where s: "(case ce_ClientFor env (cluster_identity vc) of
        Inl err \<Rightarrow> (Inl err, vc, w) | Inr c \<Rightarrow> cluster_reconcileDelete env c vc w) = (q, v, w1)" by (metis prod_cases3)
    from s vc(2) have v: "cluster_fits T v" by (auto split: sum.splits dest!: cluster_reconcileDelete_fits [OF typed, rotated])
    have "with_cluster_patch env (q, v, w1) = (r, Some vc', w')" using that s by (simp add: cluster_reconcileOrphanDelete_def split: sum.splits)
    from with_cluster_patch_fits [OF typed v this] show ?thesis .
  qed
  have scoped: ?thesis if "ce_EnsurePausedCondition env cl vc = (p, v)" "with_cluster_patch env (cluster_scope env cl v w) = (r, Some vc', w')"
    for cl p v
  proof -
    obtain q v1 w1 where s: "cluster_scope env cl v w = (q, v1, w1)" by (metis prod_cases3)
    from with_cluster_patch_fits [OF typed cluster_scope_fits [OF typed fit paused [OF vc(2) that(1)] s]] that(2) s show ?thesis by simp
  qed
  from run vc(1) have "cluster_reconcileOrphanDelete env vc w = (r, Some vc', w') \<or>
      (\<exists>cl p v. ce_EnsurePausedCondition env cl vc = (p, v) \<and> with_cluster_patch env (cluster_scope env cl v w) = (r, Some vc', w'))"
    by (auto simp: cluster_Reconcile_def split: sum.splits option.splits if_splits prod.splits)
  then show ?thesis by (elim disjE exE conjE) (erule orphan, erule scoped, assumption)
qed

end
