(* ===== verification/StatusClaims.thy ===== *)
theory StatusClaims
  imports StatusSchema MachineClaims ClusterClaims
begin

text \<open>
  The status that a reconcile hands to the API server fits the schema of its type, and the case in
  which the backends of a load balancer do not.
\<close>

section \<open>Claims\<close>

lemma machine_status_fits_iff: "typed K T \<Longrightarrow> machine_status_fits T (vm_Status vm) \<longleftrightarrow> machine_fits T vm"
  by (auto simp: machine_status_fits_def intro: conds_fit_length)

lemma cluster_status_fits_iff: "typed K T \<Longrightarrow> cluster_status_fits T (vc_Status vc) \<longleftrightarrow> cluster_fits T vc"
  by (auto simp: cluster_status_fits_def intro: conds_fit_length)

text \<open>
  C13. The status of a machine stays well formed: if it fits the schema when it is read, and the check
  for a paused cluster keeps that, then the status handed to the patch helper fits it too. There is
  one condition for each type, the statuses and reasons of conditions are among those allowed, and
  there are at most 32 conditions and 32 addresses. \<open>T\<close> are the types of conditions anyone sets.
\<close>

theorem machine_status_typed:
  assumes "klib_typed (me_lib env)" "finite T" "card T \<le> 32" "own_conditions \<subseteq> T"
    and "me_GetVerdaMachine env = Inr vm" "machine_status_fits T (vm_Status vm)"
    and "\<And>cl v q v'. machine_status_fits T (vm_Status v) \<Longrightarrow> me_EnsurePausedCondition env cl v = (q, v') \<Longrightarrow> machine_status_fits T (vm_Status v')"
    and "Reconcile env w = (r, Some vm', w')"
  shows "machine_status_fits T (vm_Status vm')"
proof -
  have typed: "typed (me_lib env) T" using assms(1-4) by (simp add: typed_def)
  note iff = machine_status_fits_iff [OF typed]
  show ?thesis unfolding iff by (rule Reconcile_fits [OF typed assms(5) assms(6,7) [unfolded iff] assms(8)])
qed

text \<open>
  C14. The status of a cluster stays well formed as well: its conditions, its failure domains, and the
  recorded backends of both load balancers, which are a set of at most 64. For the backends it is
  assumed that no two machines of the cluster have the same external address and that there are at
  most 64 of them.
\<close>

theorem cluster_status_typed:
  assumes "klib_typed (ce_lib env)" "finite T" "card T \<le> 32" "own_conditions \<subseteq> T"
    and "\<And>ns n vms. ce_ListVerdaMachines env ns n = Inr vms \<Longrightarrow> distinct (concat (map external_address vms)) \<and> length vms \<le> 64"
    and "ce_GetVerdaCluster env = Inr vc" "cluster_status_fits T (vc_Status vc)"
    and "\<And>cl v q v'. cluster_status_fits T (vc_Status v) \<Longrightarrow> ce_EnsurePausedCondition env cl v = (q, v') \<Longrightarrow> cluster_status_fits T (vc_Status v')"
    and "cluster_Reconcile env w = (r, Some vc', w')"
  shows "cluster_status_fits T (vc_Status vc')"
proof -
  have typed: "typed (ce_lib env) T" using assms(1-4) by (simp add: typed_def)
  have few: "length (concat (map external_address vms)) \<le> length vms" for vms
    by (induction vms) (auto simp: external_address_def)
  have sub: "distinct (concat (map external_address vms)) \<Longrightarrow> distinct (concat (map external_address (filter P vms)))" for vms P
    by (induction vms) (auto simp: external_address_def)
  have fit: "backends_fit env"
    unfolding backends_fit_def
  proof (intro allI impI)
    fix cl bks assume "controlPlaneAddresses env cl = Inr bks"
    then obtain items xs where items: "ce_ListVerdaMachines env (cl_Namespace cl) (cl_Name cl) = Inr items"
      "addresses_loop env items [] = Inr xs" "bks = sort xs" by (auto simp: controlPlaneAddresses_def split: sum.splits)
    have xs: "xs = concat (map external_address (backend_machines env items))" using addresses_loop_result [OF items(2)] by simp
    have "length (backend_machines env items) \<le> length items" by (simp add: backend_machines_def)
    with assms(5) [OF items(1)] few [of "backend_machines env items"] have len: "length xs \<le> 64" unfolding xs by linarith
    have "distinct xs" unfolding xs backend_machines_def using assms(5) [OF items(1)] by (intro sub) simp
    with len items(3) show "distinct bks \<and> length bks \<le> 64" by simp
  qed
  note iff = cluster_status_fits_iff [OF typed]
  show ?thesis unfolding iff by (rule cluster_Reconcile_fits [OF typed fit assms(6) assms(7,8) [unfolded iff] assms(9)])
qed

section \<open>Witnesses\<close>

lemma plain_klib_typed: "klib_typed plain_klib"
  by (auto simp: klib_typed_def plain_klib_def distinct_map_filter)
     (simp_all add: reason_ok_def is_word_def is_letter_def)

lemma own_conditions_few: "finite own_conditions" "card own_conditions \<le> 32"
  by (simp_all add: own_conditions_def card_insert_if)

theorem machine_status_typed_witness:
  "\<exists>r vm' w'. Reconcile (demo_env (sdkClient mem_api) (demo_vm None)) empty_mem = (r, Some vm', w') \<and>
     machine_status_fits own_conditions (vm_Status vm')"
proof -
  let ?env = "demo_env (sdkClient mem_api) (demo_vm None)"
  obtain r vm' w' where run: "Reconcile ?env empty_mem = (r, Some vm', w')" using demo_created by blast
  have "machine_status_fits own_conditions (vm_Status vm')"
  proof (rule machine_status_typed [OF _ own_conditions_few _ _ _ _ run])
    show "klib_typed (me_lib ?env)" by (simp add: demo_env_def plain_klib_typed)
    show "me_GetVerdaMachine ?env = Inr (demo_vm None)" by (simp add: demo_env_def)
    show "machine_status_fits own_conditions (vm_Status (demo_vm None))"
      by (simp add: demo_vm_def machine_status_fits_def conds_fit_def)
    show "machine_status_fits own_conditions (vm_Status v')"
      if "machine_status_fits own_conditions (vm_Status v)" "me_EnsurePausedCondition ?env cl v = (q, v')" for cl v q v'
      using that by (simp add: demo_env_def)
  qed simp
  with run show ?thesis by blast
qed

theorem cluster_status_typed_witness:
  "\<exists>r vc' w'. cluster_Reconcile (lb_env (sdkClient mem_api) (lb_vc None '''')) empty_mem = (r, Some vc', w') \<and>
     cluster_status_fits own_conditions (vc_Status vc')"
proof -
  let ?env = "lb_env (sdkClient mem_api) (lb_vc None '''')"
  obtain r vc' w' where run: "cluster_Reconcile ?env empty_mem = (r, Some vc', w')" using lb_reconciled by blast
  have "cluster_status_fits own_conditions (vc_Status vc')"
  proof (rule cluster_status_typed [OF _ own_conditions_few _ _ _ _ _ run])
    show "klib_typed (ce_lib ?env)" by (simp add: lb_env_def plain_klib_typed)
    show "distinct (concat (map external_address vms)) \<and> length vms \<le> 64"
      if "ce_ListVerdaMachines ?env ns n = Inr vms" for ns n vms
      using that by (auto simp: lb_env_def)
    show "ce_GetVerdaCluster ?env = Inr (lb_vc None '''')" by (simp add: lb_env_def)
    show "cluster_status_fits own_conditions (vc_Status (lb_vc None ''''))"
      by (simp add: lb_vc_def no_lb_status_def cluster_status_fits_def lb_status_fits_def conds_fit_def)
    show "cluster_status_fits own_conditions (vc_Status v')"
      if "cluster_status_fits own_conditions (vc_Status v)" "ce_EnsurePausedCondition ?env cl v = (q, v')" for cl v q v'
      using that by (simp add: lb_env_def)
  qed simp
  with run show ?thesis by blast
qed

section \<open>Backends that are not a set\<close>

text \<open>
  The addresses are not made distinct: two control plane machines that carry the same external address
  give a list that the type of the recorded backends rejects.
\<close>

theorem duplicate_backends:
  assumes "ce_ListVerdaMachines env (cl_Namespace cl) (cl_Name cl) = Inr [x, y]"
    and "om_DeletionTimestamp (vm_Meta x) = None" "om_DeletionTimestamp (vm_Meta y) = None"
    and "isControlPlane env x = Inr True" "isControlPlane env y = Inr True"
    and "external_address x = [a]" "external_address y = [a]"
  shows "controlPlaneAddresses env cl = Inr [a, a] \<and> \<not> lb_status_fits (st\<lparr>ls_Backends := [a, a]\<rparr>)"
  using assms by (simp add: controlPlaneAddresses_def lb_status_fits_def)

end
