(* ===== verification/Spec2Isabelle.thy ===== *)
theory Spec2Isabelle
  imports MachineLimits CloudProviderProps DeletionClaims CredentialsProps TemplateController DeepCopyProps ManagersProps StatusClaims
begin

text \<open>
  The Cluster API infrastructure provider for Verda, as a model in HOL with the theorems about it.

  \<^bold>\<open>The program.\<close> Two programs share the packages under \<^verbatim>\<open>src/\<close>. The manager (\<^verbatim>\<open>cmd/main.go\<close>) runs in the
  management cluster. It has three reconcilers (\<^verbatim>\<open>internal/controller\<close>): one makes a Verda instance
  for every VerdaMachine, one makes the two load balancers of a VerdaCluster, an HAProxy instance for
  the control plane and an envoy instance for the services, and one fills in the capacity of machine
  templates. Admission webhooks (\<^verbatim>\<open>internal/webhook/v1beta1\<close>) default and validate the objects of
  \<^verbatim>\<open>api/v1beta1\<close>. The reconcilers talk to Verda through the interface \<^verbatim>\<open>cloud.Client\<close>
  (\<^verbatim>\<open>internal/cloud\<close>), turn bootstrap data into a startup script (\<^verbatim>\<open>internal/bootstrap\<close>) and push
  configuration over SSH (\<^verbatim>\<open>internal/loadbalancer\<close>). The cloud controller manager
  (\<^verbatim>\<open>cmd/cloud-controller-manager\<close>, \<^verbatim>\<open>internal/ccm\<close>) runs in the workload cluster: it says which nodes
  exist and exposes services on the envoy instance, which it finds through a secret that the manager
  publishes.

  \<^bold>\<open>How the code is modelled.\<close> Go strings are byte strings, HOL's \<^typ>\<open>string\<close>; maps are association
  lists in the order of iteration; pointers are options; structs are records and sums datatypes. An
  error is a value of \<open>go_error\<close>, with wrapping, sentinels and the status errors of Kubernetes, and
  an operation that can fail and has effects is a function from a world to an error or a result and
  the next world (\<open>call\<close>). The world is a type variable: what lies outside \<^verbatim>\<open>src/\<close> (the Verda SDK,
  the Kubernetes API, Cluster API helpers, the SSH library, key generation, the YAML parser, gzip) is
  a record of functions that the model takes as an argument (\<open>verda_api\<close>, \<open>machine_env\<close>,
  \<open>cluster_env\<close>, \<open>klib\<close>, \<open>kube\<close>, \<open>ssh_lib\<close> and others), and what the code relies on is stated as a
  named hypothesis about it. Integers are unbounded where the values are, and 64-bit words for the
  memory of a template; times are nanoseconds since 1970.

  \<^bold>\<open>The theories\<close>, each with the code it models.

  \<^item> \<open>Prelude\<close>, \<open>GoText\<close>, \<open>GoTime\<close>, \<open>GoFlags\<close>, \<open>GoHeap\<close>: what the code uses of Go and its standard
    library (errors, maps, strings, base64, RFC 3339 times, flags, memory), with the laws the other
    theories need: printing and parsing are inverse for numbers, base64, times up to the year 9999,
    and flags. \<open>GoHeap\<close> has the locales \<open>storable\<close>, \<open>deep_copy\<close>, \<open>copied_slot\<close> and \<open>copied_map\<close>:
    what it means to be a deep copy, and that pointers, slices and maps of deep copies are deep copies.
  \<^item> \<open>CloudTypes\<close>, \<open>CloudSDK\<close>, \<open>CloudFake\<close>: the package \<^verbatim>\<open>cloud\<close>. \<open>CloudTypes\<close> has the data, the
    interface \<open>cloud_client\<close> and the locale \<open>cloud_contract\<close>, what the reconcilers rely on: creation
    adds one instance with the given tags, or fails without a trace or with the instance made; deletion
    only lets an instance age; lookups tell the truth about it. \<open>CloudSDK\<close> is \<^verbatim>\<open>client.go\<close> and the laws
    of the API (\<open>verda_api_ok\<close>), \<open>CloudFake\<close> is \<^verbatim>\<open>fake.go\<close>, with an interpretation of the contract.
    \<open>CloudSDKProps\<close> shows that the production client keeps the contract for every API with these laws,
    refuses what the provider does not own, and purges completely; \<open>MemApi\<close> is a small service that has
    all the laws and on which the examples run.
  \<^item> \<open>Credentials\<close> and \<open>CredentialsProps\<close>: \<^verbatim>\<open>credentials.go\<close> and \<^verbatim>\<open>factory.go\<close>. Precedence of the
    sources, reading back a file profile by profile, and that a cached client is never stale.
  \<^item> \<open>Bootstrap\<close>: \<^verbatim>\<open>cloudconfig.go\<close>, with its theorems on quoting, here-documents and sizes.
  \<^item> \<open>LoadBalancerConfig\<close> and \<open>LoadBalancerProps\<close>: the package \<^verbatim>\<open>loadbalancer\<close>, its templates as
    functions, and a small model of the shell that runs the install script.
  \<^item> \<open>ApiTypes\<close>, \<open>Webhooks\<close>, \<open>WebhookProps\<close>: the API types and the webhooks. A stored object is followed
    from its creation through all updates that were accepted.
  \<^item> \<open>ControllerCommon\<close> and \<open>LiveInstances\<close>: helpers the reconcilers share, among them the throttle of
    delete requests, and the notion of the live instances with a tag.
  \<^item> \<open>MachineController\<close>: \<^verbatim>\<open>verdamachine_controller.go\<close>, handler by handler. \<open>MachineProps\<close> proves in
    \<open>cloud_contract\<close>, for one call of \<^verbatim>\<open>Reconcile\<close> and then for all histories (\<open>machine_reach\<close>), that a
    machine has at most one live instance and leaves none behind; \<open>MachineSafety\<close> instantiates this with
    the production client. \<open>MachineClaims\<close> says when a machine is provisioned and how requests are
    spaced, \<open>MachineLimits\<close> where the guarantees end.
  \<^item> \<open>ClusterController\<close>: \<^verbatim>\<open>verdacluster_controller.go\<close> and \<^verbatim>\<open>verdacluster_servicelb.go\<close>. \<open>ClusterProps\<close>
    has the same two properties for both load balancers (\<open>cluster_reach\<close>); \<open>ClusterClaims\<close> instantiates
    them and adds the endpoint, the backends that are served, the keys and the published secret.
  \<^item> \<open>DeletionProgress\<close>, \<open>ClusterDeletion\<close>, \<open>DeletionClients\<close>, \<open>DeletionClaims\<close>: deletion ends. The
    locale \<open>deletion_service\<close> is a client of an account that carries out what it accepts; it is proved of
    the production client and interpreted for the fake.
  \<^item> \<open>StatusSchema\<close> and \<open>StatusClaims\<close>: the lists, sets and bounds of the status in the schema, and that
    what the reconcilers write fits them.
  \<^item> \<open>TemplateController\<close>: \<^verbatim>\<open>verdamachinetemplate_controller.go\<close>.
  \<^item> \<open>CloudProvider\<close> and \<open>CloudProviderProps\<close>: the package \<^verbatim>\<open>ccm\<close>. \<^verbatim>\<open>Frontends\<close> is compared with a
    reference definition of who gets which port, and \<^verbatim>\<open>EnsureLoadBalancer\<close> and
    \<^verbatim>\<open>EnsureLoadBalancerDeleted\<close> with what they must push.
  \<^item> \<open>DeepCopy\<close> and \<open>DeepCopyProps\<close>: \<^verbatim>\<open>zz_generated.deepcopy.go\<close> on an explicit memory. Every generated
    copy is a deep copy, which is why the other theories may treat objects as values.
  \<^item> \<open>Managers\<close> and \<open>ManagersProps\<close>: both \<^verbatim>\<open>main\<close> functions as the sequence of calls they make, the
    flags, and the registration of types, controllers and webhooks.

  \<^bold>\<open>What is assumed.\<close> Hypotheses stand in the statements and are named in the text before each theorem.
  Those that several share: the API keeps its documented laws (\<open>verda_api_ok\<close>); an instance that is
  gone is listed as discontinued (\<open>listed_ok\<close>); the client a reconcile gets belongs to the account in
  question (\<open>env_for\<close> and its counterpart for clusters). \<open>MachineLimits\<close> shows what happens to a machine
  without the last two. For every theorem with hypotheses there is an example in which they hold.

  \<^bold>\<open>Bounds.\<close> No definition has fuel: loops run over lists, \<^verbatim>\<open>wrapBase64\<close> and the shell model end by a
  measure. The line scanner stops at 65536 bytes, as Go's does. Times are formatted up to the year
  9999. The memory of a template is exact below 2^33 gigabytes, where the product in bytes still is a
  signed 64-bit number. Deletion of a machine takes at most one round more than the API has steps left,
  that of a cluster no more than these. The rounds considered are at least the retry interval of twenty
  seconds apart, so that the throttle holds none back; the polls the reconciler asks for in between
  are not among them.

  \<^bold>\<open>What is not modelled.\<close> Logging and events; contexts and deadlines; how watches, informers and work
  queues decide when a reconcile runs, of which the theorems are independent because they hold for
  every order of calls; mutexes, which make the sections they guard one step; the insides of the
  libraries named above; limits on the length of strings in the schema; the \<^verbatim>\<open>ValidateDelete\<close> methods,
  which do nothing; the registration of the types of other groups.
\<close>

end
